(* ===== verification/Go_Prelude.thy ===== *)
theory Go_Prelude
  imports Main "HOL-Library.Multiset"
begin

text \<open>
  Shared vocabulary of the development: the outcomes of Go code (panics, \<open>error\<close> values), Go's
  \<open>map[string]string\<close> with its nil map, the 64-bit \<open>int\<close>, and the functions of the standard
  packages \<open>strings\<close> and \<open>strconv\<close> that the program calls. Strings are byte strings; the
  case-folding and white-space functions act on ASCII bytes, which is what the program's own
  literals consist of.
\<close>

section \<open>Collections\<close>

named_theorems go_simps \<open>rewrite rules for the Go run-time vocabulary\<close>
named_theorems go_defs \<open>definitions that are unfolded on concrete inputs\<close>

section \<open>Outcomes\<close>

text \<open>A run-time panic is a value, so that every statement says whether it can happen.\<close>

datatype panic = NilDeref | IndexOutOfRange | SliceBounds | NilMapWrite | Explicit string

type_synonym 'a go = "panic + 'a"

text \<open>
  Values of Go's \<open>error\<close> type. The API errors are told apart by the predicates the code applies
  to them (\<open>errors.IsNotFound\<close>, \<open>apierrors.IsAlreadyExists\<close>); the sentinels are compared with
  \<open>==\<close>; \<open>Msg\<close> is \<open>errors.New\<close> or \<open>fmt.Errorf\<close> with its text; \<open>Ext\<close> is an error that third-party
  code returned; \<open>Aggregate\<close> is \<open>utilerrors.NewAggregate\<close> of a non-empty list.
\<close>

datatype goerr =
    NotFound string string
  | AlreadyExists string string
  | BadRequest string
  | Unauthorized string
  | Forbidden string string string
  | InternalError string
  | IncorrectPasswordError
  | RateLimitExceededError
  | AccountIsNotActiveError
  | ErrNoSuchKey
  | Msg string
  | Ext string
  | Aggregate "goerr list"

type_synonym 'a res = "goerr + 'a"

text \<open>A call that may return an error or panic ends in an \<open>'a out\<close>; \<open>obind\<close> is Go's sequencing.\<close>

datatype stop = Panic panic | Err goerr

type_synonym 'a out = "stop + 'a"

definition ofRes :: "'a res \<Rightarrow> 'a out" where
  "ofRes r = (case r of Inl e \<Rightarrow> Inl (Err e) | Inr x \<Rightarrow> Inr x)"

definition ofGo :: "'a go \<Rightarrow> 'a out" where
  "ofGo r = (case r of Inl p \<Rightarrow> Inl (Panic p) | Inr x \<Rightarrow> Inr x)"

definition panics :: "'a out \<Rightarrow> bool" where
  "panics r = (case r of Inl (Panic _) \<Rightarrow> True | _ \<Rightarrow> False)"

definition obind :: "'a out \<Rightarrow> ('a \<Rightarrow> 'b out) \<Rightarrow> 'b out" where
  "obind r f = (case r of Inl s \<Rightarrow> Inl s | Inr x \<Rightarrow> f x)"

lemma out_simps [simp, go_simps]:
  "ofRes (Inl e) = Inl (Err e)" "ofRes (Inr x) = Inr x"
  "ofGo (Inl p) = Inl (Panic p)" "ofGo (Inr x) = Inr x"
  "panics (Inl (Panic p))" "\<not> panics (Inl (Err e))" "\<not> panics (Inr x)"
  "obind (Inl s) f = Inl s" "obind (Inr x) f = f x"
  by (simp_all add: ofRes_def ofGo_def panics_def obind_def)

lemma ofRes_iff [simp]:
  "ofRes r = Inr x \<longleftrightarrow> r = Inr x"
  "ofRes r = Inl (Err e) \<longleftrightarrow> r = Inl e"
  "ofRes r \<noteq> Inl (Panic p)"
  "\<not> panics (ofRes r)"
  by (cases r; simp)+

lemma obind_Inr_iff: "obind r f = Inr y \<longleftrightarrow> (\<exists>x. r = Inr x \<and> f x = Inr y)"
  by (cases r) simp_all

fun IsNotFound :: "goerr \<Rightarrow> bool" where
  "IsNotFound (NotFound _ _) = True"
| "IsNotFound _ = False"

fun IsAlreadyExists :: "goerr \<Rightarrow> bool" where
  "IsAlreadyExists (AlreadyExists _ _) = True"
| "IsAlreadyExists _ = False"

definition isOk :: "'e + 'a \<Rightarrow> bool" where
  "isOk r = (case r of Inl _ \<Rightarrow> False | Inr _ \<Rightarrow> True)"

lemma isOk_simps [simp, go_simps]:
  "isOk (Inr x)"
  "\<not> isOk (Inl e)"
  by (simp_all add: isOk_def)

lemma isOk_iff: "isOk r \<longleftrightarrow> (\<exists>x. r = Inr x)"
  by (cases r) simp_all

text \<open>\<open>utilerrors.NewAggregate\<close> of a list: nil when the list is empty.\<close>

definition NewAggregate :: "goerr list \<Rightarrow> goerr option" where
  "NewAggregate es = (if es = [] then None else Some (Aggregate es))"

lemma NewAggregate_None [simp]: "NewAggregate es = None \<longleftrightarrow> es = []"
  by (simp add: NewAggregate_def)

text \<open>Indexing and slicing with the run-time checks, and sequencing of code that may panic.\<close>

definition goNth :: "'a list \<Rightarrow> nat \<Rightarrow> 'a go" where
  "goNth xs i = (if i < length xs then Inr (xs ! i) else Inl IndexOutOfRange)"

definition goFrom :: "nat \<Rightarrow> 'a list \<Rightarrow> 'a list go" where
  \<comment> \<open>\<open>xs[k:]\<close>\<close>
  "goFrom k xs = (if k \<le> length xs then Inr (drop k xs) else Inl SliceBounds)"

definition gbind :: "'a go \<Rightarrow> ('a \<Rightarrow> 'b go) \<Rightarrow> 'b go" where
  "gbind r f = (case r of Inl p \<Rightarrow> Inl p | Inr x \<Rightarrow> f x)"

lemma gbind_simps [simp, go_simps]: "gbind (Inl p) f = Inl p" "gbind (Inr x) f = f x"
  by (simp_all add: gbind_def)

lemma gbind_assoc: "gbind (gbind r f) g = gbind r (\<lambda>x. gbind (f x) g)"
  by (cases r) simp_all

lemma isOk_gbind: "isOk (gbind r f) \<longleftrightarrow> (\<exists>x. r = Inr x \<and> isOk (f x))"
  by (cases r) simp_all

lemma goNth_ok [simp, go_simps]: "i < length xs \<Longrightarrow> goNth xs i = Inr (xs ! i)"
  by (simp add: goNth_def)

lemma goFrom_ok [simp, go_simps]: "k \<le> length xs \<Longrightarrow> goFrom k xs = Inr (drop k xs)"
  by (simp add: goFrom_def)

section \<open>Maps from string to string\<close>

text \<open>
  A Go map value is nil or a finite map. Reading a missing key of either gives the zero value;
  deleting from either is a no-op; writing to a nil map panics.
\<close>

type_synonym strmap = "(string \<rightharpoonup> string) option"

definition mget :: "strmap \<Rightarrow> string \<Rightarrow> string" where
  "mget m k = (case m of None \<Rightarrow> '''' | Some f \<Rightarrow> (case f k of None \<Rightarrow> '''' | Some v \<Rightarrow> v))"

definition mlookup :: "strmap \<Rightarrow> string \<Rightarrow> string option" where
  "mlookup m k = (case m of None \<Rightarrow> None | Some f \<Rightarrow> f k)"

definition mset_key :: "strmap \<Rightarrow> string \<Rightarrow> string \<Rightarrow> strmap go" where
  "mset_key m k v = (case m of None \<Rightarrow> Inl NilMapWrite | Some f \<Rightarrow> Inr (Some (f(k \<mapsto> v))))"

definition mdelete :: "strmap \<Rightarrow> string \<Rightarrow> strmap" where
  "mdelete m k = map_option (\<lambda>f. f(k := None)) m"

definition mensure :: "strmap \<Rightarrow> strmap" where
  \<comment> \<open>\<open>if m == nil { m = make(map[string]string) }\<close>\<close>
  "mensure m = (case m of None \<Rightarrow> Some Map.empty | Some f \<Rightarrow> Some f)"

definition mput :: "strmap \<Rightarrow> string \<Rightarrow> string \<Rightarrow> strmap" where
  \<comment> \<open>the nil check followed by the write\<close>
  "mput m k v = (case m of None \<Rightarrow> Some [k \<mapsto> v] | Some f \<Rightarrow> Some (f(k \<mapsto> v)))"

lemma mget_simps [simp, go_simps]:
  "mget None k = ''''"
  "mget (Some f) k = (case f k of None \<Rightarrow> '''' | Some v \<Rightarrow> v)"
  by (simp_all add: mget_def)

lemma mset_key_simps [simp, go_simps]:
  "mset_key None k v = Inl NilMapWrite"
  "mset_key (Some f) k v = Inr (Some (f(k \<mapsto> v)))"
  by (simp_all add: mset_key_def)

lemma mset_key_ensure: "mset_key (mensure m) k v = Inr (mput m k v)"
  by (cases m) (simp_all add: mensure_def mput_def)

lemma mget_mput [simp, go_simps]: "mget (mput m k v) k' = (if k' = k then v else mget m k')"
  by (cases m) (simp_all add: mput_def)

lemma mget_mdelete [simp, go_simps]: "mget (mdelete m k) k' = (if k' = k then '''' else mget m k')"
  by (cases m) (simp_all add: mdelete_def)

section \<open>64-bit integers\<close>

text \<open>\<open>int\<close> and \<open>int64\<close> are two's complement of width 64: results are reduced by \<open>wrap64\<close>.\<close>

definition wrap64 :: "int \<Rightarrow> int" where
  "wrap64 i = (i + 2 ^ 63) mod 2 ^ 64 - 2 ^ 63"

definition MaxInt64 :: int where "MaxInt64 = 9223372036854775807"
definition MinInt64 :: int where "MinInt64 = -9223372036854775808"

definition in_int64 :: "int \<Rightarrow> bool" where
  "in_int64 i \<longleftrightarrow> MinInt64 \<le> i \<and> i \<le> MaxInt64"

lemmas int64_defs = wrap64_def MaxInt64_def MinInt64_def in_int64_def

lemma wrap64_in_range: "in_int64 (wrap64 i)"
proof -
  have "0 \<le> (i + 2 ^ 63) mod 2 ^ 64" and "(i + 2 ^ 63) mod 2 ^ 64 < (2::int) ^ 64"
    by (simp_all add: pos_mod_sign pos_mod_bound)
  then show ?thesis by (simp add: int64_defs)
qed

lemma wrap64_id: "in_int64 i \<Longrightarrow> wrap64 i = i"
  by (simp add: int64_defs)

lemma wrap64_idem [simp]: "wrap64 (wrap64 i) = wrap64 i"
  by (rule wrap64_id) (rule wrap64_in_range)

lemma wrap64_signed_take_bit: "wrap64 i = signed_take_bit 63 i"
  by (simp add: wrap64_def signed_take_bit_eq_take_bit_shift take_bit_eq_mod)

section \<open>The package strings\<close>

definition HasPrefix :: "string \<Rightarrow> string \<Rightarrow> bool" where
  "HasPrefix s p \<longleftrightarrow> take (length p) s = p"

definition HasSuffix :: "string \<Rightarrow> string \<Rightarrow> bool" where
  "HasSuffix s p \<longleftrightarrow> length p \<le> length s \<and> drop (length s - length p) s = p"

lemma HasPrefix_iff: "HasPrefix s p \<longleftrightarrow> (\<exists>t. s = p @ t)"
  by (metis HasPrefix_def append_eq_conv_conj append_take_drop_id)

lemma HasSuffix_iff: "HasSuffix s p \<longleftrightarrow> (\<exists>t. s = t @ p)"
proof
  assume "HasSuffix s p"
  then show "\<exists>t. s = t @ p"
    by (metis HasSuffix_def append_take_drop_id)
next
  assume "\<exists>t. s = t @ p"
  then show "HasSuffix s p" by (auto simp: HasSuffix_def)
qed

fun Index :: "string \<Rightarrow> string \<Rightarrow> nat option" where
  "Index [] sub = (if sub = [] then Some 0 else None)"
| "Index (c # cs) sub = (if HasPrefix (c # cs) sub then Some 0 else map_option Suc (Index cs sub))"

definition Contains :: "string \<Rightarrow> string \<Rightarrow> bool" where
  "Contains s sub \<longleftrightarrow> Index s sub \<noteq> None"

lemma Index_Some: "Index s sub = Some i \<Longrightarrow> s = take i s @ sub @ drop (i + length sub) s"
proof (induction s arbitrary: i)
  case Nil
  then show ?case by (auto split: if_splits)
next
  case (Cons c cs)
  then show ?case
    by (auto simp: HasPrefix_def split: if_splits) (metis append_take_drop_id)
qed

lemma Index_append: "Index (a @ sub @ b) sub \<noteq> None"
proof (induction a)
  case Nil
  show ?case
    by (cases "sub @ b") (auto simp: HasPrefix_iff, metis append_eq_Cons_conv append_is_Nil_conv)
next
  case (Cons c a)
  then show ?case by auto
qed

lemma Contains_iff: "Contains s sub \<longleftrightarrow> (\<exists>a b. s = a @ sub @ b)"
  by (metis Contains_def Index_Some Index_append option.exhaust_sel)

lemma Index_prefix: "Index (k @ t) k = Some 0"
  by (cases "k @ t") (auto simp: HasPrefix_iff, metis append_eq_Cons_conv append_is_Nil_conv)

lemma Index_one: "k \<noteq> [] \<Longrightarrow> c \<noteq> hd k \<Longrightarrow> Index (c # k @ t) k = Some 1"
  by (auto simp: HasPrefix_iff Index_prefix, metis hd_append2 list.sel(1))

text \<open>\<open>strings.Replace(s, old, "", 1)\<close> for a non-empty \<open>old\<close>, and its general form.\<close>

definition ReplaceOnce :: "string \<Rightarrow> string \<Rightarrow> string \<Rightarrow> string" where
  "ReplaceOnce s old new =
     (case Index s old of None \<Rightarrow> s | Some i \<Rightarrow> take i s @ new @ drop (i + length old) s)"

lemma ReplaceOnce_prefix: "ReplaceOnce (k @ t) k new = new @ t"
  by (simp add: ReplaceOnce_def Index_prefix)

lemma ReplaceOnce_one: "k \<noteq> [] \<Longrightarrow> c \<noteq> hd k \<Longrightarrow> ReplaceOnce (c # k @ t) k new = c # new @ t"
  unfolding ReplaceOnce_def by (subst Index_one) simp_all

definition ReplaceChar :: "string \<Rightarrow> char \<Rightarrow> char \<Rightarrow> string" where
  \<comment> \<open>\<open>strings.Replace(s, old, new, -1)\<close> for one-byte strings\<close>
  "ReplaceChar s old new = map (\<lambda>c. if c = old then new else c) s"

definition TrimPrefix :: "string \<Rightarrow> string \<Rightarrow> string" where
  "TrimPrefix s p = (if HasPrefix s p then drop (length p) s else s)"

definition TrimLeftChar :: "string \<Rightarrow> char \<Rightarrow> string" where
  "TrimLeftChar s c = dropWhile (\<lambda>x. x = c) s"

definition TrimRightChar :: "string \<Rightarrow> char \<Rightarrow> string" where
  "TrimRightChar s c = rev (dropWhile (\<lambda>x. x = c) (rev s))"

definition TrimChar :: "string \<Rightarrow> char \<Rightarrow> string" where
  "TrimChar s c = TrimRightChar (TrimLeftChar s c) c"

definition isSpace :: "char \<Rightarrow> bool" where
  "isSpace c \<longleftrightarrow> of_char c \<in> {9, 10, 11, 12, 13, 32 :: nat}"

definition TrimSpace :: "string \<Rightarrow> string" where
  "TrimSpace s = rev (dropWhile isSpace (rev (dropWhile isSpace s)))"

definition lowerChar :: "char \<Rightarrow> char" where
  "lowerChar c = (if 65 \<le> (of_char c :: nat) \<and> (of_char c :: nat) \<le> 90
     then char_of (of_char c + 32 :: nat) else c)"

definition ToLower :: "string \<Rightarrow> string" where
  "ToLower s = map lowerChar s"

text \<open>\<open>strings.Split\<close> for a one-byte separator, and \<open>strings.Join\<close>.\<close>

fun SplitChar :: "string \<Rightarrow> char \<Rightarrow> string list" where
  "SplitChar [] c = [[]]"
| "SplitChar (x # xs) c =
     (if x = c then [] # SplitChar xs c
      else (case SplitChar xs c of [] \<Rightarrow> [[x]] | y # ys \<Rightarrow> (x # y) # ys))"

fun Join :: "string list \<Rightarrow> string \<Rightarrow> string" where
  "Join [] sep = []"
| "Join [x] sep = x"
| "Join (x # y # ys) sep = x @ sep @ Join (y # ys) sep"

lemma SplitChar_not_Nil [simp]: "SplitChar s c \<noteq> []"
  by (cases s) (auto split: list.splits)

lemma Join_SplitChar [simp]: "Join (SplitChar s c) [c] = s"
proof (induction s)
  case Nil
  show ?case by simp
next
  case (Cons x xs)
  obtain y ys where yys: "SplitChar xs c = y # ys"
    by (meson SplitChar_not_Nil list.exhaust)
  with Cons show ?case by (cases ys) auto
qed

lemma SplitChar_no_sep: "x \<in> set (SplitChar s c) \<Longrightarrow> c \<notin> set x"
proof (induction s arbitrary: x)
  case Nil
  then show ?case by simp
next
  case (Cons a s)
  obtain y ys where yys: "SplitChar s c = y # ys"
    by (meson SplitChar_not_Nil list.exhaust)
  with Cons show ?case by (auto split: if_splits)
qed

lemma SplitChar_singleton: "c \<notin> set s \<Longrightarrow> SplitChar s c = [s]"
  by (induction s) auto

lemma SplitChar_append_sep: "c \<notin> set s \<Longrightarrow> SplitChar (s @ c # t) c = s # SplitChar t c"
  by (induction s) auto

lemma SplitChar_Join:
  "xs \<noteq> [] \<Longrightarrow> (\<And>x. x \<in> set xs \<Longrightarrow> c \<notin> set x) \<Longrightarrow> SplitChar (Join xs [c]) c = xs"
proof (induction xs)
  case Nil
  then show ?case by simp
next
  case (Cons x xs)
  then show ?case
    by (cases xs) (auto simp: SplitChar_singleton SplitChar_append_sep)
qed

text \<open>\<open>strings.Compare\<close> is the lexicographic order on bytes.\<close>

fun str_less :: "string \<Rightarrow> string \<Rightarrow> bool" where
  "str_less [] [] = False"
| "str_less [] (y # ys) = True"
| "str_less (x # xs) [] = False"
| "str_less (x # xs) (y # ys) =
     ((of_char x :: nat) < of_char y \<or> x = y \<and> str_less xs ys)"

lemma str_less_irrefl [simp]: "\<not> str_less s s"
  by (induction s) auto

lemma str_less_trans: "str_less a b \<Longrightarrow> str_less b c \<Longrightarrow> str_less a c"
proof (induction a b arbitrary: c rule: str_less.induct)
  case (2 y ys)
  then show ?case by (cases c) auto
next
  case (4 x xs y ys)
  then show ?case by (cases c) auto
qed auto

lemma str_less_total: "str_less a b \<or> a = b \<or> str_less b a"
proof (induction a b rule: str_less.induct)
  case (4 x xs y ys)
  consider "(of_char x :: nat) < of_char y" | "(of_char y :: nat) < of_char x" | "x = y"
    by (metis linorder_less_linear of_char_eq_iff)
  then show ?case using 4 by cases auto
qed auto

lemma str_less_asym: "str_less a b \<Longrightarrow> \<not> str_less b a"
  using str_less_trans str_less_irrefl by blast

section \<open>The package strconv\<close>

definition isDigit :: "char \<Rightarrow> bool" where
  "isDigit c \<longleftrightarrow> 48 \<le> (of_char c :: nat) \<and> (of_char c :: nat) \<le> 57"

definition digitVal :: "char \<Rightarrow> int" where
  "digitVal c = int (of_char c) - 48"

definition digitChar :: "nat \<Rightarrow> char" where
  "digitChar d = char_of (48 + d)"

definition digitsVal :: "string \<Rightarrow> int" where
  "digitsVal s = foldl (\<lambda>a c. a * 10 + digitVal c) 0 s"

datatype num_error = ErrSyntax | ErrRange

text \<open>
  \<open>strconv.ParseInt(s, 10, 64)\<close>, and \<open>strconv.Atoi\<close> on a 64-bit platform: the value and the error.
  On a syntax error the value is 0, on a range error the nearest bound.
\<close>

definition ParseInt :: "string \<Rightarrow> int \<times> num_error option" where
  "ParseInt s =
     (let neg = (case s of c # _ \<Rightarrow> c = CHR ''-'' | [] \<Rightarrow> False);
          ds = (case s of c # cs \<Rightarrow> if c = CHR ''-'' \<or> c = CHR ''+'' then cs else s | [] \<Rightarrow> [])
      in if ds = [] \<or> \<not> list_all isDigit ds then (0, Some ErrSyntax)
         else let v = (if neg then - digitsVal ds else digitsVal ds)
              in if v > MaxInt64 then (MaxInt64, Some ErrRange)
                 else if v < MinInt64 then (MinInt64, Some ErrRange)
                 else (v, None))"

definition Atoi :: "string \<Rightarrow> int \<times> num_error option" where
  "Atoi = ParseInt"

fun showNat :: "nat \<Rightarrow> string" where
  "showNat n = (if n < 10 then [digitChar n] else showNat (n div 10) @ [digitChar (n mod 10)])"

declare showNat.simps [simp del]

definition FormatInt :: "int \<Rightarrow> string" where
  "FormatInt i = (if i < 0 then CHR ''-'' # showNat (nat (- i)) else showNat (nat i))"

definition ParseBool :: "string \<Rightarrow> bool option" where
  "ParseBool s =
     (if s \<in> {''1'', ''t'', ''T'', ''TRUE'', ''true'', ''True''} then Some True
      else if s \<in> {''0'', ''f'', ''F'', ''FALSE'', ''false'', ''False''} then Some False
      else None)"

lemma of_char_digitChar: "d < 10 \<Longrightarrow> (of_char (digitChar d) :: nat) = 48 + d"
  by (simp add: digitChar_def of_char_of)

lemma isDigit_digitChar [simp]: "d < 10 \<Longrightarrow> isDigit (digitChar d)"
  by (simp add: isDigit_def of_char_digitChar)

lemma digitVal_digitChar [simp]: "d < 10 \<Longrightarrow> digitVal (digitChar d) = int d"
  by (simp add: digitVal_def of_char_digitChar)

lemma ParseInt_value_in_range: "in_int64 (fst (ParseInt s))"
  by (auto simp: ParseInt_def int64_defs Let_def)

lemma digitsVal_nonneg: "list_all isDigit s \<Longrightarrow> 0 \<le> digitsVal s"
proof -
  have "0 \<le> a \<Longrightarrow> list_all isDigit s \<Longrightarrow> 0 \<le> foldl (\<lambda>a c. a * 10 + digitVal c) a s" for a
    by (induction s arbitrary: a) (auto simp: digitVal_def isDigit_def)
  then show "list_all isDigit s \<Longrightarrow> 0 \<le> digitsVal s" by (simp add: digitsVal_def)
qed

lemma digitsVal_snoc: "digitsVal (s @ [c]) = digitsVal s * 10 + digitVal c"
  by (simp add: digitsVal_def)

lemma showNat_spec:
  "showNat n \<noteq> [] \<and> list_all isDigit (showNat n) \<and> digitsVal (showNat n) = int n"
proof (induction n rule: showNat.induct)
  case (1 n)
  show ?case
  proof (cases "n < 10")
    case True
    then show ?thesis by (simp add: showNat.simps [of n] digitsVal_def)
  next
    case False
    then have "n mod 10 < 10" by simp
    with False 1 show ?thesis
      by (simp add: showNat.simps [of n] digitsVal_snoc) (metis zmod_int mult_div_mod_eq of_nat_add of_nat_mult of_nat_numeral mult.commute)
  qed
qed

lemma showNat_not_sign: "hd (showNat n) \<noteq> CHR ''-'' \<and> hd (showNat n) \<noteq> CHR ''+''"
proof -
  have "isDigit (hd (showNat n))"
    using showNat_spec [of n] by (cases "showNat n") auto
  then show ?thesis by (auto simp: isDigit_def)
qed

lemma ParseInt_FormatInt: "in_int64 i \<Longrightarrow> ParseInt (FormatInt i) = (i, None)"
proof -
  assume r: "in_int64 i"
  obtain c cs where ccs: "showNat (nat \<bar>i\<bar>) = c # cs"
    using showNat_spec [of "nat \<bar>i\<bar>"] by (cases "showNat (nat \<bar>i\<bar>)") auto
  have nosign: "c \<noteq> CHR ''-''" "c \<noteq> CHR ''+''"
    using showNat_not_sign [of "nat \<bar>i\<bar>"] ccs by simp_all
  have ds: "list_all isDigit (c # cs)" "digitsVal (c # cs) = \<bar>i\<bar>"
    using showNat_spec [of "nat \<bar>i\<bar>"] ccs by simp_all
  show ?thesis
  proof (cases "i < 0")
    case True
    then have "FormatInt i = CHR ''-'' # c # cs" using ccs by (simp add: FormatInt_def)
    with True ds r show ?thesis by (simp add: ParseInt_def int64_defs Let_def)
  next
    case False
    then have "FormatInt i = c # cs" using ccs by (simp add: FormatInt_def)
    with False ds r nosign show ?thesis by (simp add: ParseInt_def int64_defs Let_def)
  qed
qed

section \<open>The package fmt\<close>

text \<open>\<open>%q\<close> of a string: double quotes with the escapes of \<open>strconv.Quote\<close> for ASCII input.\<close>

definition hexDigit :: "nat \<Rightarrow> char" where
  "hexDigit d = (if d < 10 then char_of (48 + d) else char_of (87 + d))"

definition quoteChar :: "char \<Rightarrow> string" where
  "quoteChar c =
     (let n = (of_char c :: nat) in
      if n = 34 then [CHR 0x5C, CHR 0x22] else if n = 92 then [CHR 0x5C, CHR 0x5C]
      else if n = 7 then [CHR 0x5C, CHR ''a''] else if n = 8 then [CHR 0x5C, CHR ''b'']
      else if n = 9 then [CHR 0x5C, CHR ''t''] else if n = 10 then [CHR 0x5C, CHR ''n'']
      else if n = 11 then [CHR 0x5C, CHR ''v''] else if n = 12 then [CHR 0x5C, CHR ''f'']
      else if n = 13 then [CHR 0x5C, CHR ''r'']
      else if n < 32 \<or> n = 127 then [CHR 0x5C, CHR ''x'', hexDigit (n div 16), hexDigit (n mod 16)]
      else [c])"

definition Quote :: "string \<Rightarrow> string" where
  "Quote s = CHR 0x22 # concat (map quoteChar s) @ [CHR 0x22]"

section \<open>Generic lemmas\<close>

lemma find_SomeD: "find P xs = Some x \<Longrightarrow> x \<in> set xs \<and> P x"
  by (auto simp: find_Some_iff in_set_conv_nth)

lemma find_None_conv: "find P xs = None \<longleftrightarrow> (\<forall>x \<in> set xs. \<not> P x)"
  by (induction xs) auto

end
