(* ===== verification/Slice_Utils.thy ===== *)
theory Slice_Utils
  imports Go_Prelude
begin

text \<open>
  \<open>pkg/utils/sliceutil/sliceutil.go\<close> and the contract of \<open>sort.Slice\<close>. A slice is a list; the in-place
  loops of the source are loops over the current slice and an index. A Go map that is iterated is
  an association list in the order of the iteration, which Go leaves open.
\<close>

section \<open>Slice expressions\<close>

text \<open>\<open>s[lo:hi]\<close> panics unless \<open>0 \<le> lo \<le> hi \<le> len(s)\<close> (no caller slices beyond the length).\<close>

definition goSlice :: "'a list \<Rightarrow> int \<Rightarrow> int \<Rightarrow> 'a list go" where
  "goSlice xs lo hi =
     (if 0 \<le> lo \<and> lo \<le> hi \<and> hi \<le> int (length xs)
      then Inr (take (nat hi - nat lo) (drop (nat lo) xs)) else Inl SliceBounds)"

definition removeAt :: "nat \<Rightarrow> 'a list \<Rightarrow> 'a list" where
  \<comment> \<open>\<open>append(slice[:i], slice[i+1:]...)\<close>\<close>
  "removeAt i xs = take i xs @ drop (i + 1) xs"

lemma length_removeAt: "i < length xs \<Longrightarrow> length (removeAt i xs) = length xs - 1"
  by (simp add: removeAt_def)

section \<open>RemoveString\<close>

function removeStringLoop :: "('a \<Rightarrow> bool) \<Rightarrow> nat \<Rightarrow> 'a list \<Rightarrow> 'a list" where
  "removeStringLoop remove i slice =
     (if i < length slice then
        if remove (slice ! i) then removeStringLoop remove i (removeAt i slice)
        else removeStringLoop remove (i + 1) slice
      else slice)"
  by pat_completeness auto
termination
  by (relation "measure (\<lambda>(remove, i, slice). length slice - i)") (auto simp: length_removeAt)

declare removeStringLoop.simps [simp del]

definition RemoveString :: "string list \<Rightarrow> (string \<Rightarrow> bool) \<Rightarrow> string list" where
  "RemoveString slice remove = removeStringLoop remove 0 slice"

lemma removeStringLoop_filter:
  "removeStringLoop remove i xs = take i xs @ filter (\<lambda>x. \<not> remove x) (drop i xs)"
proof (induction remove i xs rule: removeStringLoop.induct)
  case (1 remove i xs)
  show ?case
  proof (cases "i < length xs")
    case True
    then have d: "drop i xs = xs ! i # drop (Suc i) xs" by (rule Cons_nth_drop_Suc [symmetric])
    show ?thesis
    proof (cases "remove (xs ! i)")
      case r: True
      then show ?thesis
        using True "1.IH"(1) d
        by (simp add: removeStringLoop.simps [of remove i xs] removeAt_def)
    next
      case r: False
      then show ?thesis
        using True "1.IH"(2) d
        by (simp add: removeStringLoop.simps [of remove i xs] take_Suc_conv_app_nth)
    qed
  next
    case False
    then show ?thesis by (simp add: removeStringLoop.simps [of remove i xs])
  qed
qed

lemma RemoveString_eq_filter [simp]: "RemoveString xs remove = filter (\<lambda>x. \<not> remove x) xs"
  by (simp add: RemoveString_def removeStringLoop_filter)

section \<open>Membership\<close>

definition HasAnyString :: "string list \<Rightarrow> string list \<Rightarrow> bool" where
  "HasAnyString slice items = list_ex (\<lambda>s. list_ex (\<lambda>i. s = i) items) slice"

definition HasString :: "string list \<Rightarrow> string \<Rightarrow> bool" where
  "HasString slice str = HasAnyString slice [str]"

definition AddToSlice :: "string \<Rightarrow> string list \<Rightarrow> string list" where
  "AddToSlice item array = (if \<not> HasString array item then array @ [item] else array)"

definition SameItem :: "string \<Rightarrow> string \<Rightarrow> bool" where
  "SameItem target = (\<lambda>item. target = item)"

lemma HasString_iff [simp, go_simps]: "HasString xs s \<longleftrightarrow> s \<in> set xs"
  by (auto simp: HasString_def HasAnyString_def list_ex_iff)

lemma set_AddToSlice: "set (AddToSlice x xs) = insert x (set xs)"
  by (auto simp: AddToSlice_def)

lemma distinct_AddToSlice: "distinct xs \<Longrightarrow> distinct (AddToSlice x xs)"
  by (simp add: AddToSlice_def)

section \<open>Reverse lookup in a map\<close>

fun MapHasValue :: "(string \<times> string) list option \<Rightarrow> string \<Rightarrow> bool \<times> string" where
  "MapHasValue None value = (False, '''')"
| "MapHasValue (Some []) value = (False, '''')"
| "MapHasValue (Some ((k, v) # kvs)) value =
     (if v = value then (True, k) else MapHasValue (Some kvs) value)"

fun GetMapKeyFromValue :: "(string \<times> string) list \<Rightarrow> string \<Rightarrow> string" where
  "GetMapKeyFromValue [] value = ''''"
| "GetMapKeyFromValue ((k, v) # kvs) value =
     (if v = value then k else GetMapKeyFromValue kvs value)"

lemma MapHasValue_Some_iff: "MapHasValue (Some kvs) v = (True, k) \<Longrightarrow> (k, v) \<in> set kvs"
proof (induction kvs)
  case (Cons p kvs)
  then show ?case by (cases p) (auto split: if_splits)
qed simp

section \<open>RemoveSubSlice\<close>

text \<open>
  The source sorts the indices with \<open>sort.Slice(sub, func(i, j int) bool { return i > j })\<close>: the
  function compares the positions, not the indices stored there. \<open>sort.Slice\<close> on at most 12 entries
  is the insertion sort \<open>positionSort\<close>, which calls the function on positions; what it does on longer
  slices with such a function is open, the parameter \<open>long\<close>. Then the indices are removed one by
  one; those out of range are skipped.
\<close>

definition swapAt :: "nat \<Rightarrow> nat \<Rightarrow> 'a list \<Rightarrow> 'a list" where
  "swapAt i j xs = xs[i := xs ! j, j := xs ! i]"

fun sinkDown :: "(nat \<Rightarrow> nat \<Rightarrow> bool) \<Rightarrow> nat \<Rightarrow> 'a list \<Rightarrow> 'a list" where
  "sinkDown lt 0 xs = xs"
| "sinkDown lt (Suc j) xs = (if lt (Suc j) j then sinkDown lt j (swapAt (Suc j) j xs) else xs)"

definition positionSort :: "(nat \<Rightarrow> nat \<Rightarrow> bool) \<Rightarrow> 'a list \<Rightarrow> 'a list" where
  "positionSort lt xs = fold (sinkDown lt) [1..<length xs] xs"

fun removeSubLoop :: "'a list \<Rightarrow> int list \<Rightarrow> 'a list" where
  "removeSubLoop slice [] = slice"
| "removeSubLoop slice (i # is) =
     (if i < 0 \<or> i \<ge> int (length slice) then removeSubLoop slice is
      else removeSubLoop (removeAt (nat i) slice) is)"

definition RemoveSubSlice :: "(int list \<Rightarrow> int list) \<Rightarrow> 'a list \<Rightarrow> int list \<Rightarrow> 'a list" where
  "RemoveSubSlice long slice sub =
     removeSubLoop slice
       (if length sub \<le> 12 then positionSort (\<lambda>i j. i > j) sub else long sub)"

text \<open>With that function the sort reverses the slice.\<close>

lemma sinkDown_all: "j < length xs \<Longrightarrow>
  sinkDown (\<lambda>i j. j < i) j xs = xs ! j # take j xs @ drop (Suc j) xs"
proof (induction j arbitrary: xs)
  case 0
  then show ?case by (cases xs) simp_all
next
  case (Suc j)
  let ?ys = "swapAt (Suc j) j xs"
  have len: "length ?ys = length xs" by (simp add: swapAt_def)
  have "?ys ! j = xs ! Suc j" using Suc.prems by (simp add: swapAt_def)
  moreover have "take j ?ys = take j xs" by (simp add: swapAt_def)
  moreover have "drop (Suc j) ?ys = xs ! j # drop (Suc (Suc j)) xs"
    using Suc.prems by (intro nth_equalityI) (auto simp: swapAt_def nth_list_update nth_Cons' Suc_diff_Suc)
  ultimately show ?case
    using Suc len by (simp add: take_Suc_conv_app_nth)
qed

lemma fold_sinkDown:
  "k \<le> length xs \<Longrightarrow> 1 \<le> k \<Longrightarrow>
   fold (sinkDown (\<lambda>i j. j < i)) [1..<k] xs = rev (take k xs) @ drop k xs"
proof (induction k)
  case (Suc k)
  show ?case
  proof (cases "k = 0")
    case True
    with Suc.prems show ?thesis by (cases xs) simp_all
  next
    case False
    let ?ys = "rev (take k xs) @ drop k xs"
    have "fold (sinkDown (\<lambda>i j. j < i)) [1..<Suc k] xs = sinkDown (\<lambda>i j. j < i) k ?ys"
      using Suc False by simp
    also have "\<dots> = ?ys ! k # take k ?ys @ drop (Suc k) ?ys"
      by (rule sinkDown_all) (use Suc.prems in simp)
    also have "\<dots> = rev (take (Suc k) xs) @ drop (Suc k) xs"
      using Suc.prems by (simp add: nth_append take_Suc_conv_app_nth)
    finally show ?thesis .
  qed
qed simp

lemma positionSort_rev: "positionSort (\<lambda>i j. j < i) xs = rev xs"
proof (cases "xs = []")
  case False
  then have "1 \<le> length xs" by (cases xs) simp_all
  then show ?thesis using fold_sinkDown [of "length xs" xs] by (simp add: positionSort_def)
qed (simp add: positionSort_def)

lemma nths_cong: "(\<And>i. i < length xs \<Longrightarrow> i \<in> A \<longleftrightarrow> i \<in> B) \<Longrightarrow> nths xs A = nths xs B"
  unfolding nths_def by (intro arg_cong [where f = "map fst"] filter_cong) (auto simp: set_zip)

lemma nths_take_drop:
  assumes "i < length xs"
  shows "nths xs A = nths (take i xs) A @ (if i \<in> A then [xs ! i] else [])
    @ nths (drop (Suc i) xs) {j. j + Suc i \<in> A}"
proof -
  have "nths xs A = nths (take i xs @ xs ! i # drop (Suc i) xs) A"
    using id_take_nth_drop [OF assms] by simp
  then show ?thesis using assms by (simp add: nths_append nths_Cons)
qed

lemma nths_removeAt:
  assumes i: "i < length xs" and J: "\<And>j. j \<in> J \<Longrightarrow> j < i"
  shows "nths (removeAt i xs) (- J) = nths xs (- insert i J)"
proof -
  have "nths (take i xs) (- J) = nths (take i xs) (- insert i J)"
    by (rule nths_cong) (use i in auto)
  moreover have "nths (drop (Suc i) xs) {j. j + i \<in> - J} = drop (Suc i) xs"
    by (rule nths_all) (use J in force)
  moreover have "nths (drop (Suc i) xs) {j. j + Suc i \<in> - insert i J} = drop (Suc i) xs"
    by (rule nths_all) (use J in force)
  ultimately show ?thesis
    using i by (simp add: removeAt_def nths_append nths_take_drop [OF i])
qed

lemma removeSubLoop_nths:
  "sorted_wrt (>) is' \<Longrightarrow> removeSubLoop xs is' = nths xs (- (nat ` {i \<in> set is'. 0 \<le> i}))"
proof (induction xs is' rule: removeSubLoop.induct)
  case (1 xs)
  show ?case by (simp add: nths_all)
next
  case (2 xs i is')
  let ?J = "nat ` {i \<in> set is'. 0 \<le> i}"
  show ?case
  proof (cases "i < 0 \<or> i \<ge> int (length xs)")
    case True
    have "nths xs (- ?J) = nths xs (- (nat ` {j \<in> set (i # is'). 0 \<le> j}))"
      by (rule nths_cong) (use True in auto)
    with True 2 show ?thesis by simp
  next
    case False
    have "nths (removeAt (nat i) xs) (- ?J) = nths xs (- insert (nat i) ?J)"
      by (rule nths_removeAt) (use False 2(3) in auto)
    moreover have "insert (nat i) ?J = nat ` {j \<in> set (i # is'). 0 \<le> j}"
      using False by auto
    ultimately show ?thesis using False 2 by simp
  qed
qed

lemma RemoveSubSlice_nths:
  assumes "sorted_wrt (<) sub" and "length sub \<le> 12"
  shows "RemoveSubSlice long xs sub = nths xs (- (nat ` {i \<in> set sub. 0 \<le> i}))"
proof -
  have "sorted_wrt (>) (rev sub)" using assms by (simp add: sorted_wrt_rev)
  then show ?thesis using assms by (simp add: RemoveSubSlice_def positionSort_rev removeSubLoop_nths)
qed

section \<open>Properties\<close>

text \<open>
  \<open>RemoveSubSlice\<close> with at most 12 indices in ascending order removes exactly the elements at
  those indices and keeps the others in order.
\<close>

theorem RemoveSubSlice_removes:
  assumes "sorted_wrt (<) sub" and "length sub \<le> 12"
  shows "RemoveSubSlice long xs sub = nths xs (- (nat ` {i \<in> set sub. 0 \<le> i}))"
  using assms by (rule RemoveSubSlice_nths)

theorem RemoveSubSlice_removes_witness:
  "RemoveSubSlice rev ''abcde'' [1, 3] = nths ''abcde'' (- (nat ` {i \<in> set [1, 3]. 0 \<le> i})) \<and>
   RemoveSubSlice rev ''abcde'' [1, 3] = ''ace''"
  using RemoveSubSlice_removes [of "[1, 3]" rev "''abcde''"]
  by (simp add: RemoveSubSlice_def positionSort_rev removeAt_def)

text \<open>
  In any other order the wrong elements go: the comparison looks at positions, so the two
  indices 2 and 0 are used as 0 and 2, and the element at index 2 of three stays.
\<close>

theorem RemoveSubSlice_unsorted_wrong:
  "RemoveSubSlice long [a, b, c] [2, 0] = [b, c]"
  by (simp add: RemoveSubSlice_def positionSort_rev removeAt_def)

section \<open>sort.Slice\<close>

text \<open>
  \<open>sort.Slice(x, less)\<close> promises an order only when \<open>less\<close> is a strict weak order on the elements;
  the order of equivalent elements is open. A client is written against the promise.
\<close>

definition strictWeak :: "('a \<Rightarrow> 'a \<Rightarrow> bool) \<Rightarrow> 'a set \<Rightarrow> bool" where
  "strictWeak lt A \<longleftrightarrow>
     (\<forall>x \<in> A. \<not> lt x x) \<and>
     (\<forall>x \<in> A. \<forall>y \<in> A. \<forall>z \<in> A. lt x y \<and> lt y z \<longrightarrow> lt x z) \<and>
     (\<forall>x \<in> A. \<forall>y \<in> A. \<forall>z \<in> A. lt x z \<longrightarrow> lt x y \<or> lt y z)"

lemma strictWeak_mono: "strictWeak lt B \<Longrightarrow> A \<subseteq> B \<Longrightarrow> strictWeak lt A"
  unfolding strictWeak_def by blast

lemma strictWeak_cong:
  "(\<And>x y. x \<in> A \<Longrightarrow> y \<in> A \<Longrightarrow> lt x y = lt' x y) \<Longrightarrow> strictWeak lt A = strictWeak lt' A"
  unfolding strictWeak_def by simp

lemma strictWeak_asym:
  "strictWeak lt A \<Longrightarrow> x \<in> A \<Longrightarrow> y \<in> A \<Longrightarrow> lt x y \<Longrightarrow> \<not> lt y x"
  unfolding strictWeak_def by blast

lemma strictWeak_negtrans:
  "strictWeak lt A \<Longrightarrow> x \<in> A \<Longrightarrow> y \<in> A \<Longrightarrow> z \<in> A \<Longrightarrow> \<not> lt x y \<Longrightarrow> \<not> lt y z \<Longrightarrow> \<not> lt x z"
  unfolding strictWeak_def by blast

locale slice_sort =
  fixes sortf :: "('a \<Rightarrow> 'a \<Rightarrow> bool) \<Rightarrow> 'a list \<Rightarrow> 'a list"
  assumes perm: "mset (sortf lt xs) = mset xs"
    and ordered: "strictWeak lt (set xs) \<Longrightarrow> sorted_wrt (\<lambda>x y. \<not> lt y x) (sortf lt xs)"
begin

lemma set_sortf [simp]: "set (sortf lt xs) = set xs"
  using perm by (metis set_mset_mset)

lemma length_sortf [simp]: "length (sortf lt xs) = length xs"
  using perm by (metis size_mset)

lemma distinct_sortf [simp]: "distinct (sortf lt xs) = distinct xs"
  using perm by (metis mset_eq_imp_distinct_iff)

lemma sortf_Nil [simp]: "sortf lt [] = []"
  using length_sortf [of lt "[]"] by (simp only: list.size length_0_conv)

end

text \<open>
  The library sorts short slices by insertion: the new element moves left past every element that
  it is \<open>less\<close> than. The sorted prefix is kept reversed.
\<close>

fun insertLeft :: "('a \<Rightarrow> 'a \<Rightarrow> bool) \<Rightarrow> 'a \<Rightarrow> 'a list \<Rightarrow> 'a list" where
  "insertLeft lt x [] = [x]"
| "insertLeft lt x (y # ys) = (if lt x y then y # insertLeft lt x ys else x # y # ys)"

definition insertionSort :: "('a \<Rightarrow> 'a \<Rightarrow> bool) \<Rightarrow> 'a list \<Rightarrow> 'a list" where
  "insertionSort lt xs = rev (fold (insertLeft lt) xs [])"

lemma mset_insertLeft: "mset (insertLeft lt x ys) = add_mset x (mset ys)"
  by (induction ys) auto

lemma set_insertLeft: "set (insertLeft lt x ys) = insert x (set ys)"
  by (induction ys) auto

lemma mset_fold_insertLeft: "mset (fold (insertLeft lt) xs ys) = mset xs + mset ys"
  by (induction xs arbitrary: ys) (auto simp: mset_insertLeft)

lemma sorted_insertLeft:
  assumes "strictWeak lt (insert x (set ys))" and "sorted_wrt (\<lambda>a b. \<not> lt a b) ys"
  shows "sorted_wrt (\<lambda>a b. \<not> lt a b) (insertLeft lt x ys)"
  using assms
proof (induction ys)
  case Nil
  then show ?case by simp
next
  case (Cons y ys)
  have sw: "strictWeak lt (insert x (set ys))"
    using Cons.prems(1) by (rule strictWeak_mono) auto
  show ?case
  proof (cases "lt x y")
    case True
    have "\<not> lt y x" using strictWeak_asym [OF Cons.prems(1) _ _ True] by simp
    with True Cons.IH [OF sw] Cons.prems(2) show ?thesis by (auto simp: set_insertLeft)
  next
    case False
    have "\<not> lt x z" if "z \<in> set ys" for z
      using strictWeak_negtrans [OF Cons.prems(1) _ _ _ False, of z] that Cons.prems(2) by simp
    with False Cons.prems(2) show ?thesis by simp
  qed
qed

lemma sorted_fold_insertLeft:
  "strictWeak lt (set xs \<union> set ys) \<Longrightarrow> sorted_wrt (\<lambda>a b. \<not> lt a b) ys \<Longrightarrow>
   sorted_wrt (\<lambda>a b. \<not> lt a b) (fold (insertLeft lt) xs ys)"
proof (induction xs arbitrary: ys)
  case (Cons x xs)
  have "strictWeak lt (insert x (set ys))"
    using Cons.prems(1) by (rule strictWeak_mono) auto
  then have "sorted_wrt (\<lambda>a b. \<not> lt a b) (insertLeft lt x ys)"
    using Cons.prems(2) by (rule sorted_insertLeft)
  moreover have "strictWeak lt (set xs \<union> set (insertLeft lt x ys))"
    using Cons.prems(1) by (rule strictWeak_mono) (auto simp: set_insertLeft)
  ultimately show ?case using Cons.IH by simp
qed simp

interpretation ins: slice_sort insertionSort
proof unfold_locales
  show "mset (insertionSort lt xs) = mset xs" for lt and xs :: "'a list"
    by (simp add: insertionSort_def mset_fold_insertLeft)
  show "strictWeak lt (set xs) \<Longrightarrow> sorted_wrt (\<lambda>x y. \<not> lt y x) (insertionSort lt xs)"
    for lt and xs :: "'a list"
    by (simp add: insertionSort_def sorted_wrt_rev sorted_fold_insertLeft)
qed

end
