(* ===== verification/String_Utils.thy ===== *)
theory String_Utils
  imports Go_Prelude "HOL-Library.Word"
begin

unbundle bit_operations_syntax

text \<open>
  \<open>pkg/utils/stringutils/string.go\<close>: quantity comparison on 64-bit integers, the cookie helper,
  and AES-CBC with PKCS#7 padding and unpadded URL base64. The AES block functions are parameters;
  the chaining mode, the padding and the base64 alphabet are written out. The regular-expression
  helper \<open>StripAnsi\<close> is not modelled.
\<close>

section \<open>Small helpers\<close>

definition letterBytes :: string where
  "letterBytes = ''abcdefghijklmnopqrstuvwxyz1234567890''"

text \<open>\<open>rnd i\<close> is the \<open>i\<close>-th value that \<open>rand.Intn(len(letterBytes))\<close> returns.\<close>

definition RandStringBytes :: "(nat \<Rightarrow> nat) \<Rightarrow> int \<Rightarrow> string go" where
  "RandStringBytes rnd n =
     (if n < 0 then Inl SliceBounds
      else Inr (map (\<lambda>i. letterBytes ! rnd i) [0 ..< nat n]))"

definition SplitStr :: "string \<Rightarrow> char \<Rightarrow> string list" where
  \<comment> \<open>\<open>Split\<close> for a one-byte separator; the nil slice is the empty list\<close>
  "SplitStr str sep = (if str = '''' then [] else SplitChar str sep)"

definition ReplaceStringOnce :: "string \<Rightarrow> string \<Rightarrow> string" where
  "ReplaceStringOnce source oldstr = ReplaceOnce source oldstr ''''"

definition DataVolumeNameToDiskName :: "string \<Rightarrow> string" where
  "DataVolumeNameToDiskName name = (if length name > 8 then drop 4 name else '''')"

definition StringToInt :: "string \<Rightarrow> int" where
  "StringToInt str = fst (Atoi str)"

definition GetNetWorkNameFromProvider :: "string \<Rightarrow> string" where
  "GetNetWorkNameFromProvider provider =
     (let nets = SplitChar provider (CHR ''.'')
      in if length nets = 3 then nets ! 1 @ ''/'' @ nets ! 0 else '''')"

fun cookieLoop :: "string list \<Rightarrow> string" where
  "cookieLoop [] = ''''"
| "cookieLoop (token # tokens) =
     (if Contains token ''X-Ai-Authorization=''
      then ''Bearer '' @ ReplaceOnce token ''X-Ai-Authorization='' ''''
      else cookieLoop tokens)"

definition GetAuthorizationFromCookie :: "string \<Rightarrow> string" where
  "GetAuthorizationFromCookie cookie = cookieLoop (SplitChar cookie (CHR '';''))"

section \<open>Quantities\<close>

text \<open>The two blocks that every CPU and memory function repeats.\<close>

definition cpuInt :: "string \<Rightarrow> int" where
  "cpuInt s = (if Contains s ''m'' then fst (Atoi (ReplaceOnce s ''m'' ''''))
               else wrap64 (1000 * fst (Atoi s)))"

definition memInt :: "string \<Rightarrow> int" where
  "memInt s =
     (if Contains s ''Ki'' then wrap64 (1024 * fst (ParseInt (ReplaceOnce s ''Ki'' '''')))
      else if Contains s ''Mi'' then wrap64 (1024 * 1024 * fst (ParseInt (ReplaceOnce s ''Mi'' '''')))
      else if Contains s ''Gi''
        then wrap64 (1024 * 1024 * 1024 * fst (ParseInt (ReplaceOnce s ''Gi'' '''')))
      else fst (ParseInt s))"

definition CompareCpuMoreThan :: "string \<Rightarrow> string \<Rightarrow> bool" where
  "CompareCpuMoreThan reqCpu limitCpu = (cpuInt reqCpu > cpuInt limitCpu)"

definition CompareMemoryMoreThan :: "string \<Rightarrow> string \<Rightarrow> bool" where
  "CompareMemoryMoreThan reqMem limitMem = (memInt reqMem > memInt limitMem)"

definition CompareCpuMoreOrEqual :: "string \<Rightarrow> string \<Rightarrow> bool" where
  "CompareCpuMoreOrEqual reqCpu limitCpu = (cpuInt reqCpu \<ge> cpuInt limitCpu)"

definition CompareMemoryMoreOrEqual :: "string \<Rightarrow> string \<Rightarrow> bool" where
  "CompareMemoryMoreOrEqual reqMem limitMem = (memInt reqMem \<ge> memInt limitMem)"

definition GetTotalCPU :: "string \<Rightarrow> int \<Rightarrow> string" where
  "GetTotalCPU cpu replicas = FormatInt (wrap64 (cpuInt cpu * replicas)) @ ''m''"

definition GetTotalMemory :: "string \<Rightarrow> int \<Rightarrow> string" where
  "GetTotalMemory memory replicas = FormatInt (wrap64 (memInt memory * replicas))"

lemma cpuInt_in_range: "in_int64 (cpuInt s)"
  by (simp add: cpuInt_def Atoi_def ParseInt_value_in_range wrap64_in_range)

lemma memInt_in_range: "in_int64 (memInt s)"
  by (simp add: memInt_def ParseInt_value_in_range wrap64_in_range)

section \<open>PKCS#7 padding\<close>

definition pkcs7Padding :: "string \<Rightarrow> nat \<Rightarrow> string" where
  "pkcs7Padding ciphertext blocksize =
     (let padding = blocksize - length ciphertext mod blocksize
      in ciphertext @ replicate padding (char_of padding))"

definition pkcs7UnPadding :: "string \<Rightarrow> string go" where
  "pkcs7UnPadding origData =
     (let len = length origData
      in if len = 0 then Inl IndexOutOfRange
         else let unpadding = of_char (origData ! (len - 1)) :: nat
              in if unpadding > len then Inl SliceBounds else Inr (take (len - unpadding) origData))"

lemma pkcs7_length:
  assumes "0 < n"
  shows "length (pkcs7Padding s n) = (length s div n + 1) * n"
proof -
  have "length s mod n < n" using assms by simp
  then have "length s + (n - length s mod n) = length s - length s mod n + n"
    by simp
  also have "\<dots> = length s div n * n + n"
    by (simp add: minus_mod_eq_div_mult)
  finally show ?thesis by (simp add: pkcs7Padding_def Let_def)
qed

lemma pkcs7_round_trip:
  assumes "0 < n" and "n < 256"
  shows "pkcs7UnPadding (pkcs7Padding s n) = Inr s"
proof -
  define p where "p = n - length s mod n"
  have p: "0 < p" "p < 256" using assms by (simp_all add: p_def)
  have pad: "pkcs7Padding s n = s @ replicate p (char_of p)"
    by (simp add: pkcs7Padding_def p_def Let_def)
  have "(s @ replicate p (char_of p)) ! (length s + (p - 1)) = (char_of p :: char)"
    using p by (simp only: nth_append_length_plus nth_replicate)
  moreover have "length s + p - 1 = length s + (p - 1)" using p by simp
  ultimately show ?thesis
    using p by (simp add: pad pkcs7UnPadding_def Let_def of_char_of)
qed

section \<open>CBC mode\<close>

definition xorChar :: "char \<Rightarrow> char \<Rightarrow> char" where
  "xorChar a b = char_of ((of_char a :: nat) XOR of_char b)"

definition xorBlock :: "string \<Rightarrow> string \<Rightarrow> string" where
  "xorBlock a b = map2 xorChar a b"

text \<open>
  \<open>cipher.NewCBCEncrypter\<close> and \<open>CryptBlocks\<close>: each block is combined with the previous ciphertext
  block (the initialisation vector for the first) before the block function is applied.
\<close>

fun cbcEncrypt :: "(string \<Rightarrow> string) \<Rightarrow> string \<Rightarrow> string list \<Rightarrow> string list" where
  "cbcEncrypt E iv [] = []"
| "cbcEncrypt E iv (b # bs) = (let c = E (xorBlock b iv) in c # cbcEncrypt E c bs)"

fun cbcDecrypt :: "(string \<Rightarrow> string) \<Rightarrow> string \<Rightarrow> string list \<Rightarrow> string list" where
  "cbcDecrypt D iv [] = []"
| "cbcDecrypt D iv (c # cs) = xorBlock (D c) iv # cbcDecrypt D c cs"

function blocks :: "nat \<Rightarrow> string \<Rightarrow> string list" where
  "blocks n s = (if s = [] \<or> n = 0 then [] else take n s # blocks n (drop n s))"
  by pat_completeness auto
termination
  by (relation "measure (\<lambda>(n, s). length s)") auto

declare blocks.simps [simp del]

lemma xor_char_less: "(of_char a :: nat) XOR of_char b < 256"
proof -
  have "take_bit 8 (of_char c :: nat) = of_char c" for c :: char
    by (simp add: take_bit_eq_mod)
  then have "take_bit 8 ((of_char a :: nat) XOR of_char b) = of_char a XOR of_char b"
    by (simp only: take_bit_xor)
  then have "(of_char a :: nat) XOR of_char b < 2 ^ 8" by (simp only: take_bit_nat_eq_self_iff)
  then show ?thesis by simp
qed

lemma xorChar_involution [simp]: "xorChar (xorChar a b) b = a"
  using xor_char_less [of a b] by (simp add: xorChar_def of_char_of xor.assoc)

lemma length_xorBlock [simp]: "length (xorBlock a b) = min (length a) (length b)"
  by (simp add: xorBlock_def)

lemma xorBlock_involution: "length a = length b \<Longrightarrow> xorBlock (xorBlock a b) b = a"
  unfolding xorBlock_def by (induction a b rule: list_induct2) simp_all

lemma blocks_concat:
  "0 < n \<Longrightarrow> (\<And>b. b \<in> set bs \<Longrightarrow> length b = n) \<Longrightarrow> blocks n (concat bs) = bs"
  by (induction bs) (auto simp: blocks.simps [of n "_ @ _"] blocks.simps [of n "[]"])

lemma concat_blocks: "0 < n \<Longrightarrow> concat (blocks n s) = s"
  by (induction n s rule: blocks.induct) (simp add: blocks.simps)

lemma length_blocks:
  "n dvd length s \<Longrightarrow> b \<in> set (blocks n s) \<Longrightarrow> length b = n"
proof (induction n s rule: blocks.induct)
  case (1 n s)
  then show ?case
    by (auto simp: blocks.simps [of n s] dvd_imp_le split: if_splits)
qed

lemma cbcEncrypt_lengths:
  assumes E: "\<And>b. length b = n \<Longrightarrow> length (E b) = n"
  shows "length iv = n \<Longrightarrow> (\<And>b. b \<in> set bs \<Longrightarrow> length b = n) \<Longrightarrow>
    c \<in> set (cbcEncrypt E iv bs) \<Longrightarrow> length c = n"
proof (induction bs arbitrary: iv)
  case Nil
  then show ?case by simp
next
  case (Cons b bs)
  then have "length (E (xorBlock b iv)) = n" by (simp add: E)
  with Cons show ?case by (auto simp: Let_def)
qed

lemma cbc_round_trip:
  assumes "\<And>b. length b = n \<Longrightarrow> length (E b) = n"
    and "\<And>b. length b = n \<Longrightarrow> D (E b) = b"
  shows "length iv = n \<Longrightarrow> (\<And>b. b \<in> set bs \<Longrightarrow> length b = n) \<Longrightarrow>
    cbcDecrypt D iv (cbcEncrypt E iv bs) = bs"
  by (induction bs arbitrary: iv) (simp_all add: Let_def assms xorBlock_involution)

section \<open>Unpadded URL base64\<close>

definition b64alpha :: string where
  "b64alpha = ''ABCDEFGHIJKLMNOPQRSTUVWXYZabcdefghijklmnopqrstuvwxyz0123456789-_''"

fun posOf :: "char \<Rightarrow> string \<Rightarrow> nat option" where
  "posOf c [] = None"
| "posOf c (x # xs) = (if x = c then Some 0 else map_option Suc (posOf c xs))"

definition b64val :: "char \<Rightarrow> nat option" where
  "b64val c = posOf c b64alpha"

fun b64enc :: "string \<Rightarrow> string" where
  "b64enc [] = []"
| "b64enc [a] = (let x = of_char a :: nat
     in [b64alpha ! (x div 4), b64alpha ! (x mod 4 * 16)])"
| "b64enc [a, b] = (let x = of_char a :: nat; y = of_char b
     in [b64alpha ! (x div 4), b64alpha ! (x mod 4 * 16 + y div 16), b64alpha ! (y mod 16 * 4)])"
| "b64enc (a # b # c # r) = (let x = of_char a :: nat; y = of_char b; z = of_char c
     in [b64alpha ! (x div 4), b64alpha ! (x mod 4 * 16 + y div 16),
         b64alpha ! (y mod 16 * 4 + z div 64), b64alpha ! (z mod 64)] @ b64enc r)"

text \<open>
  Decoding stops at the first quantum with a byte outside the alphabet and keeps what was
  decoded before it; the caller drops the error.
\<close>

fun b64decq :: "string \<Rightarrow> string" where
  "b64decq (p # q # r # s # rest) =
     (case (b64val p, b64val q, b64val r, b64val s) of
        (Some w, Some x, Some y, Some z) \<Rightarrow>
          [char_of (w * 4 + x div 16), char_of (x mod 16 * 16 + y div 4), char_of (y mod 4 * 64 + z)]
            @ b64decq rest
      | _ \<Rightarrow> [])"
| "b64decq [p, q, r] =
     (case (b64val p, b64val q, b64val r) of
        (Some w, Some x, Some y) \<Rightarrow> [char_of (w * 4 + x div 16), char_of (x mod 16 * 16 + y div 4)]
      | _ \<Rightarrow> [])"
| "b64decq [p, q] =
     (case (b64val p, b64val q) of (Some w, Some x) \<Rightarrow> [char_of (w * 4 + x div 16)] | _ \<Rightarrow> [])"
| "b64decq _ = []"

definition b64dec :: "string \<Rightarrow> string" where
  "b64dec s = b64decq (filter (\<lambda>c. (of_char c :: nat) \<noteq> 10 \<and> (of_char c :: nat) \<noteq> 13) s)"

lemma posOf_nth: "distinct xs \<Longrightarrow> i < length xs \<Longrightarrow> posOf (xs ! i) xs = Some i"
proof (induction xs arbitrary: i)
  case (Cons x xs)
  then show ?case by (cases i) auto
qed simp

lemma length_b64alpha: "length b64alpha = 64"
  by (simp add: b64alpha_def)

lemma b64val_nth [simp]: "i < 64 \<Longrightarrow> b64val (b64alpha ! i) = Some i"
  unfolding b64val_def by (rule posOf_nth) (simp_all add: length_b64alpha, simp add: b64alpha_def)

lemma sextet_bounds:
  fixes x y :: nat
  assumes "x < 256" and "y < 256"
  shows "x div 4 < 64" and "x mod 4 * 16 < 64" and "x mod 4 * 16 + y div 16 < 64"
    and "x mod 16 * 4 < 64" and "x mod 16 * 4 + y div 64 < 64" and "x mod 64 < 64"
proof -
  have "x mod 4 < 4" and "x mod 16 < 16" by simp_all
  moreover have "y div 16 < 16" and "y div 64 < 4" and "x div 4 < 64"
    using assms by (simp_all add: less_mult_imp_div_less)
  ultimately show "x div 4 < 64" and "x mod 4 * 16 < 64" and "x mod 4 * 16 + y div 16 < 64"
    and "x mod 16 * 4 < 64" and "x mod 16 * 4 + y div 64 < 64"
    by linarith+
qed simp

lemma sextet_merge:
  fixes x y :: nat
  assumes "y < 256"
  shows "x div 4 * 4 + x mod 4 * 16 div 16 = x"
    and "x div 4 * 4 + (x mod 4 * 16 + y div 16) div 16 = x"
    and "(x mod 4 * 16 + y div 16) mod 16 * 16 + y mod 16 = y"
proof -
  have b: "y div 16 < 16" using assms by (simp add: less_mult_imp_div_less)
  show "x div 4 * 4 + x mod 4 * 16 div 16 = x"
    by (simp only: nonzero_mult_div_cancel_right zero_neq_numeral not_False_eq_True div_mult_mod_eq)
  have "(x mod 4 * 16 + y div 16) div 16 = x mod 4" using b by (simp add: div_mult_self3)
  then show "x div 4 * 4 + (x mod 4 * 16 + y div 16) div 16 = x" by (simp only: div_mult_mod_eq)
  have "(x mod 4 * 16 + y div 16) mod 16 = y div 16" using b by simp
  then show "(x mod 4 * 16 + y div 16) mod 16 * 16 + y mod 16 = y"
    by (simp only: div_mult_mod_eq)
qed

lemma sextet_merge3:
  fixes x y z :: nat
  assumes "y < 256" and "z < 256"
  shows "(x mod 4 * 16 + y div 16) mod 16 * 16 + (y mod 16 * 4 + z div 64) div 4 = y"
    and "(y mod 16 * 4 + z div 64) mod 4 * 64 + z mod 64 = z"
proof -
  have b: "z div 64 < 4" "y div 16 < 16" using assms by (simp_all add: less_mult_imp_div_less)
  have "(x mod 4 * 16 + y div 16) mod 16 = y div 16" using b by simp
  moreover have "(y mod 16 * 4 + z div 64) div 4 = y mod 16" using b by (simp add: div_mult_self3)
  ultimately show "(x mod 4 * 16 + y div 16) mod 16 * 16 + (y mod 16 * 4 + z div 64) div 4 = y"
    by (simp only: div_mult_mod_eq)
  have "(y mod 16 * 4 + z div 64) mod 4 = z div 64" using b by simp
  then show "(y mod 16 * 4 + z div 64) mod 4 * 64 + z mod 64 = z" by (simp only: div_mult_mod_eq)
qed

lemmas char_sextets =
  sextet_bounds [OF nat_of_char_less_256 nat_of_char_less_256]
  sextet_merge [OF nat_of_char_less_256]
  sextet_merge3 [OF nat_of_char_less_256 nat_of_char_less_256]

lemma b64decq_encode: "b64decq (b64enc s) = s"
proof (induction s rule: b64enc.induct)
  case (4 a b c r)
  have "b64decq (b64enc r) = r" using 4 by (simp add: Let_def)
  then show ?case
    by (simp add: Let_def char_sextets del: mod_mult_self3 div_mult_self3)
qed (simp_all add: Let_def char_sextets del: mod_mult_self3 div_mult_self3)

lemma nth_b64alpha_mem: "i < 64 \<Longrightarrow> b64alpha ! i \<in> set b64alpha"
  by (simp add: length_b64alpha)

lemma b64enc_chars: "c \<in> set (b64enc s) \<Longrightarrow> c \<in> set b64alpha"
  by (induction s rule: b64enc.induct) (auto simp: Let_def nth_b64alpha_mem char_sextets)

lemma b64_round_trip: "b64dec (b64enc s) = s"
proof -
  have "\<forall>c \<in> set b64alpha. (of_char c :: nat) \<noteq> 10 \<and> (of_char c :: nat) \<noteq> 13"
    by (simp add: b64alpha_def)
  then have "filter (\<lambda>c. (of_char c :: nat) \<noteq> 10 \<and> (of_char c :: nat) \<noteq> 13) (b64enc s) = b64enc s"
    using b64enc_chars by (fastforce simp: filter_id_conv)
  then show ?thesis by (simp add: b64dec_def b64decq_encode)
qed

section \<open>AES-CBC\<close>

text \<open>
  \<open>E key\<close> and \<open>D key\<close> are the AES block functions of \<open>crypto/aes\<close> under a key. \<open>aes.NewCipher\<close>
  accepts keys of 16, 24 and 32 bytes; on any other length both functions panic.
\<close>

definition keyLengthOk :: "string \<Rightarrow> bool" where
  "keyLengthOk key \<longleftrightarrow> length key \<in> {16, 24, 32}"

definition AesEncrypt :: "(string \<Rightarrow> string \<Rightarrow> string) \<Rightarrow> string \<Rightarrow> string \<Rightarrow> string go" where
  "AesEncrypt E orig key =
     (if \<not> keyLengthOk key then Inl (Explicit ''key length must be 16/24/32'')
      else let origData = pkcs7Padding orig 16;
               cryted = concat (cbcEncrypt (E key) (take 16 key) (blocks 16 origData))
           in Inr (b64enc cryted))"

definition AesDecrypt :: "(string \<Rightarrow> string \<Rightarrow> string) \<Rightarrow> string \<Rightarrow> string \<Rightarrow> string go" where
  "AesDecrypt D cryted key =
     (let crytedByte = b64dec cryted
      in if \<not> keyLengthOk key then Inl (Explicit ''key length must be 16/24/32'')
         else if length crytedByte mod 16 \<noteq> 0
           then Inl (Explicit ''crypto/cipher: input not full blocks'')
         else let orig = concat (cbcDecrypt (D key) (take 16 key) (blocks 16 crytedByte))
              in pkcs7UnPadding orig)"

text \<open>What the code relies on of the block functions: \<open>D\<close> inverts \<open>E\<close> on 16-byte blocks.\<close>

definition blockCipher ::
  "(string \<Rightarrow> string \<Rightarrow> string) \<Rightarrow> (string \<Rightarrow> string \<Rightarrow> string) \<Rightarrow> bool" where
  "blockCipher E D \<longleftrightarrow>
     (\<forall>k b. length b = 16 \<longrightarrow> length (E k b) = 16 \<and> D k (E k b) = b)"

lemma length_pkcs7_blocks: "16 dvd length (pkcs7Padding s 16)"
  by (simp add: pkcs7_length)

lemma aes_round_trip_lemma:
  assumes bc: "blockCipher E D" and key: "keyLengthOk key"
  shows "\<exists>c. AesEncrypt E orig key = Inr c \<and> AesDecrypt D c key = Inr orig"
proof -
  define bs where "bs = blocks 16 (pkcs7Padding orig 16)"
  define cs where "cs = cbcEncrypt (E key) (take 16 key) bs"
  have E: "length b = 16 \<Longrightarrow> length (E key b) = 16" and D: "length b = 16 \<Longrightarrow> D key (E key b) = b"
    for b using bc by (simp_all add: blockCipher_def)
  have iv: "length (take 16 key) = 16" using key by (auto simp: keyLengthOk_def)
  have bs: "b \<in> set bs \<Longrightarrow> length b = 16" for b
    using length_blocks [OF length_pkcs7_blocks] by (simp add: bs_def)
  have cs: "c \<in> set cs \<Longrightarrow> length c = 16" for c
    unfolding cs_def using cbcEncrypt_lengths [of 16 "E key", OF E iv bs] by blast
  have "length (concat cs) = sum_list (map (\<lambda>_. 16) cs)"
    using cs by (simp add: length_concat cong: map_cong)
  then have len: "length (concat cs) mod 16 = 0" by (simp add: sum_list_triv)
  have dec: "cbcDecrypt (D key) (take 16 key) (blocks 16 (concat cs)) = bs"
    using cbc_round_trip [of 16 "E key" "D key" "take 16 key" bs, OF E D iv bs]
    by (simp add: blocks_concat [OF _ cs] cs_def)
  have "pkcs7UnPadding (concat bs) = Inr orig"
    by (simp add: bs_def concat_blocks pkcs7_round_trip)
  with len dec show ?thesis
    using key by (simp add: AesEncrypt_def AesDecrypt_def Let_def b64_round_trip
        bs_def [symmetric] cs_def [symmetric])
qed

end
