(* ===== verification/Query_Params.thy ===== *)
theory Query_Params
  imports Go_Prelude Slice_Utils "HOL-Library.AList"
begin

text \<open>
  \<open>pkg/aiserver/query\<close>: the query object that the list operations take, its parsing from a request
  and the computation of the page bounds on 64-bit integers. The filter map is an association list
  in iteration order. \<open>labels.Parse\<close> is a parameter: it gives a selector, a predicate on label maps,
  or fails.
\<close>

section \<open>Fields and parameters\<close>

definition FieldName :: string where "FieldName = ''name''"
definition FieldNames :: string where "FieldNames = ''names''"
definition FieldUID :: string where "FieldUID = ''uid''"
definition FieldCreationTimeStamp :: string where "FieldCreationTimeStamp = ''creationTimestamp''"
definition FieldCreateTime :: string where "FieldCreateTime = ''createTime''"
definition FieldLabel :: string where "FieldLabel = ''label''"
definition FieldAnnotation :: string where "FieldAnnotation = ''annotation''"
definition FieldNamespace :: string where "FieldNamespace = ''namespace''"
definition FieldStatus :: string where "FieldStatus = ''status''"
definition FieldOwnerReference :: string where "FieldOwnerReference = ''ownerReference''"
definition FieldOwnerKind :: string where "FieldOwnerKind = ''ownerKind''"

lemmas field_defs = FieldName_def FieldNames_def FieldUID_def FieldCreationTimeStamp_def
  FieldCreateTime_def FieldLabel_def FieldAnnotation_def FieldNamespace_def FieldStatus_def
  FieldOwnerReference_def FieldOwnerKind_def

definition ParameterLabelSelector :: string where "ParameterLabelSelector = ''labelSelector''"
definition ParameterPage :: string where "ParameterPage = ''page''"
definition ParameterLimit :: string where "ParameterLimit = ''limit''"
definition ParameterOrderBy :: string where "ParameterOrderBy = ''sortBy''"
definition ParameterAscending :: string where "ParameterAscending = ''ascending''"

definition reservedParams :: "string list" where
  "reservedParams = [ParameterPage, ParameterLimit, ParameterOrderBy, ParameterAscending,
     ParameterLabelSelector]"

lemmas param_defs = ParameterLabelSelector_def ParameterPage_def ParameterLimit_def
  ParameterOrderBy_def ParameterAscending_def reservedParams_def

section \<open>Queries\<close>

record Pagination =
  Limit :: int
  Offset :: int

record Query =
  q_Pagination :: "Pagination option"
  q_SortBy :: string
  q_Ascending :: bool
  q_Filters :: "(string \<times> string) list"
  q_LabelSelector :: string

definition newPagination :: "int \<Rightarrow> int \<Rightarrow> Pagination" where
  "newPagination limit offset = \<lparr>Limit = limit, Offset = offset\<rparr>"

definition NoPagination :: Pagination where
  "NoPagination = newPagination (-1) 0"

definition newQuery :: Query where
  "newQuery = \<lparr>q_Pagination = Some NoPagination, q_SortBy = '''', q_Ascending = False,
     q_Filters = [], q_LabelSelector = ''''\<rparr>"

type_synonym selector = "strmap \<Rightarrow> bool"

definition Everything :: selector where
  "Everything = (\<lambda>_. True)"

definition Selector :: "(string \<Rightarrow> goerr + selector) \<Rightarrow> Query \<Rightarrow> selector" where
  "Selector parse q = (case parse (q_LabelSelector q) of Inl _ \<Rightarrow> Everything | Inr s \<Rightarrow> s)"

definition filterGet :: "Query \<Rightarrow> string \<Rightarrow> string" where
  \<comment> \<open>\<open>query.Filters[k]\<close>\<close>
  "filterGet q k = (case map_of (q_Filters q) k of None \<Rightarrow> '''' | Some v \<Rightarrow> v)"

definition filterSet :: "string \<Rightarrow> string \<Rightarrow> Query \<Rightarrow> Query" where
  "filterSet k v q = q\<lparr>q_Filters := AList.update k v (q_Filters q)\<rparr>"

definition filterDelete :: "string \<Rightarrow> Query \<Rightarrow> Query" where
  "filterDelete k q = q\<lparr>q_Filters := AList.delete k (q_Filters q)\<rparr>"

definition GetValidPagination :: "Pagination \<Rightarrow> int \<Rightarrow> int \<times> int" where
  "GetValidPagination p n =
     (if Limit p = Limit NoPagination then (0, n)
      else if Limit p < 0 \<or> Offset p < 0 \<or> Offset p > n then (0, 0)
      else let startIndex = Offset p;
               endIndex = wrap64 (startIndex + Limit p)
           in (startIndex, if endIndex > n then n else endIndex))"

definition defaultString :: "string \<Rightarrow> string \<Rightarrow> string" where
  "defaultString value defaultValue = (if length value = 0 then defaultValue else value)"

section \<open>Parsing a request\<close>

text \<open>
  \<open>qp\<close> is \<open>request.QueryParameter\<close>, \<open>urlq\<close> the map \<open>request.Request.URL.Query()\<close> in the order the
  loop visits it. A later value of a key overwrites an earlier one.
\<close>

fun filterStep :: "string \<times> string list \<Rightarrow> (string \<times> string) list \<Rightarrow> (string \<times> string) list" where
  "filterStep (key, vs) fs =
     (if HasString reservedParams key then fs
      else fold (\<lambda>v fs. AList.update key v fs) vs fs)"

definition collectFilters :: "(string \<times> string list) list \<Rightarrow> (string \<times> string) list" where
  "collectFilters urlq = fold filterStep urlq []"

definition ParseQueryParameter ::
  "(string \<Rightarrow> string) \<Rightarrow> (string \<times> string list) list \<Rightarrow> Query" where
  "ParseQueryParameter qp urlq =
     (let limit = (case Atoi (qp ParameterLimit) of (v, None) \<Rightarrow> v | _ \<Rightarrow> -1);
          page = (case Atoi (qp ParameterPage) of (v, None) \<Rightarrow> v | _ \<Rightarrow> 1)
      in newQuery\<lparr>
           q_Pagination := Some (newPagination limit (wrap64 (wrap64 (page - 1) * limit))),
           q_SortBy := defaultString (qp ParameterOrderBy) FieldCreationTimeStamp,
           q_Ascending :=
             (case ParseBool (defaultString (qp ParameterAscending) ''false'') of
                None \<Rightarrow> False | Some b \<Rightarrow> b),
           q_LabelSelector := qp ParameterLabelSelector,
           q_Filters := collectFilters urlq\<rparr>)"

section \<open>Lemmas\<close>

lemma filterGet_set [simp]: "filterGet (filterSet k v q) k' = (if k' = k then v else filterGet q k')"
  by (simp add: filterGet_def filterSet_def update_conv')

lemma filterGet_delete [simp]: "filterGet (filterDelete k q) k' = (if k' = k then '''' else filterGet q k')"
  by (simp add: filterGet_def filterDelete_def delete_conv')

text \<open>Without overflow of \<open>offset + limit\<close> the bounds are a valid slice of the list.\<close>

lemma GetValidPagination_bounds:
  assumes "GetValidPagination p n = (s, e)" and "0 \<le> n"
    and "Limit p \<noteq> -1 \<Longrightarrow> Offset p + Limit p \<le> MaxInt64"
  shows "0 \<le> s \<and> s \<le> e \<and> e \<le> n"
proof -
  have "wrap64 (Offset p + Limit p) = Offset p + Limit p"
    if "\<not> (Limit p < 0 \<or> Offset p < 0)" "Limit p \<noteq> -1"
    using that assms(3) by (intro wrap64_id) (simp add: int64_defs)
  then show ?thesis
    using assms(1,2)
    by (auto simp: GetValidPagination_def NoPagination_def newPagination_def Let_def split: if_splits)
qed

lemma GetValidPagination_page:
  assumes "0 \<le> Limit p" and "0 \<le> Offset p" and "Offset p \<le> n"
    and "Offset p + Limit p \<le> MaxInt64"
  shows "GetValidPagination p n = (Offset p, min n (Offset p + Limit p))"
proof -
  have "wrap64 (Offset p + Limit p) = Offset p + Limit p"
    using assms by (intro wrap64_id) (simp add: int64_defs)
  with assms show ?thesis
    by (auto simp: GetValidPagination_def NoPagination_def newPagination_def Let_def)
qed

lemma fold_update_values:
  "map_of (fold (AList.update k) vs fs) k' =
     (if k' = k \<and> vs \<noteq> [] then Some (last vs) else map_of fs k')"
  by (induction vs arbitrary: fs) (auto simp: update_conv')

lemma filterStep_lookup:
  "map_of (filterStep (key, vs) fs) k =
     (if k = key \<and> key \<notin> set reservedParams \<and> vs \<noteq> [] then Some (last vs) else map_of fs k)"
  by (simp add: fold_update_values)

declare filterStep.simps [simp del]

lemma fold_filterStep_other:
  "k \<notin> fst ` set urlq \<or> k \<in> set reservedParams \<Longrightarrow>
   map_of (fold filterStep urlq fs) k = map_of fs k"
  by (induction urlq arbitrary: fs) (auto simp: filterStep_lookup)

lemma fold_filterStep_lookup:
  "k \<notin> set reservedParams \<Longrightarrow> map_of fs k = None \<Longrightarrow> distinct (map fst urlq) \<Longrightarrow>
   map_of (fold filterStep urlq fs) k =
    (case map_of urlq k of None \<Rightarrow> None
     | Some vs \<Rightarrow> if vs = [] then None else Some (last vs))"
proof (induction urlq arbitrary: fs)
  case (Cons p urlq)
  obtain key vs where p: "p = (key, vs)" by (cases p)
  show ?case
  proof (cases "key = k")
    case True
    then have "k \<notin> fst ` set urlq" using Cons.prems p by force
    with True Cons.prems p show ?thesis
      by (simp add: fold_filterStep_other filterStep_lookup)
  next
    case False
    with Cons p show ?thesis by (simp add: filterStep_lookup)
  qed
qed simp

lemma collectFilters_lookup:
  assumes "distinct (map fst urlq)"
  shows "map_of (collectFilters urlq) k =
    (if k \<in> set reservedParams then None
     else case map_of urlq k of None \<Rightarrow> None
          | Some vs \<Rightarrow> if vs = [] then None else Some (last vs))"
  using assms by (simp add: collectFilters_def fold_filterStep_other fold_filterStep_lookup)

lemma distinct_fold_update: "distinct (map fst fs) \<Longrightarrow> distinct (map fst (fold (AList.update k) vs fs))"
  by (induction vs arbitrary: fs) (auto intro: distinct_update)

lemma distinct_filterStep: "distinct (map fst fs) \<Longrightarrow> distinct (map fst (filterStep p fs))"
  by (cases p) (simp add: filterStep.simps distinct_fold_update)

lemma distinct_fold_filterStep:
  "distinct (map fst fs) \<Longrightarrow> distinct (map fst (fold filterStep urlq fs))"
  by (induction urlq arbitrary: fs) (simp_all add: distinct_filterStep)

lemma distinct_collectFilters: "distinct (map fst (collectFilters urlq))"
  by (simp add: collectFilters_def distinct_fold_filterStep)

end
