(* ===== verification/Iam_Types.thy ===== *)
theory Iam_Types
  imports Go_Prelude
begin

text \<open>
  The API types: \<open>pkg/api/iam.ai.io/v1/types.go\<close>, \<open>pkg/api/core.ai.io/v1/types.go\<close> and the fields of the
  Kubernetes metadata and RBAC types that the program reads or writes. The three role types have
  the same fields (metadata and rules), as have the three binding types. Times and durations are
  integers in nanoseconds.
\<close>

section \<open>Constants\<close>

definition UserReferenceLabel :: string where "UserReferenceLabel = ''iam.ai.io/user-ref''"
definition ResourceKindRole :: string where "ResourceKindRole = ''Role''"
definition NamespaceAdmin :: string where "NamespaceAdmin = ''admin''"
definition ResourceKindUser :: string where "ResourceKindUser = ''User''"
definition ResourceKindGroup :: string where "ResourceKindGroup = ''Group''"
definition ResourceKindServiceAccount :: string where "ResourceKindServiceAccount = ''ServiceAccount''"
definition ResourceKindClusterRole :: string where "ResourceKindClusterRole = ''ClusterRole''"
definition ResourceKindGlobalRole :: string where "ResourceKindGlobalRole = ''GlobalRole''"
definition ClusterAdmin :: string where "ClusterAdmin = ''cluster-admin''"
definition PlatformAdmin :: string where "PlatformAdmin = ''platform-admin''"
definition PlatformSelfProvisioner :: string where "PlatformSelfProvisioner = ''platform-self-provisioner''"
definition PlatformRegular :: string where "PlatformRegular = ''platform-regular''"
definition RoleAnnotation :: string where "RoleAnnotation = ''iam.ai.io/role''"
definition ClusterRoleAnnotation :: string where "ClusterRoleAnnotation = ''iam.ai.io/clusterrole''"
definition GlobalRoleAnnotation :: string where "GlobalRoleAnnotation = ''iam.ai.io/globalrole''"
definition RegoOverrideAnnotation :: string where "RegoOverrideAnnotation = ''iam.ai.io/rego-override''"
definition CreatorAnnotationKey :: string where "CreatorAnnotationKey = ''ai.io/creator''"
definition NameAnnotationkey :: string where "NameAnnotationkey = ''ai.io/name''"
definition WorkspaceLabelKey :: string where "WorkspaceLabelKey = ''ai.io/workspace''"
definition RegisterAnnotationKey :: string where "RegisterAnnotationKey = ''ai.io/register''"
definition RegisterSecretKey :: string where "RegisterSecretKey = ''ai@123456789''"
definition lastAppliedAnnotation :: string where
  "lastAppliedAnnotation = ''kubectl.kubernetes.io/last-applied-configuration''"

definition rbacGroup :: string where "rbacGroup = ''rbac.authorization.k8s.io''"
definition iamGroup :: string where "iamGroup = ''iam.ai.io''"

lemmas kind_defs = ResourceKindRole_def ResourceKindUser_def ResourceKindGroup_def
  ResourceKindServiceAccount_def ResourceKindClusterRole_def ResourceKindGlobalRole_def

lemmas annotation_defs = RoleAnnotation_def ClusterRoleAnnotation_def GlobalRoleAnnotation_def
  RegoOverrideAnnotation_def CreatorAnnotationKey_def lastAppliedAnnotation_def NameAnnotationkey_def

definition UserActive :: string where "UserActive = ''Active''"
definition UserDisabled :: string where "UserDisabled = ''Disabled''"
definition UserAuthLimitExceeded :: string where "UserAuthLimitExceeded = ''AuthLimitExceeded''"
definition AuthenticatedSuccessfully :: string where
  "AuthenticatedSuccessfully = ''authenticated successfully''"

lemmas state_defs = UserActive_def UserDisabled_def UserAuthLimitExceeded_def

section \<open>Time\<close>

type_synonym time = int
type_synonym duration = int

definition Second :: duration where "Second = 1000000000"
definition Minute :: duration where "Minute = 60 * Second"
definition Hour :: duration where "Hour = 60 * Minute"

lemmas duration_defs = Second_def Minute_def Hour_def

section \<open>Metadata\<close>

record OwnerReference =
  owner_Kind :: string
  owner_UID :: string

record ObjectMeta =
  Name :: string
  GenerateName :: string
  Namespace :: string
  UID :: string
  ResourceVersion :: string
  CreationTimestamp :: time
  DeletionTimestamp :: "time option"
  Labels :: strmap
  Annotations :: strmap
  OwnerReferences :: "OwnerReference list"
  Finalizers :: "string list"
  ManagedFields :: "string list"

definition emptyMeta :: ObjectMeta where
  "emptyMeta = \<lparr>Name = '''', GenerateName = '''', Namespace = '''', UID = '''', ResourceVersion = '''',
     CreationTimestamp = 0, DeletionTimestamp = None, Labels = None, Annotations = None,
     OwnerReferences = [], Finalizers = [], ManagedFields = []\<rparr>"

text \<open>The metadata of a list.\<close>

record ListMeta =
  listResourceVersion :: string
  listContinue :: string
  RemainingItemCount :: "int option"

section \<open>RBAC\<close>

record Subject =
  subj_Kind :: string
  subj_APIGroup :: string
  subj_Name :: string
  subj_Namespace :: string

record RoleRef =
  ref_APIGroup :: string
  ref_Kind :: string
  ref_Name :: string

record PolicyRule =
  Verbs :: "string list"
  APIGroups :: "string list"
  Resources :: "string list"
  ResourceNames :: "string list"
  NonResourceURLs :: "string list"

record RoleObj =
  role_meta :: ObjectMeta
  Rules :: "PolicyRule list"

record BindingObj =
  binding_meta :: ObjectMeta
  Subjects :: "Subject list"
  roleRef :: RoleRef

type_synonym GlobalRole = RoleObj
type_synonym GlobalRoleBinding = BindingObj

section \<open>Users and login records\<close>

record UserSpec =
  Email :: string
  Lang :: string
  Description :: string
  DisplayName :: string
  spec_Groups :: "string list"
  EncryptedPassword :: string

record UserStatus =
  State :: "string option"
  status_Reason :: string
  LastTransitionTime :: "time option"
  LastLoginTime :: "time option"

record User =
  user_meta :: ObjectMeta
  user_spec :: UserSpec
  user_status :: UserStatus

record LoginRecordSpec =
  rec_Type :: string
  Provider :: string
  SourceIP :: string
  UserAgent :: string
  Success :: bool
  rec_Reason :: string

record LoginRecord =
  record_meta :: ObjectMeta
  record_spec :: LoginRecordSpec

definition emptySpec :: UserSpec where
  "emptySpec = \<lparr>Email = '''', Lang = '''', Description = '''', DisplayName = '''', spec_Groups = [],
     EncryptedPassword = ''''\<rparr>"

definition emptyStatus :: UserStatus where
  "emptyStatus = \<lparr>State = None, status_Reason = '''', LastTransitionTime = None, LastLoginTime = None\<rparr>"

definition BasicAuth :: string where "BasicAuth = ''Basic''"
definition TokenLogin :: string where "TokenLogin = ''Token''"

section \<open>Other kinds\<close>

record NamespaceObj =
  ns_meta :: ObjectMeta
  Phase :: string

record ServiceAccountObj =
  sa_meta :: ObjectMeta

record CrdObj =
  crd_meta :: ObjectMeta
  crd_Kind :: string

text \<open>\<open>user.Info\<close> of the authentication library.\<close>

record UserInfo =
  ui_Name :: string
  ui_Groups :: "string list"
  ui_Extra :: "(string \<times> string list) list"

definition defaultInfo :: UserInfo where
  "defaultInfo = \<lparr>ui_Name = '''', ui_Groups = [], ui_Extra = []\<rparr>"

definition AllAuthenticated :: string where "AllAuthenticated = ''system:authenticated''"
definition AllUnauthenticated :: string where "AllUnauthenticated = ''system:unauthenticated''"
definition Anonymous :: string where "Anonymous = ''system:anonymous''"

section \<open>Objects behind an interface\<close>

text \<open>The dynamic types behind \<open>runtime.Object\<close>: a type assertion is a pattern match.\<close>

datatype RuntimeObject =
    OUser User
  | OLoginRecord LoginRecord
  | OGlobalRole RoleObj
  | OGlobalRoleBinding BindingObj
  | ORole RoleObj
  | ORoleBinding BindingObj
  | OClusterRole RoleObj
  | OClusterRoleBinding BindingObj
  | ONamespace NamespaceObj
  | OServiceAccount ServiceAccountObj
  | OCrd CrdObj

fun objMeta :: "RuntimeObject \<Rightarrow> ObjectMeta" where
  "objMeta (OUser u) = user_meta u"
| "objMeta (OLoginRecord r) = record_meta r"
| "objMeta (OGlobalRole r) = role_meta r"
| "objMeta (OGlobalRoleBinding b) = binding_meta b"
| "objMeta (ORole r) = role_meta r"
| "objMeta (ORoleBinding b) = binding_meta b"
| "objMeta (OClusterRole r) = role_meta r"
| "objMeta (OClusterRoleBinding b) = binding_meta b"
| "objMeta (ONamespace n) = ns_meta n"
| "objMeta (OServiceAccount s) = sa_meta s"
| "objMeta (OCrd c) = crd_meta c"

fun mapMeta :: "(ObjectMeta \<Rightarrow> ObjectMeta) \<Rightarrow> RuntimeObject \<Rightarrow> RuntimeObject" where
  "mapMeta f (OUser u) = OUser (u\<lparr>user_meta := f (user_meta u)\<rparr>)"
| "mapMeta f (OLoginRecord r) = OLoginRecord (r\<lparr>record_meta := f (record_meta r)\<rparr>)"
| "mapMeta f (OGlobalRole r) = OGlobalRole (r\<lparr>role_meta := f (role_meta r)\<rparr>)"
| "mapMeta f (OGlobalRoleBinding b) = OGlobalRoleBinding (b\<lparr>binding_meta := f (binding_meta b)\<rparr>)"
| "mapMeta f (ORole r) = ORole (r\<lparr>role_meta := f (role_meta r)\<rparr>)"
| "mapMeta f (ORoleBinding b) = ORoleBinding (b\<lparr>binding_meta := f (binding_meta b)\<rparr>)"
| "mapMeta f (OClusterRole r) = OClusterRole (r\<lparr>role_meta := f (role_meta r)\<rparr>)"
| "mapMeta f (OClusterRoleBinding b) = OClusterRoleBinding (b\<lparr>binding_meta := f (binding_meta b)\<rparr>)"
| "mapMeta f (ONamespace n) = ONamespace (n\<lparr>ns_meta := f (ns_meta n)\<rparr>)"
| "mapMeta f (OServiceAccount s) = OServiceAccount (s\<lparr>sa_meta := f (sa_meta s)\<rparr>)"
| "mapMeta f (OCrd c) = OCrd (c\<lparr>crd_meta := f (crd_meta c)\<rparr>)"

lemma objMeta_mapMeta [simp]: "objMeta (mapMeta f x) = f (objMeta x)"
  by (cases x) simp_all

text \<open>Type assertions \<open>x.(*T)\<close>.\<close>

definition asUser :: "RuntimeObject \<Rightarrow> User option" where
  "asUser x = (case x of OUser v \<Rightarrow> Some v | _ \<Rightarrow> None)"

definition asLoginRecord :: "RuntimeObject \<Rightarrow> LoginRecord option" where
  "asLoginRecord x = (case x of OLoginRecord v \<Rightarrow> Some v | _ \<Rightarrow> None)"

definition asGlobalRole :: "RuntimeObject \<Rightarrow> RoleObj option" where
  "asGlobalRole x = (case x of OGlobalRole v \<Rightarrow> Some v | _ \<Rightarrow> None)"

definition asGlobalRoleBinding :: "RuntimeObject \<Rightarrow> BindingObj option" where
  "asGlobalRoleBinding x = (case x of OGlobalRoleBinding v \<Rightarrow> Some v | _ \<Rightarrow> None)"

definition asRole :: "RuntimeObject \<Rightarrow> RoleObj option" where
  "asRole x = (case x of ORole v \<Rightarrow> Some v | _ \<Rightarrow> None)"

definition asRoleBinding :: "RuntimeObject \<Rightarrow> BindingObj option" where
  "asRoleBinding x = (case x of ORoleBinding v \<Rightarrow> Some v | _ \<Rightarrow> None)"

definition asClusterRole :: "RuntimeObject \<Rightarrow> RoleObj option" where
  "asClusterRole x = (case x of OClusterRole v \<Rightarrow> Some v | _ \<Rightarrow> None)"

definition asClusterRoleBinding :: "RuntimeObject \<Rightarrow> BindingObj option" where
  "asClusterRoleBinding x = (case x of OClusterRoleBinding v \<Rightarrow> Some v | _ \<Rightarrow> None)"

definition asNamespace :: "RuntimeObject \<Rightarrow> NamespaceObj option" where
  "asNamespace x = (case x of ONamespace v \<Rightarrow> Some v | _ \<Rightarrow> None)"

definition asServiceAccount :: "RuntimeObject \<Rightarrow> ServiceAccountObj option" where
  "asServiceAccount x = (case x of OServiceAccount v \<Rightarrow> Some v | _ \<Rightarrow> None)"

definition asCrd :: "RuntimeObject \<Rightarrow> CrdObj option" where
  "asCrd x = (case x of OCrd v \<Rightarrow> Some v | _ \<Rightarrow> None)"

lemmas assertion_defs = asUser_def asLoginRecord_def asGlobalRole_def asGlobalRoleBinding_def asRole_def asRoleBinding_def asClusterRole_def asClusterRoleBinding_def asNamespace_def asServiceAccount_def asCrd_def

lemma assertion_simps [simp]:
  "asUser (OUser xUser) = Some xUser"
  "asLoginRecord (OLoginRecord xLoginRecord) = Some xLoginRecord"
  "asGlobalRole (OGlobalRole xGlobalRole) = Some xGlobalRole"
  "asGlobalRoleBinding (OGlobalRoleBinding xGlobalRoleBinding) = Some xGlobalRoleBinding"
  "asRole (ORole xRole) = Some xRole"
  "asRoleBinding (ORoleBinding xRoleBinding) = Some xRoleBinding"
  "asClusterRole (OClusterRole xClusterRole) = Some xClusterRole"
  "asClusterRoleBinding (OClusterRoleBinding xClusterRoleBinding) = Some xClusterRoleBinding"
  "asNamespace (ONamespace xNamespace) = Some xNamespace"
  "asServiceAccount (OServiceAccount xServiceAccount) = Some xServiceAccount"
  "asCrd (OCrd xCrd) = Some xCrd"
  by (simp_all add: assertion_defs)

end
