(* ===== verification/Resource_List.thy ===== *)
theory Resource_List
  imports Iam_Types Query_Params
begin

text \<open>
  \<open>pkg/middles/resources/v1alpha3/interface.go\<close>: the listing algorithm that every resource getter
  ends in (scrub, filter, transform, sort, page), the default comparison and the default filter.
  \<open>sort.Slice\<close> (\<open>sortf\<close>) and \<open>labels.Parse\<close> (\<open>parse\<close>) are parameters. The slice expression at the end
  may panic, so the result is an outcome. The query is a pointer that the code updates, so the
  updated query is returned as well.
\<close>

section \<open>The comparison and the filters\<close>

record ListResult =
  Items :: "RuntimeObject list"
  TotalItems :: int

definition DefaultObjectMetaCompare :: "ObjectMeta \<Rightarrow> ObjectMeta \<Rightarrow> string \<Rightarrow> bool" where
  "DefaultObjectMetaCompare left right sortBy =
     (if sortBy = FieldName then str_less (Name right) (Name left)
      else if CreationTimestamp left = CreationTimestamp right
        then str_less (Name right) (Name left)
      else CreationTimestamp left > CreationTimestamp right)"

definition labelMatch :: "(string \<Rightarrow> goerr + selector) \<Rightarrow> strmap \<Rightarrow> string \<Rightarrow> bool" where
  "labelMatch parse m flt = (case parse flt of Inl _ \<Rightarrow> False | Inr sel \<Rightarrow> sel m)"

definition DefaultObjectMetaFilter ::
  "(string \<Rightarrow> goerr + selector) \<Rightarrow> ObjectMeta \<Rightarrow> string \<Rightarrow> string \<Rightarrow> bool" where
  "DefaultObjectMetaFilter parse item field value =
     (if field = FieldNames then list_ex (\<lambda>name. Name item = name) (SplitChar value CHR '','')
      else if field = FieldName then Contains (Name item) value
      else if field = FieldUID then UID item = value
      else if field = FieldNamespace then Namespace item = value
      else if field = FieldOwnerReference
        then list_ex (\<lambda>r. owner_UID r = value) (OwnerReferences item)
      else if field = FieldOwnerKind
        then list_ex (\<lambda>r. owner_Kind r = value) (OwnerReferences item)
      else if field = FieldAnnotation then labelMatch parse (Annotations item) value
      else if field = FieldLabel then labelMatch parse (Labels item) value
      else False)"

section \<open>Listing\<close>

type_synonym compareFunc = "RuntimeObject \<Rightarrow> RuntimeObject \<Rightarrow> string \<Rightarrow> bool"
type_synonym filterFunc = "RuntimeObject \<Rightarrow> string \<Rightarrow> string \<Rightarrow> bool"
type_synonym sorter = "(RuntimeObject \<Rightarrow> RuntimeObject \<Rightarrow> bool) \<Rightarrow> RuntimeObject list \<Rightarrow> RuntimeObject list"

fun selectedBy :: "filterFunc \<Rightarrow> RuntimeObject \<Rightarrow> (string \<times> string) list \<Rightarrow> bool" where
  "selectedBy ff obj [] = True"
| "selectedBy ff obj ((field, value) # fs) =
     (if \<not> ff obj field value then False else selectedBy ff obj fs)"

fun filterObjects ::
  "filterFunc \<Rightarrow> (RuntimeObject \<Rightarrow> RuntimeObject) list \<Rightarrow> (string \<times> string) list \<Rightarrow>
   RuntimeObject list \<Rightarrow> RuntimeObject list" where
  "filterObjects ff transforms fs [] = []"
| "filterObjects ff transforms fs (x # xs) =
     (if selectedBy ff x fs
      then fold (\<lambda>t y. t y) transforms x # filterObjects ff transforms fs xs
      else filterObjects ff transforms fs xs)"

definition sortLess :: "compareFunc \<Rightarrow> Query \<Rightarrow> RuntimeObject \<Rightarrow> RuntimeObject \<Rightarrow> bool" where
  "sortLess cmp q x y =
     (if \<not> q_Ascending q then cmp x y (q_SortBy q) else \<not> cmp x y (q_SortBy q))"

definition objectsToInterfaces :: "RuntimeObject list \<Rightarrow> RuntimeObject list" where
  "objectsToInterfaces objs = fold (\<lambda>obj res. res @ [obj]) objs []"

definition withPagination :: "Query \<Rightarrow> Query" where
  "withPagination q =
     (case q_Pagination q of None \<Rightarrow> q\<lparr>q_Pagination := Some NoPagination\<rparr> | Some _ \<Rightarrow> q)"

definition DefaultList ::
  "sorter \<Rightarrow> RuntimeObject list \<Rightarrow> Query \<Rightarrow> compareFunc \<Rightarrow> filterFunc \<Rightarrow>
   (RuntimeObject \<Rightarrow> RuntimeObject) list \<Rightarrow> Query \<times> ListResult go" where
  "DefaultList sortf objects q cmp ff transforms =
     (let filtered = sortf (sortLess cmp q) (filterObjects ff transforms (q_Filters q) objects);
          q' = withPagination q;
          (start, end) = GetValidPagination (the (q_Pagination q')) (int (length filtered))
      in (q',
          case goSlice filtered start end of
            Inl p \<Rightarrow> Inl p
          | Inr page \<Rightarrow> Inr \<lparr>Items = objectsToInterfaces page,
                            TotalItems = int (length filtered)\<rparr>))"

text \<open>
  The objects come from the shared informer cache and are pointers: the scrubbed objects are what
  the cache holds afterwards.
\<close>

definition scrubMeta :: "ObjectMeta \<Rightarrow> ObjectMeta" where
  "scrubMeta m = m\<lparr>ManagedFields := [], Annotations := mdelete (Annotations m) lastAppliedAnnotation\<rparr>"

definition scrub :: "RuntimeObject \<Rightarrow> RuntimeObject" where
  "scrub = mapMeta scrubMeta"

type_synonym listing = "RuntimeObject list \<times> Query \<times> ListResult out"

definition DefaultObjectList ::
  "sorter \<Rightarrow> RuntimeObject list \<Rightarrow> Query \<Rightarrow> compareFunc \<Rightarrow> filterFunc \<Rightarrow>
   (RuntimeObject \<Rightarrow> RuntimeObject) list \<Rightarrow> listing" where
  "DefaultObjectList sortf objects q cmp ff transforms =
     (let objects' = map scrub objects;
          (q', r) = DefaultList sortf objects' q cmp ff transforms
      in (objects', q', ofGo r))"

section \<open>Lemmas\<close>

lemma objectsToInterfaces_id [simp]: "objectsToInterfaces xs = xs"
proof -
  have "fold (\<lambda>obj res. res @ [obj]) xs acc = acc @ xs" for acc
    by (induction xs arbitrary: acc) simp_all
  then show ?thesis by (simp add: objectsToInterfaces_def)
qed

lemma selectedBy_iff: "selectedBy ff x fs \<longleftrightarrow> (\<forall>(f, v) \<in> set fs. ff x f v)"
  by (induction ff x fs rule: selectedBy.induct) auto

lemma filterObjects_eq: "filterObjects ff [] fs xs = filter (\<lambda>x. selectedBy ff x fs) xs"
  by (induction xs) simp_all

lemma withPagination_simps [simp]:
  "q_Filters (withPagination q) = q_Filters q"
  "q_SortBy (withPagination q) = q_SortBy q"
  "q_Ascending (withPagination q) = q_Ascending q"
  "q_LabelSelector (withPagination q) = q_LabelSelector q"
  by (simp_all add: withPagination_def split: option.split)

lemma withPagination_Some: "\<exists>p. q_Pagination (withPagination q) = Some p"
  by (simp add: withPagination_def split: option.split)

lemma Name_scrub [simp]: "Name (objMeta (scrub x)) = Name (objMeta x)"
  by (simp add: scrub_def scrubMeta_def)

lemma scrub_idem [simp]: "scrub (scrub x) = scrub x"
proof -
  have "scrubMeta (scrubMeta m) = scrubMeta m" for m
    by (cases "Annotations m") (simp_all add: scrubMeta_def mdelete_def)
  then show ?thesis by (cases x) (simp_all add: scrub_def)
qed

text \<open>The default comparison is a strict weak order on metadata, whatever the field.\<close>

lemma strictWeak_metaCompare:
  "strictWeak (\<lambda>x y. DefaultObjectMetaCompare (f x) (f y) sortBy) A"
proof -
  have trans: "str_less x y \<Longrightarrow> str_less y z \<Longrightarrow> str_less x z" for x y z
    by (rule str_less_trans)
  have conn: "str_less x z \<Longrightarrow> str_less x y \<or> str_less y z" for x y z
    using str_less_total [of x y] str_less_trans [of y x z] by auto
  show ?thesis
    unfolding strictWeak_def DefaultObjectMetaCompare_def
    by (auto intro: trans dest: conn split: if_splits)
qed

lemma goSlice_ok: "0 \<le> s \<Longrightarrow> s \<le> e \<Longrightarrow> e \<le> int (length xs) \<Longrightarrow> isOk (goSlice xs s e)"
  by (simp add: goSlice_def)

text \<open>A query whose bounds do not overflow: its page is a contiguous piece of the sorted matches.\<close>

definition pageOk :: "Query \<Rightarrow> bool" where
  "pageOk q \<longleftrightarrow>
     (case q_Pagination q of None \<Rightarrow> True
      | Some p \<Rightarrow> Limit p \<noteq> -1 \<longrightarrow> Offset p + Limit p \<le> MaxInt64)"

context slice_sort begin

lemma sortf_mono: "strictWeak lt A \<Longrightarrow> set xs \<subseteq> A \<Longrightarrow> sorted_wrt (\<lambda>x y. \<not> lt y x) (sortf lt xs)"
  by (rule ordered) (rule strictWeak_mono)

end

lemma pageOk_bounds:
  assumes "pageOk q" and "GetValidPagination (the (q_Pagination (withPagination q))) n = (s, e)" and "0 \<le> n"
  shows "0 \<le> s \<and> s \<le> e \<and> e \<le> n"
proof (rule GetValidPagination_bounds [OF assms(2,3)])
  show "Limit (the (q_Pagination (withPagination q))) \<noteq> -1 \<Longrightarrow>
        Offset (the (q_Pagination (withPagination q))) + Limit (the (q_Pagination (withPagination q))) \<le> MaxInt64"
    using assms(1)
    by (auto simp: pageOk_def withPagination_def NoPagination_def newPagination_def split: option.splits)
qed

lemma DefaultList_ok:
  assumes "pageOk q"
  shows "\<exists>s n. DefaultList sortf objs q cmp ff ts =
    (withPagination q,
     Inr \<lparr>Items = take n (drop s (sortf (sortLess cmp q) (filterObjects ff ts (q_Filters q) objs))),
          TotalItems = int (length (sortf (sortLess cmp q) (filterObjects ff ts (q_Filters q) objs)))\<rparr>)"
proof -
  define xs where "xs = sortf (sortLess cmp q) (filterObjects ff ts (q_Filters q) objs)"
  obtain s e where se: "GetValidPagination (the (q_Pagination (withPagination q))) (int (length xs)) = (s, e)"
    by fastforce
  from pageOk_bounds [OF assms se]
  have "0 \<le> s \<and> s \<le> e \<and> e \<le> int (length xs)" by simp
  then show ?thesis
    using se unfolding DefaultList_def xs_def [symmetric]
    by (auto simp: goSlice_def Let_def)
qed

text \<open>Consecutive pages of the sorted matches, glued together, give the matches back.\<close>

lemma pages_tile:
  "concat (map (\<lambda>p. take n (drop (p * n) xs)) [0..<k]) = take (k * n) xs"
proof (induction k)
  case (Suc k)
  then show ?case by (simp add: add.commute [of n] take_add)
qed simp

lemma DefaultList_page:
  assumes q: "q_Pagination q = Some \<lparr>Limit = int n, Offset = int off\<rparr>"
    and max: "int (off + n) \<le> MaxInt64" and "0 < n"
    and xs: "xs = sortf (sortLess cmp q) (filterObjects ff ts (q_Filters q) objs)"
  shows "DefaultList sortf objs q cmp ff ts =
    (q, Inr \<lparr>Items = take n (drop off xs), TotalItems = int (length xs)\<rparr>)"
proof -
  have w: "withPagination q = q" using q by (simp add: withPagination_def)
  show ?thesis
  proof (cases "off \<le> length xs")
    case True
    have v: "GetValidPagination \<lparr>Limit = int n, Offset = int off\<rparr> (int (length xs)) =
      (int off, int (min (length xs) (off + n)))"
      using GetValidPagination_page [of "\<lparr>Limit = int n, Offset = int off\<rparr>" "int (length xs)"]
        True max by simp
    have "take (min (length xs) (off + n) - off) (drop off xs) = take n (drop off xs)"
      by (simp add: min_def)
    then show ?thesis
      using True w q v unfolding DefaultList_def xs [symmetric] by (simp add: goSlice_def nat_diff_distrib del: of_nat_min)
  next
    case False
    then have "GetValidPagination \<lparr>Limit = int n, Offset = int off\<rparr> (int (length xs)) = (0, 0)"
      by (auto simp: GetValidPagination_def NoPagination_def newPagination_def)
    with False w q show ?thesis
      unfolding DefaultList_def xs [symmetric] by (simp add: goSlice_def)
  qed
qed

lemma DefaultList_unlimited:
  assumes "q_Pagination q = Some NoPagination"
  shows "DefaultList sortf objs q cmp ff ts =
    (q, Inr \<lparr>Items = sortf (sortLess cmp q) (filterObjects ff ts (q_Filters q) objs),
             TotalItems = int (length (sortf (sortLess cmp q) (filterObjects ff ts (q_Filters q) objs)))\<rparr>)"
  using assms
  by (simp add: DefaultList_def withPagination_def GetValidPagination_def goSlice_def Let_def)

end
