(* ===== verification/Health_Types.thy ===== *)
theory Health_Types
  imports Iam_Types
begin

text \<open>
  The types of health checks, \<open>pkg/api/core.ai.io/v1/types.go\<close>, with what they use of the Kubernetes
  types. The maps of the specification are lists of entries with distinct keys, in the order of an
  iteration over them.
\<close>

section \<open>Types\<close>

record IntOrString =
  isString :: bool
  IntVal :: int
  StrVal :: string

record HTTPGetAction =
  act_Path :: string
  act_Port :: IntOrString
  act_Host :: string
  act_Scheme :: string

record Probe =
  HTTPGet :: "HTTPGetAction option"

record HealthSpec =
  Interval :: duration
  ComponentSelectors :: "(string \<times> string) list option"
  ServiceProbes :: "(string \<times> Probe) list option"

record Pod =
  pod_meta :: ObjectMeta
  pod_Phase :: string
  ContainerStatuses :: "int list option" \<comment> \<open>the restart counts\<close>

record PodStatus =
  ps_Name :: string
  ps_Namespace :: string
  RestartCount :: int
  ps_Status :: string
  ps_CreationTimestamp :: time

record Component =
  comp_Name :: string
  PodList :: "PodStatus list"
  comp_Message :: string

record HealthStatus =
  Components :: "(string \<rightharpoonup> Component) option"

record Health =
  health_meta :: ObjectMeta
  health_spec :: HealthSpec
  health_status :: HealthStatus

end
