(* ===== verification/Resource_Getters.thy ===== *)
theory Resource_Getters
  imports Resource_List Health_Types
begin

text \<open>
  The generated listers under \<open>pkg/client/ai/listers\<close> and the resource getters under
  \<open>pkg/middles/resources/v1alpha3\<close>. An informer's indexer (\<open>cache.Indexer\<close>, with \<open>cache.ListAll\<close> on
  it) and the listers of the Kubernetes client library are parameters: records of functions. Each
  getter has a \<open>Get\<close>, a \<open>List\<close>, a \<open>compare\<close> and a \<open>filter\<close>. The locale \<open>resource_getter\<close> is the
  contract of \<open>v1alpha3.Interface\<close>, interpreted on every getter of the directory.
\<close>

section \<open>Listers\<close>

record 'a indexer =
  GetByKey :: "string \<Rightarrow> goerr + 'a option"
  ListAll :: "selector \<Rightarrow> goerr + 'a list"

record 'a lister =
  lget :: "string \<Rightarrow> goerr + 'a"
  llist :: "selector \<Rightarrow> goerr + 'a list"

record 'a nslister =
  nsget :: "string \<Rightarrow> string \<Rightarrow> goerr + 'a"
  nslist :: "string \<Rightarrow> selector \<Rightarrow> goerr + 'a list"

definition indexerGet :: "string \<Rightarrow> 'a indexer \<Rightarrow> string \<Rightarrow> goerr + 'a" where
  "indexerGet resource ix name =
     (case GetByKey ix name of
        Inl err \<Rightarrow> Inl err
      | Inr None \<Rightarrow> Inl (NotFound resource name)
      | Inr (Some obj) \<Rightarrow> Inr obj)"

definition userLister :: "User indexer \<Rightarrow> User lister" where
  "userLister ix = \<lparr>lget = indexerGet ''user'' ix, llist = ListAll ix\<rparr>"

definition loginRecordLister :: "LoginRecord indexer \<Rightarrow> LoginRecord lister" where
  "loginRecordLister ix = \<lparr>lget = indexerGet ''loginrecord'' ix, llist = ListAll ix\<rparr>"

definition globalRoleLister :: "RoleObj indexer \<Rightarrow> RoleObj lister" where
  "globalRoleLister ix = \<lparr>lget = indexerGet ''globalrole'' ix, llist = ListAll ix\<rparr>"

definition globalRoleBindingLister :: "BindingObj indexer \<Rightarrow> BindingObj lister" where
  "globalRoleBindingLister ix = \<lparr>lget = indexerGet ''globalrolebinding'' ix, llist = ListAll ix\<rparr>"

definition healthLister :: "Health indexer \<Rightarrow> Health lister" where
  "healthLister ix = \<lparr>lget = indexerGet ''health'' ix, llist = ListAll ix\<rparr>"

lemmas lister_defs = userLister_def loginRecordLister_def globalRoleLister_def
  globalRoleBindingLister_def healthLister_def indexerGet_def

text \<open>The shared informer factories: the indexers of the program's own kinds, the library's listers.\<close>

record Informers =
  userIx :: "User indexer"
  loginRecordIx :: "LoginRecord indexer"
  globalRoleIx :: "RoleObj indexer"
  globalRoleBindingIx :: "BindingObj indexer"
  k8sRoles :: "RoleObj nslister"
  k8sRoleBindings :: "BindingObj nslister"
  k8sClusterRoles :: "RoleObj lister"
  k8sClusterRoleBindings :: "BindingObj lister"
  k8sNamespaces :: "NamespaceObj lister"
  k8sServiceAccounts :: "ServiceAccountObj nslister"
  crds :: "CrdObj lister"

definition usersLister :: "Informers \<Rightarrow> User lister" where
  "usersLister infs = userLister (userIx infs)"

definition loginRecordsLister :: "Informers \<Rightarrow> LoginRecord lister" where
  "loginRecordsLister infs = loginRecordLister (loginRecordIx infs)"

definition globalRolesLister :: "Informers \<Rightarrow> RoleObj lister" where
  "globalRolesLister infs = globalRoleLister (globalRoleIx infs)"

definition globalRoleBindingsLister :: "Informers \<Rightarrow> BindingObj lister" where
  "globalRoleBindingsLister infs = globalRoleBindingLister (globalRoleBindingIx infs)"

text \<open>The library functions that listings use: \<open>sort.Slice\<close> and \<open>labels.Parse\<close>.\<close>

record Libs =
  lib_sort :: sorter
  lib_parse :: "string \<Rightarrow> goerr + selector"

section \<open>Getters\<close>

record Getter =
  getterGet :: "string \<Rightarrow> string \<Rightarrow> goerr + RuntimeObject"
  getterList :: "string \<Rightarrow> Query \<Rightarrow> listing"

definition listWith ::
  "Libs \<Rightarrow> (selector \<Rightarrow> goerr + 'a list) \<Rightarrow> ('a \<Rightarrow> RuntimeObject) \<Rightarrow> compareFunc \<Rightarrow> filterFunc \<Rightarrow>
   Query \<Rightarrow> listing" where
  \<comment> \<open>the common body of \<open>List\<close>: \<open>lister.List(query.Selector())\<close>, the error return, the listing\<close>
  "listWith libs src mk cmp ff q =
     (case src (Selector (lib_parse libs) q) of
        Inl err \<Rightarrow> ([], q, Inl (Err err))
      | Inr objs \<Rightarrow> DefaultObjectList (lib_sort libs) (map mk objs) q cmp ff [])"

definition mapRes :: "('a \<Rightarrow> 'b) \<Rightarrow> goerr + 'a \<Rightarrow> goerr + 'b" where
  "mapRes f r = (case r of Inl e \<Rightarrow> Inl e | Inr x \<Rightarrow> Inr (f x))"

subsection \<open>Roles and bindings\<close>

definition role_compare :: compareFunc where
  "role_compare left right field =
     (case asRole left of None \<Rightarrow> False
      | Some l \<Rightarrow> (case asRole right of None \<Rightarrow> False
          | Some r \<Rightarrow> DefaultObjectMetaCompare (role_meta l) (role_meta r) field))"

definition role_filter :: "Libs \<Rightarrow> filterFunc" where
  "role_filter libs item f v =
     (case asRole item of None \<Rightarrow> False
      | Some r \<Rightarrow>
     DefaultObjectMetaFilter (lib_parse libs) (role_meta r) f v)"

definition rolesGetter :: "Libs \<Rightarrow> Informers \<Rightarrow> Getter" where
  "rolesGetter libs infs = \<lparr>
     getterGet = (\<lambda>namespace name. mapRes ORole (nsget (k8sRoles infs) namespace name)),
     getterList = (\<lambda>namespace. listWith libs (nslist (k8sRoles infs) namespace) ORole
                                 role_compare (role_filter libs))\<rparr>"

definition rolebinding_compare :: compareFunc where
  "rolebinding_compare left right field =
     (case asRoleBinding left of None \<Rightarrow> False
      | Some l \<Rightarrow> (case asRoleBinding right of None \<Rightarrow> False
          | Some r \<Rightarrow> DefaultObjectMetaCompare (binding_meta l) (binding_meta r) field))"

definition rolebinding_filter :: "Libs \<Rightarrow> filterFunc" where
  "rolebinding_filter libs item f v =
     (case asRoleBinding item of None \<Rightarrow> False
      | Some b \<Rightarrow>
     DefaultObjectMetaFilter (lib_parse libs) (binding_meta b) f v)"

definition rolebindingsGetter :: "Libs \<Rightarrow> Informers \<Rightarrow> Getter" where
  "rolebindingsGetter libs infs = \<lparr>
     getterGet = (\<lambda>namespace name. mapRes ORoleBinding (nsget (k8sRoleBindings infs) namespace name)),
     getterList = (\<lambda>namespace. listWith libs (nslist (k8sRoleBindings infs) namespace) ORoleBinding
                                 rolebinding_compare (rolebinding_filter libs))\<rparr>"

definition clusterrole_compare :: compareFunc where
  "clusterrole_compare left right field =
     (case asClusterRole left of None \<Rightarrow> False
      | Some l \<Rightarrow> (case asClusterRole right of None \<Rightarrow> False
          | Some r \<Rightarrow> DefaultObjectMetaCompare (role_meta l) (role_meta r) field))"

definition clusterrole_filter :: "Libs \<Rightarrow> filterFunc" where
  "clusterrole_filter libs item f v =
     (case asClusterRole item of None \<Rightarrow> False
      | Some r \<Rightarrow>
     DefaultObjectMetaFilter (lib_parse libs) (role_meta r) f v)"

definition clusterrolesGetter :: "Libs \<Rightarrow> Informers \<Rightarrow> Getter" where
  "clusterrolesGetter libs infs = \<lparr>
     getterGet = (\<lambda>namespace name. mapRes OClusterRole (lget (k8sClusterRoles infs) name)),
     getterList = (\<lambda>namespace. listWith libs (llist (k8sClusterRoles infs)) OClusterRole
                                 clusterrole_compare (clusterrole_filter libs))\<rparr>"

definition clusterrolebinding_compare :: compareFunc where
  "clusterrolebinding_compare left right field =
     (case asClusterRoleBinding left of None \<Rightarrow> False
      | Some l \<Rightarrow> (case asClusterRoleBinding right of None \<Rightarrow> False
          | Some r \<Rightarrow> DefaultObjectMetaCompare (binding_meta l) (binding_meta r) field))"

definition clusterrolebinding_filter :: "Libs \<Rightarrow> filterFunc" where
  "clusterrolebinding_filter libs item f v =
     (case asClusterRoleBinding item of None \<Rightarrow> False
      | Some b \<Rightarrow>
     DefaultObjectMetaFilter (lib_parse libs) (binding_meta b) f v)"

definition clusterrolebindingsGetter :: "Libs \<Rightarrow> Informers \<Rightarrow> Getter" where
  "clusterrolebindingsGetter libs infs = \<lparr>
     getterGet = (\<lambda>_ name. mapRes OClusterRoleBinding (lget (k8sClusterRoleBindings infs) name)),
     getterList = (\<lambda>_. listWith libs (llist (k8sClusterRoleBindings infs)) OClusterRoleBinding
                         clusterrolebinding_compare (clusterrolebinding_filter libs))\<rparr>"

definition globalrole_compare :: compareFunc where
  "globalrole_compare left right field =
     (case asGlobalRole left of None \<Rightarrow> False
      | Some l \<Rightarrow> (case asGlobalRole right of None \<Rightarrow> False
          | Some r \<Rightarrow> DefaultObjectMetaCompare (role_meta l) (role_meta r) field))"

definition globalrole_filter :: "Libs \<Rightarrow> filterFunc" where
  "globalrole_filter libs item f v =
     (case asGlobalRole item of None \<Rightarrow> False
      | Some r \<Rightarrow>
     DefaultObjectMetaFilter (lib_parse libs) (role_meta r) f v)"

definition globalrolesGetter :: "Libs \<Rightarrow> Informers \<Rightarrow> Getter" where
  "globalrolesGetter libs infs = \<lparr>
     getterGet = (\<lambda>_ name. mapRes OGlobalRole (lget (globalRolesLister infs) name)),
     getterList = (\<lambda>_. listWith libs (llist (globalRolesLister infs)) OGlobalRole
                         globalrole_compare (globalrole_filter libs))\<rparr>"

definition globalrolebinding_compare :: compareFunc where
  "globalrolebinding_compare left right field =
     (case asGlobalRoleBinding left of None \<Rightarrow> False
      | Some l \<Rightarrow> (case asGlobalRoleBinding right of None \<Rightarrow> False
          | Some r \<Rightarrow> DefaultObjectMetaCompare (binding_meta l) (binding_meta r) field))"

definition globalrolebinding_filter :: "Libs \<Rightarrow> filterFunc" where
  "globalrolebinding_filter libs item f v =
     (case asGlobalRoleBinding item of None \<Rightarrow> False
      | Some b \<Rightarrow>
     DefaultObjectMetaFilter (lib_parse libs) (binding_meta b) f v)"

definition globalrolebindingsGetter :: "Libs \<Rightarrow> Informers \<Rightarrow> Getter" where
  "globalrolebindingsGetter libs infs = \<lparr>
     getterGet = (\<lambda>_ name. mapRes OGlobalRoleBinding (lget (globalRoleBindingsLister infs) name)),
     getterList = (\<lambda>_. listWith libs (llist (globalRoleBindingsLister infs)) OGlobalRoleBinding
                         globalrolebinding_compare (globalrolebinding_filter libs))\<rparr>"

subsection \<open>Namespaces, service accounts, definitions, login records\<close>

definition namespace_compare :: compareFunc where
  "namespace_compare left right field =
     (case asNamespace left of None \<Rightarrow> False
      | Some l \<Rightarrow> (case asNamespace right of None \<Rightarrow> True
          | Some r \<Rightarrow> DefaultObjectMetaCompare (ns_meta l) (ns_meta r) field))"

definition namespace_filter :: "Libs \<Rightarrow> filterFunc" where
  "namespace_filter libs item f v =
     (case asNamespace item of None \<Rightarrow> False
      | Some n \<Rightarrow>
     (if f = FieldStatus then Phase n = v
      else DefaultObjectMetaFilter (lib_parse libs) (ns_meta n) f v))"

definition namespacesGetter :: "Libs \<Rightarrow> Informers \<Rightarrow> Getter" where
  "namespacesGetter libs infs = \<lparr>
     getterGet = (\<lambda>_ name. mapRes ONamespace (lget (k8sNamespaces infs) name)),
     getterList = (\<lambda>_. listWith libs (llist (k8sNamespaces infs)) ONamespace
                         namespace_compare (namespace_filter libs))\<rparr>"

definition serviceaccount_compare :: compareFunc where
  "serviceaccount_compare left right field =
     (case asServiceAccount left of None \<Rightarrow> False
      | Some l \<Rightarrow> (case asServiceAccount right of None \<Rightarrow> False
          | Some r \<Rightarrow> DefaultObjectMetaCompare (sa_meta l) (sa_meta r) field))"

definition serviceaccount_filter :: "Libs \<Rightarrow> filterFunc" where
  "serviceaccount_filter libs item f v =
     (case asServiceAccount item of None \<Rightarrow> False
      | Some s \<Rightarrow>
     DefaultObjectMetaFilter (lib_parse libs) (sa_meta s) f v)"

definition serviceaccountsGetter :: "Libs \<Rightarrow> Informers \<Rightarrow> Getter" where
  "serviceaccountsGetter libs infs = \<lparr>
     getterGet = (\<lambda>namespace name. mapRes OServiceAccount (nsget (k8sServiceAccounts infs) namespace name)),
     getterList = (\<lambda>namespace. listWith libs (nslist (k8sServiceAccounts infs) namespace) OServiceAccount
                                 serviceaccount_compare (serviceaccount_filter libs))\<rparr>"

definition crd_compare :: compareFunc where
  "crd_compare left right field =
     (case asCrd left of None \<Rightarrow> False
      | Some l \<Rightarrow> (case asCrd right of None \<Rightarrow> False
          | Some r \<Rightarrow> DefaultObjectMetaCompare (crd_meta l) (crd_meta r) field))"

definition crd_filter :: "Libs \<Rightarrow> filterFunc" where
  "crd_filter libs item f v =
     (case asCrd item of None \<Rightarrow> False
      | Some c \<Rightarrow>
     (if f = FieldName then Contains (Name (crd_meta c)) v \<or> Contains (crd_Kind c) v
      else DefaultObjectMetaFilter (lib_parse libs) (crd_meta c) f v))"

definition crdGetter :: "Libs \<Rightarrow> Informers \<Rightarrow> Getter" where
  "crdGetter libs infs = \<lparr>
     getterGet = (\<lambda>_ name. mapRes OCrd (lget (crds infs) name)),
     getterList = (\<lambda>_. listWith libs (llist (crds infs)) OCrd crd_compare (crd_filter libs))\<rparr>"

definition recordType :: string where "recordType = ''type''"

definition loginrecord_compare :: compareFunc where
  "loginrecord_compare left right field =
     (case asLoginRecord left of None \<Rightarrow> False
      | Some l \<Rightarrow> (case asLoginRecord right of None \<Rightarrow> False
          | Some r \<Rightarrow> DefaultObjectMetaCompare (record_meta l) (record_meta r) field))"

definition loginrecord_filter :: "Libs \<Rightarrow> filterFunc" where
  "loginrecord_filter libs item f v =
     (case asLoginRecord item of None \<Rightarrow> False
      | Some r \<Rightarrow>
     (if f = recordType then rec_Type (record_spec r) = v
      else DefaultObjectMetaFilter (lib_parse libs) (record_meta r) f v))"

definition loginrecordsGetter :: "Libs \<Rightarrow> Informers \<Rightarrow> Getter" where
  \<comment> \<open>\<open>Get\<close> reads the lister of users, as the source does\<close>
  "loginrecordsGetter libs infs = \<lparr>
     getterGet = (\<lambda>_ name. mapRes OUser (lget (usersLister infs) name)),
     getterList = (\<lambda>_. listWith libs (llist (loginRecordsLister infs)) OLoginRecord
                         loginrecord_compare (loginrecord_filter libs))\<rparr>"

subsection \<open>Users\<close>

definition ScopeNamespace :: string where "ScopeNamespace = ''namespace''"
definition ScopeCluster :: string where "ScopeCluster = ''cluster''"
definition ResourcesSingularRole :: string where "ResourcesSingularRole = ''role''"
definition ResourcesSingularClusterRole :: string where "ResourcesSingularClusterRole = ''clusterrole''"
definition ResourcesSingularGlobalRole :: string where "ResourcesSingularGlobalRole = ''globalrole''"
definition ResourcesSingularUser :: string where "ResourcesSingularUser = ''user''"
definition FieldEmail :: string where "FieldEmail = ''email''"

lemmas scope_defs = ScopeNamespace_def ScopeCluster_def ResourcesSingularRole_def
  ResourcesSingularClusterRole_def ResourcesSingularGlobalRole_def ResourcesSingularUser_def
  FieldEmail_def

definition user_compare :: compareFunc where
  "user_compare left right field =
     (case asUser left of None \<Rightarrow> False
      | Some l \<Rightarrow> (case asUser right of None \<Rightarrow> False
          | Some r \<Rightarrow> DefaultObjectMetaCompare (user_meta l) (user_meta r) field))"

definition user_filter :: "Libs \<Rightarrow> filterFunc" where
  "user_filter libs item f v =
     (case asUser item of None \<Rightarrow> False
      | Some u \<Rightarrow>
          if f = FieldEmail then Email (user_spec u) = v
          else DefaultObjectMetaFilter (lib_parse libs) (user_meta u) f v)"

definition containsUser :: "User list \<Rightarrow> string \<Rightarrow> bool" where
  "containsUser users username = list_ex (\<lambda>u. Name (user_meta u) = username) users"

definition annotateUser :: "string \<Rightarrow> string \<Rightarrow> User \<Rightarrow> User" where
  \<comment> \<open>on a deep copy: make the map when nil, then write\<close>
  "annotateUser key role u =
     u\<lparr>user_meta := (user_meta u)\<lparr>Annotations := mput (Annotations (user_meta u)) key role\<rparr>\<rparr>"

text \<open>The loop over the subjects of one binding and the loop over the bindings.\<close>

fun usersOfSubjects ::
  "(string \<Rightarrow> goerr + User) \<Rightarrow> string \<Rightarrow> string \<Rightarrow> Subject list \<Rightarrow> User list \<Rightarrow> goerr + User list" where
  "usersOfSubjects get key role [] users = Inr users"
| "usersOfSubjects get key role (subject # subjects) users =
     (if subj_Kind subject = ResourceKindUser then
        if containsUser users (subj_Name subject)
        then usersOfSubjects get key role subjects users
        else (case get (subj_Name subject) of
                Inl err \<Rightarrow>
                  if IsNotFound err then usersOfSubjects get key role subjects users else Inl err
              | Inr user \<Rightarrow>
                  usersOfSubjects get key role subjects (users @ [annotateUser key role user]))
      else usersOfSubjects get key role subjects users)"

fun usersOfBindings ::
  "(string \<Rightarrow> goerr + User) \<Rightarrow> string \<Rightarrow> (string \<Rightarrow> bool) \<Rightarrow> BindingObj list \<Rightarrow> User list \<Rightarrow>
   goerr + User list" where
  "usersOfBindings get key skip [] users = Inr users"
| "usersOfBindings get key skip (b # bs) users =
     (if skip (ref_Name (roleRef b)) then usersOfBindings get key skip bs users
      else (case usersOfSubjects get key (ref_Name (roleRef b)) (Subjects b) users of
              Inl err \<Rightarrow> Inl err
            | Inr users' \<Rightarrow> usersOfBindings get key skip bs users'))"

definition listAllUsersInNamespace :: "Informers \<Rightarrow> string \<Rightarrow> string \<Rightarrow> goerr + User list" where
  "listAllUsersInNamespace infs namespace role =
     (case nslist (k8sRoleBindings infs) namespace Everything of
        Inl err \<Rightarrow> Inl err
      | Inr roleBindings \<Rightarrow>
          usersOfBindings (lget (usersLister infs)) RoleAnnotation
            (\<lambda>r. role \<noteq> '''' \<and> r \<noteq> role) roleBindings [])"

definition listAllUsersByGlobalRole :: "Informers \<Rightarrow> string \<Rightarrow> goerr + User list" where
  "listAllUsersByGlobalRole infs globalRole =
     (case llist (globalRoleBindingsLister infs) Everything of
        Inl err \<Rightarrow> Inl err
      | Inr bindings \<Rightarrow>
          usersOfBindings (lget (usersLister infs)) GlobalRoleAnnotation
            (\<lambda>r. r \<noteq> globalRole) bindings [])"

definition listAllUsersInCluster :: "Informers \<Rightarrow> string \<Rightarrow> goerr + User list" where
  "listAllUsersInCluster infs clusterRole =
     (case llist (k8sClusterRoleBindings infs) Everything of
        Inl err \<Rightarrow> Inl err
      | Inr roleBindings \<Rightarrow>
          usersOfBindings (lget (usersLister infs)) ClusterRoleAnnotation
            (\<lambda>r. clusterRole \<noteq> '''' \<and> r \<noteq> clusterRole) roleBindings [])"

definition selectUsers :: "Libs \<Rightarrow> Informers \<Rightarrow> Query \<Rightarrow> Query \<times> (goerr + User list)" where
  "selectUsers libs infs q =
     (let namespace = filterGet q ScopeNamespace in
      if namespace \<noteq> '''' then
        (filterDelete ResourcesSingularRole (filterDelete ScopeNamespace q),
         listAllUsersInNamespace infs namespace (filterGet q ResourcesSingularRole))
      else if filterGet q ScopeCluster = ''true'' then
        (filterDelete ResourcesSingularClusterRole (filterDelete ScopeCluster q),
         listAllUsersInCluster infs (filterGet q ResourcesSingularClusterRole))
      else if filterGet q ResourcesSingularGlobalRole \<noteq> '''' then
        (filterDelete ResourcesSingularGlobalRole q,
         listAllUsersByGlobalRole infs (filterGet q ResourcesSingularGlobalRole))
      else (q, llist (usersLister infs) (Selector (lib_parse libs) q)))"

definition usersGetter :: "Libs \<Rightarrow> Informers \<Rightarrow> Getter" where
  "usersGetter libs infs = \<lparr>
     getterGet = (\<lambda>_ name. mapRes OUser (lget (usersLister infs) name)),
     getterList = (\<lambda>_ q.
       case selectUsers libs infs q of
         (q', Inl err) \<Rightarrow> ([], q', Inl (Err err))
       | (q', Inr users) \<Rightarrow>
           DefaultObjectList (lib_sort libs) (map OUser users) q' user_compare (user_filter libs) [])\<rparr>"

section \<open>The getter of any resource\<close>

text \<open>A \<open>schema.GroupVersionResource\<close> is a triple; the maps are searched by resource name only.\<close>

type_synonym getterMap = "((string \<times> string \<times> string) \<times> Getter) list"

record ResourceGetter =
  clusterResourceGetters :: getterMap
  namespacedResourceGetters :: getterMap

definition NewResourceGetter :: "Libs \<Rightarrow> Informers \<Rightarrow> ResourceGetter" where
  "NewResourceGetter libs infs = \<lparr>
     clusterResourceGetters =
       [(('''', ''v1'', ''namespaces''), namespacesGetter libs infs),
        ((''apiextensions.k8s.io'', ''v1'', ''customresourcedefinitions''), crdGetter libs infs)],
     namespacedResourceGetters =
       [(('''', ''v1'', ''serviceaccounts''), serviceaccountsGetter libs infs),
        ((''rbac.authorization.k8s.io'', ''v1'', ''rolebindings''), rolebindingsGetter libs infs)]\<rparr>"

fun findGetter :: "getterMap \<Rightarrow> string \<Rightarrow> Getter option" where
  "findGetter [] resource = None"
| "findGetter (((g, v, r), getter) # gs) resource =
     (if r = resource then Some getter else findGetter gs resource)"

definition TryResource :: "ResourceGetter \<Rightarrow> bool \<Rightarrow> string \<Rightarrow> Getter option" where
  "TryResource rg clusterScope resource =
     (case (if clusterScope then findGetter (clusterResourceGetters rg) resource else None) of
        Some v \<Rightarrow> Some v
      | None \<Rightarrow> findGetter (namespacedResourceGetters rg) resource)"

definition ErrResourceNotSupported :: goerr where
  "ErrResourceNotSupported = Msg ''resource is not supported''"

definition resourceGet ::
  "ResourceGetter \<Rightarrow> string \<Rightarrow> string \<Rightarrow> string \<Rightarrow> goerr + RuntimeObject" where
  "resourceGet rg resource namespace name =
     (case TryResource rg (namespace = '''') resource of
        None \<Rightarrow> Inl ErrResourceNotSupported
      | Some getter \<Rightarrow> getterGet getter namespace name)"

definition resourceList :: "ResourceGetter \<Rightarrow> string \<Rightarrow> string \<Rightarrow> Query \<Rightarrow> listing" where
  "resourceList rg resource namespace q =
     (case TryResource rg (namespace = '''') resource of
        None \<Rightarrow> ([], q, Inl (Err ErrResourceNotSupported))
      | Some getter \<Rightarrow> getterList getter namespace q)"

section \<open>The contract of a getter\<close>

text \<open>
  \<open>prep\<close> is the effect of \<open>List\<close> on the query, \<open>src\<close> the objects it starts from, \<open>cmp\<close> and \<open>ff\<close> the
  comparison and the filter. A getter must start from objects of its own kind, on which the
  comparison is the default one.
\<close>

locale resource_getter = slice_sort sortf for sortf :: sorter +
  fixes getter :: Getter
    and prep :: "string \<Rightarrow> Query \<Rightarrow> Query"
    and src :: "string \<Rightarrow> Query \<Rightarrow> goerr + RuntimeObject list"
    and cmp :: compareFunc
    and ff :: filterFunc
  assumes list_law: "getterList getter ns q =
      (case src ns q of Inl e \<Rightarrow> ([], prep ns q, Inl (Err e))
       | Inr objs \<Rightarrow> DefaultObjectList sortf objs (prep ns q) cmp ff [])"
    and cmp_law: "src ns q = Inr objs \<Longrightarrow> x \<in> scrub ` set objs \<Longrightarrow> y \<in> scrub ` set objs \<Longrightarrow>
      cmp x y field = DefaultObjectMetaCompare (objMeta x) (objMeta y) field"
begin

definition matches :: "string \<Rightarrow> Query \<Rightarrow> RuntimeObject list \<Rightarrow> RuntimeObject list" where
  "matches ns q objs = filter (\<lambda>x. selectedBy ff x (q_Filters (prep ns q))) (map scrub objs)"

lemma list_error: "src ns q = Inl e \<Longrightarrow> snd (snd (getterList getter ns q)) = Inl (Err e)"
  by (simp add: list_law)

lemma list_page:
  assumes "src ns q = Inr objs" and "pageOk (prep ns q)"
  shows "\<exists>r s n xs. snd (snd (getterList getter ns q)) = Inr r \<and>
    Items r = take n (drop s xs) \<and> TotalItems r = int (length (matches ns q objs)) \<and>
    mset xs = mset (matches ns q objs) \<and>
    (\<not> q_Ascending (prep ns q) \<longrightarrow>
       sorted_wrt (\<lambda>x y. \<not> DefaultObjectMetaCompare (objMeta y) (objMeta x) (q_SortBy (prep ns q))) xs)"
proof -
  let ?q = "prep ns q" and ?m = "matches ns q objs"
  let ?lt = "sortLess cmp ?q"
  obtain s n where "DefaultList sortf (map scrub objs) ?q cmp ff [] =
      (withPagination ?q, Inr \<lparr>Items = take n (drop s (sortf ?lt ?m)), TotalItems = int (length (sortf ?lt ?m))\<rparr>)"
    using DefaultList_ok [OF assms(2), of sortf "map scrub objs" cmp ff "[]"]
    by (auto simp: matches_def filterObjects_eq)
  then have r: "snd (snd (getterList getter ns q)) =
      Inr \<lparr>Items = take n (drop s (sortf ?lt ?m)), TotalItems = int (length ?m)\<rparr>"
    by (simp add: list_law assms(1) DefaultObjectList_def)
  have sub: "set ?m \<subseteq> scrub ` set objs" by (auto simp: matches_def)
  have "sorted_wrt (\<lambda>x y. \<not> DefaultObjectMetaCompare (objMeta y) (objMeta x) (q_SortBy ?q)) (sortf ?lt ?m)"
    if "\<not> q_Ascending ?q"
  proof -
    have eq: "?lt x y = DefaultObjectMetaCompare (objMeta x) (objMeta y) (q_SortBy ?q)"
      if "x \<in> set ?m" "y \<in> set ?m" for x y
    proof -
      have "x \<in> scrub ` set objs" "y \<in> scrub ` set objs" using sub that by blast+
      then show ?thesis using \<open>\<not> q_Ascending ?q\<close> cmp_law [OF assms(1)] by (simp add: sortLess_def)
    qed
    have "strictWeak ?lt (set ?m)"
      using strictWeak_metaCompare [of objMeta "q_SortBy ?q" "set ?m"]
        strictWeak_cong [of "set ?m" ?lt, OF eq] by simp
    then have "sorted_wrt (\<lambda>x y. \<not> ?lt y x) (sortf ?lt ?m)" by (rule ordered)
    then show ?thesis
      by (rule sorted_wrt_mono_rel [rotated]) (use eq in auto)
  qed
  with r show ?thesis using perm [of ?lt ?m] by auto
qed

lemma list_unlimited:
  assumes "src ns q = Inr objs" and "q_Pagination (prep ns q) = Some NoPagination"
  shows "\<exists>r. snd (snd (getterList getter ns q)) = Inr r \<and> mset (Items r) = mset (matches ns q objs)"
proof -
  have "DefaultList sortf (map scrub objs) (prep ns q) cmp ff [] =
      (prep ns q, Inr \<lparr>Items = sortf (sortLess cmp (prep ns q)) (matches ns q objs),
         TotalItems = int (length (matches ns q objs))\<rparr>)"
    using DefaultList_unlimited [OF assms(2), of sortf] by (simp add: matches_def filterObjects_eq)
  then show ?thesis
    using perm by (simp add: list_law assms(1) DefaultObjectList_def)
qed

lemma list_total: "src ns q = Inr objs \<Longrightarrow> pageOk (prep ns q) \<Longrightarrow>
  \<exists>r. snd (snd (getterList getter ns q)) = Inr r \<and> TotalItems r = int (length (matches ns q objs))"
  using list_page by metis

lemma list_member:
  assumes "snd (snd (getterList getter ns q)) = Inr r" and "src ns q = Inr objs"
    and "pageOk (prep ns q)" and "x \<in> set (Items r)"
  shows "x \<in> scrub ` set objs \<and> (\<forall>(f, v) \<in> set (q_Filters (prep ns q)). ff x f v)"
proof -
  obtain s n xs where xs: "Items r = take n (drop s xs)" "mset xs = mset (matches ns q objs)"
    using list_page [OF assms(2,3)] assms(1) by auto
  then have "x \<in> set (matches ns q objs)"
    using assms(4) by (metis in_set_takeD in_set_dropD set_mset_mset)
  then show ?thesis by (auto simp: matches_def selectedBy_iff)
qed

end

text \<open>
  Every getter of the program keeps the contract, for any sort that keeps the contract of
  \<open>sort.Slice\<close> and any parser of selectors.
\<close>

locale listing_libs = lib: slice_sort "lib_sort libs" for libs :: Libs +
  fixes infs :: Informers

lemma scrub_kinds [simp]:
  "scrub (OUser u) = OUser (u\<lparr>user_meta := scrubMeta (user_meta u)\<rparr>)"
  "scrub (OLoginRecord l) = OLoginRecord (l\<lparr>record_meta := scrubMeta (record_meta l)\<rparr>)"
  "scrub (OGlobalRole r) = OGlobalRole (r\<lparr>role_meta := scrubMeta (role_meta r)\<rparr>)"
  "scrub (OGlobalRoleBinding b) = OGlobalRoleBinding (b\<lparr>binding_meta := scrubMeta (binding_meta b)\<rparr>)"
  "scrub (ORole r) = ORole (r\<lparr>role_meta := scrubMeta (role_meta r)\<rparr>)"
  "scrub (ORoleBinding b) = ORoleBinding (b\<lparr>binding_meta := scrubMeta (binding_meta b)\<rparr>)"
  "scrub (OClusterRole r) = OClusterRole (r\<lparr>role_meta := scrubMeta (role_meta r)\<rparr>)"
  "scrub (OClusterRoleBinding b) = OClusterRoleBinding (b\<lparr>binding_meta := scrubMeta (binding_meta b)\<rparr>)"
  "scrub (ONamespace n) = ONamespace (n\<lparr>ns_meta := scrubMeta (ns_meta n)\<rparr>)"
  "scrub (OServiceAccount s) = OServiceAccount (s\<lparr>sa_meta := scrubMeta (sa_meta s)\<rparr>)"
  "scrub (OCrd c) = OCrd (c\<lparr>crd_meta := scrubMeta (crd_meta c)\<rparr>)"
  by (simp_all add: scrub_def)

definition srcOf :: "Libs \<Rightarrow> ('a \<Rightarrow> RuntimeObject) \<Rightarrow> (string \<Rightarrow> selector \<Rightarrow> goerr + 'a list) \<Rightarrow>
  string \<Rightarrow> Query \<Rightarrow> goerr + RuntimeObject list" where
  "srcOf libs mk l ns q = mapRes (map mk) (l ns (Selector (lib_parse libs) q))"

lemma mapRes_Inr: "mapRes f r = Inr y \<longleftrightarrow> (\<exists>x. r = Inr x \<and> y = f x)"
  by (cases r) (auto simp: mapRes_def)

lemma listWith_law:
  "listWith libs (l ns) mk cmp ff q =
    (case srcOf libs mk l ns q of Inl e \<Rightarrow> ([], q, Inl (Err e))
     | Inr objs \<Rightarrow> DefaultObjectList (lib_sort libs) objs q cmp ff [])"
  by (cases "l ns (Selector (lib_parse libs) q)") (simp_all add: listWith_def srcOf_def mapRes_def)

lemmas getter_defs = rolesGetter_def rolebindingsGetter_def clusterrolesGetter_def
  clusterrolebindingsGetter_def globalrolesGetter_def globalrolebindingsGetter_def
  namespacesGetter_def serviceaccountsGetter_def crdGetter_def loginrecordsGetter_def usersGetter_def

lemmas compare_defs = role_compare_def rolebinding_compare_def clusterrole_compare_def
  clusterrolebinding_compare_def globalrole_compare_def globalrolebinding_compare_def
  namespace_compare_def serviceaccount_compare_def crd_compare_def loginrecord_compare_def
  user_compare_def

lemma matches_noFilters: "q_Filters q = [] \<Longrightarrow> filter (\<lambda>x. selectedBy ff x (q_Filters q)) xs = xs"
  by (induction xs) simp_all

context listing_libs begin

lemma contract:
  assumes "\<And>ns q. getterList getter ns q = listWith libs (l ns) mk cmp ff q"
    and "\<And>x y field. cmp (scrub (mk x)) (scrub (mk y)) field =
      DefaultObjectMetaCompare (objMeta (scrub (mk x))) (objMeta (scrub (mk y))) field"
  shows "resource_getter (lib_sort libs) getter (\<lambda>_ q. q) (srcOf libs mk l) cmp ff"
proof unfold_locales
  show "getterList getter ns q =
      (case srcOf libs mk l ns q of Inl e \<Rightarrow> ([], q, Inl (Err e))
       | Inr objs \<Rightarrow> DefaultObjectList (lib_sort libs) objs q cmp ff [])" for ns q
    by (simp add: assms(1) listWith_law)
qed (auto simp: srcOf_def mapRes_Inr assms(2))

end

sublocale listing_libs \<subseteq> roles: resource_getter "lib_sort libs" "rolesGetter libs infs" "\<lambda>_ q. q"
  "srcOf libs ORole (nslist (k8sRoles infs))" role_compare "role_filter libs"
  by (rule contract)
    (simp_all add: getter_defs compare_defs)

sublocale listing_libs \<subseteq> rolebindings: resource_getter "lib_sort libs" "rolebindingsGetter libs infs" "\<lambda>_ q. q"
  "srcOf libs ORoleBinding (nslist (k8sRoleBindings infs))" rolebinding_compare "rolebinding_filter libs"
  by (rule contract)
    (simp_all add: getter_defs compare_defs)

sublocale listing_libs \<subseteq> clusterroles: resource_getter "lib_sort libs" "clusterrolesGetter libs infs" "\<lambda>_ q. q"
  "srcOf libs OClusterRole (\<lambda>_. llist (k8sClusterRoles infs))" clusterrole_compare "clusterrole_filter libs"
  by (rule contract)
    (simp_all add: getter_defs compare_defs)

sublocale listing_libs \<subseteq> clusterrolebindings: resource_getter "lib_sort libs" "clusterrolebindingsGetter libs infs" "\<lambda>_ q. q"
  "srcOf libs OClusterRoleBinding (\<lambda>_. llist (k8sClusterRoleBindings infs))" clusterrolebinding_compare "clusterrolebinding_filter libs"
  by (rule contract)
    (simp_all add: getter_defs compare_defs)

sublocale listing_libs \<subseteq> globalroles: resource_getter "lib_sort libs" "globalrolesGetter libs infs" "\<lambda>_ q. q"
  "srcOf libs OGlobalRole (\<lambda>_. llist (globalRolesLister infs))" globalrole_compare "globalrole_filter libs"
  by (rule contract)
    (simp_all add: getter_defs compare_defs)

sublocale listing_libs \<subseteq> globalrolebindings: resource_getter "lib_sort libs" "globalrolebindingsGetter libs infs" "\<lambda>_ q. q"
  "srcOf libs OGlobalRoleBinding (\<lambda>_. llist (globalRoleBindingsLister infs))" globalrolebinding_compare "globalrolebinding_filter libs"
  by (rule contract)
    (simp_all add: getter_defs compare_defs)

sublocale listing_libs \<subseteq> namespaces: resource_getter "lib_sort libs" "namespacesGetter libs infs" "\<lambda>_ q. q"
  "srcOf libs ONamespace (\<lambda>_. llist (k8sNamespaces infs))" namespace_compare "namespace_filter libs"
  by (rule contract)
    (simp_all add: getter_defs compare_defs)

sublocale listing_libs \<subseteq> serviceaccounts: resource_getter "lib_sort libs" "serviceaccountsGetter libs infs" "\<lambda>_ q. q"
  "srcOf libs OServiceAccount (nslist (k8sServiceAccounts infs))" serviceaccount_compare "serviceaccount_filter libs"
  by (rule contract)
    (simp_all add: getter_defs compare_defs)

sublocale listing_libs \<subseteq> crds: resource_getter "lib_sort libs" "crdGetter libs infs" "\<lambda>_ q. q"
  "srcOf libs OCrd (\<lambda>_. llist (crds infs))" crd_compare "crd_filter libs"
  by (rule contract)
    (simp_all add: getter_defs compare_defs)

sublocale listing_libs \<subseteq> loginrecords: resource_getter "lib_sort libs" "loginrecordsGetter libs infs" "\<lambda>_ q. q"
  "srcOf libs OLoginRecord (\<lambda>_. llist (loginRecordsLister infs))" loginrecord_compare "loginrecord_filter libs"
  by (rule contract)
    (simp_all add: getter_defs compare_defs)

sublocale listing_libs \<subseteq> users: resource_getter "lib_sort libs" "usersGetter libs infs"
  "\<lambda>_ q. fst (selectUsers libs infs q)" "\<lambda>_ q. mapRes (map OUser) (snd (selectUsers libs infs q))"
  user_compare "user_filter libs"
  by unfold_locales
    (auto simp: getter_defs compare_defs mapRes_def split: prod.split sum.splits)

definition goLibs :: "(string \<Rightarrow> goerr + selector) \<Rightarrow> Libs" where
  "goLibs parse = \<lparr>lib_sort = insertionSort, lib_parse = parse\<rparr>"

interpretation go: listing_libs "goLibs parse" infs for parse infs
  by unfold_locales (simp_all add: goLibs_def ins.perm ins.ordered)

section \<open>Users by role\<close>

definition userSubject :: "BindingObj \<Rightarrow> string \<Rightarrow> bool" where
  "userSubject b name \<longleftrightarrow>
     list_ex (\<lambda>s. subj_Kind s = ResourceKindUser \<and> subj_Name s = name) (Subjects b)"

lemma Name_annotateUser [simp]: "Name (user_meta (annotateUser key role u)) = Name (user_meta u)"
  by (simp add: annotateUser_def)

lemma containsUser_iff [simp]: "containsUser us n \<longleftrightarrow> n \<in> (\<lambda>u. Name (user_meta u)) ` set us"
  by (auto simp: containsUser_def list_ex_iff)

lemma usersOfSubjects_spec:
  assumes "\<And>n u. get n = Inr u \<Longrightarrow> Name (user_meta u) = n"
    and "usersOfSubjects get key role ss us = Inr us'"
  shows "\<exists>new. us' = us @ new \<and>
    (distinct (map (\<lambda>u. Name (user_meta u)) us) \<longrightarrow> distinct (map (\<lambda>u. Name (user_meta u)) us')) \<and>
    (\<forall>u \<in> set new. mget (Annotations (user_meta u)) key = role \<and>
       (\<exists>s \<in> set ss. subj_Kind s = ResourceKindUser \<and> subj_Name s = Name (user_meta u))) \<and>
    (\<forall>s \<in> set ss. subj_Kind s = ResourceKindUser \<and> isOk (get (subj_Name s)) \<longrightarrow>
       subj_Name s \<in> (\<lambda>u. Name (user_meta u)) ` set us')"
  using assms(2)
proof (induction ss arbitrary: us)
  case Nil
  then show ?case by simp
next
  case (Cons s ss)
  consider (skip) "usersOfSubjects get key role ss us = Inr us'"
      "subj_Kind s = ResourceKindUser \<longrightarrow> subj_Name s \<in> (\<lambda>u. Name (user_meta u)) ` set us \<or> \<not> isOk (get (subj_Name s))"
    | (add) u where "subj_Kind s = ResourceKindUser" "subj_Name s \<notin> (\<lambda>u. Name (user_meta u)) ` set us"
        "get (subj_Name s) = Inr u" "usersOfSubjects get key role ss (us @ [annotateUser key role u]) = Inr us'"
    using Cons.prems by (auto split: if_splits sum.splits)
  then show ?case
  proof cases
    case skip
    from Cons.IH [OF skip(1)] show ?thesis using skip(2) by fastforce
  next
    case add
    then have "Name (user_meta u) = subj_Name s" using assms(1) by blast
    with Cons.IH [OF add(4)] show ?thesis
      using add(1-3) by (auto simp: annotateUser_def)
  qed
qed

lemma usersOfBindings_spec:
  assumes "\<And>n u. get n = Inr u \<Longrightarrow> Name (user_meta u) = n"
    and "usersOfBindings get key skip bs us = Inr us'"
  shows "\<exists>new. us' = us @ new \<and>
    (distinct (map (\<lambda>u. Name (user_meta u)) us) \<longrightarrow> distinct (map (\<lambda>u. Name (user_meta u)) us')) \<and>
    (\<forall>u \<in> set new. \<exists>b \<in> set bs. \<not> skip (ref_Name (roleRef b)) \<and> userSubject b (Name (user_meta u)) \<and>
       mget (Annotations (user_meta u)) key = ref_Name (roleRef b)) \<and>
    (\<forall>b \<in> set bs. \<forall>n. \<not> skip (ref_Name (roleRef b)) \<and> userSubject b n \<and> isOk (get n) \<longrightarrow>
       n \<in> (\<lambda>u. Name (user_meta u)) ` set us')"
  using assms(2)
proof (induction bs arbitrary: us)
  case Nil
  then show ?case by simp
next
  case (Cons b bs)
  show ?case
  proof (cases "skip (ref_Name (roleRef b))")
    case True
    with Cons.prems have "usersOfBindings get key skip bs us = Inr us'" by simp
    from Cons.IH [OF this] True show ?thesis by fastforce
  next
    case False
    then obtain us1 where us1: "usersOfSubjects get key (ref_Name (roleRef b)) (Subjects b) us = Inr us1"
        "usersOfBindings get key skip bs us1 = Inr us'"
      using Cons.prems by (auto split: sum.splits)
    obtain new1 where n1: "us1 = us @ new1"
      "distinct (map (\<lambda>u. Name (user_meta u)) us) \<longrightarrow> distinct (map (\<lambda>u. Name (user_meta u)) us1)"
      "\<forall>u \<in> set new1. mget (Annotations (user_meta u)) key = ref_Name (roleRef b) \<and>
         userSubject b (Name (user_meta u))"
      "\<forall>n. userSubject b n \<and> isOk (get n) \<longrightarrow> n \<in> (\<lambda>u. Name (user_meta u)) ` set us1"
      using usersOfSubjects_spec [OF assms(1) us1(1)]
      by (auto simp: userSubject_def list_ex_iff) blast+
    obtain new2 where n2: "us' = us1 @ new2"
      "distinct (map (\<lambda>u. Name (user_meta u)) us1) \<longrightarrow> distinct (map (\<lambda>u. Name (user_meta u)) us')"
      "\<forall>u \<in> set new2. \<exists>b \<in> set bs. \<not> skip (ref_Name (roleRef b)) \<and> userSubject b (Name (user_meta u)) \<and>
         mget (Annotations (user_meta u)) key = ref_Name (roleRef b)"
      "\<forall>b \<in> set bs. \<forall>n. \<not> skip (ref_Name (roleRef b)) \<and> userSubject b n \<and> isOk (get n) \<longrightarrow>
         n \<in> (\<lambda>u. Name (user_meta u)) ` set us'"
      using Cons.IH [OF us1(2)] by auto
    show ?thesis
      by (rule exI [of _ "new1 @ new2"]) (use n1 n2 False in auto)
  qed
qed

lemma indexerGet_name:
  "(\<And>n u. GetByKey ix n = Inr (Some u) \<Longrightarrow> f u = n) \<Longrightarrow> indexerGet r ix n = Inr u \<Longrightarrow> f u = n"
  by (auto simp: indexerGet_def split: sum.splits option.splits)

section \<open>Informers for concrete runs\<close>

definition listIndexer :: "('a \<Rightarrow> ObjectMeta) \<Rightarrow> 'a list \<Rightarrow> 'a indexer" where
  \<comment> \<open>an indexer over a list of objects\<close>
  "listIndexer md xs = \<lparr>GetByKey = (\<lambda>n. Inr (find (\<lambda>x. Name (md x) = n) xs)),
     ListAll = (\<lambda>sel. Inr (filter (\<lambda>x. sel (Labels (md x))) xs))\<rparr>"

definition listLister :: "string \<Rightarrow> ('a \<Rightarrow> ObjectMeta) \<Rightarrow> 'a list \<Rightarrow> 'a lister" where
  "listLister res md xs = \<lparr>
     lget = (\<lambda>n. case find (\<lambda>x. Name (md x) = n) xs of None \<Rightarrow> Inl (NotFound res n) | Some x \<Rightarrow> Inr x),
     llist = (\<lambda>sel. Inr (filter (\<lambda>x. sel (Labels (md x))) xs))\<rparr>"

definition listNsLister :: "string \<Rightarrow> ('a \<Rightarrow> ObjectMeta) \<Rightarrow> 'a list \<Rightarrow> 'a nslister" where
  "listNsLister res md xs = \<lparr>
     nsget = (\<lambda>ns n. case find (\<lambda>x. Namespace (md x) = ns \<and> Name (md x) = n) xs of
                None \<Rightarrow> Inl (NotFound res n) | Some x \<Rightarrow> Inr x),
     nslist = (\<lambda>ns sel. Inr (filter (\<lambda>x. (ns = '''' \<or> Namespace (md x) = ns) \<and> sel (Labels (md x))) xs))\<rparr>"

definition emptyInformers :: Informers where
  "emptyInformers = \<lparr>
     userIx = listIndexer user_meta [], loginRecordIx = listIndexer record_meta [],
     globalRoleIx = listIndexer role_meta [], globalRoleBindingIx = listIndexer binding_meta [],
     k8sRoles = listNsLister ''role'' role_meta [],
     k8sRoleBindings = listNsLister ''rolebinding'' binding_meta [],
     k8sClusterRoles = listLister ''clusterrole'' role_meta [],
     k8sClusterRoleBindings = listLister ''clusterrolebinding'' binding_meta [],
     k8sNamespaces = listLister ''namespace'' ns_meta [],
     k8sServiceAccounts = listNsLister ''serviceaccount'' sa_meta [],
     crds = listLister ''customresourcedefinition'' crd_meta []\<rparr>"

definition anyLibs :: Libs where
  "anyLibs = goLibs (\<lambda>_. Inr (\<lambda>_. True))"

lemma anyLibs_sort: "slice_sort (lib_sort anyLibs)"
  by (simp add: anyLibs_def goLibs_def ins.slice_sort_axioms)

lemmas lister_eval = listIndexer_def listLister_def listNsLister_def emptyInformers_def anyLibs_def
  goLibs_def lister_defs usersLister_def loginRecordsLister_def globalRolesLister_def
  globalRoleBindingsLister_def Selector_def

end
