(* ===== verification/Request_Info.thy ===== *)
theory Request_Info
  imports Iam_Types Slice_Utils
begin

text \<open>
  \<open>pkg/aiserver/request\<close> and \<open>pkg/utils/iputil\<close>: what the server knows of a request, resolved from its
  path, method, query and headers, and the values that travel in the request context. The decoder
  of list options and the check of path segment names belong to the Kubernetes libraries and are
  parameters.
\<close>

section \<open>Requests\<close>

record HttpRequest =
  Method :: string
  URLPath :: string
  URLText :: string \<comment> \<open>the whole URL as it is printed\<close>
  URLQuery :: "(string \<times> string list) list"
  Header :: "string \<Rightarrow> string"
  RemoteAddr :: string

definition queryGet :: "(string \<times> string list) list \<Rightarrow> string \<Rightarrow> string" where
  "queryGet q k = (case map_of q k of Some (v # _) \<Rightarrow> v | _ \<Rightarrow> '''')"

definition lastIndexOf :: "string \<Rightarrow> char \<Rightarrow> nat option" where
  "lastIndexOf s c =
     (case filter (\<lambda>i. s ! i = c) (rev [0..<length s]) of [] \<Rightarrow> None | i # _ \<Rightarrow> Some i)"

text \<open>\<open>net.SplitHostPort\<close>: the host, or the empty string with an error.\<close>

definition splitHost :: "string \<Rightarrow> string" where
  "splitHost hp =
     (case lastIndexOf hp CHR '':'' of
        None \<Rightarrow> ''''
      | Some i \<Rightarrow>
          if hd hp = CHR ''['' then
            (case Index hp '']'' of
               None \<Rightarrow> ''''
             | Some e \<Rightarrow>
                 if e + 1 = i \<and> CHR ''['' \<notin> set (drop 1 hp) \<and> CHR '']'' \<notin> set (drop (e + 1) hp)
                 then take (e - 1) (drop 1 hp) else '''')
          else if CHR '':'' \<in> set (take i hp) \<or> CHR ''['' \<in> set hp \<or> CHR '']'' \<in> set hp then ''''
          else take i hp)"

definition XForwardedFor :: string where "XForwardedFor = ''X-Forwarded-For''"
definition XRealIP :: string where "XRealIP = ''X-Real-IP''"
definition XClientIP :: string where "XClientIP = ''x-client-ip''"

definition RemoteIp :: "HttpRequest \<Rightarrow> string" where
  "RemoteIp req =
     (let remoteAddr =
        (if Header req XClientIP \<noteq> '''' then Header req XClientIP
         else if Header req XRealIP \<noteq> '''' then Header req XRealIP
         else if Header req XForwardedFor \<noteq> '''' then Header req XForwardedFor
         else splitHost (RemoteAddr req))
      in if remoteAddr = ''::1'' then ''127.0.0.1'' else remoteAddr)"

section \<open>Request information\<close>

record RequestInfo =
  IsResourceRequest :: bool
  Path :: string
  Verb :: string
  APIPrefix :: string
  APIGroup :: string
  APIVersion :: string
  ri_Namespace :: string
  Resource :: string
  Subresource :: string
  ri_Name :: string
  Parts :: "string list"
  IsKubernetesRequest :: bool
  Workspace :: string
  Cluster :: string
  DevOps :: string
  ResourceScope :: string
  ri_SourceIP :: string
  ri_UserAgent :: string

record RequestInfoFactory =
  APIPrefixes :: "string list"
  GrouplessAPIPrefixes :: "string list"

text \<open>\<open>metainternalversion.ListOptions\<close>; the selector is its \<open>RequiresExactMatch\<close>.\<close>

record ListOptions =
  Watch :: bool
  FieldSelector :: "(string \<Rightarrow> string option) option"

definition emptyOptions :: ListOptions where
  "emptyOptions = \<lparr>Watch = False, FieldSelector = None\<rparr>"

definition GlobalScope :: string where "GlobalScope = ''Global''"
definition WorkspaceScope :: string where "WorkspaceScope = ''Workspace''"
definition NamespaceScope :: string where "NamespaceScope = ''Namespace''"
definition workspaceSelectorPrefix :: string where
  "workspaceSelectorPrefix = WorkspaceLabelKey @ ''=''"

definition kubernetesAPIPrefixes :: "string list" where "kubernetesAPIPrefixes = [''api'', ''apis'']"
definition namespaceSubresources :: "string list" where
  "namespaceSubresources = [''status'', ''finalize'']"
definition specialVerbs :: "string list" where "specialVerbs = [''proxy'', ''watch'']"
definition specialVerbsNoSubresources :: "string list" where
  "specialVerbsNoSubresources = [''proxy'']"

lemmas request_const_defs = GlobalScope_def WorkspaceScope_def NamespaceScope_def
  workspaceSelectorPrefix_def WorkspaceLabelKey_def kubernetesAPIPrefixes_def
  namespaceSubresources_def specialVerbs_def specialVerbsNoSubresources_def

definition splitPath :: "string \<Rightarrow> string list" where
  "splitPath path =
     (let path = TrimChar path CHR ''/'' in
      if path = '''' then [] else SplitChar path CHR ''/'')"

definition resolveResourceScope :: "RequestInfo \<Rightarrow> string" where
  "resolveResourceScope request =
     (if ri_Namespace request \<noteq> '''' then NamespaceScope
      else if Workspace request \<noteq> '''' then WorkspaceScope
      else GlobalScope)"

definition initInfo :: "HttpRequest \<Rightarrow> RequestInfo" where
  "initInfo req = \<lparr>IsResourceRequest = False, Path = URLPath req, Verb = Method req,
     APIPrefix = '''', APIGroup = '''', APIVersion = '''', ri_Namespace = '''', Resource = '''',
     Subresource = '''', ri_Name = '''', Parts = [], IsKubernetesRequest = False,
     Workspace = '''', Cluster = '''', DevOps = '''', ResourceScope = '''',
     ri_SourceIP = RemoteIp req, ri_UserAgent = Header req ''User-Agent''\<rparr>"

text \<open>The deferred function.\<close>

definition markKubernetes :: "RequestInfo \<Rightarrow> RequestInfo" where
  "markKubernetes info =
     (let currentParts = splitPath (Path info);
          prefix = (if APIPrefix info = '''' \<and> length currentParts > 0 \<and> length currentParts < 3
                    then hd currentParts else APIPrefix info)
      in if HasString kubernetesAPIPrefixes prefix then info\<lparr>IsKubernetesRequest := True\<rparr> else info)"

definition methodVerb :: "string \<Rightarrow> string" where
  "methodVerb m =
     (if m = ''POST'' then ''create''
      else if m = ''GET'' \<or> m = ''HEAD'' then ''get''
      else if m = ''PUT'' then ''update''
      else if m = ''PATCH'' then ''patch''
      else if m = ''DELETE'' then ''delete''
      else '''')"

definition workspaceStep :: "RequestInfo \<Rightarrow> string list \<Rightarrow> (RequestInfo \<times> string list) go" where
  "workspaceStep info parts =
     gbind (goNth parts 0) (\<lambda>p0.
       if p0 = ''workspaces'' then
         let info' = (if length parts > 1 then info\<lparr>Workspace := parts ! 1\<rparr> else info);
             parts' = (if length parts > 2 then drop 2 parts else parts)
         in Inr (info', parts')
       else Inr (info, parts))"

definition namespaceStep :: "RequestInfo \<Rightarrow> string list \<Rightarrow> (RequestInfo \<times> string list) go" where
  "namespaceStep info parts =
     gbind (goNth parts 0) (\<lambda>p0.
       if p0 = ''namespaces'' then
         if length parts > 1 then
           Inr (info\<lparr>ri_Namespace := parts ! 1\<rparr>,
                if length parts > 2 \<and> \<not> HasString namespaceSubresources (parts ! 2)
                then drop 2 parts else parts)
         else Inr (info, parts)
       else Inr (info\<lparr>ri_Namespace := '''', DevOps := ''''\<rparr>, parts))"

definition partsStep :: "RequestInfo \<Rightarrow> string list \<Rightarrow> RequestInfo" where
  "partsStep info parts =
     (let i0 = info\<lparr>Parts := parts\<rparr>;
          i1 = (if length parts \<ge> 3 \<and> \<not> HasString specialVerbsNoSubresources (Verb i0)
                then i0\<lparr>Subresource := parts ! 2\<rparr> else i0);
          i2 = (if length parts \<ge> 2 then i1\<lparr>ri_Name := parts ! 1\<rparr> else i1)
      in if length parts \<ge> 1 then i2\<lparr>Resource := parts ! 0\<rparr> else i2)"

definition listOptions ::
  "((string \<times> string list) list \<Rightarrow> goerr + ListOptions) \<Rightarrow> HttpRequest \<Rightarrow> ListOptions" where
  "listOptions decode req =
     (case decode (URLQuery req) of
        Inr opts \<Rightarrow> opts
      | Inl _ \<Rightarrow>
          (case map_of (URLQuery req) ''watch'' of
             Some (v # _) \<Rightarrow>
               if ToLower v = ''false'' \<or> ToLower v = ''0'' then emptyOptions
               else emptyOptions\<lparr>Watch := True\<rparr>
           | _ \<Rightarrow> emptyOptions))"

definition listStep ::
  "((string \<times> string list) list \<Rightarrow> goerr + ListOptions) \<Rightarrow> (string \<Rightarrow> bool) \<Rightarrow> HttpRequest \<Rightarrow>
   RequestInfo \<Rightarrow> RequestInfo" where
  "listStep decode validName req info =
     (if ri_Name info = '''' \<and> Verb info = ''get'' then
        let opts = listOptions decode req;
            info = info\<lparr>Verb := if Watch opts then ''watch'' else ''list''\<rparr>
        in (case FieldSelector opts of
              None \<Rightarrow> info
            | Some sel \<Rightarrow>
                (case sel ''metadata.name'' of
                   None \<Rightarrow> info
                 | Some name \<Rightarrow> if validName name then info\<lparr>ri_Name := name\<rparr> else info))
      else info)"

definition watchStep :: "HttpRequest \<Rightarrow> RequestInfo \<Rightarrow> RequestInfo" where
  "watchStep req info =
     (if Verb info = ''watch'' then
        let selector = queryGet (URLQuery req) ''labelSelector'' in
        if HasPrefix selector workspaceSelectorPrefix
        then info\<lparr>Workspace := TrimPrefix selector workspaceSelectorPrefix,
                  ResourceScope := WorkspaceScope\<rparr>
        else info
      else info)"

definition deleteStep :: "RequestInfo \<Rightarrow> RequestInfo" where
  "deleteStep info =
     (if ri_Name info = '''' \<and> Verb info = ''delete'' then info\<lparr>Verb := ''deletecollection''\<rparr> else info)"

text \<open>From the API version on: \<open>currentParts\<close> starts with the version.\<close>

definition resourceParts ::
  "((string \<times> string list) list \<Rightarrow> goerr + ListOptions) \<Rightarrow> (string \<Rightarrow> bool) \<Rightarrow> HttpRequest \<Rightarrow>
   RequestInfo \<Rightarrow> string list \<Rightarrow> RequestInfo go" where
  "resourceParts decode validName req info parts =
     gbind (workspaceStep info parts) (\<lambda>(info, parts).
     gbind (namespaceStep info parts) (\<lambda>(info, parts).
       let info = partsStep info parts;
           info = info\<lparr>ResourceScope := resolveResourceScope info\<rparr>
       in Inr (deleteStep (watchStep req (listStep decode validName req info)))))"

definition resourceRequest ::
  "((string \<times> string list) list \<Rightarrow> goerr + ListOptions) \<Rightarrow> (string \<Rightarrow> bool) \<Rightarrow> HttpRequest \<Rightarrow>
   RequestInfo \<Rightarrow> string list \<Rightarrow> (RequestInfo \<times> goerr option) go" where
  "resourceRequest decode validName req info parts =
     gbind (goNth parts 0) (\<lambda>version.
     gbind (goFrom 1 parts) (\<lambda>parts.
       let info = info\<lparr>IsResourceRequest := True, APIVersion := version\<rparr> in
       if length parts > 0 \<and> HasString specialVerbs (hd parts) then
         if length parts < 2 then
           Inr (info, Some (Msg (''unable to determine kind and namespace from url: '' @ URLText req)))
         else gbind (resourceParts decode validName req (info\<lparr>Verb := hd parts\<rparr>) (drop 1 parts))
                (\<lambda>info. Inr (info, None))
       else gbind (resourceParts decode validName req (info\<lparr>Verb := methodVerb (Method req)\<rparr>) parts)
              (\<lambda>info. Inr (info, None))))"

definition parseInfo ::
  "RequestInfoFactory \<Rightarrow> ((string \<times> string list) list \<Rightarrow> goerr + ListOptions) \<Rightarrow>
   (string \<Rightarrow> bool) \<Rightarrow> HttpRequest \<Rightarrow> (RequestInfo \<times> goerr option) go" where
  "parseInfo r decode validName req =
     (let info = initInfo req; parts = splitPath (URLPath req) in
      if length parts < 3 then Inr (info, None)
      else if \<not> HasString (APIPrefixes r) (hd parts) then Inr (info, None)
      else
        let info = info\<lparr>APIPrefix := hd parts\<rparr>; parts = drop 1 parts in
        if \<not> HasString (GrouplessAPIPrefixes r) (APIPrefix info) then
          if length parts < 3 then Inr (info, None)
          else resourceRequest decode validName req (info\<lparr>APIGroup := hd parts\<rparr>) (drop 1 parts)
        else resourceRequest decode validName req info parts)"

definition NewRequestInfo ::
  "RequestInfoFactory \<Rightarrow> ((string \<times> string list) list \<Rightarrow> goerr + ListOptions) \<Rightarrow>
   (string \<Rightarrow> bool) \<Rightarrow> HttpRequest \<Rightarrow> (RequestInfo \<times> goerr option) go" where
  "NewRequestInfo r decode validName req =
     gbind (parseInfo r decode validName req) (\<lambda>(info, err). Inr (markKubernetes info, err))"

section \<open>The request context\<close>

record Context =
  ctx_info :: "RequestInfo option"
  ctx_user :: "UserInfo option"
  ctx_namespace :: "string option"

definition emptyContext :: Context where
  "emptyContext = \<lparr>ctx_info = None, ctx_user = None, ctx_namespace = None\<rparr>"

definition WithRequestInfo :: "Context \<Rightarrow> RequestInfo \<Rightarrow> Context" where
  "WithRequestInfo ctx info = ctx\<lparr>ctx_info := Some info\<rparr>"

definition RequestInfoFrom :: "Context \<Rightarrow> RequestInfo option" where
  "RequestInfoFrom ctx = ctx_info ctx"

definition WithNamespace :: "Context \<Rightarrow> string \<Rightarrow> Context" where
  "WithNamespace ctx ns = ctx\<lparr>ctx_namespace := Some ns\<rparr>"

definition NamespaceFrom :: "Context \<Rightarrow> string \<times> bool" where
  "NamespaceFrom ctx = (case ctx_namespace ctx of None \<Rightarrow> ('''', False) | Some ns \<Rightarrow> (ns, True))"

definition NamespaceValue :: "Context \<Rightarrow> string" where
  "NamespaceValue ctx = fst (NamespaceFrom ctx)"

definition NewDefaultContext :: Context where
  "NewDefaultContext = WithNamespace emptyContext ''default''"

definition WithUser :: "Context \<Rightarrow> UserInfo \<Rightarrow> Context" where
  "WithUser ctx u = ctx\<lparr>ctx_user := Some u\<rparr>"

definition UserFrom :: "Context \<Rightarrow> UserInfo option" where
  "UserFrom ctx = ctx_user ctx"

definition AddCommonAnnotations :: "strmap \<Rightarrow> Context option \<Rightarrow> strmap" where
  "AddCommonAnnotations annotations ctx =
     (let annotations = mensure annotations in
      case ctx of
        None \<Rightarrow> annotations
      | Some c \<Rightarrow>
          (case UserFrom c of
             None \<Rightarrow> annotations
           | Some user \<Rightarrow> mput annotations CreatorAnnotationKey (ui_Name user)))"

section \<open>Lemmas\<close>

lemma workspaceStep_ok:
  "parts \<noteq> [] \<Longrightarrow> \<exists>info' parts'. workspaceStep info parts = Inr (info', parts') \<and> parts' \<noteq> []"
  by (auto simp: workspaceStep_def Let_def)

lemma namespaceStep_ok:
  "parts \<noteq> [] \<Longrightarrow> \<exists>info' parts'. namespaceStep info parts = Inr (info', parts') \<and> parts' \<noteq> []"
  by (auto simp: namespaceStep_def Let_def)

lemma resourceParts_ok: "parts \<noteq> [] \<Longrightarrow> isOk (resourceParts decode vn req info parts)"
proof -
  assume "parts \<noteq> []"
  then obtain i1 p1 where 1: "workspaceStep info parts = Inr (i1, p1)" "p1 \<noteq> []"
    using workspaceStep_ok by blast
  then obtain i2 p2 where "namespaceStep i1 p1 = Inr (i2, p2)"
    using namespaceStep_ok by blast
  with 1 show ?thesis by (simp add: resourceParts_def Let_def)
qed

lemma resourceRequest_ok: "2 \<le> length parts \<Longrightarrow> isOk (resourceRequest decode vn req info parts)"
proof -
  assume "2 \<le> length parts"
  then obtain a b cs where parts: "parts = a # b # cs"
    by (metis One_nat_def Suc_1 Suc_le_length_iff)
  have ok: "isOk (gbind (resourceParts decode vn req i ps) (\<lambda>i. Inr (i, None)))" if "ps \<noteq> []" for i ps
    using resourceParts_ok [OF that, of decode vn req i] by (auto simp: isOk_gbind isOk_def split: sum.splits)
  show ?thesis
    by (cases cs) (simp_all add: parts resourceRequest_def Let_def ok)
qed

lemma parseInfo_ok: "isOk (parseInfo r decode vn req)"
  by (simp add: parseInfo_def Let_def resourceRequest_ok)

text \<open>\<open>splitPath\<close> and the path of its parts.\<close>

lemma TrimLeftChar_id: "s \<noteq> [] \<Longrightarrow> hd s \<noteq> c \<Longrightarrow> TrimLeftChar s c = s"
  by (cases s) (simp_all add: TrimLeftChar_def)

lemma TrimRightChar_id: "s \<noteq> [] \<Longrightarrow> last s \<noteq> c \<Longrightarrow> TrimRightChar s c = s"
  by (cases s rule: rev_cases) (simp_all add: TrimRightChar_def)

lemma Join_hd: "x \<noteq> [] \<Longrightarrow> Join (x # xs) sep \<noteq> [] \<and> hd (Join (x # xs) sep) = hd x"
  by (cases xs) simp_all

lemma Join_last:
  "xs \<noteq> [] \<Longrightarrow> (\<And>x. x \<in> set xs \<Longrightarrow> x \<noteq> []) \<Longrightarrow> Join xs sep \<noteq> [] \<and> last (Join xs sep) = last (last xs)"
proof (induction xs)
  case (Cons x xs)
  then show ?case by (cases xs) (auto simp: last_append)
qed simp

lemma splitPath_Join:
  assumes "xs \<noteq> []" and "\<And>x. x \<in> set xs \<Longrightarrow> x \<noteq> [] \<and> CHR ''/'' \<notin> set x"
  shows "splitPath (CHR ''/'' # Join xs ''/'') = xs"
proof -
  let ?s = "Join xs ''/''"
  obtain y ys where xs: "xs = y # ys" using assms(1) by (cases xs) auto
  have "?s \<noteq> [] \<and> hd ?s = hd y" using Join_hd [of y ys "''/''"] assms(2) xs by auto
  moreover have "hd y \<noteq> CHR ''/''" using assms(2) [of y] xs by (metis hd_in_set list.set_intros(1))
  moreover have l: "?s \<noteq> [] \<and> last ?s = last (last xs)" using Join_last assms by blast
  moreover have "last (last xs) \<noteq> CHR ''/''"
    using assms(2) [of "last xs"] assms(1) by (metis last_in_set)
  ultimately have "TrimChar (CHR ''/'' # ?s) CHR ''/'' = ?s"
    using TrimLeftChar_id [of ?s "CHR ''/''"] TrimRightChar_id [of ?s "CHR ''/''"]
    by (simp add: TrimChar_def TrimLeftChar_def)
  then show ?thesis
    using SplitChar_Join [of xs "CHR ''/''"] assms l by (simp add: splitPath_def)
qed

lemma splitPath_no_slash: "p \<in> set (splitPath path) \<Longrightarrow> CHR ''/'' \<notin> set p"
  by (auto simp: splitPath_def Let_def split: if_splits dest: SplitChar_no_sep)

text \<open>What each step keeps of the identity of the request.\<close>

lemma steps_keep [simp]:
  "IsResourceRequest (listStep d v req i) = IsResourceRequest i"
  "IsResourceRequest (watchStep req i) = IsResourceRequest i"
  "IsResourceRequest (deleteStep i) = IsResourceRequest i"
  "IsResourceRequest (partsStep i ps) = IsResourceRequest i"
  "APIPrefix (listStep d v req i) = APIPrefix i"
  "APIPrefix (watchStep req i) = APIPrefix i"
  "APIPrefix (deleteStep i) = APIPrefix i"
  "APIPrefix (partsStep i ps) = APIPrefix i"
  "ri_Namespace (listStep d v req i) = ri_Namespace i"
  "ri_Namespace (watchStep req i) = ri_Namespace i"
  "ri_Namespace (deleteStep i) = ri_Namespace i"
  "ri_Namespace (partsStep i ps) = ri_Namespace i"
  "Workspace (listStep d v req i) = Workspace i"
  "Workspace (deleteStep i) = Workspace i"
  "Workspace (partsStep i ps) = Workspace i"
  "ResourceScope (listStep d v req i) = ResourceScope i"
  "ResourceScope (deleteStep i) = ResourceScope i"
  "Path (listStep d v req i) = Path i"
  "Path (watchStep req i) = Path i"
  "Path (deleteStep i) = Path i"
  "Path (partsStep i ps) = Path i"
  by (simp_all add: listStep_def watchStep_def deleteStep_def partsStep_def Let_def
      split: option.split)

lemma mark_keep [simp]:
  "IsResourceRequest (markKubernetes i) = IsResourceRequest i"
  "APIPrefix (markKubernetes i) = APIPrefix i"
  "ri_Namespace (markKubernetes i) = ri_Namespace i"
  "Workspace (markKubernetes i) = Workspace i"
  "ResourceScope (markKubernetes i) = ResourceScope i"
  "Verb (markKubernetes i) = Verb i"
  "Path (markKubernetes i) = Path i"
  by (simp_all add: markKubernetes_def Let_def)

lemma resourceParts_scope:
  assumes "resourceParts decode vn req i0 ps = Inr info"
  shows "IsResourceRequest info = IsResourceRequest i0"
    and "ResourceScope info =
      (if Verb info = ''watch'' \<and> HasPrefix (queryGet (URLQuery req) ''labelSelector'') workspaceSelectorPrefix
       then WorkspaceScope else resolveResourceScope info)"
proof -
  show "IsResourceRequest info = IsResourceRequest i0"
    using assms
    by (auto simp: resourceParts_def workspaceStep_def namespaceStep_def gbind_def Let_def
        split: sum.splits if_splits)
  obtain i ps' where i: "info = deleteStep (watchStep req (listStep decode vn req
      ((partsStep i ps')\<lparr>ResourceScope := resolveResourceScope (partsStep i ps')\<rparr>)))"
    using assms by (auto simp: resourceParts_def gbind_def Let_def split: sum.splits prod.splits)
  define j where "j = listStep decode vn req
      ((partsStep i ps')\<lparr>ResourceScope := resolveResourceScope (partsStep i ps')\<rparr>)"
  have j: "ResourceScope j = resolveResourceScope j"
    by (simp add: j_def resolveResourceScope_def)
  have "info = deleteStep (watchStep req j)" using i by (simp add: j_def)
  then show "ResourceScope info =
      (if Verb info = ''watch'' \<and> HasPrefix (queryGet (URLQuery req) ''labelSelector'') workspaceSelectorPrefix
       then WorkspaceScope else resolveResourceScope info)"
    using j by (auto simp: deleteStep_def watchStep_def Let_def resolveResourceScope_def)
qed

lemma NewRequestInfo_resource:
  assumes "NewRequestInfo r decode vn req = Inr (info, None)" and "IsResourceRequest info"
  shows "\<exists>i0 ps i1. resourceParts decode vn req i0 ps = Inr i1 \<and> info = markKubernetes i1"
  using assms
  by (auto simp: NewRequestInfo_def parseInfo_def resourceRequest_def initInfo_def gbind_def Let_def
      split: sum.splits if_splits)

section \<open>Properties\<close>

text \<open>
  Resolving the request information never panics: whatever the path, method and query, the
  indexing of the path parts stays in range and the call returns an information and maybe an error.
\<close>

theorem NewRequestInfo_total:
  "\<exists>info err. NewRequestInfo r decode validName req = Inr (info, err)"
  using parseInfo_ok [of r decode validName req]
  by (auto simp: NewRequestInfo_def isOk_iff)

text \<open>
  The scope of a resource request follows from its fields: a watch that selects a workspace by
  label is workspace-scoped, otherwise a namespace gives the namespace scope, a workspace the
  workspace scope, and neither the global scope.
\<close>

theorem NewRequestInfo_scope:
  assumes "NewRequestInfo r decode validName req = Inr (info, None)" and "IsResourceRequest info"
  shows "ResourceScope info =
    (if Verb info = ''watch'' \<and> HasPrefix (queryGet (URLQuery req) ''labelSelector'') workspaceSelectorPrefix
     then WorkspaceScope
     else if ri_Namespace info \<noteq> '''' then NamespaceScope
     else if Workspace info \<noteq> '''' then WorkspaceScope
     else GlobalScope)"
proof -
  obtain i0 ps i1 where "resourceParts decode validName req i0 ps = Inr i1" "info = markKubernetes i1"
    using NewRequestInfo_resource [OF assms] by blast
  then show ?thesis
    using resourceParts_scope(2) [of decode validName req i0 ps i1] by (simp add: resolveResourceScope_def)
qed

definition exampleFactory :: RequestInfoFactory where
  "exampleFactory = \<lparr>APIPrefixes = [''aiapis'', ''api'', ''apis''], GrouplessAPIPrefixes = [''api'']\<rparr>"

definition getRequest :: "string \<Rightarrow> string \<Rightarrow> HttpRequest" where
  "getRequest m path = \<lparr>Method = m, URLPath = path, URLText = path, URLQuery = [], Header = (\<lambda>_. ''''), RemoteAddr = ''10.0.0.1:80''\<rparr>"

lemmas request_eval = NewRequestInfo_def parseInfo_def resourceRequest_def resourceParts_def
  workspaceStep_def namespaceStep_def partsStep_def listStep_def watchStep_def deleteStep_def
  listOptions_def markKubernetes_def splitPath_def resolveResourceScope_def initInfo_def
  TrimChar_def TrimLeftChar_def TrimRightChar_def methodVerb_def getRequest_def exampleFactory_def
  request_const_defs Let_def goNth_def goFrom_def emptyOptions_def

theorem NewRequestInfo_scope_witness:
  "\<exists>info. NewRequestInfo exampleFactory (\<lambda>_. Inr emptyOptions) (\<lambda>_. True)
       (getRequest ''GET'' ''/api/v1/namespaces/prod/pods'') = Inr (info, None) \<and>
     ResourceScope info = ''Namespace''"
proof -
  let ?req = "getRequest ''GET'' ''/api/v1/namespaces/prod/pods''"
  obtain info where info: "NewRequestInfo exampleFactory (\<lambda>_. Inr emptyOptions) (\<lambda>_. True) ?req = Inr (info, None)"
      "IsResourceRequest info" "Verb info = ''list''" "ri_Namespace info = ''prod''"
    by (simp add: request_eval)
  from NewRequestInfo_scope [OF info(1,2)] info show ?thesis by (simp add: NamespaceScope_def)
qed

section \<open>Reading back a path\<close>

definition resourcePath :: "string \<Rightarrow> string \<Rightarrow> string \<Rightarrow> string \<Rightarrow> string \<Rightarrow> string list \<Rightarrow> string" where
  \<comment> \<open>no group for the core API, no namespace for a cluster-scoped resource; \<open>rest\<close> is empty for a
    collection, else the name, the subresource and what follows\<close>
  "resourcePath prefix g v ns res rest =
     CHR ''/'' # Join (prefix # (if g = '''' then [] else [g]) @ v #
       (if ns = '''' then [] else [''namespaces'', ns]) @ res # rest) ''/''"

definition selectedName ::
  "((string \<times> string list) list \<Rightarrow> goerr + ListOptions) \<Rightarrow> (string \<Rightarrow> bool) \<Rightarrow> HttpRequest \<Rightarrow> string" where
  \<comment> \<open>the name that the field selector of a list asks for\<close>
  "selectedName decode validName req =
     (case FieldSelector (listOptions decode req) of
        None \<Rightarrow> ''''
      | Some sel \<Rightarrow> (case sel ''metadata.name'' of Some name \<Rightarrow> if validName name then name else '''' | None \<Rightarrow> ''''))"

lemma listStep_without_name:
  assumes "ri_Name info = ''''"
  shows "listStep decode validName req info =
    (if Verb info = ''get''
     then info\<lparr>Verb := if Watch (listOptions decode req) then ''watch'' else ''list'',
               ri_Name := selectedName decode validName req\<rparr>
     else info)"
  using assms by (simp add: listStep_def selectedName_def Let_def split: option.split)

lemma listStep_with_name: "ri_Name info \<noteq> '''' \<Longrightarrow> listStep decode validName req info = info"
  by (simp add: listStep_def)

lemma deleteStep_named: "ri_Name info \<noteq> '''' \<Longrightarrow> deleteStep info = info"
  by (simp add: deleteStep_def)

lemma watchStep_other: "Verb info \<noteq> ''watch'' \<Longrightarrow> watchStep req info = info"
  by (simp add: watchStep_def)

lemma mark_more [simp]:
  "APIGroup (markKubernetes i) = APIGroup i" "APIVersion (markKubernetes i) = APIVersion i"
  "Resource (markKubernetes i) = Resource i" "Parts (markKubernetes i) = Parts i" "ri_Name (markKubernetes i) = ri_Name i"
  "Subresource (markKubernetes i) = Subresource i"
  "APIPrefix i \<noteq> '''' \<Longrightarrow> \<not> IsKubernetesRequest i \<Longrightarrow>
    IsKubernetesRequest (markKubernetes i) \<longleftrightarrow> APIPrefix i \<in> {''api'', ''apis''}"
  by (simp_all add: markKubernetes_def kubernetesAPIPrefixes_def Let_def)

lemma methodVerb_neq [simp]:
  "methodVerb m \<noteq> ''watch''" "methodVerb m \<noteq> ''proxy''" "methodVerb m \<noteq> ''list''" "methodVerb m \<noteq> ''deletecollection''"
  by (simp_all add: methodVerb_def)

lemma NewRequestInfo_path:
  assumes parts: "\<forall>x \<in> set (prefix # v # res # rest). x \<noteq> '''' \<and> CHR ''/'' \<notin> set x"
    and gns: "CHR ''/'' \<notin> set g" "CHR ''/'' \<notin> set ns"
    and prefix: "prefix \<in> set (APIPrefixes r)" "prefix \<in> set (GrouplessAPIPrefixes r) \<longleftrightarrow> g = ''''"
    and res: "if ns = '''' then res \<notin> {''workspaces'', ''namespaces'', ''watch'', ''proxy''}
      else res \<notin> set namespaceSubresources"
    and path: "URLPath req = resourcePath prefix g v ns res rest"
  shows "NewRequestInfo r decode validName req = Inr (markKubernetes (deleteStep (watchStep req (listStep decode validName req
      (let i = partsStep ((initInfo req)\<lparr>APIPrefix := prefix, APIGroup := g, IsResourceRequest := True, APIVersion := v,
             Verb := methodVerb (Method req), ri_Namespace := ns\<rparr>) (res # rest)
       in i\<lparr>ResourceScope := resolveResourceScope i\<rparr>)))), None)"
proof -
  let ?ps = "prefix # (if g = '''' then [] else [g]) @ v # (if ns = '''' then [] else [''namespaces'', ns]) @ res # rest"
  have "splitPath (URLPath req) = ?ps"
    unfolding path resourcePath_def by (rule splitPath_Join) (use parts gns in \<open>auto split: if_splits\<close>)
  moreover have "HasString (GrouplessAPIPrefixes r) prefix \<longleftrightarrow> g = ''''" "HasString (APIPrefixes r) prefix"
    using prefix by simp_all
  moreover have "(initInfo req)\<lparr>DevOps := ''''\<rparr> = initInfo req" "(initInfo req)\<lparr>ri_Namespace := ''''\<rparr> = initInfo req"
      "(initInfo req)\<lparr>APIGroup := ''''\<rparr> = initInfo req"
    by (simp_all add: initInfo_def)
  ultimately show ?thesis
    using res
    by (cases "g = ''''"; cases "ns = ''''")
      (simp_all add: NewRequestInfo_def parseInfo_def resourceRequest_def resourceParts_def workspaceStep_def
        namespaceStep_def Let_def specialVerbs_def initInfo_def)
qed

lemma resource_read_back:
  assumes "\<forall>x \<in> set (prefix # v # res # rest). x \<noteq> '''' \<and> CHR ''/'' \<notin> set x"
    and "CHR ''/'' \<notin> set g" and "CHR ''/'' \<notin> set ns"
    and "prefix \<in> set (APIPrefixes r)" and "prefix \<in> set (GrouplessAPIPrefixes r) \<longleftrightarrow> g = ''''"
    and "if ns = '''' then res \<notin> {''workspaces'', ''namespaces'', ''watch'', ''proxy''}
      else res \<notin> set namespaceSubresources"
    and "URLPath req = resourcePath prefix g v ns res rest"
  shows "\<exists>info. NewRequestInfo r decode validName req = Inr (info, None) \<and>
    IsResourceRequest info \<and> APIPrefix info = prefix \<and> APIGroup info = g \<and> APIVersion info = v \<and>
    ri_Namespace info = ns \<and> Resource info = res \<and> Parts info = res # rest \<and>
    ri_Name info = (case rest of
        name # _ \<Rightarrow> name
      | [] \<Rightarrow> if methodVerb (Method req) = ''get'' then selectedName decode validName req else '''') \<and>
    Subresource info = (case rest of _ # sub # _ \<Rightarrow> sub | _ \<Rightarrow> '''') \<and>
    Verb info = (case rest of
        _ # _ \<Rightarrow> methodVerb (Method req)
      | [] \<Rightarrow> if methodVerb (Method req) = ''get'' then if Watch (listOptions decode req) then ''watch'' else ''list''
              else if methodVerb (Method req) = ''delete'' then ''deletecollection''
              else methodVerb (Method req)) \<and>
    ResourceScope info =
      (if Verb info = ''watch'' \<and> HasPrefix (queryGet (URLQuery req) ''labelSelector'') workspaceSelectorPrefix
       then WorkspaceScope else if ns = '''' then GlobalScope else NamespaceScope) \<and>
    IsKubernetesRequest info = (prefix \<in> {''api'', ''apis''})"
proof -
  define i where "i = (initInfo req)\<lparr>APIPrefix := prefix, APIGroup := g, IsResourceRequest := True, APIVersion := v,
      Verb := methodVerb (Method req), ri_Namespace := ns\<rparr>"
  have i: "IsResourceRequest i" "APIPrefix i = prefix" "APIGroup i = g" "APIVersion i = v" "ri_Namespace i = ns"
      "Verb i = methodVerb (Method req)" "Workspace i = ''''" "ri_Name i = ''''" "Subresource i = ''''"
      "\<not> IsKubernetesRequest i"
    by (simp_all add: i_def initInfo_def)
  have ne: "prefix \<noteq> ''''" using assms(1) by auto
  show ?thesis
  proof (cases rest)
    case Nil
    define k where "k = i\<lparr>Parts := [res], Resource := res, ResourceScope := resolveResourceScope i\<rparr>"
    have k: "(let j = partsStep i (res # rest) in j\<lparr>ResourceScope := resolveResourceScope j\<rparr>) = k"
      by (simp add: Nil k_def partsStep_def resolveResourceScope_def Let_def)
    have f: "ri_Name k = ''''" "Verb k = methodVerb (Method req)" "ResourceScope k = (if ns = '''' then GlobalScope else NamespaceScope)"
      by (simp_all add: k_def i resolveResourceScope_def)
    show ?thesis
      unfolding NewRequestInfo_path [OF assms, folded i_def, unfolded k] listStep_without_name [OF f(1)]
      by (cases "methodVerb (Method req) = ''get''"; cases "Watch (listOptions decode req)")
        (simp_all add: f Nil watchStep_def deleteStep_def Let_def, simp_all add: k_def i ne)
  next
    case (Cons n ms)
    define k where "k = i\<lparr>Parts := res # rest, Subresource := (case ms of [] \<Rightarrow> '''' | sub # _ \<Rightarrow> sub), ri_Name := n,
      Resource := res, ResourceScope := resolveResourceScope i\<rparr>"
    have i': "i\<lparr>Subresource := ''''\<rparr> = i" by (simp add: i_def initInfo_def)
    have k: "(let j = partsStep i (res # rest) in j\<lparr>ResourceScope := resolveResourceScope j\<rparr>) = k"
      by (cases ms) (simp_all add: Cons k_def partsStep_def resolveResourceScope_def Let_def i specialVerbsNoSubresources_def)
    have f: "ri_Name k \<noteq> ''''" "Verb k \<noteq> ''watch''" using assms(1) by (simp_all add: k_def i Cons)
    show ?thesis
      unfolding NewRequestInfo_path [OF assms, folded i_def, unfolded k] listStep_with_name [OF f(1)] watchStep_other [OF f(2)]
        deleteStep_named [OF f(1)]
      by (simp add: k_def i ne Cons resolveResourceScope_def split: list.split)
  qed
qed

text \<open>
  C4. The path of a resource request is read back, of the core API or of an API group, namespaced or
  not, with whatever follows the resource: prefix, group, version, namespace and resource are those
  written into the path, and so are the name and the subresource when it has them. With a name the
  verb is the one of the method. Without one, a read is a list or a watch as the query says, of the object
  that its field selector names if it names one, and a deletion is one of the collection. Left out are the
  resource names that the paths reserve: \<open>namespaces\<close>, \<open>workspaces\<close>, \<open>watch\<close> and \<open>proxy\<close> right after the
  version, \<open>status\<close> and \<open>finalize\<close> right after a namespace.
\<close>

theorem NewRequestInfo_roundtrip:
  assumes "\<forall>x \<in> set (prefix # v # res # rest). x \<noteq> '''' \<and> CHR ''/'' \<notin> set x"
    and "CHR ''/'' \<notin> set g" and "CHR ''/'' \<notin> set ns"
    and "prefix \<in> set (APIPrefixes r)" and "prefix \<in> set (GrouplessAPIPrefixes r) \<longleftrightarrow> g = ''''"
    and "if ns = '''' then res \<notin> {''workspaces'', ''namespaces'', ''watch'', ''proxy''}
      else res \<notin> set namespaceSubresources"
    and "URLPath req = resourcePath prefix g v ns res rest"
  shows "\<exists>info. NewRequestInfo r decode validName req = Inr (info, None) \<and>
    IsResourceRequest info \<and> APIPrefix info = prefix \<and> APIGroup info = g \<and> APIVersion info = v \<and>
    ri_Namespace info = ns \<and> Resource info = res \<and> Parts info = res # rest \<and>
    ri_Name info = (case rest of
        name # _ \<Rightarrow> name
      | [] \<Rightarrow> if methodVerb (Method req) = ''get'' then selectedName decode validName req else '''') \<and>
    Subresource info = (case rest of _ # sub # _ \<Rightarrow> sub | _ \<Rightarrow> '''') \<and>
    Verb info = (case rest of
        _ # _ \<Rightarrow> methodVerb (Method req)
      | [] \<Rightarrow> if methodVerb (Method req) = ''get'' then if Watch (listOptions decode req) then ''watch'' else ''list''
              else if methodVerb (Method req) = ''delete'' then ''deletecollection''
              else methodVerb (Method req)) \<and>
    ResourceScope info =
      (if Verb info = ''watch'' \<and> HasPrefix (queryGet (URLQuery req) ''labelSelector'') workspaceSelectorPrefix
       then WorkspaceScope else if ns = '''' then GlobalScope else NamespaceScope) \<and>
    IsKubernetesRequest info = (prefix \<in> {''api'', ''apis''})"
  using assms by (rule resource_read_back)

theorem NewRequestInfo_roundtrip_witness:
  "\<exists>info. NewRequestInfo exampleFactory (\<lambda>_. Inr emptyOptions) (\<lambda>_. True)
       (getRequest ''PUT'' (resourcePath ''apis'' ''apps'' ''v1'' ''prod'' ''deployments'' [''web'', ''scale''])) =
         Inr (info, None) \<and>
     Resource info = ''deployments'' \<and> Verb info = ''update'' \<and> ri_Name info = ''web'' \<and> Subresource info = ''scale''"
  using NewRequestInfo_roundtrip [of "''apis''" "''v1''" "''deployments''" "[''web'', ''scale'']" "''apps''" "''prod''" exampleFactory
      "getRequest ''PUT'' (resourcePath ''apis'' ''apps'' ''v1'' ''prod'' ''deployments'' [''web'', ''scale''])"
      "\<lambda>_. Inr emptyOptions" "\<lambda>_. True"]
  by (auto simp: exampleFactory_def getRequest_def namespaceSubresources_def methodVerb_def)

end
