(* ===== verification/Authorizer.thy ===== *)
theory Authorizer
  imports Iam_Types Slice_Utils
begin

text \<open>
  \<open>pkg/aiserver/authorization/authorizer\<close>, \<open>path\<close> and \<open>union\<close>: the attributes of a request, the
  decisions, the authorizer of always-allowed paths and the union of a chain of authorizers. An
  \<open>Attributes\<close> interface value may be nil (\<open>None\<close>); calling a method on it panics.
\<close>

section \<open>Attributes and decisions\<close>

record AttributesRecord =
  attr_UserInfo :: "UserInfo option"
  attr_Verb :: string
  attr_Cluster :: string
  attr_Workspace :: string
  attr_Namespace :: string
  attr_DevOps :: string
  attr_APIGroup :: string
  attr_APIVersion :: string
  attr_Resource :: string
  attr_Subresource :: string
  attr_Name :: string
  KubernetesRequest :: bool
  ResourceRequest :: bool
  attr_Path :: string
  attr_ResourceScope :: string

text \<open>The user; a nil user is looked at by no definition below without a check.\<close>

definition attr_User :: "AttributesRecord \<Rightarrow> UserInfo" where
  "attr_User a = (case attr_UserInfo a of Some u \<Rightarrow> u | None \<Rightarrow> defaultInfo)"

definition IsReadOnly :: "AttributesRecord \<Rightarrow> bool" where
  "IsReadOnly a \<longleftrightarrow> attr_Verb a = ''get'' \<or> attr_Verb a = ''list'' \<or> attr_Verb a = ''watch''"

datatype Decision = DecisionDeny | DecisionAllow | DecisionNoOpinion

type_synonym authz_result = "Decision \<times> string \<times> goerr option"
type_synonym authz = "AttributesRecord option \<Rightarrow> authz_result out"

section \<open>The contract\<close>

text \<open>
  The authorizers of the program only allow or abstain. \<open>permits\<close> is the specification of what an
  authorizer allows.
\<close>

locale authorizer =
  fixes authorize :: authz
    and permits :: "AttributesRecord \<Rightarrow> bool"
  assumes decides: "authorize (Some a) = Inr (d, r, e) \<Longrightarrow> d = (if permits a then DecisionAllow else DecisionNoOpinion)"
begin

lemma allow_iff: "authorize (Some a) = Inr (d, r, e) \<Longrightarrow> d = DecisionAllow \<longleftrightarrow> permits a"
  using decides [of a d r e] by (simp split: if_splits)

lemma never_denies: "authorize (Some a) \<noteq> Inr (DecisionDeny, r, e)"
  using decides [of a DecisionDeny r e] by (auto split: if_splits)

lemma permits_result:
  "permits a \<Longrightarrow> \<not> panics (authorize (Some a)) \<Longrightarrow> \<nexists>e. authorize (Some a) = Inl (Err e) \<Longrightarrow>
   \<exists>r e. authorize (Some a) = Inr (DecisionAllow, r, e)"
  using decides [of a] by (cases "authorize (Some a)") (auto simp: panics_def split: stop.splits)

end

section \<open>Always-allowed paths\<close>

text \<open>The loop of \<open>NewAuthorizer\<close> collects exact paths and prefixes.\<close>

fun collectPaths :: "string list \<Rightarrow> string list \<Rightarrow> string list \<Rightarrow> (string list \<times> string list) res" where
  "collectPaths [] paths prefixes = Inr (paths, prefixes)"
| "collectPaths (p0 # ps) paths prefixes =
     (let p = TrimPrefix p0 ''/'' in
      if length p = 0 then collectPaths ps (paths @ [p]) prefixes
      else if CHR ''*'' \<in> set (take (length p - 1) p)
        then Inl (Msg (''only trailing * allowed in '' @ Quote p))
      else if HasSuffix p ''*'' then collectPaths ps paths (prefixes @ [take (length p - 1) p])
      else collectPaths ps (paths @ [p]) prefixes)"

definition pathAuthorize :: "string list \<Rightarrow> string list \<Rightarrow> authz" where
  "pathAuthorize paths prefixes attrs =
     (case attrs of
        None \<Rightarrow> Inl (Panic NilDeref)
      | Some a \<Rightarrow>
          let pth = TrimPrefix (attr_Path a) ''/'' in
          if HasString paths pth then Inr (DecisionAllow, '''', None)
          else if list_ex (\<lambda>prefix. HasPrefix pth prefix) prefixes then Inr (DecisionAllow, '''', None)
          else Inr (DecisionNoOpinion, '''', None))"

definition NewPathAuthorizer :: "string list \<Rightarrow> authz res" where
  "NewPathAuthorizer alwaysAllowPaths =
     (case collectPaths alwaysAllowPaths [] [] of
        Inl err \<Rightarrow> Inl err
      | Inr (paths, prefixes) \<Rightarrow> Inr (pathAuthorize paths prefixes))"

text \<open>The specification: a pattern matches a path exactly, or up to a trailing star.\<close>

definition strippedMatches :: "string \<Rightarrow> string \<Rightarrow> bool" where
  "strippedMatches p q = (if HasSuffix p ''*'' then HasPrefix q (take (length p - 1) p) else p = q)"

definition patternMatches :: "string \<Rightarrow> string \<Rightarrow> bool" where
  "patternMatches pat path = strippedMatches (TrimPrefix pat ''/'') (TrimPrefix path ''/'')"

definition pathPermits :: "string list \<Rightarrow> AttributesRecord \<Rightarrow> bool" where
  "pathPermits pats a = list_ex (\<lambda>pat. patternMatches pat (attr_Path a)) pats"

definition validPattern :: "string \<Rightarrow> bool" where
  "validPattern pat \<longleftrightarrow>
     (let p = TrimPrefix pat ''/'' in CHR ''*'' \<notin> set (take (length p - 1) p))"

lemma collectPaths_spec:
  "collectPaths pats paths prefixes = Inr (paths', prefixes') \<Longrightarrow>
   (HasString paths' q \<or> list_ex (HasPrefix q) prefixes') \<longleftrightarrow>
   (HasString paths q \<or> list_ex (HasPrefix q) prefixes \<or>
    list_ex (\<lambda>pat. strippedMatches (TrimPrefix pat ''/'') q) pats)"
proof (induction pats paths prefixes arbitrary: paths' prefixes' rule: collectPaths.induct)
  case (1 paths prefixes)
  then show ?case by simp
next
  case (2 p0 ps paths prefixes)
  define p where "p = TrimPrefix p0 ''/''"
  consider (nil) "p = []" | (star) "p \<noteq> []" "HasSuffix p ''*''" | (plain) "p \<noteq> []" "\<not> HasSuffix p ''*''"
    by blast
  then show ?case
  proof cases
    case nil
    then show ?thesis
      using 2 by (auto simp: p_def [symmetric] Let_def HasSuffix_def strippedMatches_def split: if_splits)
  next
    case star
    then show ?thesis
      using 2 by (auto simp: p_def [symmetric] Let_def strippedMatches_def split: if_splits)
  next
    case plain
    then show ?thesis
      using 2 by (auto simp: p_def [symmetric] Let_def strippedMatches_def split: if_splits)
  qed
qed

lemma collectPaths_ok: "isOk (collectPaths pats paths prefixes) \<longleftrightarrow> list_all validPattern pats"
  by (induction pats paths prefixes rule: collectPaths.induct)
    (auto simp: validPattern_def Let_def)

lemma NewPathAuthorizer_ok: "isOk (NewPathAuthorizer pats) \<longleftrightarrow> list_all validPattern pats"
  unfolding collectPaths_ok [of pats "[]" "[]", symmetric] NewPathAuthorizer_def
  by (auto simp: isOk_def split: sum.splits)

lemma NewPathAuthorizer_decides:
  assumes "NewPathAuthorizer pats = Inr z"
  shows "z (Some a) = Inr (if pathPermits pats a then DecisionAllow else DecisionNoOpinion, '''', None)"
proof -
  obtain paths prefixes where c: "collectPaths pats [] [] = Inr (paths, prefixes)"
      "z = pathAuthorize paths prefixes"
    using assms by (auto simp: NewPathAuthorizer_def split: sum.splits)
  show ?thesis
    using collectPaths_spec [OF c(1), of "TrimPrefix (attr_Path a) ''/''"] c(2)
    by (cases "pathPermits pats a") (auto simp: pathAuthorize_def pathPermits_def patternMatches_def Let_def)
qed

lemma path_authorizer: "NewPathAuthorizer pats = Inr z \<Longrightarrow> authorizer z (pathPermits pats)"
  by unfold_locales (simp add: NewPathAuthorizer_decides)

interpretation path: authorizer
  "case NewPathAuthorizer pats of Inr z \<Rightarrow> z | Inl _ \<Rightarrow> \<lambda>_. Inl (Panic NilDeref)" "pathPermits pats"
  for pats
  by unfold_locales (auto simp: NewPathAuthorizer_decides split: sum.splits)

section \<open>Unions\<close>

text \<open>The loop over the handlers, with the errors and the reasons collected so far.\<close>

fun unionLoop :: "authz list \<Rightarrow> AttributesRecord option \<Rightarrow> goerr list \<Rightarrow> string list \<Rightarrow> authz_result out" where
  "unionLoop [] a errlist reasonlist =
     Inr (DecisionNoOpinion, Join reasonlist [CHR 0x0A], NewAggregate errlist)"
| "unionLoop (h # hs) a errlist reasonlist =
     obind (h a) (\<lambda>(decision, reason, err).
       let errlist = (case err of None \<Rightarrow> errlist | Some e \<Rightarrow> errlist @ [e]);
           reasonlist = (if length reason \<noteq> 0 then reasonlist @ [reason] else reasonlist)
       in case decision of
            DecisionAllow \<Rightarrow> Inr (decision, reason, err)
          | DecisionDeny \<Rightarrow> Inr (decision, reason, err)
          | DecisionNoOpinion \<Rightarrow> unionLoop hs a errlist reasonlist)"

definition unionAuthorize :: "authz list \<Rightarrow> authz" where
  "unionAuthorize hs a = unionLoop hs a [] []"

record ResourceRuleInfo =
  rri_Verbs :: "string list"
  rri_APIGroups :: "string list"
  rri_Resources :: "string list"
  rri_ResourceNames :: "string list"

record NonResourceRuleInfo =
  nri_Verbs :: "string list"
  nri_NonResourceURLs :: "string list"

type_synonym rules_result =
  "ResourceRuleInfo list \<times> NonResourceRuleInfo list \<times> bool \<times> goerr option"

type_synonym ruleResolver = "UserInfo \<Rightarrow> string \<Rightarrow> rules_result"

fun rulesLoop ::
  "ruleResolver list \<Rightarrow> UserInfo \<Rightarrow> string \<Rightarrow> ResourceRuleInfo list \<Rightarrow> NonResourceRuleInfo list \<Rightarrow>
   bool \<Rightarrow> goerr list \<Rightarrow> rules_result" where
  "rulesLoop [] user namespace rs nrs incompleteStatus errList =
     (rs, nrs, incompleteStatus, NewAggregate errList)"
| "rulesLoop (h # hs) user namespace rs nrs incompleteStatus errList =
     (case h user namespace of (resourceRules, nonResourceRules, incomplete, err) \<Rightarrow>
        rulesLoop hs user namespace
          (if length resourceRules > 0 then rs @ resourceRules else rs)
          (if length nonResourceRules > 0 then nrs @ nonResourceRules else nrs)
          (if incomplete then True else incompleteStatus)
          (case err of None \<Rightarrow> errList | Some e \<Rightarrow> errList @ [e]))"

definition unionRulesFor :: "ruleResolver list \<Rightarrow> ruleResolver" where
  "unionRulesFor hs user namespace = rulesLoop hs user namespace [] [] False []"

lemma unionLoop_decides:
  assumes "list_all2 authorizer hs ps" and "unionLoop hs (Some a) es rs = Inr (d, r, e)"
  shows "d = (if list_ex (\<lambda>p. p a) ps then DecisionAllow else DecisionNoOpinion)"
  using assms
proof (induction hs ps arbitrary: es rs rule: list_all2_induct)
  case Nil
  then show ?case by simp
next
  case (Cons h hs p ps)
  from Cons.prems obtain d' r' e' where h: "h (Some a) = Inr (d', r', e')"
    by (cases "h (Some a)") auto
  have d': "d' = (if p a then DecisionAllow else DecisionNoOpinion)"
    using authorizer.decides [OF Cons.hyps(1) h] .
  then show ?case
    using Cons.prems Cons.IH h by (auto simp: Let_def split: if_splits)
qed

locale two_authorizers = first: authorizer authorize\<^sub>1 permits\<^sub>1 + second: authorizer authorize\<^sub>2 permits\<^sub>2
  for authorize\<^sub>1 permits\<^sub>1 authorize\<^sub>2 permits\<^sub>2

sublocale two_authorizers \<subseteq> union: authorizer "unionAuthorize [authorize\<^sub>1, authorize\<^sub>2]" "\<lambda>a. permits\<^sub>1 a \<or> permits\<^sub>2 a"
proof unfold_locales
  fix a d r e
  assume "unionAuthorize [authorize\<^sub>1, authorize\<^sub>2] (Some a) = Inr (d, r, e)"
  then have "d = (if list_ex (\<lambda>p. p a) [permits\<^sub>1, permits\<^sub>2] then DecisionAllow else DecisionNoOpinion)"
    using unionLoop_decides [of "[authorize\<^sub>1, authorize\<^sub>2]" "[permits\<^sub>1, permits\<^sub>2]"]
      first.authorizer_axioms second.authorizer_axioms
    by (simp add: unionAuthorize_def)
  then show "d = (if permits\<^sub>1 a \<or> permits\<^sub>2 a then DecisionAllow else DecisionNoOpinion)" by simp
qed

text \<open>The rule resolvers of a union are concatenated.\<close>

lemma rulesLoop_concat:
  "rulesLoop hs u ns rs nrs inc es =
    (rs @ concat (map (\<lambda>h. fst (h u ns)) hs), nrs @ concat (map (\<lambda>h. fst (snd (h u ns))) hs),
     inc \<or> list_ex (\<lambda>h. fst (snd (snd (h u ns)))) hs,
     NewAggregate (es @ concat (map (\<lambda>h. case snd (snd (snd (h u ns))) of None \<Rightarrow> [] | Some e \<Rightarrow> [e]) hs)))"
  by (induction hs u ns rs nrs inc es rule: rulesLoop.induct) (auto split: prod.splits option.splits)

end
