(* ===== verification/Rbac.thy ===== *)
theory Rbac
  imports Authorizer Request_Info
begin

text \<open>
  \<open>pkg/aiserver/authorization/rbac\<close>: the matching of policy rules, the visit of the rules that apply
  to a user, the RBAC authorizer and its explanations. The access manager the authorizer asks is a
  record of functions (\<open>Access_Mgmt\<close> provides it); the OPA engine and
  \<open>serviceaccount.MatchesUsername\<close> are library code and parameters.
\<close>

section \<open>Rule matching\<close>

definition VerbMatches :: "PolicyRule \<Rightarrow> string \<Rightarrow> bool" where
  "VerbMatches rule requestedVerb =
     list_ex (\<lambda>ruleVerb. ruleVerb = ''*'' \<or> ruleVerb = requestedVerb) (Verbs rule)"

definition APIGroupMatches :: "PolicyRule \<Rightarrow> string \<Rightarrow> bool" where
  "APIGroupMatches rule requestedGroup =
     list_ex (\<lambda>ruleGroup. ruleGroup = ''*'' \<or> ruleGroup = requestedGroup) (APIGroups rule)"

definition ResourceMatches :: "PolicyRule \<Rightarrow> string \<Rightarrow> string \<Rightarrow> bool" where
  "ResourceMatches rule combinedRequestedResource requestedSubresource =
     list_ex (\<lambda>ruleResource.
        ruleResource = ''*'' \<or> ruleResource = combinedRequestedResource \<or>
        length requestedSubresource \<noteq> 0 \<and>
        length ruleResource = length requestedSubresource + 2 \<and>
        HasPrefix ruleResource ''*/'' \<and> HasSuffix ruleResource requestedSubresource)
       (Resources rule)"

definition ResourceNameMatches :: "PolicyRule \<Rightarrow> string \<Rightarrow> bool" where
  "ResourceNameMatches rule requestedName =
     (if length (ResourceNames rule) = 0 then True
      else list_ex (\<lambda>ruleName. ruleName = requestedName) (ResourceNames rule))"

definition NonResourceURLMatches :: "PolicyRule \<Rightarrow> string \<Rightarrow> bool" where
  "NonResourceURLMatches rule requestedURL =
     list_ex (\<lambda>ruleURL.
        ruleURL = ''*'' \<or> ruleURL = requestedURL \<or>
        HasSuffix ruleURL ''*'' \<and> HasPrefix requestedURL (TrimRightChar ruleURL CHR ''*''))
       (NonResourceURLs rule)"

definition RoleRefGroupKind :: "RoleRef \<Rightarrow> string \<times> string" where
  "RoleRefGroupKind r = (ref_APIGroup r, ref_Kind r)"

fun SubjectsStrings ::
  "Subject list \<Rightarrow> string list \<times> string list \<times> string list \<times> string list" where
  "SubjectsStrings [] = ([], [], [], [])"
| "SubjectsStrings (s # ss) =
     (case SubjectsStrings ss of (users, groups, sas, others) \<Rightarrow>
        if subj_Kind s = ResourceKindServiceAccount
          then (users, groups, (subj_Namespace s @ ''/'' @ subj_Name s) # sas, others)
        else if subj_Kind s = ResourceKindUser then (subj_Name s # users, groups, sas, others)
        else if subj_Kind s = ResourceKindGroup then (users, subj_Name s # groups, sas, others)
        else (users, groups, sas,
              (subj_Kind s @ ''/'' @ subj_Namespace s @ ''/'' @ subj_Name s) # others))"

definition QuoteList :: "string list \<Rightarrow> string" where
  \<comment> \<open>\<open>%q\<close> of a slice of strings\<close>
  "QuoteList xs = ''['' @ Join (map Quote xs) '' '' @ '']''"

definition CompactString :: "PolicyRule \<Rightarrow> string" where
  "CompactString r =
     ''{'' @ Join
       ((if length (APIGroups r) > 0 then [''APIGroups:'' @ QuoteList (APIGroups r)] else []) @
        (if length (Resources r) > 0 then [''Resources:'' @ QuoteList (Resources r)] else []) @
        (if length (NonResourceURLs r) > 0
         then [''NonResourceURLs:'' @ QuoteList (NonResourceURLs r)] else []) @
        (if length (ResourceNames r) > 0
         then [''ResourceNames:'' @ QuoteList (ResourceNames r)] else []) @
        (if length (Verbs r) > 0 then [''Verbs:'' @ QuoteList (Verbs r)] else []))
       '', '' @ ''}''"

definition RuleString :: "PolicyRule \<Rightarrow> string" where
  "RuleString r = ''PolicyRule'' @ CompactString r"

section \<open>The environment\<close>

datatype RegoValue = RegoBool bool | RegoOther

text \<open>
  \<open>regoPrepare query file policy\<close> is \<open>rego.New(..).PrepareForEval\<close>, which gives an evaluation. A
  result holds a non-empty list of expression values. \<open>matchesUsername\<close> is
  \<open>serviceaccount.MatchesUsername\<close>.
\<close>

record RbacEnv =
  regoPrepare ::
    "string \<Rightarrow> string \<Rightarrow> string \<Rightarrow> goerr + (AttributesRecord \<Rightarrow> goerr + (RegoValue \<times> RegoValue list) list)"
  matchesUsername :: "string \<Rightarrow> string \<Rightarrow> string \<Rightarrow> bool"

record RulesAM =
  amListGlobalRoleBindings :: "string \<Rightarrow> BindingObj list out"
  amListRoleBindings :: "string \<Rightarrow> string list \<Rightarrow> string \<Rightarrow> BindingObj list out"
  amGetRoleReferenceRules :: "RoleRef \<Rightarrow> string \<Rightarrow> (string \<times> PolicyRule list) out"

definition ruleAllows :: "AttributesRecord \<Rightarrow> PolicyRule \<Rightarrow> bool" where
  "ruleAllows a rule =
     (if ResourceRequest a then
        let combinedResource = (if length (attr_Subresource a) > 0
              then attr_Resource a @ ''/'' @ attr_Subresource a else attr_Resource a)
        in VerbMatches rule (attr_Verb a) \<and> APIGroupMatches rule (attr_APIGroup a) \<and>
           ResourceMatches rule combinedResource (attr_Subresource a) \<and>
           ResourceNameMatches rule (attr_Name a)
      else VerbMatches rule (attr_Verb a) \<and> NonResourceURLMatches rule (attr_Path a))"

definition regoPolicyAllows :: "RbacEnv \<Rightarrow> AttributesRecord \<Rightarrow> string \<Rightarrow> bool" where
  "regoPolicyAllows env a regoPolicy =
     (case regoPrepare env ''data.authz.allow'' ''authz.rego'' regoPolicy of
        Inl _ \<Rightarrow> False
      | Inr query \<Rightarrow>
          (case query a of
             Inl _ \<Rightarrow> False
           | Inr results \<Rightarrow> (case results of [] \<Rightarrow> False | (v, _) # _ \<Rightarrow> v = RegoBool True)))"

definition appliesToUser :: "RbacEnv \<Rightarrow> UserInfo \<Rightarrow> Subject \<Rightarrow> string \<Rightarrow> bool" where
  "appliesToUser env user subject namespace =
     (if subj_Kind subject = ResourceKindUser then ui_Name user = subj_Name subject
      else if subj_Kind subject = ResourceKindGroup then HasString (ui_Groups user) (subj_Name subject)
      else if subj_Kind subject = ResourceKindServiceAccount then
        let saNamespace = (if length (subj_Namespace subject) > 0 then subj_Namespace subject else namespace)
        in if length saNamespace = 0 then False
           else matchesUsername env saNamespace (subj_Name subject) (ui_Name user)
      else False)"

fun appliesToFrom :: "RbacEnv \<Rightarrow> UserInfo \<Rightarrow> Subject list \<Rightarrow> string \<Rightarrow> nat \<Rightarrow> nat \<times> bool" where
  "appliesToFrom env user [] namespace i = (0, False)"
| "appliesToFrom env user (s # ss) namespace i =
     (if appliesToUser env user s namespace then (i, True)
      else appliesToFrom env user ss namespace (i + 1))"

definition appliesTo :: "RbacEnv \<Rightarrow> UserInfo \<Rightarrow> Subject list \<Rightarrow> string \<Rightarrow> nat \<times> bool" where
  "appliesTo env user bindingSubjects namespace = appliesToFrom env user bindingSubjects namespace 0"

section \<open>Descriptions\<close>

definition describeSubject :: "Subject \<Rightarrow> string \<Rightarrow> string" where
  "describeSubject s bindingNamespace =
     (if subj_Kind s = ResourceKindServiceAccount then
        if length (subj_Namespace s) > 0
        then subj_Kind s @ '' '' @ Quote (subj_Name s @ ''/'' @ subj_Namespace s)
        else subj_Kind s @ '' '' @ Quote (subj_Name s @ ''/'' @ bindingNamespace)
      else subj_Kind s @ '' '' @ Quote (subj_Name s))"

definition describeGlobalRoleBinding :: "BindingObj \<Rightarrow> Subject \<Rightarrow> string" where
  "describeGlobalRoleBinding b s =
     ''GlobalRoleBinding '' @ Quote (Name (binding_meta b)) @ '' of '' @ ref_Kind (roleRef b) @
     '' '' @ Quote (ref_Name (roleRef b)) @ '' to '' @ describeSubject s ''''"

definition describeClusterRoleBinding :: "BindingObj \<Rightarrow> Subject \<Rightarrow> string" where
  "describeClusterRoleBinding b s =
     ''ClusterRoleBinding '' @ Quote (Name (binding_meta b)) @ '' of '' @ ref_Kind (roleRef b) @
     '' '' @ Quote (ref_Name (roleRef b)) @ '' to '' @ describeSubject s ''''"

definition describeRoleBinding :: "BindingObj \<Rightarrow> Subject \<Rightarrow> string" where
  "describeRoleBinding b s =
     ''RoleBinding '' @ Quote (Name (binding_meta b) @ ''/'' @ Namespace (binding_meta b)) @ '' of '' @
     ref_Kind (roleRef b) @ '' '' @ Quote (ref_Name (roleRef b)) @ '' to '' @
     describeSubject s (Namespace (binding_meta b))"

section \<open>Visiting the rules\<close>

text \<open>
  A visitor takes the description of the source (read only when it allows), a policy, maybe a rule
  and maybe an error; it updates its state and says whether to go on.
\<close>

type_synonym 's visitor =
  "string \<Rightarrow> string \<Rightarrow> PolicyRule option \<Rightarrow> goerr option \<Rightarrow> 's \<Rightarrow> 's \<times> bool"

fun visitRules :: "'s visitor \<Rightarrow> string \<Rightarrow> PolicyRule list \<Rightarrow> 's \<Rightarrow> 's \<times> bool" where
  "visitRules visitor source [] s = (s, True)"
| "visitRules visitor source (rule # rules) s =
     (case visitor source '''' (Some rule) None s of
        (s', False) \<Rightarrow> (s', False)
      | (s', True) \<Rightarrow> visitRules visitor source rules s')"

fun visitBindings ::
  "RbacEnv \<Rightarrow> RulesAM \<Rightarrow> UserInfo \<Rightarrow> string \<Rightarrow> (BindingObj \<Rightarrow> Subject \<Rightarrow> string) \<Rightarrow> 's visitor \<Rightarrow>
   BindingObj list \<Rightarrow> 's \<Rightarrow> ('s \<times> bool) out" where
  "visitBindings env am user ns describe visitor [] s = Inr (s, True)"
| "visitBindings env am user ns describe visitor (b # bs) s =
     (let (subjectIndex, applies) = appliesTo env user (Subjects b) ns in
      if \<not> applies then visitBindings env am user ns describe visitor bs s
      else
        (case amGetRoleReferenceRules am (roleRef b) ns of
           Inl (Panic p) \<Rightarrow> Inl (Panic p)
         | Inl (Err err) \<Rightarrow>
             visitBindings env am user ns describe visitor bs (fst (visitor '''' '''' None (Some err) s))
         | Inr (regoPolicy, rules) \<Rightarrow>
             let source = describe b (Subjects b ! subjectIndex) in
             (case visitor source regoPolicy None None s of
                (s', False) \<Rightarrow> Inr (s', False)
              | (s', True) \<Rightarrow>
                  (case visitRules visitor source rules s' of
                     (s'', False) \<Rightarrow> Inr (s'', False)
                   | (s'', True) \<Rightarrow> visitBindings env am user ns describe visitor bs s''))))"

definition visitNamespace ::
  "RbacEnv \<Rightarrow> RulesAM \<Rightarrow> AttributesRecord \<Rightarrow> 's visitor \<Rightarrow> 's \<Rightarrow> 's out" where
  "visitNamespace env am a visitor s =
     (if attr_ResourceScope a = NamespaceScope then
        let namespace = attr_Namespace a in
        (case amListRoleBindings am (ui_Name (attr_User a)) [] namespace of
           Inl (Panic p) \<Rightarrow> Inl (Panic p)
         | Inl (Err err) \<Rightarrow> Inr (fst (visitor '''' '''' None (Some err) s))
         | Inr roleBindings \<Rightarrow>
             obind (visitBindings env am (attr_User a) namespace describeRoleBinding visitor roleBindings s)
               (\<lambda>(s', _). Inr s'))
      else Inr s)"

definition visitRulesFor ::
  "RbacEnv \<Rightarrow> RulesAM \<Rightarrow> AttributesRecord \<Rightarrow> 's visitor \<Rightarrow> 's \<Rightarrow> 's out" where
  "visitRulesFor env am a visitor s =
     (case amListGlobalRoleBindings am (ui_Name (attr_User a)) of
        Inl (Panic p) \<Rightarrow> Inl (Panic p)
      | Inl (Err err) \<Rightarrow>
          (case visitor '''' '''' None (Some err) s of
             (s', False) \<Rightarrow> Inr s'
           | (s', True) \<Rightarrow> visitNamespace env am a visitor s')
      | Inr globalRoleBindings \<Rightarrow>
          obind (visitBindings env am (attr_User a) '''' describeGlobalRoleBinding visitor globalRoleBindings s)
            (\<lambda>(s', continue).
               if \<not> continue then Inr s'
               else if attr_ResourceScope a = GlobalScope then Inr s'
               else visitNamespace env am a visitor s'))"

section \<open>The authorizer\<close>

record authorizingVisitor =
  allowed :: bool
  av_reason :: string
  av_errors :: "goerr list"

definition visit :: "RbacEnv \<Rightarrow> AttributesRecord \<Rightarrow> authorizingVisitor visitor" where
  "visit env a source regoPolicy rule err v =
     (if regoPolicy \<noteq> '''' \<and> regoPolicyAllows env a regoPolicy
        then (v\<lparr>allowed := True, av_reason := ''RBAC: allowed by '' @ source\<rparr>, False)
      else if (case rule of None \<Rightarrow> False | Some r \<Rightarrow> ruleAllows a r)
        then (v\<lparr>allowed := True, av_reason := ''RBAC: allowed by '' @ source\<rparr>, False)
      else (case err of None \<Rightarrow> v | Some e \<Rightarrow> v\<lparr>av_errors := av_errors v @ [e]\<rparr>, True))"

definition newVisitor :: authorizingVisitor where
  "newVisitor = \<lparr>allowed = False, av_reason = '''', av_errors = []\<rparr>"

text \<open>\<open>errorText\<close> is the \<open>Error\<close> method of the errors. The log of a denial is left out.\<close>

definition rbacAuthorize :: "(goerr \<Rightarrow> string) \<Rightarrow> RbacEnv \<Rightarrow> RulesAM \<Rightarrow> authz" where
  "rbacAuthorize errorText env am attrs =
     (case attrs of
        None \<Rightarrow> Inl (Panic NilDeref)
      | Some a \<Rightarrow>
          if attr_UserInfo a = None then Inl (Panic NilDeref)
          else obind (visitRulesFor env am a (visit env a) newVisitor) (\<lambda>v.
            if allowed v then Inr (DecisionAllow, av_reason v, None)
            else Inr (DecisionNoOpinion,
                      if length (av_errors v) > 0 then ''RBAC: '' @ errorText (Aggregate (av_errors v))
                      else '''', None)))"

definition accumulate :: "(PolicyRule list \<times> goerr list) visitor" where
  "accumulate source policy rule err s =
     ((case rule of None \<Rightarrow> fst s | Some r \<Rightarrow> fst s @ [r],
       case err of None \<Rightarrow> snd s | Some e \<Rightarrow> snd s @ [e]), True)"

definition rulesFor ::
  "RbacEnv \<Rightarrow> RulesAM \<Rightarrow> AttributesRecord \<Rightarrow> (PolicyRule list \<times> goerr option) out" where
  "rulesFor env am a =
     (if attr_UserInfo a = None then Inl (Panic NilDeref)
      else obind (visitRulesFor env am a accumulate ([], []))
       (\<lambda>(rules, errs). Inr (rules, NewAggregate errs)))"

section \<open>The specification\<close>

definition grants :: "RbacEnv \<Rightarrow> RulesAM \<Rightarrow> AttributesRecord \<Rightarrow> string \<Rightarrow> BindingObj \<Rightarrow> bool" where
  "grants env am a ns b \<longleftrightarrow>
     list_ex (\<lambda>s. appliesToUser env (attr_User a) s ns) (Subjects b) \<and>
     (case amGetRoleReferenceRules am (roleRef b) ns of
        Inl _ \<Rightarrow> False
      | Inr (regoPolicy, rules) \<Rightarrow>
          regoPolicy \<noteq> '''' \<and> regoPolicyAllows env a regoPolicy \<or> list_ex (ruleAllows a) rules)"

definition rbacPermits :: "RbacEnv \<Rightarrow> RulesAM \<Rightarrow> AttributesRecord \<Rightarrow> bool" where
  "rbacPermits env am a \<longleftrightarrow>
     (case amListGlobalRoleBindings am (ui_Name (attr_User a)) of
        Inl _ \<Rightarrow> False | Inr bs \<Rightarrow> list_ex (grants env am a '''') bs) \<or>
     attr_ResourceScope a = NamespaceScope \<and>
     (case amListRoleBindings am (ui_Name (attr_User a)) [] (attr_Namespace a) of
        Inl _ \<Rightarrow> False | Inr bs \<Rightarrow> list_ex (grants env am a (attr_Namespace a)) bs)"

lemma appliesToFrom_spec:
  "appliesToFrom env u ss ns i = (j, b) \<Longrightarrow>
   b = list_ex (\<lambda>s. appliesToUser env u s ns) ss \<and> (b \<longrightarrow> i \<le> j \<and> j < i + length ss \<and> appliesToUser env u (ss ! (j - i)) ns)"
proof (induction env u ss ns i rule: appliesToFrom.induct)
  case (2 env user s ss namespace i)
  show ?case
  proof (cases "appliesToUser env user s namespace")
    case True
    then show ?thesis using 2 by simp
  next
    case False
    with 2 have "b = list_ex (\<lambda>s. appliesToUser env user s namespace) ss \<and>
        (b \<longrightarrow> i + 1 \<le> j \<and> j < i + 1 + length ss \<and> appliesToUser env user (ss ! (j - (i + 1))) namespace)"
      by simp
    with False show ?thesis by (auto simp: nth_Cons split: nat.splits) (metis Suc_diff_Suc Suc_le_lessD diff_Suc_eq_diff_pred nat.inject)
  qed
qed simp

lemma appliesTo_iff: "appliesTo env u ss ns = (j, b) \<Longrightarrow> b \<longleftrightarrow> list_ex (\<lambda>s. appliesToUser env u s ns) ss"
  using appliesToFrom_spec by (simp add: appliesTo_def)

lemma visit_cases:
  "visit env a source pol rule err v = (v', go) \<Longrightarrow> \<not> allowed v \<Longrightarrow>
   go = (\<not> allowed v') \<and>
   allowed v' = (pol \<noteq> '''' \<and> regoPolicyAllows env a pol \<or> (\<exists>r. rule = Some r \<and> ruleAllows a r))"
  by (auto simp: visit_def split: if_splits option.splits)

lemma visitRules_visit:
  "visitRules (visit env a) source rules v = (v', go) \<Longrightarrow> \<not> allowed v \<Longrightarrow>
   go = (\<not> allowed v') \<and> allowed v' = list_ex (ruleAllows a) rules"
proof (induction rules arbitrary: v)
  case (Cons r rules)
  obtain w g where w: "visit env a source '''' (Some r) None v = (w, g)" by fastforce
  from visit_cases [OF w Cons.prems(2)] Cons.prems w Cons.IH [of w] show ?case
    by (cases g) auto
qed simp

lemma visitBindings_visit:
  "visitBindings env am (attr_User a) ns describe (visit env a) bs v = Inr (v', go) \<Longrightarrow> \<not> allowed v \<Longrightarrow>
   go = (\<not> allowed v') \<and> allowed v' = list_ex (grants env am a ns) bs"
proof (induction bs arbitrary: v)
  case (Cons b bs)
  obtain j ap where ap: "appliesTo env (attr_User a) (Subjects b) ns = (j, ap)" by fastforce
  note iff = appliesTo_iff [OF ap]
  show ?case
  proof (cases ap)
    case False
    then have "\<not> grants env am a ns b" using iff by (simp add: grants_def)
    then show ?thesis using Cons.IH [of v] Cons.prems ap False by simp
  next
    case True
    show ?thesis
    proof (cases "amGetRoleReferenceRules am (roleRef b) ns")
      case (Inl st)
      then obtain e where e: "st = Err e" using Cons.prems ap True by (cases st) auto
      obtain w g where w: "visit env a '''' '''' None (Some e) v = (w, g)" by fastforce
      from visit_cases [OF w Cons.prems(2)] have "\<not> allowed w" by simp
      moreover have "\<not> grants env am a ns b" using Inl by (simp add: grants_def)
      ultimately show ?thesis using Cons.IH [of w] Cons.prems Inl e ap True w by simp
    next
      case (Inr pr)
      obtain pol rules where pr: "pr = (pol, rules)" by (cases pr)
      let ?src = "describe b (Subjects b ! j)"
      obtain w g where w: "visit env a ?src pol None None v = (w, g)" by fastforce
      obtain x h where x: "visitRules (visit env a) ?src rules w = (x, h)" by fastforce
      note wc = visit_cases [OF w Cons.prems(2)]
      have gr: "grants env am a ns b \<longleftrightarrow> pol \<noteq> '''' \<and> regoPolicyAllows env a pol \<or> list_ex (ruleAllows a) rules"
        using True iff Inr pr by (simp add: grants_def)
      show ?thesis
      proof (cases g)
        case False
        then show ?thesis using Cons.prems ap True Inr pr w wc gr by auto
      next
        case g: True
        with wc have nw: "\<not> allowed w" by simp
        note xc = visitRules_visit [OF x nw]
        show ?thesis
          using Cons.prems Cons.IH [of x] ap True Inr pr w wc gr g x xc by (cases h) auto
      qed
    qed
  qed
qed simp

lemma visitNamespace_visit:
  assumes "visitNamespace env am a (visit env a) v = Inr v'" and "\<not> allowed v"
  shows "allowed v' \<longleftrightarrow> attr_ResourceScope a = NamespaceScope \<and>
    (case amListRoleBindings am (ui_Name (attr_User a)) [] (attr_Namespace a) of
       Inl _ \<Rightarrow> False | Inr bs \<Rightarrow> list_ex (grants env am a (attr_Namespace a)) bs)"
proof (cases "attr_ResourceScope a = NamespaceScope")
  case True
  show ?thesis
  proof (cases "amListRoleBindings am (ui_Name (attr_User a)) [] (attr_Namespace a)")
    case (Inl st)
    then show ?thesis
      using assms True by (cases st) (auto simp: visitNamespace_def Let_def visit_def)
  next
    case (Inr bs)
    then show ?thesis
      using assms True visitBindings_visit [OF _ assms(2)]
      by (fastforce simp: visitNamespace_def Let_def obind_Inr_iff)
  qed
next
  case False
  then show ?thesis using assms by (simp add: visitNamespace_def)
qed

lemma GlobalScope_neq [simp]: "GlobalScope \<noteq> NamespaceScope" "NamespaceScope \<noteq> GlobalScope"
  by (simp_all add: GlobalScope_def NamespaceScope_def)

lemma visitRulesFor_visit:
  assumes "visitRulesFor env am a (visit env a) v = Inr v'" and "\<not> allowed v"
  shows "allowed v' \<longleftrightarrow> rbacPermits env am a"
proof (cases "amListGlobalRoleBindings am (ui_Name (attr_User a))")
  case (Inl st)
  then obtain e where e: "st = Err e" using assms(1) by (cases st) (auto simp: visitRulesFor_def)
  obtain w g where w: "visit env a '''' '''' None (Some e) v = (w, g)" by fastforce
  from visit_cases [OF w assms(2)] have "g" "\<not> allowed w" by simp_all
  then show ?thesis
    using assms(1) Inl e w visitNamespace_visit [of env am a w v']
    by (simp add: visitRulesFor_def rbacPermits_def)
next
  case (Inr bs)
  then obtain w g where
    w: "visitBindings env am (attr_User a) '''' describeGlobalRoleBinding (visit env a) bs v = Inr (w, g)" and
    rest: "(if \<not> g then Inr w else if attr_ResourceScope a = GlobalScope then Inr w
            else visitNamespace env am a (visit env a) w) = Inr v'"
    using assms(1) by (auto simp: visitRulesFor_def obind_Inr_iff)
  show ?thesis
    using visitBindings_visit [OF w assms(2)] rest Inr visitNamespace_visit [of env am a w v']
    by (auto simp: rbacPermits_def split: if_splits)
qed

interpretation rbac: authorizer "rbacAuthorize errorText env am" "rbacPermits env am"
  for errorText env am
proof unfold_locales
  fix a d r e
  assume "rbacAuthorize errorText env am (Some a) = Inr (d, r, e)"
  then obtain v where "visitRulesFor env am a (visit env a) newVisitor = Inr v"
      "d = (if allowed v then DecisionAllow else DecisionNoOpinion)"
    by (auto simp: rbacAuthorize_def obind_Inr_iff split: if_splits)
  moreover have "\<not> allowed newVisitor" by (simp add: newVisitor_def)
  ultimately show "d = (if rbacPermits env am a then DecisionAllow else DecisionNoOpinion)"
    using visitRulesFor_visit by simp
qed

end
