(* ===== verification/Api_Client.thy ===== *)
theory Api_Client
  imports Iam_Types
begin

text \<open>
  The generated clientsets of the API server. The server is outside the program: its state \<open>'w\<close> is a
  type parameter and a client is a record of functions that give an answer and the next state. Code
  that calls a client is a function from the state to an outcome and the next state; \<open>ebind\<close> is its
  sequencing. What the program relies on is stated by \<open>apiStore\<close>: the documented behaviour of the
  verbs on the collection of one resource. \<open>memClient\<close> is an executable server with that behaviour,
  for concrete runs.
\<close>

section \<open>Effects\<close>

type_synonym ('w, 'a) eff = "'w \<Rightarrow> 'a out \<times> 'w"

definition eret :: "'a \<Rightarrow> ('w, 'a) eff" where "eret x w = (Inr x, w)"

definition eout :: "'a out \<Rightarrow> ('w, 'a) eff" where "eout r w = (r, w)"

definition eerr :: "goerr \<Rightarrow> ('w, 'a) eff" where "eerr e w = (Inl (Err e), w)"

definition ecall :: "('w \<Rightarrow> (goerr + 'a) \<times> 'w) \<Rightarrow> ('w, 'a) eff" where
  "ecall f w = (case f w of (r, w') \<Rightarrow> (ofRes r, w'))"

definition ebind :: "('w, 'a) eff \<Rightarrow> ('a \<Rightarrow> ('w, 'b) eff) \<Rightarrow> ('w, 'b) eff" where
  "ebind m f w = (case m w of (Inl s, w') \<Rightarrow> (Inl s, w') | (Inr x, w') \<Rightarrow> f x w')"

text \<open>\<open>if err != nil { handler }\<close>: a panic passes through.\<close>

definition ecatch :: "('w, 'a) eff \<Rightarrow> (goerr \<Rightarrow> ('w, 'b) eff) \<Rightarrow> ('a \<Rightarrow> ('w, 'b) eff) \<Rightarrow> ('w, 'b) eff" where
  "ecatch m h f w =
     (case m w of
        (Inl (Panic p), w') \<Rightarrow> (Inl (Panic p), w')
      | (Inl (Err e), w') \<Rightarrow> h e w'
      | (Inr x, w') \<Rightarrow> f x w')"

lemma eff_simps [simp, go_simps]:
  "eret x w = (Inr x, w)" "eout r w = (r, w)" "eerr e w = (Inl (Err e), w)"
  by (simp_all add: eret_def eout_def eerr_def)

lemma ebind_simps [simp, go_simps]:
  "m w = (Inr x, w') \<Longrightarrow> ebind m f w = f x w'"
  "m w = (Inl s, w') \<Longrightarrow> ebind m f w = (Inl s, w')"
  by (simp_all add: ebind_def)

lemma ebind_Inr_iff:
  "ebind m f w = (Inr y, w'') \<longleftrightarrow> (\<exists>x w'. m w = (Inr x, w') \<and> f x w' = (Inr y, w''))"
  by (auto simp: ebind_def split: prod.splits sum.splits)

lemma ecall_Inr_iff: "ecall f w = (Inr x, w') \<longleftrightarrow> f w = (Inr x, w')"
  by (auto simp: ecall_def ofRes_def split: prod.splits sum.splits)

lemma ecatch_Inr_iff:
  "ecatch m h f w = (Inr y, w'') \<longleftrightarrow>
   (\<exists>x w'. m w = (Inr x, w') \<and> f x w' = (Inr y, w'')) \<or>
   (\<exists>e w'. m w = (Inl (Err e), w') \<and> h e w' = (Inr y, w''))"
  by (auto simp: ecatch_def split: prod.splits sum.splits stop.splits)

definition assertAs :: "(RuntimeObject \<Rightarrow> 'a option) \<Rightarrow> RuntimeObject \<Rightarrow> 'a out" where
  \<comment> \<open>a type assertion without the comma-ok form\<close>
  "assertAs f x =
     (case f x of None \<Rightarrow> Inl (Panic (Explicit ''interface conversion'')) | Some v \<Rightarrow> Inr v)"

section \<open>Clients\<close>

record ('o, 'w) Client =
  cCreate :: "string \<Rightarrow> 'o \<Rightarrow> 'w \<Rightarrow> (goerr + 'o) \<times> 'w"
  cUpdate :: "string \<Rightarrow> 'o \<Rightarrow> 'w \<Rightarrow> (goerr + 'o) \<times> 'w"
  cUpdateStatus :: "string \<Rightarrow> 'o \<Rightarrow> 'w \<Rightarrow> (goerr + 'o) \<times> 'w"
  cPatch :: "string \<Rightarrow> string \<Rightarrow> string \<Rightarrow> 'w \<Rightarrow> (goerr + 'o) \<times> 'w"
  cDelete :: "string \<Rightarrow> string \<Rightarrow> 'w \<Rightarrow> (goerr + unit) \<times> 'w"
  cGet :: "string \<Rightarrow> string \<Rightarrow> 'w \<Rightarrow> (goerr + 'o) \<times> 'w"
  cList :: "string \<Rightarrow> 'w \<Rightarrow> (goerr + 'o list) \<times> 'w"

record 'w Clients =
  clUsers :: "(User, 'w) Client"
  clLoginRecords :: "(LoginRecord, 'w) Client"
  clGlobalRoles :: "(RoleObj, 'w) Client"
  clGlobalRoleBindings :: "(BindingObj, 'w) Client"
  clRoles :: "(RoleObj, 'w) Client"
  clRoleBindings :: "(BindingObj, 'w) Client"
  clClusterRoles :: "(RoleObj, 'w) Client"
  clClusterRoleBindings :: "(BindingObj, 'w) Client"
  clNamespaces :: "(NamespaceObj, 'w) Client"
  marshalRole :: "RoleObj \<Rightarrow> goerr + string"

text \<open>
  The documented behaviour of create, delete and update on a collection \<open>contents ns\<close> of objects
  with distinct names: a call that succeeds has its effect and no other, one that fails has none. The
  server may complete the metadata of a created object; \<open>kept\<close> says what it keeps.
\<close>

definition apiStore ::
  "('o \<Rightarrow> 'o \<Rightarrow> bool) \<Rightarrow> (string \<Rightarrow> 'w \<Rightarrow> 'o list) \<Rightarrow> ('o \<Rightarrow> ObjectMeta) \<Rightarrow> ('o, 'w) Client \<Rightarrow> bool" where
  "apiStore kept contents md c \<longleftrightarrow>
     (\<forall>ns x w r w'. cCreate c ns x w = (r, w') \<longrightarrow>
        (case r of Inl e \<Rightarrow> contents ns w' = contents ns w
         | Inr y \<Rightarrow> kept x y \<and> set (contents ns w') = insert y (set (contents ns w)))) \<and>
     (\<forall>ns n w r w'. cDelete c ns n w = (r, w') \<longrightarrow>
        (case r of
           Inl e \<Rightarrow> contents ns w' = contents ns w \<and>
             (IsNotFound e \<longrightarrow> (\<forall>x \<in> set (contents ns w). Name (md x) \<noteq> n))
         | Inr _ \<Rightarrow> set (contents ns w') = {x \<in> set (contents ns w). Name (md x) \<noteq> n}))"

lemma apiStore_createD:
  "apiStore kept contents md c \<Longrightarrow> cCreate c ns x w = (Inr y, w') \<Longrightarrow>
   kept x y \<and> set (contents ns w') = insert y (set (contents ns w))"
  unfolding apiStore_def by fastforce

lemma apiStore_deleteD:
  "apiStore kept contents md c \<Longrightarrow> cDelete c ns n w = (Inr u, w') \<Longrightarrow>
   set (contents ns w') = {x \<in> set (contents ns w). Name (md x) \<noteq> n}"
  unfolding apiStore_def by fastforce

lemma apiStore_delete_failD:
  "apiStore kept contents md c \<Longrightarrow> cDelete c ns n w = (Inl e, w') \<Longrightarrow>
   contents ns w' = contents ns w \<and> (IsNotFound e \<longrightarrow> (\<forall>x \<in> set (contents ns w). Name (md x) \<noteq> n))"
  unfolding apiStore_def by fastforce

section \<open>An in-memory server\<close>

text \<open>
  The collection of one kind is a list; \<open>get\<close> and \<open>put\<close> reach it in the state. Names are unique in a
  namespace.
\<close>

definition sameKey :: "('o \<Rightarrow> ObjectMeta) \<Rightarrow> string \<Rightarrow> string \<Rightarrow> 'o \<Rightarrow> bool" where
  "sameKey md ns n x \<longleftrightarrow> Namespace (md x) = ns \<and> Name (md x) = n"

definition memClient ::
  "string \<Rightarrow> ('o \<Rightarrow> ObjectMeta) \<Rightarrow> (string \<Rightarrow> 'o \<Rightarrow> 'o) \<Rightarrow> ('w \<Rightarrow> 'o list) \<Rightarrow>
   ('o list \<Rightarrow> 'w \<Rightarrow> 'w) \<Rightarrow> ('o, 'w) Client" where
  "memClient res md setns get put = \<lparr>
     cCreate = (\<lambda>ns x w.
       if list_ex (sameKey md ns (Name (md x))) (get w)
       then (Inl (AlreadyExists res (Name (md x))), w)
       else (Inr (setns ns x), put (get w @ [setns ns x]) w)),
     cUpdate = (\<lambda>ns x w.
       if list_ex (sameKey md ns (Name (md x))) (get w)
       then (Inr x, put (map (\<lambda>y. if sameKey md ns (Name (md x)) y then x else y) (get w)) w)
       else (Inl (NotFound res (Name (md x))), w)),
     cUpdateStatus = (\<lambda>ns x w.
       if list_ex (sameKey md ns (Name (md x))) (get w)
       then (Inr x, put (map (\<lambda>y. if sameKey md ns (Name (md x)) y then x else y) (get w)) w)
       else (Inl (NotFound res (Name (md x))), w)),
     cPatch = (\<lambda>ns n d w.
       case find (sameKey md ns n) (get w) of
         None \<Rightarrow> (Inl (NotFound res n), w) | Some x \<Rightarrow> (Inr x, w)),
     cDelete = (\<lambda>ns n w.
       if list_ex (sameKey md ns n) (get w)
       then (Inr (), put (filter (\<lambda>x. \<not> sameKey md ns n x) (get w)) w)
       else (Inl (NotFound res n), w)),
     cGet = (\<lambda>ns n w.
       case find (sameKey md ns n) (get w) of
         None \<Rightarrow> (Inl (NotFound res n), w) | Some x \<Rightarrow> (Inr x, w)),
     cList = (\<lambda>ns w. (Inr (filter (\<lambda>x. Namespace (md x) = ns) (get w)), w))\<rparr>"

lemma memClient_apiStore:
  assumes "\<And>xs w. get (put xs w) = xs" and "\<And>ns x. kept x (setns ns x)"
    and "\<And>ns x. Namespace (md (setns ns x)) = ns"
  shows "apiStore kept (\<lambda>ns w. filter (\<lambda>x. Namespace (md x) = ns) (get w)) md
    (memClient res md setns get put)"
  unfolding apiStore_def
  by (auto simp: memClient_def sameKey_def assms list_ex_iff split: sum.splits if_splits)

record Cluster =
  c_users :: "User list"
  c_records :: "LoginRecord list"
  c_globalRoles :: "RoleObj list"
  c_globalRoleBindings :: "BindingObj list"
  c_roles :: "RoleObj list"
  c_roleBindings :: "BindingObj list"
  c_clusterRoles :: "RoleObj list"
  c_clusterRoleBindings :: "BindingObj list"
  c_namespaces :: "NamespaceObj list"

definition emptyCluster :: Cluster where
  "emptyCluster = \<lparr>c_users = [], c_records = [], c_globalRoles = [], c_globalRoleBindings = [],
     c_roles = [], c_roleBindings = [], c_clusterRoles = [], c_clusterRoleBindings = [],
     c_namespaces = []\<rparr>"

definition roleNs :: "string \<Rightarrow> RoleObj \<Rightarrow> RoleObj" where
  "roleNs ns r = r\<lparr>role_meta := (role_meta r)\<lparr>Namespace := ns\<rparr>\<rparr>"

definition bindingNs :: "string \<Rightarrow> BindingObj \<Rightarrow> BindingObj" where
  "bindingNs ns b = b\<lparr>binding_meta := (binding_meta b)\<lparr>Namespace := ns\<rparr>\<rparr>"

definition memClients :: "Cluster Clients" where
  "memClients = \<lparr>
     clUsers = memClient ''users'' user_meta (\<lambda>_ u. u) c_users (\<lambda>xs w. w\<lparr>c_users := xs\<rparr>),
     clLoginRecords = memClient ''loginrecords'' record_meta (\<lambda>_ r. r) c_records (\<lambda>xs w. w\<lparr>c_records := xs\<rparr>),
     clGlobalRoles = memClient ''globalroles'' role_meta roleNs c_globalRoles (\<lambda>xs w. w\<lparr>c_globalRoles := xs\<rparr>),
     clGlobalRoleBindings = memClient ''globalrolebindings'' binding_meta bindingNs c_globalRoleBindings
       (\<lambda>xs w. w\<lparr>c_globalRoleBindings := xs\<rparr>),
     clRoles = memClient ''roles'' role_meta roleNs c_roles (\<lambda>xs w. w\<lparr>c_roles := xs\<rparr>),
     clRoleBindings = memClient ''rolebindings'' binding_meta bindingNs c_roleBindings
       (\<lambda>xs w. w\<lparr>c_roleBindings := xs\<rparr>),
     clClusterRoles = memClient ''clusterroles'' role_meta roleNs c_clusterRoles
       (\<lambda>xs w. w\<lparr>c_clusterRoles := xs\<rparr>),
     clClusterRoleBindings = memClient ''clusterrolebindings'' binding_meta bindingNs c_clusterRoleBindings
       (\<lambda>xs w. w\<lparr>c_clusterRoleBindings := xs\<rparr>),
     clNamespaces = memClient ''namespaces'' ns_meta (\<lambda>_ n. n) c_namespaces (\<lambda>xs w. w\<lparr>c_namespaces := xs\<rparr>),
     marshalRole = (\<lambda>r. Inr (Name (role_meta r)))\<rparr>"

lemmas mem_eval = memClients_def memClient_def sameKey_def roleNs_def bindingNs_def emptyCluster_def
  ebind_def ecatch_def ecall_def

end
