(* ===== verification/Access_Mgmt.thy ===== *)
theory Access_Mgmt
  imports Api_Client Resource_Getters Rbac
begin

text \<open>
  \<open>pkg/middles/iam/am/am.go\<close>: the access manager. It reads roles and bindings through the resource
  getters (the informer caches) and writes through the clients of the API server. The record
  \<open>amOperator\<close> is the struct of the same name.
\<close>

section \<open>The operator\<close>

record amOperator =
  globalRoleBindingGetter :: Getter
  clusterRoleBindingGetter :: Getter
  roleBindingGetter :: Getter
  globalRoleGetter :: Getter
  clusterRoleGetter :: Getter
  roleGetter :: Getter

definition NewReadOnlyOperator :: "Libs \<Rightarrow> Informers \<Rightarrow> amOperator" where
  "NewReadOnlyOperator libs infs = \<lparr>
     globalRoleBindingGetter = globalrolebindingsGetter libs infs,
     clusterRoleBindingGetter = clusterrolebindingsGetter libs infs,
     roleBindingGetter = rolebindingsGetter libs infs,
     globalRoleGetter = globalrolesGetter libs infs,
     clusterRoleGetter = clusterrolesGetter libs infs,
     roleGetter = rolesGetter libs infs\<rparr>"

text \<open>Names in messages and in \<open>NotFound\<close> errors.\<close>

definition ResourcesSingularGlobalRoleBinding :: string where
  "ResourcesSingularGlobalRoleBinding = ''globalrolebinding''"
definition ResourcesSingularRoleBinding :: string where
  "ResourcesSingularRoleBinding = ''rolebinding''"
definition ResourcesSingularClusterRoleBinding :: string where
  "ResourcesSingularClusterRoleBinding = ''clusterrolebinding''"
definition ResourcesPluralUser :: string where "ResourcesPluralUser = ''users''"

section \<open>Reading\<close>

text \<open>The outcome of a \<open>List\<close> of a getter.\<close>

definition listItems :: "Getter \<Rightarrow> string \<Rightarrow> Query \<Rightarrow> RuntimeObject list out" where
  "listItems g ns q = obind (snd (snd (getterList g ns q))) (\<lambda>r. Inr (Items r))"

text \<open>The loops over the items: assert the type, test, append.\<close>

fun assertLoop :: "(RuntimeObject \<Rightarrow> 'a option) \<Rightarrow> ('a \<Rightarrow> bool) \<Rightarrow> RuntimeObject list \<Rightarrow> 'a list \<Rightarrow> 'a list out" where
  "assertLoop as p [] result = Inr result"
| "assertLoop as p (obj # objs) result =
     obind (assertAs as obj) (\<lambda>x. assertLoop as p objs (if p x then result @ [x] else result))"

definition containsSubject :: "Subject list \<Rightarrow> string \<Rightarrow> string list \<Rightarrow> bool" where
  "containsSubject subjects username groups =
     (if username = '''' then True
      else list_ex (\<lambda>s.
        subj_Kind s = ResourceKindUser \<and> subj_Name s = username \<or>
        subj_Kind s = ResourceKindGroup \<and> HasString groups (subj_Name s)) subjects)"

definition ListClusterRoleBindings :: "amOperator \<Rightarrow> string \<Rightarrow> BindingObj list out" where
  "ListClusterRoleBindings am username =
     obind (listItems (clusterRoleBindingGetter am) '''' newQuery)
       (\<lambda>items. assertLoop asClusterRoleBinding (\<lambda>b. containsSubject (Subjects b) username []) items [])"

definition ListGlobalRoleBindings :: "amOperator \<Rightarrow> string \<Rightarrow> BindingObj list out" where
  "ListGlobalRoleBindings am username =
     obind (listItems (globalRoleBindingGetter am) '''' newQuery)
       (\<lambda>items. assertLoop asGlobalRoleBinding (\<lambda>b. containsSubject (Subjects b) username []) items [])"

definition ListRoleBindings :: "amOperator \<Rightarrow> string \<Rightarrow> string list \<Rightarrow> string \<Rightarrow> BindingObj list out" where
  "ListRoleBindings am username groups namespace =
     obind (listItems (roleBindingGetter am) namespace newQuery)
       (\<lambda>items. assertLoop asRoleBinding (\<lambda>b. containsSubject (Subjects b) username groups) items [])"

definition GetRoleBindingOfUser :: "amOperator \<Rightarrow> string \<Rightarrow> BindingObj list out" where
  "GetRoleBindingOfUser am username =
     obind (listItems (roleBindingGetter am) '''' newQuery)
       (\<lambda>items. assertLoop asRoleBinding
          (\<lambda>b. mget (Labels (binding_meta b)) UserReferenceLabel = username) items [])"

definition ListRoles :: "amOperator \<Rightarrow> string \<Rightarrow> Query \<Rightarrow> RoleObj list out" where
  "ListRoles am namespace q =
     obind (listItems (roleGetter am) namespace q) (\<lambda>items. assertLoop asRole (\<lambda>_. True) items [])"

definition ListClusterRoles :: "amOperator \<Rightarrow> Query \<Rightarrow> ListResult out" where
  "ListClusterRoles am q = snd (snd (getterList (clusterRoleGetter am) '''' q))"

definition ListGlobalRoles :: "amOperator \<Rightarrow> Query \<Rightarrow> RoleObj list out" where
  "ListGlobalRoles am q =
     obind (listItems (globalRoleGetter am) '''' q) (\<lambda>items. assertLoop asGlobalRole (\<lambda>_. True) items [])"

definition GetGlobalRole :: "amOperator \<Rightarrow> string \<Rightarrow> RoleObj out" where
  "GetGlobalRole am globalRole =
     obind (ofRes (getterGet (globalRoleGetter am) '''' globalRole)) (assertAs asGlobalRole)"

definition GetNamespaceRole :: "amOperator \<Rightarrow> string \<Rightarrow> string \<Rightarrow> RoleObj out" where
  "GetNamespaceRole am namespace name =
     obind (ofRes (getterGet (roleGetter am) namespace name)) (assertAs asRole)"

definition GetClusterRole :: "amOperator \<Rightarrow> string \<Rightarrow> RoleObj out" where
  "GetClusterRole am name =
     obind (ofRes (getterGet (clusterRoleGetter am) '''' name)) (assertAs asClusterRole)"

text \<open>\<open>GetGlobalRoleOfUser\<close> does not look at the error of the listing; a failed listing is empty.\<close>

definition GetGlobalRoleOfUser :: "amOperator \<Rightarrow> string \<Rightarrow> RoleObj out" where
  "GetGlobalRoleOfUser am username =
     (case ListGlobalRoleBindings am username of
        Inl (Panic p) \<Rightarrow> Inl (Panic p)
      | Inr (b # bs) \<Rightarrow> GetGlobalRole am (ref_Name (roleRef b))
      | _ \<Rightarrow> Inl (Err (NotFound ResourcesSingularGlobalRoleBinding username)))"

definition annotateRole :: "string \<Rightarrow> RoleObj \<Rightarrow> RoleObj" where
  \<comment> \<open>on a deep copy: make the annotations when nil, then write the role's name\<close>
  "annotateRole key role =
     role\<lparr>role_meta := (role_meta role)\<lparr>Annotations :=
       mput (Annotations (role_meta role)) key (Name (role_meta role))\<rparr>\<rparr>"

fun namespaceRoles :: "amOperator \<Rightarrow> string \<Rightarrow> BindingObj list \<Rightarrow> RoleObj list out" where
  "namespaceRoles am namespace [] = Inr []"
| "namespaceRoles am namespace (b # bs) =
     obind (GetNamespaceRole am namespace (ref_Name (roleRef b))) (\<lambda>role.
     obind (namespaceRoles am namespace bs) (\<lambda>roles. Inr (annotateRole RoleAnnotation role # roles)))"

definition GetNamespaceRoleOfUser :: "amOperator \<Rightarrow> string \<Rightarrow> string list \<Rightarrow> string \<Rightarrow> RoleObj list out" where
  "GetNamespaceRoleOfUser am username groups namespace =
     obind (ListRoleBindings am username groups namespace) (\<lambda>userRoleBindings.
       if length userRoleBindings > 0 then namespaceRoles am namespace userRoleBindings
       else Inl (Err (NotFound ResourcesSingularRoleBinding username)))"

definition GetClusterRoleOfUser :: "amOperator \<Rightarrow> string \<Rightarrow> RoleObj out" where
  "GetClusterRoleOfUser am username =
     obind (ListClusterRoleBindings am username) (\<lambda>userRoleBindings.
       case userRoleBindings of
         b # _ \<Rightarrow>
           obind (GetClusterRole am (ref_Name (roleRef b)))
             (\<lambda>role. Inr (annotateRole ClusterRoleAnnotation role))
       | [] \<Rightarrow> Inl (Err (NotFound ResourcesSingularClusterRoleBinding username)))"

definition rulesOfRole :: "RoleObj out \<Rightarrow> (string \<times> PolicyRule list) out" where
  \<comment> \<open>a missing role has no rules\<close>
  "rulesOfRole r =
     (case r of
        Inl (Panic p) \<Rightarrow> Inl (Panic p)
      | Inl (Err err) \<Rightarrow> if IsNotFound err then Inr ('''', []) else Inl (Err err)
      | Inr role \<Rightarrow> Inr (mget (Annotations (role_meta role)) RegoOverrideAnnotation, Rules role))"

definition GetRoleReferenceRules :: "amOperator \<Rightarrow> RoleRef \<Rightarrow> string \<Rightarrow> (string \<times> PolicyRule list) out" where
  "GetRoleReferenceRules am ref namespace =
     (if ref_Kind ref = ResourceKindRole then rulesOfRole (GetNamespaceRole am namespace (ref_Name ref))
      else if ref_Kind ref = ResourceKindClusterRole then rulesOfRole (GetClusterRole am (ref_Name ref))
      else if ref_Kind ref = ResourceKindGlobalRole then rulesOfRole (GetGlobalRole am (ref_Name ref))
      else Inl (Err (Msg (''unsupported role reference kind: '' @ Quote (ref_Kind ref)))))"

text \<open>What the RBAC authorizer asks of the access manager.\<close>

definition rulesAM :: "amOperator \<Rightarrow> RulesAM" where
  "rulesAM am = \<lparr>amListGlobalRoleBindings = ListGlobalRoleBindings am,
     amListRoleBindings = ListRoleBindings am,
     amGetRoleReferenceRules = GetRoleReferenceRules am\<rparr>"

section \<open>Writing\<close>

definition bindingFor :: "string \<Rightarrow> string \<Rightarrow> string \<Rightarrow> string \<Rightarrow> BindingObj" where
  \<comment> \<open>the literal of the binding of one user to one role\<close>
  "bindingFor username role refGroup refKind = \<lparr>
     binding_meta = emptyMeta\<lparr>Name := username @ ''-'' @ role,
                              Labels := Some [UserReferenceLabel \<mapsto> username]\<rparr>,
     Subjects = [\<lparr>subj_Kind = ResourceKindUser, subj_APIGroup = rbacGroup, subj_Name = username,
                  subj_Namespace = ''''\<rparr>],
     roleRef = \<lparr>ref_APIGroup = refGroup, ref_Kind = refKind, ref_Name = role\<rparr>\<rparr>"

text \<open>
  The loop that deletes the user's bindings: it returns at once (\<open>True\<close>) when it meets a binding of
  the wanted role, skips a binding that is already gone and fails on any other error.
\<close>

fun deleteOthers :: "(BindingObj, 'w) Client \<Rightarrow> string \<Rightarrow> BindingObj list \<Rightarrow> ('w, bool) eff" where
  "deleteOthers c role [] = eret False"
| "deleteOthers c role (b # bs) =
     (if role = ref_Name (roleRef b) then eret True
      else ecatch (ecall (cDelete c '''' (Name (binding_meta b))))
             (\<lambda>err. if IsNotFound err then deleteOthers c role bs else eerr err)
             (\<lambda>_. deleteOthers c role bs))"

definition CreateGlobalRoleBinding :: "'w Clients \<Rightarrow> amOperator \<Rightarrow> string \<Rightarrow> string \<Rightarrow> ('w, unit) eff" where
  "CreateGlobalRoleBinding cl am username role =
     ebind (eout (GetGlobalRole am role)) (\<lambda>_.
     ebind (eout (ListGlobalRoleBindings am username)) (\<lambda>roleBindings.
     ebind (deleteOthers (clGlobalRoleBindings cl) role roleBindings) (\<lambda>found.
       if found then eret ()
       else ebind (ecall (cCreate (clGlobalRoleBindings cl) ''''
                     (bindingFor username role iamGroup ResourceKindGlobalRole)))
              (\<lambda>_. eret ()))))"

definition CreateClusterRoleBinding :: "'w Clients \<Rightarrow> amOperator \<Rightarrow> string \<Rightarrow> string \<Rightarrow> ('w, unit) eff" where
  "CreateClusterRoleBinding cl am username role =
     ebind (eout (GetClusterRole am role)) (\<lambda>_.
     ebind (eout (ListClusterRoleBindings am username)) (\<lambda>roleBindings.
     ebind (deleteOthers (clClusterRoleBindings cl) role roleBindings) (\<lambda>found.
       if found then eret ()
       else ebind (ecall (cCreate (clClusterRoleBindings cl) ''''
                     (bindingFor username role rbacGroup ResourceKindClusterRole)))
              (\<lambda>_. eret ()))))"

definition PatchGlobalRole :: "'w Clients \<Rightarrow> amOperator \<Rightarrow> RoleObj \<Rightarrow> ('w, RoleObj) eff" where
  "PatchGlobalRole cl am globalRole =
     ebind (eout (GetGlobalRole am (Name (role_meta globalRole)))) (\<lambda>old.
     ebind (eout (ofRes (marshalRole cl (globalRole\<lparr>Rules := Rules old\<rparr>)))) (\<lambda>data.
     ecall (cPatch (clGlobalRoles cl) '''' (Name (role_meta globalRole)) data)))"

definition PatchNamespaceRole ::
  "'w Clients \<Rightarrow> amOperator \<Rightarrow> string \<Rightarrow> RoleObj \<Rightarrow> ('w, RoleObj) eff" where
  "PatchNamespaceRole cl am namespace role =
     ebind (eout (GetNamespaceRole am namespace (Name (role_meta role)))) (\<lambda>old.
     ebind (eout (ofRes (marshalRole cl (role\<lparr>Rules := Rules old\<rparr>)))) (\<lambda>data.
     ecall (cPatch (clRoles cl) namespace (Name (role_meta role)) data)))"

definition PatchClusterRole :: "'w Clients \<Rightarrow> amOperator \<Rightarrow> RoleObj \<Rightarrow> ('w, RoleObj) eff" where
  "PatchClusterRole cl am clusterRole =
     ebind (eout (GetClusterRole am (Name (role_meta clusterRole)))) (\<lambda>old.
     ebind (eout (ofRes (marshalRole cl (clusterRole\<lparr>Rules := Rules old\<rparr>)))) (\<lambda>data.
     ecall (cPatch (clClusterRoles cl) '''' (Name (role_meta clusterRole)) data)))"

definition GetNamespaceRoleBindingByUser ::
  "'w Clients \<Rightarrow> string \<Rightarrow> string \<Rightarrow> ('w, BindingObj option) eff" where
  "GetNamespaceRoleBindingByUser cl namespace username =
     ecatch (ecall (cList (clRoleBindings cl) namespace))
       (\<lambda>err. eret None)
       (\<lambda>items. eret (find (\<lambda>b. mget (Labels (binding_meta b)) UserReferenceLabel = username) items))"

definition DeleteNamespaceRoleBindingByUser ::
  "'w Clients \<Rightarrow> string \<Rightarrow> string \<Rightarrow> ('w, unit) eff" where
  "DeleteNamespaceRoleBindingByUser cl namespace username =
     ebind (GetNamespaceRoleBindingByUser cl namespace username) (\<lambda>b.
       case b of
         None \<Rightarrow> eret ()
       | Some b \<Rightarrow> ecall (cDelete (clRoleBindings cl) namespace (Name (binding_meta b))))"

text \<open>The two messages are in Chinese in the source; ASCII labels stand for them.\<close>

definition ErrAppointManagerFirst :: goerr where
  "ErrAppointManagerFirst = Msg ''appoint a new manager of the namespace first''"

definition ErrUserIsManager :: "string \<Rightarrow> string \<Rightarrow> goerr" where
  "ErrUserIsManager username namespace =
     Msg (''user '' @ username @ '' manages namespace '' @ namespace)"

definition withCreator :: "NamespaceObj \<Rightarrow> string \<Rightarrow> NamespaceObj go" where
  \<comment> \<open>\<open>ns.Annotations[constants.CreatorAnnotationKey] = username\<close>\<close>
  "withCreator ns username =
     gbind (mset_key (Annotations (ns_meta ns)) CreatorAnnotationKey username)
       (\<lambda>m. Inr (ns\<lparr>ns_meta := (ns_meta ns)\<lparr>Annotations := m\<rparr>\<rparr>))"

definition CreateNamespaceRoleBinding ::
  "'w Clients \<Rightarrow> string \<Rightarrow> string \<Rightarrow> string \<Rightarrow> ('w, unit) eff" where
  "CreateNamespaceRoleBinding cl username namespace role =
     ebind (ecall (cGet (clNamespaces cl) '''' namespace)) (\<lambda>ns.
     let manager = mget (Annotations (ns_meta ns)) CreatorAnnotationKey in
     if role \<noteq> ''admin'' \<and> manager = username then eerr ErrAppointManagerFirst
     else
       ebind (DeleteNamespaceRoleBindingByUser cl namespace username) (\<lambda>_.
       ebind (ecall (cCreate (clRoleBindings cl) namespace
                (bindingFor username role rbacGroup ResourceKindRole))) (\<lambda>_.
       if role = ''admin'' \<and> manager \<noteq> username then
         ebind (DeleteNamespaceRoleBindingByUser cl namespace manager) (\<lambda>_.
         ebind (ecall (cCreate (clRoleBindings cl) namespace
                  (bindingFor manager ''operator'' rbacGroup ResourceKindRole))) (\<lambda>_.
         ebind (eout (ofGo (withCreator ns username))) (\<lambda>ns'.
         ebind (ecall (cUpdate (clNamespaces cl) '''' ns')) (\<lambda>_. eret ()))))
       else eret ())))"

definition RemoveUserFromNamespace :: "'w Clients \<Rightarrow> string \<Rightarrow> string \<Rightarrow> ('w, unit) eff" where
  "RemoveUserFromNamespace cl username namespace =
     ebind (ecall (cGet (clNamespaces cl) '''' namespace)) (\<lambda>ns.
     if mget (Annotations (ns_meta ns)) CreatorAnnotationKey = username
     then eerr (ErrUserIsManager username namespace)
     else DeleteNamespaceRoleBindingByUser cl namespace username)"

fun deleteAll :: "(BindingObj, 'w) Client \<Rightarrow> BindingObj list \<Rightarrow> ('w, unit) eff" where
  "deleteAll c [] = eret ()"
| "deleteAll c (b # bs) =
     ecatch (ecall (cDelete c '''' (Name (binding_meta b))))
       (\<lambda>err. if IsNotFound err then deleteAll c bs else eerr err)
       (\<lambda>_. deleteAll c bs)"

definition RemoveUserFromCluster :: "'w Clients \<Rightarrow> amOperator \<Rightarrow> string \<Rightarrow> ('w, unit) eff" where
  "RemoveUserFromCluster cl am username =
     ebind (eout (ListClusterRoleBindings am username))
       (\<lambda>roleBindings. deleteAll (clClusterRoleBindings cl) roleBindings)"

definition createOrUpdate :: "(RoleObj, 'w) Client \<Rightarrow> string \<Rightarrow> RoleObj \<Rightarrow> ('w, RoleObj) eff" where
  "createOrUpdate c ns role =
     (if ResourceVersion (role_meta role) \<noteq> '''' then ecall (cUpdate c ns role)
      else ecall (cCreate c ns role))"

definition CreateOrUpdateGlobalRole :: "'w Clients \<Rightarrow> RoleObj \<Rightarrow> ('w, RoleObj) eff" where
  "CreateOrUpdateGlobalRole cl globalRole =
     createOrUpdate (clGlobalRoles cl) '''' (globalRole\<lparr>Rules := []\<rparr>)"

definition CreateOrUpdateClusterRole :: "'w Clients \<Rightarrow> RoleObj \<Rightarrow> ('w, RoleObj) eff" where
  "CreateOrUpdateClusterRole cl clusterRole =
     createOrUpdate (clClusterRoles cl) '''' (clusterRole\<lparr>Rules := []\<rparr>)"

definition CreateOrUpdateNamespaceRole :: "'w Clients \<Rightarrow> string \<Rightarrow> RoleObj \<Rightarrow> ('w, RoleObj) eff" where
  "CreateOrUpdateNamespaceRole cl namespace role =
     createOrUpdate (clRoles cl) namespace
       (role\<lparr>Rules := [], role_meta := (role_meta role)\<lparr>Namespace := namespace\<rparr>\<rparr>)"

definition DeleteGlobalRole :: "'w Clients \<Rightarrow> string \<Rightarrow> ('w, unit) eff" where
  "DeleteGlobalRole cl name = ecall (cDelete (clGlobalRoles cl) '''' name)"

definition DeleteClusterRole :: "'w Clients \<Rightarrow> string \<Rightarrow> ('w, unit) eff" where
  "DeleteClusterRole cl name = ecall (cDelete (clClusterRoles cl) '''' name)"

definition DeleteNamespaceRole :: "'w Clients \<Rightarrow> string \<Rightarrow> string \<Rightarrow> ('w, unit) eff" where
  "DeleteNamespaceRole cl namespace name = ecall (cDelete (clRoles cl) namespace name)"

definition CreateRoleBinding ::
  "'w Clients \<Rightarrow> amOperator \<Rightarrow> string \<Rightarrow> BindingObj \<Rightarrow> ('w, BindingObj) eff" where
  "CreateRoleBinding cl am namespace roleBinding =
     ebind (eout (GetNamespaceRole am namespace (ref_Name (roleRef roleBinding)))) (\<lambda>_.
     case Subjects roleBinding of
       [] \<Rightarrow> eerr (NotFound ResourcesPluralUser '''')
     | s # _ \<Rightarrow>
         let md = binding_meta roleBinding;
             b = roleBinding\<lparr>binding_meta := md\<lparr>
                   GenerateName := subj_Name s @ ''-'' @ ref_Name (roleRef roleBinding) @ ''-'',
                   Labels := mput (Labels md) UserReferenceLabel (subj_Name s)\<rparr>\<rparr>
         in ecall (cCreate (clRoleBindings cl) namespace b))"

definition DeleteRoleBinding :: "'w Clients \<Rightarrow> string \<Rightarrow> string \<Rightarrow> ('w, unit) eff" where
  "DeleteRoleBinding cl namespace name = ecall (cDelete (clRoleBindings cl) namespace name)"

section \<open>Lemmas on reading\<close>

lemma assertAs_simps [simp]:
  "as x = Some v \<Longrightarrow> assertAs as x = Inr v"
  "as x = None \<Longrightarrow> panics (assertAs as x)"
  by (simp_all add: assertAs_def)

lemma assertLoop_filter:
  "(\<And>x. x \<in> set xs \<Longrightarrow> as x \<noteq> None) \<Longrightarrow>
   assertLoop as p xs res = Inr (res @ filter p (map (\<lambda>x. the (as x)) xs))"
proof (induction xs arbitrary: res)
  case (Cons x xs)
  then obtain v where "as x = Some v" by fastforce
  with Cons show ?case by simp
qed simp

lemma newQuery_simps [simp]:
  "q_Pagination newQuery = Some NoPagination" "q_Filters newQuery = []"
  by (simp_all add: newQuery_def)

definition scrubBinding :: "BindingObj \<Rightarrow> BindingObj" where
  "scrubBinding b = b\<lparr>binding_meta := scrubMeta (binding_meta b)\<rparr>"

lemma scrubBinding_simps [simp]:
  "Subjects (scrubBinding b) = Subjects b" "roleRef (scrubBinding b) = roleRef b"
  "Name (binding_meta (scrubBinding b)) = Name (binding_meta b)"
  "Labels (binding_meta (scrubBinding b)) = Labels (binding_meta b)"
  "Namespace (binding_meta (scrubBinding b)) = Namespace (binding_meta b)"
  by (simp_all add: scrubBinding_def scrubMeta_def)

definition cachedSelector :: "Libs \<Rightarrow> selector" where
  "cachedSelector libs = Selector (lib_parse libs) newQuery"

context listing_libs begin

lemma listItems_globalrolebindings:
  assumes "llist (globalRoleBindingsLister infs) (cachedSelector libs) = Inr bs"
  shows "\<exists>items. listItems (globalrolebindingsGetter libs infs) ns newQuery = Inr items \<and>
    mset items = mset (map (\<lambda>b. OGlobalRoleBinding (scrubBinding b)) bs)"
  using globalrolebindings.list_unlimited [of ns newQuery "map OGlobalRoleBinding bs"] assms
  by (auto simp: srcOf_def mapRes_def cachedSelector_def listItems_def globalrolebindings.matches_def
      matches_noFilters scrubBinding_def comp_def obind_Inr_iff)

lemma listItems_rolebindings:
  assumes "nslist (k8sRoleBindings infs) ns (cachedSelector libs) = Inr bs"
  shows "\<exists>items. listItems (rolebindingsGetter libs infs) ns newQuery = Inr items \<and>
    mset items = mset (map (\<lambda>b. ORoleBinding (scrubBinding b)) bs)"
  using rolebindings.list_unlimited [of ns newQuery "map ORoleBinding bs"] assms
  by (auto simp: srcOf_def mapRes_def cachedSelector_def listItems_def rolebindings.matches_def
      matches_noFilters scrubBinding_def comp_def obind_Inr_iff)

lemma listItems_clusterrolebindings:
  assumes "llist (k8sClusterRoleBindings infs) (cachedSelector libs) = Inr bs"
  shows "\<exists>items. listItems (clusterrolebindingsGetter libs infs) ns newQuery = Inr items \<and>
    mset items = mset (map (\<lambda>b. OClusterRoleBinding (scrubBinding b)) bs)"
  using clusterrolebindings.list_unlimited [of ns newQuery "map OClusterRoleBinding bs"] assms
  by (auto simp: srcOf_def mapRes_def cachedSelector_def listItems_def clusterrolebindings.matches_def
      matches_noFilters scrubBinding_def comp_def obind_Inr_iff)

text \<open>The bindings listed for a user are the cached ones that name the user, each once.\<close>

lemma ListGlobalRoleBindings_cached:
  assumes "llist (globalRoleBindingsLister infs) (cachedSelector libs) = Inr bs"
  shows "\<exists>rs. ListGlobalRoleBindings (NewReadOnlyOperator libs infs) u = Inr rs \<and>
    mset rs = mset (map scrubBinding (filter (\<lambda>b. containsSubject (Subjects b) u []) bs))"
proof -
  obtain items where items: "listItems (globalrolebindingsGetter libs infs) '''' newQuery = Inr items"
      "mset items = mset (map (\<lambda>b. OGlobalRoleBinding (scrubBinding b)) bs)"
    using listItems_globalrolebindings [OF assms] by blast
  have some: "asGlobalRoleBinding x \<noteq> None" if "x \<in> set items" for x
    using that mset_eq_setD [OF items(2)] by auto
  let ?p = "\<lambda>b. containsSubject (Subjects b) u []"
  have "mset (filter ?p (map (\<lambda>x. the (asGlobalRoleBinding x)) items)) =
      filter_mset ?p (image_mset (\<lambda>x. the (asGlobalRoleBinding x)) (mset items))"
    by simp
  also have "\<dots> = mset (map scrubBinding (filter ?p bs))"
    by (simp add: items(2) image_mset.compositionality comp_def filter_mset_image_mset)
  finally show ?thesis
    using items(1) assertLoop_filter [of items asGlobalRoleBinding ?p "[]", OF some]
    by (simp add: ListGlobalRoleBindings_def NewReadOnlyOperator_def)
qed

lemma ListRoleBindings_cached:
  assumes "nslist (k8sRoleBindings infs) ns (cachedSelector libs) = Inr bs"
  shows "\<exists>rs. ListRoleBindings (NewReadOnlyOperator libs infs) u gs ns = Inr rs \<and>
    mset rs = mset (map scrubBinding (filter (\<lambda>b. containsSubject (Subjects b) u gs) bs))"
proof -
  obtain items where items: "listItems (rolebindingsGetter libs infs) ns newQuery = Inr items"
      "mset items = mset (map (\<lambda>b. ORoleBinding (scrubBinding b)) bs)"
    using listItems_rolebindings [OF assms] by blast
  have some: "asRoleBinding x \<noteq> None" if "x \<in> set items" for x
    using that mset_eq_setD [OF items(2)] by auto
  let ?p = "\<lambda>b. containsSubject (Subjects b) u gs"
  have "mset (filter ?p (map (\<lambda>x. the (asRoleBinding x)) items)) =
      filter_mset ?p (image_mset (\<lambda>x. the (asRoleBinding x)) (mset items))"
    by simp
  also have "\<dots> = mset (map scrubBinding (filter ?p bs))"
    by (simp add: items(2) image_mset.compositionality comp_def filter_mset_image_mset)
  finally show ?thesis
    using items(1) assertLoop_filter [of items asRoleBinding ?p "[]", OF some]
    by (simp add: ListRoleBindings_def NewReadOnlyOperator_def)
qed

end

section \<open>The RBAC authorizer over the caches\<close>

lemma grants_scrub [simp]: "grants env am a ns (scrubBinding b) = grants env am a ns b"
  by (simp add: grants_def)

lemma list_ex_mset: "mset xs = mset ys \<Longrightarrow> list_ex P xs = list_ex P ys"
  by (metis list_ex_iff mset_eq_setD)

lemma rulesAM_simps [simp]:
  "amListGlobalRoleBindings (rulesAM am) = ListGlobalRoleBindings am"
  "amListRoleBindings (rulesAM am) = ListRoleBindings am"
  "amGetRoleReferenceRules (rulesAM am) = GetRoleReferenceRules am"
  by (simp_all add: rulesAM_def)

lemma Get_cached:
  "GetGlobalRole (NewReadOnlyOperator libs infs) n = ofRes (lget (globalRolesLister infs) n)"
  "GetNamespaceRole (NewReadOnlyOperator libs infs) ns n = ofRes (nsget (k8sRoles infs) ns n)"
  "GetClusterRole (NewReadOnlyOperator libs infs) n = ofRes (lget (k8sClusterRoles infs) n)"
  by (auto simp: GetGlobalRole_def GetNamespaceRole_def GetClusterRole_def NewReadOnlyOperator_def
      getter_defs mapRes_def ofRes_def obind_def split: sum.splits)

lemma rulesOfRole_not_panics: "\<not> panics r \<Longrightarrow> \<not> panics (rulesOfRole r)"
  by (auto simp: rulesOfRole_def panics_def split: sum.splits stop.splits if_splits)

lemma GetRoleReferenceRules_not_panics:
  "\<not> panics (GetRoleReferenceRules (NewReadOnlyOperator libs infs) ref ns)"
  by (auto simp: GetRoleReferenceRules_def Get_cached intro!: rulesOfRole_not_panics)

lemma visitBindings_total:
  assumes "\<And>ref. \<not> panics (amGetRoleReferenceRules am ref ns)"
  shows "isOk (visitBindings env am u ns describe vis bs s)"
proof (induction bs arbitrary: s)
  case (Cons b bs)
  have "\<not> panics (amGetRoleReferenceRules am (roleRef b) ns)" by (rule assms)
  then show ?case
    using Cons.IH
    by (auto simp: Let_def split: prod.splits sum.splits stop.splits bool.splits)
qed simp

lemma visitRulesFor_total:
  assumes "\<And>ref ns. \<not> panics (amGetRoleReferenceRules am ref ns)"
    and "\<not> panics (amListGlobalRoleBindings am (ui_Name (attr_User a)))"
    and "\<not> panics (amListRoleBindings am (ui_Name (attr_User a)) [] (attr_Namespace a))"
  shows "isOk (visitRulesFor env am a vis s)"
proof -
  note vb = visitBindings_total [of am, OF assms(1)]
  have ns: "isOk (visitNamespace env am a vis s')" for s'
  proof (cases "amListRoleBindings am (ui_Name (attr_User a)) [] (attr_Namespace a)")
    case (Inl st)
    then show ?thesis
      using assms(3)
      by (cases st) (simp_all add: visitNamespace_def Let_def)
  next
    case (Inr bs)
    have "isOk (visitBindings env am (attr_User a) (attr_Namespace a) describeRoleBinding vis bs s')"
      by (rule vb)
    with Inr show ?thesis
      by (auto simp: visitNamespace_def Let_def isOk_iff)
  qed
  show ?thesis
  proof (cases "amListGlobalRoleBindings am (ui_Name (attr_User a))")
    case (Inl st)
    then show ?thesis
      using assms(2) ns
      by (cases st) (auto simp: visitRulesFor_def split: prod.splits bool.splits)
  next
    case (Inr bs)
    have "isOk (visitBindings env am (attr_User a) '''' describeGlobalRoleBinding vis bs s)"
      by (rule vb)
    with Inr ns show ?thesis by (auto simp: visitRulesFor_def isOk_iff)
  qed
qed

text \<open>
  Which bindings count for a named user: those the listing selects by the user's own name, and among
  them those that apply and whose role allows the request.
\<close>

definition cachedPermits ::
  "RbacEnv \<Rightarrow> amOperator \<Rightarrow> BindingObj list \<Rightarrow> BindingObj list \<Rightarrow> AttributesRecord \<Rightarrow> bool" where
  "cachedPermits env am gbs rbs a \<longleftrightarrow>
     list_ex (\<lambda>b. containsSubject (Subjects b) (ui_Name (attr_User a)) [] \<and>
                  grants env (rulesAM am) a '''' b) gbs \<or>
     attr_ResourceScope a = NamespaceScope \<and>
     list_ex (\<lambda>b. containsSubject (Subjects b) (ui_Name (attr_User a)) [] \<and>
                  grants env (rulesAM am) a (attr_Namespace a) b) rbs"

lemma list_ex_filter: "list_ex P (map scrubBinding (filter Q bs)) = list_ex (\<lambda>b. Q b \<and> P (scrubBinding b)) bs"
  by (induction bs) auto

context listing_libs begin

lemma rbacPermits_cached:
  assumes "llist (globalRoleBindingsLister infs) (cachedSelector libs) = Inr gbs"
    and "nslist (k8sRoleBindings infs) (attr_Namespace a) (cachedSelector libs) = Inr rbs"
  shows "rbacPermits env (rulesAM (NewReadOnlyOperator libs infs)) a \<longleftrightarrow>
    cachedPermits env (NewReadOnlyOperator libs infs) gbs rbs a"
proof -
  let ?u = "ui_Name (attr_User a)" and ?am = "NewReadOnlyOperator libs infs"
  obtain g where g: "ListGlobalRoleBindings ?am ?u = Inr g"
      "mset g = mset (map scrubBinding (filter (\<lambda>b. containsSubject (Subjects b) ?u []) gbs))"
    using ListGlobalRoleBindings_cached [OF assms(1)] by blast
  obtain r where r: "ListRoleBindings ?am ?u [] (attr_Namespace a) = Inr r"
      "mset r = mset (map scrubBinding (filter (\<lambda>b. containsSubject (Subjects b) ?u []) rbs))"
    using ListRoleBindings_cached [OF assms(2)] by blast
  show ?thesis
    using list_ex_mset [OF g(2)] list_ex_mset [OF r(2)] g(1) r(1)
    by (simp add: rbacPermits_def cachedPermits_def list_ex_filter)
qed

end

lemma rbacAuthorize_cached:
  assumes "slice_sort (lib_sort libs)" and "attr_UserInfo a \<noteq> None"
    and "llist (globalRoleBindingsLister infs) (cachedSelector libs) = Inr gbs"
    and "nslist (k8sRoleBindings infs) (attr_Namespace a) (cachedSelector libs) = Inr rbs"
  shows "\<exists>reason. rbacAuthorize errorText env (rulesAM (NewReadOnlyOperator libs infs)) (Some a) =
    Inr (if cachedPermits env (NewReadOnlyOperator libs infs) gbs rbs a
         then DecisionAllow else DecisionNoOpinion, reason, None)"
proof -
  have ll: "listing_libs libs" using assms(1) by (simp add: listing_libs_def)
  let ?am = "rulesAM (NewReadOnlyOperator libs infs)"
  have "\<not> panics (amListGlobalRoleBindings ?am (ui_Name (attr_User a)))"
    using listing_libs.ListGlobalRoleBindings_cached [OF ll assms(3), of "ui_Name (attr_User a)"] by auto
  moreover have "\<not> panics (amListRoleBindings ?am (ui_Name (attr_User a)) [] (attr_Namespace a))"
    using listing_libs.ListRoleBindings_cached [OF ll assms(4), of "ui_Name (attr_User a)" "[]"] by auto
  ultimately have "isOk (visitRulesFor env ?am a (visit env a) newVisitor)"
    by (intro visitRulesFor_total) (simp_all add: GetRoleReferenceRules_not_panics)
  then obtain v where v: "visitRulesFor env ?am a (visit env a) newVisitor = Inr v"
    by (auto simp: isOk_iff)
  have "allowed v \<longleftrightarrow> cachedPermits env (NewReadOnlyOperator libs infs) gbs rbs a"
    using visitRulesFor_visit [OF v] listing_libs.rbacPermits_cached [OF ll assms(3,4)]
    by (simp add: newVisitor_def)
  with v assms(2) show ?thesis by (auto simp: rbacAuthorize_def)
qed

section \<open>Properties\<close>

text \<open>
  C1. Over the informer caches the RBAC authorizer decides every request of a user: it never panics, fails or
  denies, and it allows exactly when a global role binding that names the user, or for a
  namespace-scoped request a role binding of that namespace that names the user, refers to a role
  whose policy or rules allow the request.
\<close>

theorem rbac_cached_decision:
  assumes "slice_sort (lib_sort libs)" and "attr_UserInfo a \<noteq> None"
    and "llist (globalRoleBindingsLister infs) (cachedSelector libs) = Inr gbs"
    and "nslist (k8sRoleBindings infs) (attr_Namespace a) (cachedSelector libs) = Inr rbs"
  shows "\<exists>reason. rbacAuthorize errorText env (rulesAM (NewReadOnlyOperator libs infs)) (Some a) =
    Inr (if cachedPermits env (NewReadOnlyOperator libs infs) gbs rbs a
         then DecisionAllow else DecisionNoOpinion, reason, None)"
  using assms by (rule rbacAuthorize_cached)

text \<open>A platform with one administrator, bound to a role that allows everything.\<close>

definition adminRole :: RoleObj where
  "adminRole = \<lparr>role_meta = emptyMeta\<lparr>Name := PlatformAdmin\<rparr>,
     Rules = [\<lparr>Verbs = [''*''], APIGroups = [''*''], Resources = [''*''], ResourceNames = [],
               NonResourceURLs = [''*'']\<rparr>]\<rparr>"

definition adminInformers :: Informers where
  "adminInformers = emptyInformers\<lparr>
     globalRoleIx := listIndexer role_meta [adminRole],
     globalRoleBindingIx := listIndexer binding_meta
       [bindingFor ''admin'' PlatformAdmin iamGroup ResourceKindGlobalRole]\<rparr>"

definition requestOf :: "UserInfo \<Rightarrow> string \<Rightarrow> string \<Rightarrow> AttributesRecord" where
  "requestOf u verb path = \<lparr>attr_UserInfo = Some u, attr_Verb = verb, attr_Cluster = '''', attr_Workspace = '''',
     attr_Namespace = '''', attr_DevOps = '''', attr_APIGroup = '''', attr_APIVersion = '''',
     attr_Resource = '''', attr_Subresource = '''', attr_Name = '''', KubernetesRequest = False,
     ResourceRequest = False, attr_Path = path, attr_ResourceScope = GlobalScope\<rparr>"

definition noRego :: RbacEnv where
  "noRego = \<lparr>regoPrepare = (\<lambda>_ _ _. Inl (Msg ''no policy engine'')), matchesUsername = (\<lambda>_ _ _. False)\<rparr>"

lemma adminInformers_eval:
  "llist (globalRoleBindingsLister adminInformers) (cachedSelector anyLibs) =
     Inr [bindingFor ''admin'' PlatformAdmin iamGroup ResourceKindGlobalRole]"
  "nslist (k8sRoleBindings adminInformers) ns (cachedSelector anyLibs) = Inr []"
  "lget (globalRolesLister adminInformers) PlatformAdmin = Inr adminRole"
  by (simp_all add: adminInformers_def lister_eval cachedSelector_def adminRole_def)

theorem rbac_cached_decision_witness:
  "\<exists>reason. rbacAuthorize (\<lambda>_. '''') noRego (rulesAM (NewReadOnlyOperator anyLibs adminInformers))
     (Some (requestOf \<lparr>ui_Name = ''admin'', ui_Groups = [], ui_Extra = []\<rparr> ''GET'' ''/metrics'')) =
   Inr (DecisionAllow, reason, None)"
proof -
  let ?a = "requestOf \<lparr>ui_Name = ''admin'', ui_Groups = [], ui_Extra = []\<rparr> ''GET'' ''/metrics''"
  have "cachedPermits noRego (NewReadOnlyOperator anyLibs adminInformers)
      [bindingFor ''admin'' PlatformAdmin iamGroup ResourceKindGlobalRole] [] ?a"
    by (simp add: cachedPermits_def grants_def containsSubject_def bindingFor_def appliesToUser_def
        GetRoleReferenceRules_def Get_cached adminInformers_eval rulesOfRole_def adminRole_def
        ruleAllows_def VerbMatches_def NonResourceURLMatches_def requestOf_def kind_defs emptyMeta_def
        RegoOverrideAnnotation_def attr_User_def)
  moreover have "attr_UserInfo ?a \<noteq> None" by (simp add: requestOf_def)
  ultimately show ?thesis
    using rbac_cached_decision [OF anyLibs_sort _ adminInformers_eval(1,2), of ?a "\<lambda>_. ''''" noRego]
    by simp
qed

text \<open>
  Bindings of groups and of service accounts have no effect: a named user whom no cached binding
  lists as a subject of kind User is never allowed by the RBAC authorizer, whatever groups the user
  is in and whatever the roles of the bindings allow.
\<close>

theorem rbac_groups_never_grant:
  assumes "slice_sort (lib_sort libs)" and "attr_UserInfo a \<noteq> None"
    and "llist (globalRoleBindingsLister infs) (cachedSelector libs) = Inr gbs"
    and "nslist (k8sRoleBindings infs) (attr_Namespace a) (cachedSelector libs) = Inr rbs"
    and "ui_Name (attr_User a) \<noteq> ''''"
    and "\<forall>b \<in> set gbs \<union> set rbs. \<not> userSubject b (ui_Name (attr_User a))"
  shows "\<exists>reason. rbacAuthorize errorText env (rulesAM (NewReadOnlyOperator libs infs)) (Some a) =
    Inr (DecisionNoOpinion, reason, None)"
proof -
  have "\<not> containsSubject (Subjects b) (ui_Name (attr_User a)) []" if "b \<in> set gbs \<union> set rbs" for b
    using that assms(5,6) by (auto simp: containsSubject_def userSubject_def list_ex_iff)
  then have "\<not> cachedPermits env (NewReadOnlyOperator libs infs) gbs rbs a"
    by (auto simp: cachedPermits_def list_ex_iff)
  then show ?thesis
    using rbacAuthorize_cached [OF assms(1-4), of errorText env] by simp
qed

text \<open>An operator who is only in a group that is bound to the administrator's role.\<close>

definition groupBinding :: BindingObj where
  "groupBinding = (bindingFor ''ops'' PlatformAdmin iamGroup ResourceKindGlobalRole)\<lparr>
     Subjects := [\<lparr>subj_Kind = ResourceKindGroup, subj_APIGroup = rbacGroup, subj_Name = ''ops'',
                  subj_Namespace = ''''\<rparr>]\<rparr>"

definition groupInformers :: Informers where
  "groupInformers = emptyInformers\<lparr>
     globalRoleIx := listIndexer role_meta [adminRole],
     globalRoleBindingIx := listIndexer binding_meta [groupBinding]\<rparr>"

theorem rbac_groups_never_grant_witness:
  "\<exists>reason. rbacAuthorize (\<lambda>_. '''') noRego (rulesAM (NewReadOnlyOperator anyLibs groupInformers))
     (Some (requestOf \<lparr>ui_Name = ''alice'', ui_Groups = [''ops''], ui_Extra = []\<rparr> ''GET'' ''/metrics'')) =
   Inr (DecisionNoOpinion, reason, None)"
proof (rule rbac_groups_never_grant [OF anyLibs_sort])
  show "llist (globalRoleBindingsLister groupInformers) (cachedSelector anyLibs) = Inr [groupBinding]"
    by (simp add: groupInformers_def lister_eval cachedSelector_def)
  show "nslist (k8sRoleBindings groupInformers)
      (attr_Namespace (requestOf \<lparr>ui_Name = ''alice'', ui_Groups = [''ops''], ui_Extra = []\<rparr> ''GET'' ''/metrics''))
      (cachedSelector anyLibs) = Inr []"
    by (simp add: groupInformers_def lister_eval cachedSelector_def)
qed (simp_all add: requestOf_def groupBinding_def userSubject_def kind_defs attr_User_def)

section \<open>Bindings after a change\<close>

definition bindingKept :: "BindingObj \<Rightarrow> BindingObj \<Rightarrow> bool" where
  "bindingKept x y \<longleftrightarrow> Name (binding_meta y) = Name (binding_meta x) \<and>
     Labels (binding_meta y) = Labels (binding_meta x) \<and> Subjects y = Subjects x \<and> roleRef y = roleRef x"

definition otherRole :: "string \<Rightarrow> BindingObj \<Rightarrow> bool" where
  "otherRole role b \<longleftrightarrow> ref_Name (roleRef b) \<noteq> role"

definition replaced :: "string \<Rightarrow> BindingObj list \<Rightarrow> string set" where
  \<comment> \<open>the names of the bindings before the first one of the wanted role\<close>
  "replaced role bs = (\<lambda>b. Name (binding_meta b)) ` set (takeWhile (otherRole role) bs)"

lemma deleteOthers_spec:
  assumes "apiStore kept contents binding_meta c"
  shows "deleteOthers c role bs w = (Inr found, w') \<Longrightarrow>
    found = list_ex (\<lambda>b. \<not> otherRole role b) bs \<and>
    set (contents '''' w') = {x \<in> set (contents '''' w). Name (binding_meta x) \<notin> replaced role bs}"
proof (induction bs arbitrary: w)
  case Nil
  then show ?case by (simp add: replaced_def)
next
  case (Cons b bs)
  show ?case
  proof (cases "ref_Name (roleRef b) = role")
    case True
    with Cons.prems show ?thesis by (simp add: replaced_def otherRole_def)
  next
    case False
    let ?n = "Name (binding_meta b)"
    have rep: "replaced role (b # bs) = insert ?n (replaced role bs)"
      using False by (simp add: replaced_def otherRole_def)
    obtain r w1 where del: "cDelete c '''' ?n w = (r, w1)" by fastforce
    show ?thesis
    proof (cases r)
      case (Inl e)
      have "deleteOthers c role bs w1 = (Inr found, w')" "IsNotFound e"
        using Cons.prems False del Inl by (auto simp: ecatch_def ecall_def split: if_splits)
      with Cons.IH apiStore_delete_failD [OF assms del [unfolded Inl]] False rep show ?thesis
        by (auto simp: otherRole_def)
    next
      case (Inr u)
      have "deleteOthers c role bs w1 = (Inr found, w')"
        using Cons.prems False del Inr by (simp add: ecatch_def ecall_def)
      from Cons.IH [OF this] apiStore_deleteD [OF assms del [unfolded Inr]] False rep show ?thesis
        by (auto simp: otherRole_def)
    qed
  qed
qed

text \<open>
  C17. What a successful \<open>CreateGlobalRoleBinding\<close> does to the stored bindings: when the listing of the user's
  bindings has one of the wanted role, exactly the listed bindings before the first such one are removed, and
  everything else stays, the user's bindings to other roles that are listed after it included; when it has
  none, all the listed bindings are removed and exactly one is added, that of this user to this role.
\<close>

theorem CreateGlobalRoleBinding_replaces:
  assumes "apiStore bindingKept contents binding_meta (clGlobalRoleBindings cl)"
    and "ListGlobalRoleBindings am username = Inr bs"
    and "CreateGlobalRoleBinding cl am username role w = (Inr (), w')"
  shows "set (contents '''' w') = {x \<in> set (contents '''' w). Name (binding_meta x) \<notin> replaced role bs} \<and>
      list_ex (\<lambda>b. \<not> otherRole role b) bs \<or>
    list_all (otherRole role) bs \<and>
      (\<exists>y. bindingKept (bindingFor username role iamGroup ResourceKindGlobalRole) y \<and>
        set (contents '''' w') =
          insert y {x \<in> set (contents '''' w). Name (binding_meta x) \<notin> replaced role bs})"
proof -
  obtain found w1 where d: "deleteOthers (clGlobalRoleBindings cl) role bs w = (Inr found, w1)"
    and rest: "(if found then eret () else ebind (ecall (cCreate (clGlobalRoleBindings cl) ''''
        (bindingFor username role iamGroup ResourceKindGlobalRole))) (\<lambda>_. eret ())) w1 = (Inr (), w')"
    using assms(2,3) by (auto simp: CreateGlobalRoleBinding_def ebind_Inr_iff)
  note ds = deleteOthers_spec [OF assms(1) d]
  show ?thesis
  proof (cases found)
    case True
    with ds rest show ?thesis by simp
  next
    case False
    then obtain y where "cCreate (clGlobalRoleBindings cl) ''''
        (bindingFor username role iamGroup ResourceKindGlobalRole) w1 = (Inr y, w')"
      using rest by (auto simp: ebind_Inr_iff ecall_Inr_iff)
    from apiStore_createD [OF assms(1) this] ds False show ?thesis
      by (auto simp: list_all_iff list_ex_iff)
  qed
qed

lemma mem_globalRoleBindings:
  "apiStore bindingKept (\<lambda>ns w. filter (\<lambda>x. Namespace (binding_meta x) = ns) (c_globalRoleBindings w))
     binding_meta (clGlobalRoleBindings memClients)"
  unfolding memClients_def
  by (simp, rule memClient_apiStore) (simp_all add: bindingKept_def bindingNs_def)

text \<open>The administrator of the example is bound to the regular role instead.\<close>

definition regularInformers :: Informers where
  "regularInformers = adminInformers\<lparr>
     globalRoleIx := listIndexer role_meta [adminRole, adminRole\<lparr>role_meta := emptyMeta\<lparr>Name := PlatformRegular\<rparr>\<rparr>]\<rparr>"

definition adminCluster :: Cluster where
  "adminCluster = emptyCluster\<lparr>c_globalRoleBindings :=
     [bindingFor ''admin'' PlatformAdmin iamGroup ResourceKindGlobalRole]\<rparr>"

lemma regular_eval:
  "ListGlobalRoleBindings (NewReadOnlyOperator anyLibs regularInformers) ''admin'' =
     Inr [scrubBinding (bindingFor ''admin'' PlatformAdmin iamGroup ResourceKindGlobalRole)]"
  "GetGlobalRole (NewReadOnlyOperator anyLibs regularInformers) PlatformRegular =
     Inr (adminRole\<lparr>role_meta := emptyMeta\<lparr>Name := PlatformRegular\<rparr>\<rparr>)"
proof -
  have ll: "listing_libs anyLibs" using anyLibs_sort by (simp add: listing_libs_def)
  have "llist (globalRoleBindingsLister regularInformers) (cachedSelector anyLibs) =
      Inr [bindingFor ''admin'' PlatformAdmin iamGroup ResourceKindGlobalRole]"
    by (simp add: regularInformers_def adminInformers_def lister_eval cachedSelector_def)
  from listing_libs.ListGlobalRoleBindings_cached [OF ll this, of "''admin''"]
  show "ListGlobalRoleBindings (NewReadOnlyOperator anyLibs regularInformers) ''admin'' =
     Inr [scrubBinding (bindingFor ''admin'' PlatformAdmin iamGroup ResourceKindGlobalRole)]"
    by (simp add: containsSubject_def bindingFor_def kind_defs)
  show "GetGlobalRole (NewReadOnlyOperator anyLibs regularInformers) PlatformRegular =
     Inr (adminRole\<lparr>role_meta := emptyMeta\<lparr>Name := PlatformRegular\<rparr>\<rparr>)"
    by (simp add: Get_cached regularInformers_def adminInformers_def lister_eval adminRole_def
        emptyMeta_def PlatformAdmin_def PlatformRegular_def)
qed

theorem CreateGlobalRoleBinding_replaces_witness:
  "\<exists>w'. CreateGlobalRoleBinding memClients (NewReadOnlyOperator anyLibs regularInformers)
      ''admin'' PlatformRegular adminCluster = (Inr (), w') \<and>
    bindingFor ''admin'' PlatformAdmin iamGroup ResourceKindGlobalRole \<notin> set (c_globalRoleBindings w')"
proof -
  let ?b = "bindingFor ''admin'' PlatformAdmin iamGroup ResourceKindGlobalRole"
  obtain w' where w': "CreateGlobalRoleBinding memClients (NewReadOnlyOperator anyLibs regularInformers)
      ''admin'' PlatformRegular adminCluster = (Inr (), w')"
    by (simp add: CreateGlobalRoleBinding_def regular_eval [unfolded PlatformRegular_def PlatformAdmin_def]
        mem_eval adminCluster_def bindingFor_def emptyMeta_def PlatformAdmin_def PlatformRegular_def)
  have n: "Name (binding_meta ?b) = ''admin-platform-admin''" "Namespace (binding_meta ?b) = ''''"
    "ref_Name (roleRef ?b) = PlatformAdmin"
    by (simp_all add: bindingFor_def emptyMeta_def PlatformAdmin_def)
  have r: "replaced PlatformRegular [scrubBinding ?b] = {''admin-platform-admin''}"
    by (simp add: replaced_def otherRole_def n) (simp add: PlatformAdmin_def PlatformRegular_def)
  have "?b \<notin> set (filter (\<lambda>x. Namespace (binding_meta x) = '''') (c_globalRoleBindings w'))"
    using CreateGlobalRoleBinding_replaces [OF mem_globalRoleBindings regular_eval(1) w'] n
    unfolding r
    by (elim disjE conjE exE; simp add: bindingKept_def)
      (auto simp: bindingFor_def PlatformRegular_def PlatformAdmin_def)
  then show ?thesis using w' n by simp
qed

text \<open>
  C18. The manager of a namespace, the user named by its creator annotation, can neither be removed
  from it nor be given another role than admin: both calls fail before they touch any binding.
\<close>

theorem namespace_manager_protected:
  assumes "cGet (clNamespaces cl) '''' namespace w = (Inr ns, w')"
    and "mget (Annotations (ns_meta ns)) CreatorAnnotationKey = username"
  shows "RemoveUserFromNamespace cl username namespace w =
      (Inl (Err (ErrUserIsManager username namespace)), w') \<and>
    (role \<noteq> ''admin'' \<longrightarrow> CreateNamespaceRoleBinding cl username namespace role w =
      (Inl (Err ErrAppointManagerFirst), w'))"
  using assms
  by (simp_all add: RemoveUserFromNamespace_def CreateNamespaceRoleBinding_def ebind_def ecall_def)

definition managedNamespace :: NamespaceObj where
  "managedNamespace = \<lparr>ns_meta = emptyMeta\<lparr>Name := ''prod'',
     Annotations := Some [CreatorAnnotationKey \<mapsto> ''alice'']\<rparr>, Phase = ''Active''\<rparr>"

theorem namespace_manager_protected_witness:
  "fst (RemoveUserFromNamespace memClients ''alice'' ''prod''
      (emptyCluster\<lparr>c_namespaces := [managedNamespace]\<rparr>)) =
    Inl (Err (ErrUserIsManager ''alice'' ''prod''))"
proof -
  let ?w = "emptyCluster\<lparr>c_namespaces := [managedNamespace]\<rparr>"
  have "cGet (clNamespaces memClients) '''' ''prod'' ?w = (Inr managedNamespace, ?w)"
    by (simp add: mem_eval managedNamespace_def emptyMeta_def)
  moreover have "mget (Annotations (ns_meta managedNamespace)) CreatorAnnotationKey = ''alice''"
    by (simp add: managedNamespace_def)
  ultimately show ?thesis
    using namespace_manager_protected [of memClients "''prod''" ?w managedNamespace ?w "''alice''"] by simp
qed

text \<open>
  Appointing a manager in a namespace without annotations panics after the server has already
  been changed: the write of the creator annotation goes to a nil map.
\<close>

theorem CreateNamespaceRoleBinding_panics:
  assumes "cGet (clNamespaces cl) '''' namespace w = (Inr ns, w0)" and "Annotations (ns_meta ns) = None"
    and "username \<noteq> ''''"
    and "DeleteNamespaceRoleBindingByUser cl namespace username w0 = (Inr (), w1)"
    and "cCreate (clRoleBindings cl) namespace
          (bindingFor username ''admin'' rbacGroup ResourceKindRole) w1 = (Inr b1, w2)"
    and "DeleteNamespaceRoleBindingByUser cl namespace '''' w2 = (Inr (), w3)"
    and "cCreate (clRoleBindings cl) namespace
          (bindingFor '''' ''operator'' rbacGroup ResourceKindRole) w3 = (Inr b2, w4)"
  shows "CreateNamespaceRoleBinding cl username namespace ''admin'' w = (Inl (Panic NilMapWrite), w4)"
  using assms
  by (simp add: CreateNamespaceRoleBinding_def ebind_def ecall_def Let_def withCreator_def)

definition bareNamespace :: NamespaceObj where
  "bareNamespace = \<lparr>ns_meta = emptyMeta\<lparr>Name := ''prod''\<rparr>, Phase = ''Active''\<rparr>"

theorem CreateNamespaceRoleBinding_panics_witness:
  "\<exists>w'. CreateNamespaceRoleBinding memClients ''alice'' ''prod'' ''admin''
      (emptyCluster\<lparr>c_namespaces := [bareNamespace]\<rparr>) = (Inl (Panic NilMapWrite), w') \<and>
    length (c_roleBindings w') = 2"
proof -
  let ?w = "emptyCluster\<lparr>c_namespaces := [bareNamespace]\<rparr>"
  let ?b1 = "bindingNs ''prod'' (bindingFor ''alice'' ''admin'' rbacGroup ResourceKindRole)"
  let ?b2 = "bindingNs ''prod'' (bindingFor '''' ''operator'' rbacGroup ResourceKindRole)"
  have "CreateNamespaceRoleBinding memClients ''alice'' ''prod'' ''admin'' ?w =
    (Inl (Panic NilMapWrite), ?w\<lparr>c_roleBindings := [?b1, ?b2]\<rparr>)"
  proof (rule CreateNamespaceRoleBinding_panics)
    show "cGet (clNamespaces memClients) '''' ''prod'' ?w = (Inr bareNamespace, ?w)"
      by (simp add: mem_eval bareNamespace_def emptyMeta_def)
    show "Annotations (ns_meta bareNamespace) = None" by (simp add: bareNamespace_def emptyMeta_def)
    show "DeleteNamespaceRoleBindingByUser memClients ''prod'' ''alice'' ?w = (Inr (), ?w)"
      by (simp add: DeleteNamespaceRoleBindingByUser_def GetNamespaceRoleBindingByUser_def mem_eval)
    show "cCreate (clRoleBindings memClients) ''prod'' (bindingFor ''alice'' ''admin'' rbacGroup ResourceKindRole) ?w =
        (Inr ?b1, ?w\<lparr>c_roleBindings := [?b1]\<rparr>)"
      by (simp add: mem_eval)
    show "DeleteNamespaceRoleBindingByUser memClients ''prod'' '''' (?w\<lparr>c_roleBindings := [?b1]\<rparr>) =
        (Inr (), ?w\<lparr>c_roleBindings := [?b1]\<rparr>)"
      by (simp add: DeleteNamespaceRoleBindingByUser_def GetNamespaceRoleBindingByUser_def mem_eval
          bindingFor_def emptyMeta_def)
    show "cCreate (clRoleBindings memClients) ''prod'' (bindingFor '''' ''operator'' rbacGroup ResourceKindRole)
        (?w\<lparr>c_roleBindings := [?b1]\<rparr>) = (Inr ?b2, ?w\<lparr>c_roleBindings := [?b1, ?b2]\<rparr>)"
      by (simp add: mem_eval bindingFor_def emptyMeta_def)
  qed simp
  then show ?thesis by simp
qed

end
