(* ===== verification/Password_Auth.thy ===== *)
theory Password_Auth
  imports Api_Client Resource_Getters Request_Info String_Utils
begin

text \<open>
  \<open>pkg/middles/auth/authenticator.go\<close> and \<open>login_recorder.go\<close>, \<open>authoricators/basic\<close> and the request
  authenticators of \<open>pkg/aiserver/authentication/request\<close>: password login, the record of logins, and
  the three ways a request is authenticated. \<open>bcrypt\<close> and the parser of mail addresses are parameters,
  as is the text of an error.
\<close>

section \<open>Password authentication\<close>

record PasswordEnv =
  bcryptCompare :: "string \<Rightarrow> string \<Rightarrow> bool"
    \<comment> \<open>\<open>bcrypt.CompareHashAndPassword(hash, password) == nil\<close>\<close>
  isMailAddress :: "string \<Rightarrow> bool"
    \<comment> \<open>\<open>mail.ParseAddress\<close> succeeds\<close>
  errText :: "goerr \<Rightarrow> string"
  namePrefix :: string

definition PasswordVerify :: "PasswordEnv \<Rightarrow> string \<Rightarrow> string \<Rightarrow> unit res" where
  "PasswordVerify env encryptedPassword password =
     (if bcryptCompare env encryptedPassword password then Inr () else Inl IncorrectPasswordError)"

definition findUser :: "PasswordEnv \<Rightarrow> User lister \<Rightarrow> string \<Rightarrow> User res" where
  "findUser env users username =
     (if \<not> isMailAddress env username then lget users username
      else (case llist users Everything of
              Inl err \<Rightarrow> Inl err
            | Inr us \<Rightarrow>
                (case find (\<lambda>u. Email (user_spec u) = username) us of
                   Some u \<Rightarrow> Inr u
                 | None \<Rightarrow> Inl (NotFound ''user'' username))))"

definition bindingName :: "PasswordEnv \<Rightarrow> string \<Rightarrow> string \<Rightarrow> string" where
  "bindingName env name role = name @ ''-'' @ namePrefix env @ role"

definition findGlobalRole :: "'w Clients \<Rightarrow> PasswordEnv \<Rightarrow> string \<Rightarrow> 'w \<Rightarrow> string \<times> 'w" where
  "findGlobalRole cl env name w =
     (if name = NamespaceAdmin then (PlatformAdmin, w)
      else
        (case cGet (clGlobalRoleBindings cl) '''' (bindingName env name PlatformAdmin) w of
           (Inr _, w) \<Rightarrow> (PlatformAdmin, w)
         | (Inl _, w) \<Rightarrow>
        (case cGet (clGlobalRoleBindings cl) '''' (bindingName env name PlatformSelfProvisioner) w of
           (Inr _, w) \<Rightarrow> (PlatformSelfProvisioner, w)
         | (Inl _, w) \<Rightarrow>
        (case cGet (clGlobalRoleBindings cl) '''' (bindingName env name PlatformRegular) w of
           (Inr _, w) \<Rightarrow> (PlatformRegular, w)
         | (Inl _, w) \<Rightarrow> ('''', w)))))"

definition statusError :: "User \<Rightarrow> goerr option" where
  \<comment> \<open>the check of the account's state\<close>
  "statusError user =
     (if State (user_status user) \<noteq> Some UserActive then
        if State (user_status user) = Some UserAuthLimitExceeded
        then Some RateLimitExceededError else Some AccountIsNotActiveError
      else None)"

text \<open>The provider, the second result, is always empty and left out.\<close>

definition Authenticate ::
  "'w Clients \<Rightarrow> PasswordEnv \<Rightarrow> User lister \<Rightarrow> string \<Rightarrow> string \<Rightarrow> 'w \<Rightarrow> UserInfo res \<times> 'w" where
  "Authenticate cl env users username password w =
     (if username = '''' \<or> password = '''' then (Inl IncorrectPasswordError, w)
      else
        (case findUser env users username of
           Inl err \<Rightarrow>
             if \<not> IsNotFound err then (Inl err, w) else (Inl IncorrectPasswordError, w)
         | Inr user \<Rightarrow>
             (case statusError user of
                Some err \<Rightarrow> (Inl err, w)
              | None \<Rightarrow>
                  if EncryptedPassword (user_spec user) \<noteq> '''' then
                    (case PasswordVerify env (EncryptedPassword (user_spec user)) password of
                       Inl err \<Rightarrow> (Inl err, w)
                     | Inr _ \<Rightarrow>
                         (case findGlobalRole cl env username w of
                            (globalrole, w') \<Rightarrow>
                              (Inr \<lparr>ui_Name = Name (user_meta user), ui_Groups = [],
                                    ui_Extra = [(ResourcesSingularGlobalRole, [globalrole])]\<rparr>, w')))
                  else (Inl IncorrectPasswordError, w))))"

section \<open>The login record\<close>

definition loginEntry ::
  "PasswordEnv \<Rightarrow> string \<Rightarrow> string \<Rightarrow> string \<Rightarrow> string \<Rightarrow> string \<Rightarrow> goerr option \<Rightarrow> LoginRecord" where
  "loginEntry env username loginType provider sourceIP userAgent authErr =
     (let username = ReplaceChar username CHR ''@'' CHR ''-'' in
      \<lparr>record_meta = emptyMeta\<lparr>GenerateName := username @ ''-'',
                              Labels := Some [UserReferenceLabel \<mapsto> username]\<rparr>,
       record_spec = \<lparr>rec_Type = loginType, Provider = provider, SourceIP = sourceIP,
         UserAgent = userAgent,
         Success = (case authErr of None \<Rightarrow> True | Some _ \<Rightarrow> False),
         rec_Reason = (case authErr of None \<Rightarrow> AuthenticatedSuccessfully | Some e \<Rightarrow> errText env e)\<rparr>\<rparr>)"

definition RecordLogin ::
  "'w Clients \<Rightarrow> PasswordEnv \<Rightarrow> string \<Rightarrow> string \<Rightarrow> string \<Rightarrow> string \<Rightarrow> string \<Rightarrow> goerr option \<Rightarrow>
   'w \<Rightarrow> unit res \<times> 'w" where
  "RecordLogin cl env username loginType provider sourceIP userAgent authErr w =
     (case cCreate (clLoginRecords cl) ''''
             (loginEntry env username loginType provider sourceIP userAgent authErr) w of
        (Inl err, w') \<Rightarrow> (Inl err, w')
      | (Inr _, w') \<Rightarrow> (Inr (), w'))"

section \<open>Authenticating requests\<close>

text \<open>
  The response is the user; a request authenticator gives a response, whether the request is
  authenticated, and maybe an error.
\<close>

type_synonym authn = "UserInfo option \<times> bool \<times> goerr option"

definition AuthenticatePassword ::
  "'w Clients \<Rightarrow> PasswordEnv \<Rightarrow> User lister \<Rightarrow> bool \<Rightarrow> Context \<Rightarrow> string \<Rightarrow> string \<Rightarrow> 'w \<Rightarrow> authn \<times> 'w" where
  \<comment> \<open>the flag says whether there is a login recorder; its error is only logged\<close>
  "AuthenticatePassword cl env users recorder ctx username password w =
     (case Authenticate cl env users username password w of
        (Inl err, w1) \<Rightarrow>
          (let w2 =
             (if recorder \<and> err = IncorrectPasswordError then
                let (sourceIP, userAgent) =
                  (case RequestInfoFrom ctx of
                     None \<Rightarrow> ('''', '''') | Some i \<Rightarrow> (ri_SourceIP i, ri_UserAgent i))
                in snd (RecordLogin cl env username BasicAuth '''' sourceIP userAgent (Some err) w1)
              else w1)
           in ((None, False, Some err), w2))
      | (Inr authenticated, w1) \<Rightarrow>
          ((Some \<lparr>ui_Name = ui_Name authenticated,
                  ui_Groups = ui_Groups authenticated @ [AllAuthenticated], ui_Extra = []\<rparr>,
            True, None), w1))"

definition basicRequest ::
  "(string \<Rightarrow> string \<Rightarrow> 'w \<Rightarrow> authn \<times> 'w) \<Rightarrow> (string \<times> string) option \<Rightarrow> 'w \<Rightarrow> authn \<times> 'w" where
  \<comment> \<open>the second argument is \<open>req.BasicAuth()\<close>\<close>
  "basicRequest authPassword creds w =
     (case creds of
        None \<Rightarrow> ((None, False, None), w)
      | Some (username, password) \<Rightarrow>
          (case authPassword username password w of
             ((resp, ok, err), w') \<Rightarrow>
               ((resp, ok, if \<not> ok \<and> err = None then Some (Msg ''invalid basic token'') else err), w')))"

definition bearerToken :: "HttpRequest \<Rightarrow> string option" where
  \<comment> \<open>the token of the header, when the authenticator goes on to check one\<close>
  "bearerToken req =
     (let auth = TrimSpace (Header req ''Authorization'') in
      if auth = '''' then None
      else let parts = SplitChar auth CHR '' '' in
        if length parts < 2 \<or> ToLower (parts ! 0) \<noteq> ''bearer'' \<and> ToLower (parts ! 0) \<noteq> ''static''
        then None
        else if length (parts ! 1) = 0 then None else Some (parts ! 1))"

definition bearerRequest :: "(string \<Rightarrow> authn) \<Rightarrow> HttpRequest \<Rightarrow> authn" where
  "bearerRequest authToken req =
     (case bearerToken req of
        None \<Rightarrow> (None, False, None)
      | Some token \<Rightarrow>
          (case authToken token of
             (resp, ok, err) \<Rightarrow>
               (resp, ok, if \<not> ok \<and> err = None then Some (Msg ''invalid bearer token'') else err)))"

definition anonymousRequest :: "HttpRequest \<Rightarrow> authn" where
  "anonymousRequest req =
     (let auth = TrimSpace (Header req ''Authorization'') in
      if auth = '''' then
        (Some \<lparr>ui_Name = Anonymous, ui_Groups = [AllUnauthenticated], ui_Extra = []\<rparr>, True, None)
      else (None, False, None))"

section \<open>Lemmas\<close>

lemma findUser_found:
  assumes "\<And>n u. lget users n = Inr u \<Longrightarrow> Name (user_meta u) = n"
    and "findUser env users username = Inr u"
  shows "Name (user_meta u) = username \<or> Email (user_spec u) = username"
  using assms by (auto simp: findUser_def split: if_splits sum.splits option.splits dest: find_SomeD)

lemma statusError_None: "statusError u = None \<longleftrightarrow> State (user_status u) = Some UserActive"
  by (simp add: statusError_def)

lemma Authenticate_Inr:
  assumes "Authenticate cl env users username password w = (Inr info, w')"
  obtains u where "findUser env users username = Inr u" "State (user_status u) = Some UserActive"
    "EncryptedPassword (user_spec u) \<noteq> ''''" "bcryptCompare env (EncryptedPassword (user_spec u)) password"
    "ui_Name info = Name (user_meta u)" "username \<noteq> ''''" "password \<noteq> ''''"
  using assms
  by (auto simp: Authenticate_def PasswordVerify_def statusError_None
      split: if_splits sum.splits option.splits prod.splits)

text \<open>
  C8. A password login succeeds only for an account that exists under the given name or mail address,
  is active and has a password whose hash matches; it yields the name of that account.
\<close>

theorem Authenticate_sound:
  assumes "\<forall>n u. lget users n = Inr u \<longrightarrow> Name (user_meta u) = n"
    and "Authenticate cl env users username password w = (Inr info, w')"
  shows "\<exists>u. findUser env users username = Inr u \<and>
    (Name (user_meta u) = username \<or> Email (user_spec u) = username) \<and>
    State (user_status u) = Some UserActive \<and>
    bcryptCompare env (EncryptedPassword (user_spec u)) password \<and> ui_Name info = Name (user_meta u)"
proof -
  obtain u where u: "findUser env users username = Inr u" "State (user_status u) = Some UserActive"
    "bcryptCompare env (EncryptedPassword (user_spec u)) password" "ui_Name info = Name (user_meta u)"
    using Authenticate_Inr [OF assms(2)] by blast
  moreover have "Name (user_meta u) = username \<or> Email (user_spec u) = username"
    using findUser_found [OF _ u(1)] assms(1) by simp
  ultimately show ?thesis by (intro exI [of _ u]) simp
qed

definition aliceUser :: User where
  "aliceUser = \<lparr>user_meta = emptyMeta\<lparr>Name := ''alice''\<rparr>,
     user_spec = emptySpec\<lparr>Email := ''alice@example.com'', EncryptedPassword := ''hash''\<rparr>,
     user_status = emptyStatus\<lparr>State := Some UserActive\<rparr>\<rparr>"

definition exampleEnv :: PasswordEnv where
  "exampleEnv = \<lparr>bcryptCompare = (\<lambda>h p. h = ''hash'' \<and> p = ''secret''), isMailAddress = (\<lambda>s. CHR ''@'' \<in> set s),
     errText = (\<lambda>_. ''error''), namePrefix = ''''\<rparr>"

definition aliceLister :: "User lister" where
  "aliceLister = listLister ''user'' user_meta [aliceUser]"

lemma alice_login:
  "Authenticate memClients exampleEnv aliceLister ''alice@example.com'' ''secret'' emptyCluster =
    (Inr \<lparr>ui_Name = ''alice'', ui_Groups = [], ui_Extra = [(ResourcesSingularGlobalRole, [''''])]\<rparr>, emptyCluster)"
  by (simp add: Authenticate_def findUser_def aliceLister_def listLister_def aliceUser_def exampleEnv_def
      emptyMeta_def emptySpec_def emptyStatus_def statusError_def PasswordVerify_def findGlobalRole_def
      Everything_def mem_eval NamespaceAdmin_def UserActive_def)

theorem Authenticate_sound_witness:
  "\<exists>u. findUser exampleEnv aliceLister ''alice@example.com'' = Inr u \<and>
       State (user_status u) = Some UserActive"
proof -
  have "\<forall>n u. lget aliceLister n = Inr u \<longrightarrow> Name (user_meta u) = n"
    by (auto simp: aliceLister_def listLister_def split: option.splits)
  from Authenticate_sound [OF this alice_login] show ?thesis by auto
qed

text \<open>
  A failed password login of a request is recorded exactly when the credentials were wrong: an
  account that is missing looks like a wrong password, and locked or inactive accounts leave no record.
\<close>

theorem AuthenticatePassword_records:
  assumes "Authenticate cl env users username password w = (Inl err, w1)"
  shows "AuthenticatePassword cl env users True ctx username password w =
    ((None, False, Some err),
     if err = IncorrectPasswordError
     then snd (RecordLogin cl env username BasicAuth ''''
                (case ctx_info ctx of None \<Rightarrow> '''' | Some i \<Rightarrow> ri_SourceIP i)
                (case ctx_info ctx of None \<Rightarrow> '''' | Some i \<Rightarrow> ri_UserAgent i) (Some err) w1)
     else w1)"
  using assms
  by (cases "ctx_info ctx") (simp_all add: AuthenticatePassword_def RequestInfoFrom_def Let_def)

theorem AuthenticatePassword_records_witness:
  "fst (AuthenticatePassword memClients exampleEnv aliceLister True emptyContext ''alice'' ''guess'' emptyCluster) =
    (None, False, Some IncorrectPasswordError)"
proof -
  have "Authenticate memClients exampleEnv aliceLister ''alice'' ''guess'' emptyCluster =
      (Inl IncorrectPasswordError, emptyCluster)"
    by (simp add: Authenticate_def findUser_def aliceLister_def listLister_def aliceUser_def exampleEnv_def
        emptyMeta_def emptySpec_def emptyStatus_def statusError_def PasswordVerify_def)
  from AuthenticatePassword_records [OF this] show ?thesis by simp
qed

end
