(* ===== verification/Identity_Mgmt.thy ===== *)
theory Identity_Mgmt
  imports Api_Client Access_Mgmt Password_Auth
begin

text \<open>
  \<open>pkg/middles/iam/im/im.go\<close>: the management of users and login records. Users are read through the
  getters and written through the client of the API server.
\<close>

record imOperator =
  userGetter :: Getter
  loginRecordGetter :: Getter

definition NewImOperator :: "Libs \<Rightarrow> Informers \<Rightarrow> imOperator" where
  "NewImOperator libs infs = \<lparr>userGetter = usersGetter libs infs,
     loginRecordGetter = loginrecordsGetter libs infs\<rparr>"

definition ensurePasswordNotOutput :: "User \<Rightarrow> User" where
  "ensurePasswordNotOutput user =
     user\<lparr>user_spec := (user_spec user)\<lparr>EncryptedPassword := ''''\<rparr>\<rparr>"

definition fetch :: "imOperator \<Rightarrow> string \<Rightarrow> User out" where
  "fetch im username = obind (ofRes (getterGet (userGetter im) '''' username)) (assertAs asUser)"

definition UpdateUser :: "'w Clients \<Rightarrow> imOperator \<Rightarrow> User \<Rightarrow> ('w, User) eff" where
  \<comment> \<open>the object sent is \<open>old\<close>; \<open>new\<close> only receives the stored password\<close>
  "UpdateUser cl im new =
     ebind (eout (fetch im (Name (user_meta new)))) (\<lambda>old.
     let old = old\<lparr>user_meta := (user_meta old)\<lparr>Annotations := mensure (Annotations (user_meta old))\<rparr>\<rparr>
     in ebind (ecall (cUpdate (clUsers cl) '''' old))
          (\<lambda>updated. eret (ensurePasswordNotOutput updated)))"

definition ModifyPassword :: "'w Clients \<Rightarrow> imOperator \<Rightarrow> string \<Rightarrow> string \<Rightarrow> ('w, unit) eff" where
  "ModifyPassword cl im username password =
     ebind (eout (fetch im username)) (\<lambda>user.
     ebind (ecall (cUpdate (clUsers cl) ''''
              (user\<lparr>user_spec := (user_spec user)\<lparr>EncryptedPassword := password\<rparr>\<rparr>))) (\<lambda>_. eret ()))"

definition ListUsers :: "imOperator \<Rightarrow> Query \<Rightarrow> User list out" where
  "ListUsers im q =
     obind (listItems (userGetter im) '''' q) (\<lambda>items.
     obind (assertLoop asUser (\<lambda>_. True) items []) (\<lambda>users.
     Inr (map ensurePasswordNotOutput users)))"

definition imPasswordVerify :: "PasswordEnv \<Rightarrow> imOperator \<Rightarrow> string \<Rightarrow> string \<Rightarrow> unit out" where
  "imPasswordVerify env im username password =
     obind (fetch im username) (\<lambda>user.
       ofRes (PasswordVerify env (EncryptedPassword (user_spec user)) password))"

definition DescribeUser :: "imOperator \<Rightarrow> string \<Rightarrow> User out" where
  "DescribeUser im username =
     obind (fetch im username) (\<lambda>user. Inr (ensurePasswordNotOutput user))"

definition DeleteUser :: "'w Clients \<Rightarrow> string \<Rightarrow> ('w, unit) eff" where
  "DeleteUser cl username = ecall (cDelete (clUsers cl) '''' username)"

definition CreateUser :: "'w Clients \<Rightarrow> User \<Rightarrow> ('w, User) eff" where
  "CreateUser cl user = ecall (cCreate (clUsers cl) '''' user)"

definition recordsQuery :: "string \<Rightarrow> Query \<Rightarrow> Query" where
  "recordsQuery username q = filterSet FieldLabel (UserReferenceLabel @ ''='' @ username) q"

definition ListLoginRecords :: "imOperator \<Rightarrow> string \<Rightarrow> Query \<Rightarrow> LoginRecord list out" where
  "ListLoginRecords im username q =
     obind (listItems (loginRecordGetter im) '''' (recordsQuery username q))
       (\<lambda>items. assertLoop asLoginRecord (\<lambda>_. True) items [])"

section \<open>Lemmas\<close>

lemma ensurePassword_simps [simp]:
  "EncryptedPassword (user_spec (ensurePasswordNotOutput u)) = ''''"
  "user_meta (ensurePasswordNotOutput u) = user_meta u"
  "user_status (ensurePasswordNotOutput u) = user_status u"
  by (simp_all add: ensurePasswordNotOutput_def)

lemma fetch_cached:
  "fetch (NewImOperator libs infs) n = ofRes (lget (usersLister infs) n)"
  by (auto simp: fetch_def NewImOperator_def usersGetter_def mapRes_def split: sum.splits)

section \<open>Properties\<close>

text \<open>
  No read and no update of a user gives out the stored password: whatever the caches and the
  server hold, every user that \<open>DescribeUser\<close>, \<open>ListUsers\<close> or \<open>UpdateUser\<close> returns has an empty one.
\<close>

theorem password_never_output:
  "(DescribeUser im n = Inr u \<longrightarrow> EncryptedPassword (user_spec u) = '''') \<and>
   (ListUsers im q = Inr us \<longrightarrow> (\<forall>x \<in> set us. EncryptedPassword (user_spec x) = '''')) \<and>
   (UpdateUser cl im new w = (Inr v, w') \<longrightarrow> EncryptedPassword (user_spec v) = '''')"
  by (auto simp: DescribeUser_def ListUsers_def UpdateUser_def obind_Inr_iff ebind_Inr_iff Let_def)

theorem password_never_output_witness:
  "EncryptedPassword (user_spec (ensurePasswordNotOutput aliceUser)) = '''' \<and>
   DescribeUser (NewImOperator anyLibs (emptyInformers\<lparr>userIx := listIndexer user_meta [aliceUser]\<rparr>)) ''alice'' =
     Inr (ensurePasswordNotOutput aliceUser)"
proof -
  let ?im = "NewImOperator anyLibs (emptyInformers\<lparr>userIx := listIndexer user_meta [aliceUser]\<rparr>)"
  have d: "DescribeUser ?im ''alice'' = Inr (ensurePasswordNotOutput aliceUser)"
    by (simp add: DescribeUser_def fetch_cached lister_eval aliceUser_def emptyMeta_def)
  then show ?thesis
    using password_never_output [of ?im "''alice''" "ensurePasswordNotOutput aliceUser" newQuery "[]"
        memClients aliceUser emptyCluster aliceUser emptyCluster] by simp
qed

text \<open>
  \<open>UpdateUser\<close> drops the caller's changes: what is sent to the server depends on the name in the
  new object only, not on its labels, its specification or its status.
\<close>

theorem UpdateUser_ignores_changes:
  "UpdateUser cl im new =
   UpdateUser cl im (new\<lparr>user_spec := spec', user_status := status',
     user_meta := (user_meta new)\<lparr>Labels := labels', Annotations := annotations'\<rparr>\<rparr>)"
  by (simp add: UpdateUser_def)

text \<open>
  \<open>ModifyPassword\<close> changes the password and nothing else of the user it fetched.
\<close>

theorem ModifyPassword_updates:
  assumes "fetch im username = Inr u"
  shows "ModifyPassword cl im username password w =
    (case cUpdate (clUsers cl) '''' (u\<lparr>user_spec := (user_spec u)\<lparr>EncryptedPassword := password\<rparr>\<rparr>) w of
       (Inl e, w') \<Rightarrow> (Inl (Err e), w') | (Inr _, w') \<Rightarrow> (Inr (), w'))"
  using assms by (auto simp: ModifyPassword_def ebind_def ecall_def split: prod.splits sum.splits)

theorem ModifyPassword_updates_witness:
  "map (\<lambda>u. EncryptedPassword (user_spec u)) (c_users (snd (ModifyPassword memClients
     (NewImOperator anyLibs (emptyInformers\<lparr>userIx := listIndexer user_meta [aliceUser]\<rparr>))
     ''alice'' ''new'' (emptyCluster\<lparr>c_users := [aliceUser]\<rparr>)))) = [''new'']"
proof -
  let ?im = "NewImOperator anyLibs (emptyInformers\<lparr>userIx := listIndexer user_meta [aliceUser]\<rparr>)"
  have "fetch ?im ''alice'' = Inr aliceUser"
    by (simp add: fetch_cached lister_eval aliceUser_def emptyMeta_def)
  from ModifyPassword_updates [OF this, of memClients "''new''" "emptyCluster\<lparr>c_users := [aliceUser]\<rparr>"]
  show ?thesis by (simp add: mem_eval aliceUser_def emptyMeta_def)
qed

end
