(* ===== verification/Cache_Store.thy ===== *)
theory Cache_Store
  imports Iam_Types "HOL-Library.AList"
begin

text \<open>
  \<open>pkg/client/cache\<close>: the in-memory cache, its factory and its options. The store is an association
  list in iteration order. Reading the clock is explicit: \<open>now\<close> is the time of the call, and the
  clean-up loop reads the clock once per key. Compiling a regular expression is a parameter.
\<close>

record simpleObject =
  so_value :: string
  neverExpire :: bool
  expiredAt :: time

type_synonym cache = "(string \<times> simpleObject) list"

definition NeverExpire :: duration where "NeverExpire = 0"

definition defaultCleanupPeriod :: duration where "defaultCleanupPeriod = 2 * Hour"

definition typeInMemoryCache :: string where "typeInMemoryCache = ''InMemoryCache''"

definition IsExpired :: "time \<Rightarrow> simpleObject \<Rightarrow> bool" where
  "IsExpired now so = (if neverExpire so then False else now > expiredAt so)"

definition cleanupPeriodOf :: "duration option \<Rightarrow> duration" where
  \<comment> \<open>the argument is \<open>CleanupPeriod\<close> of the options, \<open>None\<close> for nil options\<close>
  "cleanupPeriodOf p =
     (case p of None \<Rightarrow> defaultCleanupPeriod
      | Some d \<Rightarrow> if d = 0 then defaultCleanupPeriod else d)"

definition NewInMemoryCache :: cache where
  "NewInMemoryCache = []"

fun cleanLoop :: "(string \<Rightarrow> time) \<Rightarrow> cache \<Rightarrow> cache \<Rightarrow> cache" where
  "cleanLoop clock [] store = store"
| "cleanLoop clock ((k, v) # kvs) store =
     cleanLoop clock kvs (if IsExpired (clock k) v then AList.delete k store else store)"

definition cleanInvalidToken :: "(string \<Rightarrow> time) \<Rightarrow> cache \<Rightarrow> cache" where
  "cleanInvalidToken clock s = cleanLoop clock s s"

definition cacheKeys :: "(string \<Rightarrow> goerr + (string \<Rightarrow> bool)) \<Rightarrow> string \<Rightarrow> cache \<Rightarrow> string list res" where
  "cacheKeys compile pattern s =
     (case compile (ReplaceChar pattern CHR ''*'' CHR ''.'') of
        Inl err \<Rightarrow> Inl err
      | Inr re \<Rightarrow> Inr (filter re (map fst s)))"

definition newObject :: "time \<Rightarrow> string \<Rightarrow> duration \<Rightarrow> simpleObject" where
  "newObject now value d =
     (let sobject = \<lparr>so_value = value, neverExpire = False, expiredAt = now + d\<rparr>
      in if d = NeverExpire then sobject\<lparr>neverExpire := True\<rparr> else sobject)"

definition cacheSet :: "time \<Rightarrow> string \<Rightarrow> string \<Rightarrow> duration \<Rightarrow> cache \<Rightarrow> unit res \<times> cache" where
  "cacheSet now key value d s = (Inr (), AList.update key (newObject now value d) s)"

fun cacheDel :: "string list \<Rightarrow> cache \<Rightarrow> unit res \<times> cache" where
  "cacheDel [] s = (Inr (), s)"
| "cacheDel (k # ks) s = cacheDel ks (AList.delete k s)"

definition cacheGet :: "time \<Rightarrow> string \<Rightarrow> cache \<Rightarrow> string res" where
  "cacheGet now key s =
     (case map_of s key of
        Some so \<Rightarrow> if neverExpire so \<or> now < expiredAt so then Inr (so_value so) else Inl ErrNoSuchKey
      | None \<Rightarrow> Inl ErrNoSuchKey)"

fun cacheExists :: "string list \<Rightarrow> cache \<Rightarrow> bool res" where
  "cacheExists [] s = Inr True"
| "cacheExists (k # ks) s = (if map_of s k = None then Inr False else cacheExists ks s)"

definition cacheExpire :: "time \<Rightarrow> string \<Rightarrow> duration \<Rightarrow> cache \<Rightarrow> unit res \<times> cache" where
  "cacheExpire now key d s =
     (case cacheGet now key s of
        Inl err \<Rightarrow> (Inl err, s)
      | Inr value \<Rightarrow> (Inr (), AList.update key (newObject now value d) s))"

section \<open>Factory and options\<close>

text \<open>
  A cache under construction is named by its type and clean-up period. \<open>decode\<close> is the mapstructure
  decoder; \<open>factories\<close> the registered factories.
\<close>

type_synonym 'o cacheFactory = "'o \<Rightarrow> duration res"

definition inMemoryFactory :: "('o \<Rightarrow> duration res) \<Rightarrow> 'o cacheFactory" where
  "inMemoryFactory decode options =
     (case decode options of Inl err \<Rightarrow> Inl err | Inr d \<Rightarrow> Inr (cleanupPeriodOf (Some d)))"

definition RegisterCacheFactory ::
  "string \<Rightarrow> 'o cacheFactory \<Rightarrow> (string \<times> 'o cacheFactory) list \<Rightarrow> (string \<times> 'o cacheFactory) list" where
  "RegisterCacheFactory t f factories = AList.update t f factories"

record 'o CacheOptions =
  CacheType :: string
  DynOptions :: 'o

definition NewCache :: "(string \<times> 'o cacheFactory) list \<Rightarrow> 'o CacheOptions \<Rightarrow> 'o CacheOptions \<times> duration res" where
  "NewCache factories option =
     (let option = (if CacheType option = '''' then option\<lparr>CacheType := typeInMemoryCache\<rparr> else option)
      in (option,
          case map_of factories (CacheType option) of
            None \<Rightarrow> Inl (Msg (''cache with type '' @ CacheType option @ '' is not supported''))
          | Some f \<Rightarrow> f (DynOptions option)))"

definition ValidateCache :: "'o CacheOptions \<Rightarrow> goerr list" where
  "ValidateCache r = (if CacheType r = '''' then [Msg ''invalid cache type''] else [])"

section \<open>Lemmas\<close>

lemma map_of_cleanLoop:
  "distinct (map fst kvs) \<Longrightarrow> map_of (cleanLoop clock kvs store) k =
   (case map_of kvs k of Some v \<Rightarrow> if IsExpired (clock k) v then None else map_of store k
    | None \<Rightarrow> map_of store k)"
proof (induction clock kvs store rule: cleanLoop.induct)
  case (2 clock k' v kvs store)
  have "map_of kvs k' = None" using 2(2) by (simp add: map_of_eq_None_iff)
  with 2 show ?case by (auto simp: delete_conv' split: option.splits)
qed simp

lemma map_of_clean:
  "distinct (map fst s) \<Longrightarrow> map_of (cleanInvalidToken clock s) k =
   (case map_of s k of Some v \<Rightarrow> if IsExpired (clock k) v then None else Some v | None \<Rightarrow> None)"
  by (simp add: cleanInvalidToken_def map_of_cleanLoop split: option.splits)

lemma map_of_set [simp]:
  "map_of (snd (cacheSet now k v d s)) k' = (if k' = k then Some (newObject now v d) else map_of s k')"
  by (simp add: cacheSet_def update_conv')

lemma map_of_del [simp]: "map_of (snd (cacheDel ks s)) k = (if k \<in> set ks then None else map_of s k)"
  by (induction ks s rule: cacheDel.induct) (auto simp: delete_conv')

lemma cacheDel_ok [simp]: "fst (cacheDel ks s) = Inr ()"
  by (induction ks s rule: cacheDel.induct) auto

lemma cacheExists_iff: "cacheExists ks s = Inr (\<forall>k \<in> set ks. map_of s k \<noteq> None)"
  by (induction ks s rule: cacheExists.induct) auto

lemma cacheGet_set:
  "cacheGet now' k' (snd (cacheSet now k v d s)) =
    (if k' = k then if d = 0 \<or> now' < now + d then Inr v else Inl ErrNoSuchKey else cacheGet now' k' s)"
  by (simp add: cacheGet_def newObject_def NeverExpire_def Let_def)

lemma distinct_cleanLoop: "distinct (map fst store) \<Longrightarrow> distinct (map fst (cleanLoop clock kvs store))"
  by (induction clock kvs store rule: cleanLoop.induct) (simp_all add: distinct_delete)

lemma distinct_cacheDel: "distinct (map fst s) \<Longrightarrow> distinct (map fst (snd (cacheDel ks s)))"
  by (induction ks s rule: cacheDel.induct) (simp_all add: distinct_delete)

section \<open>The cache over time\<close>

text \<open>The life of a cache: every operation takes the clock reading at which it runs.\<close>

inductive cacheStep :: "cache \<Rightarrow> cache \<Rightarrow> bool" where
  set: "cacheStep s (snd (cacheSet now k v d s))"
| del: "cacheStep s (snd (cacheDel ks s))"
| expire: "cacheStep s (snd (cacheExpire now k d s))"
| clean: "cacheStep s (cleanInvalidToken clock s)"

inductive cacheReachable :: "cache \<Rightarrow> bool" where
  new: "cacheReachable NewInMemoryCache"
| step: "cacheReachable s \<Longrightarrow> cacheStep s s' \<Longrightarrow> cacheReachable s'"

inductive_cases cacheStepE: "cacheStep s s'"

lemma cacheStep_distinct: "cacheStep s s' \<Longrightarrow> distinct (map fst s) \<Longrightarrow> distinct (map fst s')"
  by (erule cacheStepE)
    (auto simp: cacheSet_def cacheExpire_def cleanInvalidToken_def distinct_cleanLoop distinct_cacheDel
      split: sum.splits intro: distinct_update)

lemma cacheReachable_distinct: "cacheReachable s \<Longrightarrow> distinct (map fst s)"
  by (induction rule: cacheReachable.induct) (simp_all add: NewInMemoryCache_def cacheStep_distinct)

text \<open>The contract of \<open>cache.Interface\<close> on which the clients rely.\<close>

locale cache_interface =
  fixes setc :: "time \<Rightarrow> string \<Rightarrow> string \<Rightarrow> duration \<Rightarrow> 's \<Rightarrow> unit res \<times> 's"
    and delc :: "string list \<Rightarrow> 's \<Rightarrow> unit res \<times> 's"
    and existsc :: "string list \<Rightarrow> 's \<Rightarrow> bool res"
  assumes set_ok: "fst (setc now k v d s) = Inr ()"
    and del_ok: "fst (delc ks s) = Inr ()"
    and exists_set: "existsc [k'] (snd (setc now k v d s)) = (if k' = k then Inr True else existsc [k'] s)"
    and exists_del: "existsc [k] (snd (delc ks s)) = (if k \<in> set ks then Inr False else existsc [k] s)"

interpretation inMemory: cache_interface cacheSet cacheDel cacheExists
  by unfold_locales (auto simp: cacheSet_def update_conv')

section \<open>Properties\<close>

lemma cleanLoop_filter:
  "distinct (map fst kvs) \<Longrightarrow> cleanLoop clock kvs store =
   filter (\<lambda>(k, _). case map_of kvs k of None \<Rightarrow> True | Some v \<Rightarrow> \<not> IsExpired (clock k) v) store"
proof (induction clock kvs store rule: cleanLoop.induct)
  case (2 clock k' v kvs store)
  have k': "map_of kvs k' = None" using 2(2) by (simp add: map_of_eq_None_iff)
  let ?keeps = "\<lambda>kvs (k, _). case map_of kvs k of None \<Rightarrow> True | Some v \<Rightarrow> \<not> IsExpired (clock k) v"
  have "filter (?keeps kvs) (if IsExpired (clock k') v then AList.delete k' store else store) =
      filter (?keeps ((k', v) # kvs)) store"
    by (simp add: AList.delete_eq) (rule conjI; rule impI; rule filter_cong; use k' in \<open>simp split: prod.splits\<close>)
  with 2 show ?case by simp
qed simp

lemma clean_keys:
  assumes "distinct (map fst s)"
  shows "map fst (cleanInvalidToken clock s) = filter (\<lambda>k. map_of (cleanInvalidToken clock s) k \<noteq> None) (map fst s)"
proof -
  have "(case map_of s (fst kv) of None \<Rightarrow> True | Some v \<Rightarrow> \<not> IsExpired (clock (fst kv)) v) \<longleftrightarrow>
      map_of (cleanInvalidToken clock s) (fst kv) \<noteq> None" if "kv \<in> set s" for kv
    using that map_of_clean [OF assms, of clock "fst kv"] map_of_eq_None_iff [of s "fst kv"]
    by (auto split: option.splits)
  then have "filter (\<lambda>(k, _). case map_of s k of None \<Rightarrow> True | Some v \<Rightarrow> \<not> IsExpired (clock k) v) s =
      filter (\<lambda>kv. map_of (cleanInvalidToken clock s) (fst kv) \<noteq> None) s"
    by (intro filter_cong) (auto simp: case_prod_beta)
  then show ?thesis
    unfolding cleanInvalidToken_def [of clock s] cleanLoop_filter [OF assms] by (simp add: filter_map comp_def)
qed

text \<open>
  C33. What the periodic clean-up changes: in any reachable cache, \<open>Get\<close> of a key answers after a clean-up
  that looked at the key no later than now what it answers before. \<open>Exists\<close> and \<open>Keys\<close> do see it: a key
  exists afterwards exactly when its entry had not expired when the clean-up looked at it, and \<open>Keys\<close>
  lists of its former answer the keys that still exist, in the same order.
\<close>

theorem cleanup_invisible:
  assumes "cacheReachable s" and "clock k \<le> now"
  shows "cacheGet now k (cleanInvalidToken clock s) = cacheGet now k s \<and>
    cacheExists [k] (cleanInvalidToken clock s) = Inr (\<exists>v. map_of s k = Some v \<and> \<not> IsExpired (clock k) v) \<and>
    cacheKeys compile pattern (cleanInvalidToken clock s) =
      (case cacheKeys compile pattern s of
         Inl err \<Rightarrow> Inl err
       | Inr ks \<Rightarrow> Inr (filter (\<lambda>k'. cacheExists [k'] (cleanInvalidToken clock s) = Inr True) ks))"
proof -
  note d = cacheReachable_distinct [OF assms(1)]
  have "cacheGet now k (cleanInvalidToken clock s) = cacheGet now k s"
    using assms(2) map_of_clean [OF d, of clock k] by (auto simp: cacheGet_def IsExpired_def split: option.splits)
  moreover have "cacheExists [k] (cleanInvalidToken clock s) =
      Inr (\<exists>v. map_of s k = Some v \<and> \<not> IsExpired (clock k) v)"
    using map_of_clean [OF d, of clock k] by (auto split: option.splits)
  moreover have "cacheKeys compile pattern (cleanInvalidToken clock s) =
      (case cacheKeys compile pattern s of
         Inl err \<Rightarrow> Inl err
       | Inr ks \<Rightarrow> Inr (filter (\<lambda>k'. cacheExists [k'] (cleanInvalidToken clock s) = Inr True) ks))"
    unfolding cacheKeys_def clean_keys [OF d]
    by (cases "compile (ReplaceChar pattern CHR ''*'' CHR ''.'')") (simp_all add: cacheExists_iff conj_commute)
  ultimately show ?thesis by blast
qed

theorem cleanup_invisible_witness:
  "cacheGet 7 ''a'' (cleanInvalidToken (\<lambda>_. 6) (snd (cacheSet 0 ''a'' ''x'' 5 NewInMemoryCache))) =
   Inl ErrNoSuchKey \<and>
   cacheExists [''a''] (snd (cacheSet 0 ''a'' ''x'' 5 NewInMemoryCache)) = Inr True \<and>
   cacheExists [''a''] (cleanInvalidToken (\<lambda>_. 6) (snd (cacheSet 0 ''a'' ''x'' 5 NewInMemoryCache))) = Inr False"
proof -
  have "cacheReachable (snd (cacheSet 0 ''a'' ''x'' 5 NewInMemoryCache))"
    by (rule cacheReachable.step [OF cacheReachable.new cacheStep.set])
  from cleanup_invisible [OF this, of "\<lambda>_. 6" "''a''" 7] show ?thesis
    by (simp add: cacheGet_set newObject_def IsExpired_def NeverExpire_def Let_def)
qed

text \<open>
  A value that was set is read back until its duration has passed, then the key is missing; a
  duration of zero keeps it for ever; no other key changes.
\<close>

theorem cache_read_after_set:
  "cacheGet now' k' (snd (cacheSet now k v d s)) =
    (if k' \<noteq> k then cacheGet now' k' s
     else if d = 0 \<or> now' < now + d then Inr v else Inl ErrNoSuchKey)"
  by (simp add: cacheGet_set)

text \<open>
  \<open>Exists\<close> does not look at the expiry: between the expiry of a key and the next clean-up,
  \<open>Exists\<close> still answers true for a key that \<open>Get\<close> no longer finds.
\<close>

theorem cache_exists_ignores_expiry:
  assumes "0 < d" and "now + d \<le> now'"
  shows "cacheExists [k] (snd (cacheSet now k v d s)) = Inr True \<and>
    cacheGet now' k (snd (cacheSet now k v d s)) = Inl ErrNoSuchKey"
  using assms by (simp add: cacheGet_set)

theorem cache_exists_ignores_expiry_witness:
  "cacheExists [''t''] (snd (cacheSet 0 ''t'' ''x'' Second NewInMemoryCache)) = Inr True"
  using cache_exists_ignores_expiry [of Second 0 "2 * Second" "''t''" "''x''" NewInMemoryCache]
  by (simp add: Second_def)

section \<open>Printing the options\<close>

text \<open>
  \<open>json.Marshal\<close> of a value with a method \<open>MarshalJSON\<close> calls the method and compacts what it answers.
  \<open>DynamicOptions.MarshalJSON\<close> calls \<open>json.Marshal\<close> on its own receiver.
\<close>

partial_function (option) MarshalJSON :: "(string \<Rightarrow> string res) \<Rightarrow> 'o \<Rightarrow> string res option" where
  "MarshalJSON compact opts =
     Option.bind (MarshalJSON compact opts) (\<lambda>r. Some (case r of Inl err \<Rightarrow> Inl err | Inr data \<Rightarrow> compact data))"

text \<open>
  Marshalling cache options to JSON never returns: whatever the options are, the method calls itself
  until the stack is used up.
\<close>

theorem MarshalJSON_never_returns: "MarshalJSON compact opts = None"
proof (rule ccontr)
  assume "MarshalJSON compact opts \<noteq> None"
  then obtain r where "MarshalJSON compact opts = Some r" by blast
  then show False
    by (rule MarshalJSON.raw_induct [where P = "\<lambda>_ _ _. False", rotated]) (auto simp: Option.bind_eq_Some_conv)
qed

end
