(* ===== verification/Auth_Token.thy ===== *)
theory Auth_Token
  imports Cache_Store Resource_Getters
begin

text \<open>
  \<open>pkg/aiserver/authentication/token\<close>, \<open>pkg/middles/auth/token.go\<close> and
  \<open>authoricators/jwttoken\<close>: issuing and verifying tokens. Signing and parsing a JWT belong to the
  library \<open>jwt-go\<close> and are parameters; \<open>jwtCodec\<close> states what the code relies on.
\<close>

section \<open>Claims and the issuer\<close>

datatype TokenType = AccessToken | RefreshToken | StaticToken

record Claims =
  cl_Username :: string
  cl_Groups :: "string list"
  cl_Extra :: "(string \<times> string list) list"
  cl_TokenType :: TokenType
  ExpiresAt :: int
  IssuedAt :: int
  Issuer :: string
  NotBefore :: int

datatype SigningMethod = HMAC string | OtherMethod string

record Jwt =
  jwtSign :: "string \<Rightarrow> Claims \<Rightarrow> string \<Rightarrow> string res"
    \<comment> \<open>\<open>NewWithClaims(method, claims).SignedString(key)\<close>\<close>
  jwtParse :: "string \<Rightarrow> (SigningMethod \<Rightarrow> string res) \<Rightarrow> time \<Rightarrow> Claims res"
    \<comment> \<open>\<open>ParseWithClaims\<close> with the key function, at a time\<close>

record jwtTokenIssuer =
  issuerName :: string
  secret :: string
  maximumClockSkew :: duration

definition NewTokenIssuer :: "string \<Rightarrow> duration \<Rightarrow> jwtTokenIssuer" where
  "NewTokenIssuer sec skew = \<lparr>issuerName = ''ai'', secret = sec, maximumClockSkew = skew\<rparr>"

definition keyFunc :: "jwtTokenIssuer \<Rightarrow> SigningMethod \<Rightarrow> string res" where
  "keyFunc s m =
     (case m of HMAC alg \<Rightarrow> Inr (secret s)
      | OtherMethod alg \<Rightarrow> Inl (Msg (''expect token signed with HMAC but got '' @ alg)))"

definition issuerVerify :: "Jwt \<Rightarrow> jwtTokenIssuer \<Rightarrow> time \<Rightarrow> string \<Rightarrow> (UserInfo \<times> TokenType) res" where
  "issuerVerify jwt s now tokenString =
     (case jwtParse jwt tokenString (keyFunc s) now of
        Inl err \<Rightarrow> Inl err
      | Inr clm \<Rightarrow> Inr (\<lparr>ui_Name = cl_Username clm, ui_Groups = cl_Groups clm, ui_Extra = cl_Extra clm\<rparr>,
                        cl_TokenType clm))"

definition wholeSeconds :: "duration \<Rightarrow> int" where
  \<comment> \<open>\<open>int64(d.Seconds())\<close>; \<open>Seconds\<close> is a \<open>float64\<close>, which is this number for every whole number of seconds,
    and for every duration below \<open>2 ^ 23\<close> seconds; beyond, rounding can give one second more\<close>
  "wholeSeconds d = (if 0 \<le> d then d div Second else - ((- d) div Second))"

definition claimsFor :: "jwtTokenIssuer \<Rightarrow> time \<Rightarrow> UserInfo \<Rightarrow> TokenType \<Rightarrow> duration \<Rightarrow> Claims" where
  "claimsFor s now user tokenType expiresIn =
     (let issueAt = now div Second - wholeSeconds (maximumClockSkew s);
          clm = \<lparr>cl_Username = ui_Name user, cl_Groups = ui_Groups user, cl_Extra = ui_Extra user,
                 cl_TokenType = tokenType, ExpiresAt = 0, IssuedAt = issueAt, Issuer = issuerName s,
                 NotBefore = issueAt\<rparr>
      in if expiresIn > 0 then clm\<lparr>ExpiresAt := IssuedAt clm + wholeSeconds expiresIn\<rparr> else clm)"

definition issuerIssueTo ::
  "Jwt \<Rightarrow> jwtTokenIssuer \<Rightarrow> time \<Rightarrow> UserInfo \<Rightarrow> TokenType \<Rightarrow> duration \<Rightarrow> string res" where
  "issuerIssueTo jwt s now user tokenType expiresIn =
     jwtSign jwt ''HS256'' (claimsFor s now user tokenType expiresIn) (secret s)"

text \<open>
  The documented behaviour of the codec: a token signed with HS256 parses under the same key to its
  claims while the claims are valid, and fails otherwise.
\<close>

definition claimsValid :: "Claims \<Rightarrow> time \<Rightarrow> bool" where
  "claimsValid c now \<longleftrightarrow> (ExpiresAt c = 0 \<or> now div Second \<le> ExpiresAt c) \<and>
     IssuedAt c \<le> now div Second \<and> NotBefore c \<le> now div Second"

definition jwtCodec :: "Jwt \<Rightarrow> bool" where
  "jwtCodec jwt \<longleftrightarrow>
     (\<forall>c key t kf now. jwtSign jwt ''HS256'' c key = Inr t \<and> kf (HMAC ''HS256'') = Inr key \<longrightarrow>
        (if claimsValid c now then jwtParse jwt t kf now = Inr c
         else \<exists>e. jwtParse jwt t kf now = Inl e))"

section \<open>The token operator\<close>

record TokenOptions =
  JwtSecret :: string
  MaximumClockSkew :: duration
  AccessTokenMaxAge :: duration
  AccessTokenInactivityTimeout :: duration

record Token =
  tok_AccessToken :: string
  tok_TokenType :: string
  tok_RefreshToken :: string
  tok_ExpiresIn :: int

text \<open>The operations of the cache: the operator sets and looks up, deletion is what revokes a token.\<close>

record 's CacheOps =
  opSet :: "time \<Rightarrow> string \<Rightarrow> string \<Rightarrow> duration \<Rightarrow> 's \<Rightarrow> unit res \<times> 's"
  opDel :: "string list \<Rightarrow> 's \<Rightarrow> unit res \<times> 's"
  opExists :: "string list \<Rightarrow> 's \<Rightarrow> bool res"

definition inMemoryOps :: "cache CacheOps" where
  "inMemoryOps = \<lparr>opSet = cacheSet, opDel = cacheDel, opExists = cacheExists\<rparr>"

definition tokenKey :: "string \<Rightarrow> string \<Rightarrow> string" where
  "tokenKey username token = ''ai:user:'' @ username @ '':token:'' @ token"

definition tokenCacheValidate :: "'s CacheOps \<Rightarrow> string \<Rightarrow> string \<Rightarrow> 's \<Rightarrow> unit res" where
  "tokenCacheValidate c username token s =
     (case opExists c [tokenKey username token] s of
        Inl err \<Rightarrow> Inl err
      | Inr exist \<Rightarrow> if \<not> exist then Inl (Msg ''token not found in cache'') else Inr ())"

definition cacheToken :: "'s CacheOps \<Rightarrow> time \<Rightarrow> string \<Rightarrow> string \<Rightarrow> duration \<Rightarrow> 's \<Rightarrow> unit res \<times> 's" where
  "cacheToken c now username token d s = opSet c now (tokenKey username token) token d s"

definition operatorIssuer :: "TokenOptions \<Rightarrow> jwtTokenIssuer" where
  "operatorIssuer opts = NewTokenIssuer (JwtSecret opts) (MaximumClockSkew opts)"

definition tokenVerify ::
  "Jwt \<Rightarrow> 's CacheOps \<Rightarrow> TokenOptions \<Rightarrow> time \<Rightarrow> string \<Rightarrow> 's \<Rightarrow> UserInfo res" where
  "tokenVerify jwt c opts now tokenStr s =
     (case issuerVerify jwt (operatorIssuer opts) now tokenStr of
        Inl err \<Rightarrow> Inl err
      | Inr (authenticated, tokenType) \<Rightarrow>
          if AccessTokenMaxAge opts = 0 \<or> tokenType = StaticToken then Inr authenticated
          else (case tokenCacheValidate c (ui_Name authenticated) tokenStr s of
                  Inl err \<Rightarrow> Inl err | Inr _ \<Rightarrow> Inr authenticated))"

text \<open>\<open>ext\<close> is the external configuration: maximal age and inactivity timeout, both or none.\<close>

definition tokenIssueTo ::
  "Jwt \<Rightarrow> 's CacheOps \<Rightarrow> TokenOptions \<Rightarrow> time \<Rightarrow> UserInfo \<Rightarrow> duration option \<Rightarrow> duration option \<Rightarrow> 's \<Rightarrow>
   Token res \<times> 's" where
  "tokenIssueTo jwt c opts now user maxAge inactivity s =
     (let iss = operatorIssuer opts;
          (accessExp, refreshExp, tokenType, createType) =
            (case (maxAge, inactivity) of
               (Some a, Some i) \<Rightarrow> (a, wrap64 (a + i), ''static_token'', StaticToken)
             | _ \<Rightarrow> (AccessTokenMaxAge opts,
                    wrap64 (AccessTokenMaxAge opts + AccessTokenInactivityTimeout opts), ''Bearer'', AccessToken))
      in case issuerIssueTo jwt iss now user createType accessExp of
           Inl err \<Rightarrow> (Inl err, s)
         | Inr accessToken \<Rightarrow>
             (case issuerIssueTo jwt iss now user RefreshToken refreshExp of
                Inl err \<Rightarrow> (Inl err, s)
              | Inr refreshToken \<Rightarrow>
                  let result = \<lparr>tok_AccessToken = accessToken, tok_TokenType = tokenType,
                        tok_RefreshToken = refreshToken, tok_ExpiresIn = wholeSeconds accessExp\<rparr>
                  in if accessExp > 0 then
                       (case cacheToken c now (ui_Name user) accessToken accessExp s of
                          (Inl err, s') \<Rightarrow> (Inl err, s')
                        | (Inr _, s') \<Rightarrow>
                            (case cacheToken c now (ui_Name user) refreshToken refreshExp s' of
                               (Inl err, s'') \<Rightarrow> (Inl err, s'')
                             | (Inr _, s'') \<Rightarrow> (Inr result, s'')))
                     else (Inr result, s)))"

section \<open>Authenticating a token\<close>

definition AuthenticateToken ::
  "Jwt \<Rightarrow> 's CacheOps \<Rightarrow> TokenOptions \<Rightarrow> User lister \<Rightarrow> time \<Rightarrow> 's \<Rightarrow> string \<Rightarrow> (UserInfo \<times> bool) res" where
  "AuthenticateToken jwt c opts users now s token =
     (case tokenVerify jwt c opts now token s of
        Inl err \<Rightarrow> Inl err
      | Inr providedUser \<Rightarrow>
          (case lget users (ui_Name providedUser) of
             Inl err \<Rightarrow> Inl err
           | Inr dbUser \<Rightarrow>
               Inr (\<lparr>ui_Name = Name (user_meta dbUser),
                     ui_Groups = spec_Groups (user_spec dbUser) @ [AllAuthenticated],
                     ui_Extra = []\<rparr>, True)))"

section \<open>Lemmas\<close>

lemma claimsFor_simps [simp]:
  "cl_Username (claimsFor s now u ty d) = ui_Name u"
  "cl_Groups (claimsFor s now u ty d) = ui_Groups u"
  "cl_Extra (claimsFor s now u ty d) = ui_Extra u"
  "cl_TokenType (claimsFor s now u ty d) = ty"
  "IssuedAt (claimsFor s now u ty d) = now div Second - wholeSeconds (maximumClockSkew s)"
  "NotBefore (claimsFor s now u ty d) = now div Second - wholeSeconds (maximumClockSkew s)"
  "ExpiresAt (claimsFor s now u ty d) =
    (if d > 0 then now div Second - wholeSeconds (maximumClockSkew s) + wholeSeconds d else 0)"
  by (simp_all add: claimsFor_def Let_def)

lemma wholeSeconds_nonneg: "0 \<le> d \<Longrightarrow> 0 \<le> wholeSeconds d"
  by (simp add: wholeSeconds_def Second_def)

lemma Second_mono: "now \<le> t \<Longrightarrow> now div Second \<le> t div Second"
  by (simp add: Second_def zdiv_mono1)

lemma claimsFor_valid:
  assumes "now \<le> t" and "0 \<le> maximumClockSkew s"
    and "d > 0 \<Longrightarrow> t div Second \<le> now div Second - wholeSeconds (maximumClockSkew s) + wholeSeconds d"
  shows "claimsValid (claimsFor s now u ty d) t"
  using assms wholeSeconds_nonneg [OF assms(2)] Second_mono [OF assms(1)]
  by (auto simp: claimsValid_def)

lemma issuer_roundtrip:
  assumes "jwtCodec jwt" and "issuerIssueTo jwt s now u ty d = Inr t"
    and "claimsValid (claimsFor s now u ty d) now'"
  shows "issuerVerify jwt s now' t = Inr (u, ty)"
proof -
  have "jwtParse jwt t (keyFunc s) now' = Inr (claimsFor s now u ty d)"
    using assms unfolding jwtCodec_def issuerIssueTo_def
    by (metis SigningMethod.simps(5) keyFunc_def)
  then show ?thesis by (simp add: issuerVerify_def)
qed

lemma issuer_expired:
  assumes "jwtCodec jwt" and "issuerIssueTo jwt s now u ty d = Inr t"
    and "\<not> claimsValid (claimsFor s now u ty d) now'"
  shows "\<exists>e. issuerVerify jwt s now' t = Inl e"
proof -
  have "\<exists>e. jwtParse jwt t (keyFunc s) now' = Inl e"
    using assms unfolding jwtCodec_def issuerIssueTo_def
    by (metis SigningMethod.simps(5) keyFunc_def)
  then show ?thesis by (auto simp: issuerVerify_def)
qed

lemma operatorIssuer_simps [simp]: "maximumClockSkew (operatorIssuer opts) = MaximumClockSkew opts"
  by (simp add: operatorIssuer_def NewTokenIssuer_def)

text \<open>What issuing leaves behind, over any cache that keeps the contract.\<close>

context cache_interface begin

definition ops where "ops = \<lparr>opSet = setc, opDel = delc, opExists = existsc\<rparr>"

lemma validate_iff: "tokenCacheValidate ops u t s = Inr () \<longleftrightarrow> existsc [tokenKey u t] s = Inr True"
  by (auto simp: tokenCacheValidate_def ops_def split: sum.splits)

lemma issue_cached:
  assumes "tokenIssueTo jwt ops opts now user None None s = (Inr tok, s')"
    and "0 < AccessTokenMaxAge opts"
  shows "tokenCacheValidate ops (ui_Name user) (tok_AccessToken tok) s' = Inr () \<and>
    tokenCacheValidate ops (ui_Name user) (tok_RefreshToken tok) s' = Inr () \<and>
    issuerIssueTo jwt (operatorIssuer opts) now user AccessToken (AccessTokenMaxAge opts) = Inr (tok_AccessToken tok) \<and>
    issuerIssueTo jwt (operatorIssuer opts) now user RefreshToken
      (wrap64 (AccessTokenMaxAge opts + AccessTokenInactivityTimeout opts)) = Inr (tok_RefreshToken tok)"
  using assms unfolding validate_iff
  by (auto simp: tokenIssueTo_def cacheToken_def ops_def Let_def exists_set
      split: sum.splits prod.splits if_splits dest!: arg_cong [where f = snd])

lemma revoked:
  assumes "tokenKey u t \<in> set ks"
  shows "tokenCacheValidate ops u t (snd (delc ks s)) = Inl (Msg ''token not found in cache'')"
  using assms by (simp add: tokenCacheValidate_def ops_def exists_del)

end

lemma inMemory_ops: "inMemory.ops = inMemoryOps"
  by (simp add: inMemory.ops_def inMemoryOps_def)

section \<open>A codec for concrete runs\<close>

text \<open>It signs the claims of a table, all with one key.\<close>

definition tableJwt :: "string \<Rightarrow> (string \<times> Claims) list \<Rightarrow> Jwt" where
  "tableJwt key table = \<lparr>
     jwtSign = (\<lambda>m c k.
       if k \<noteq> key \<or> m \<noteq> ''HS256'' then Inl (Msg ''key'')
       else (case find (\<lambda>(t, c'). c' = c) table of None \<Rightarrow> Inl (Msg ''claims'') | Some (t, _) \<Rightarrow> Inr t)),
     jwtParse = (\<lambda>t kf now.
       case map_of table t of
         None \<Rightarrow> Inl (Msg ''malformed'')
       | Some c \<Rightarrow>
           if kf (HMAC ''HS256'') \<noteq> Inr key then Inl (Msg ''signature'')
           else if claimsValid c now then Inr c else Inl (Msg ''expired''))\<rparr>"

lemma jwtCodec_tableJwt:
  assumes "distinct (map fst table)"
  shows "jwtCodec (tableJwt key table)"
proof -
  have "map_of table t = Some c" if "find (\<lambda>(t, c'). c' = c) table = Some (t, c'')" for t c c''
    using that assms by (auto dest!: find_SomeD)
  then show ?thesis
    unfolding jwtCodec_def by (auto simp: tableJwt_def split: if_splits option.splits)
qed

section \<open>Properties\<close>

lemma issued_verifies:
  assumes "jwtCodec jwt" and "0 < AccessTokenMaxAge opts" and "0 \<le> MaximumClockSkew opts"
    and "tokenIssueTo jwt inMemoryOps opts now user None None s = (Inr tok, s')"
    and "now \<le> t"
    and "t div Second \<le> now div Second - wholeSeconds (MaximumClockSkew opts) + wholeSeconds (AccessTokenMaxAge opts)"
  shows "tokenVerify jwt inMemoryOps opts t (tok_AccessToken tok) s' = Inr user"
proof -
  note i = inMemory.issue_cached [unfolded inMemory_ops, OF assms(4,2)]
  have "claimsValid (claimsFor (operatorIssuer opts) now user AccessToken (AccessTokenMaxAge opts)) t"
    by (rule claimsFor_valid) (use assms in simp_all)
  then have "issuerVerify jwt (operatorIssuer opts) t (tok_AccessToken tok) = Inr (user, AccessToken)"
    using issuer_roundtrip [OF assms(1)] i by blast
  with i show ?thesis by (simp add: tokenVerify_def)
qed

text \<open>
  C6. A token that was issued is accepted: until its lifetime, counted in seconds from the issue time
  less the clock skew, is over, verifying the access token gives back the user it was issued to,
  with the groups and the extra data.
\<close>

theorem token_issue_verify:
  assumes "jwtCodec jwt" and "0 < AccessTokenMaxAge opts" and "0 \<le> MaximumClockSkew opts"
    and "tokenIssueTo jwt inMemoryOps opts now user None None s = (Inr tok, s')"
    and "now \<le> t"
    and "t div Second \<le> now div Second - wholeSeconds (MaximumClockSkew opts) + wholeSeconds (AccessTokenMaxAge opts)"
  shows "tokenVerify jwt inMemoryOps opts t (tok_AccessToken tok) s' = Inr user"
  using assms by (rule issued_verifies)

definition exampleOptions :: TokenOptions where
  "exampleOptions = \<lparr>JwtSecret = ''s3cret'', MaximumClockSkew = 10 * Second, AccessTokenMaxAge = 2 * Hour,
     AccessTokenInactivityTimeout = 2 * Hour\<rparr>"

definition alice :: UserInfo where
  "alice = \<lparr>ui_Name = ''alice'', ui_Groups = [''dev''], ui_Extra = []\<rparr>"

definition exampleJwt :: Jwt where
  "exampleJwt = tableJwt ''s3cret''
     [(''acc'', claimsFor (operatorIssuer exampleOptions) (100 * Second) alice AccessToken (2 * Hour)),
      (''ref'', claimsFor (operatorIssuer exampleOptions) (100 * Second) alice RefreshToken (4 * Hour))]"

definition aliceToken :: Token where
  "aliceToken = \<lparr>tok_AccessToken = ''acc'', tok_TokenType = ''Bearer'', tok_RefreshToken = ''ref'',
     tok_ExpiresIn = 7200\<rparr>"

definition aliceCache :: cache where
  "aliceCache = snd (tokenIssueTo exampleJwt inMemoryOps exampleOptions (100 * Second) alice None None [])"

lemma exampleJwt_codec: "jwtCodec exampleJwt"
  by (simp add: exampleJwt_def jwtCodec_tableJwt)

lemma example_issue:
  "tokenIssueTo exampleJwt inMemoryOps exampleOptions (100 * Second) alice None None [] =
    (Inr aliceToken, aliceCache)"
proof -
  have ne: "claimsFor i n u AccessToken d \<noteq> claimsFor i n u RefreshToken d'" for i n u d d'
    by (metis TokenType.distinct(1) claimsFor_simps(4))
  have "fst (tokenIssueTo exampleJwt inMemoryOps exampleOptions (100 * Second) alice None None []) = Inr aliceToken"
    using ne
    by (simp add: tokenIssueTo_def exampleJwt_def tableJwt_def issuerIssueTo_def aliceToken_def
        cacheToken_def inMemoryOps_def cacheSet_def Let_def exampleOptions_def operatorIssuer_def
        NewTokenIssuer_def duration_defs wholeSeconds_def wrap64_def)
  then show ?thesis by (simp add: aliceCache_def prod_eq_iff)
qed

theorem token_issue_verify_witness:
  "tokenVerify exampleJwt inMemoryOps exampleOptions (7200 * Second) ''acc'' aliceCache = Inr alice"
  using token_issue_verify [OF exampleJwt_codec _ _ example_issue, of "7200 * Second"]
  by (simp add: exampleOptions_def aliceToken_def duration_defs wholeSeconds_def wrap64_def)

text \<open>
  C7. Revocation and expiry of every token that is signed with the secret of the server, access, refresh
  or static, whoever made it: after any deletion from the cache it verifies exactly when its claims are
  valid at the time and, unless the token is static or tokens have no maximal age, its entry is in the
  cache and was not among the deleted ones. It verifies to the user of its claims.
\<close>

theorem token_revoked_or_expired:
  assumes "jwtCodec jwt" and "jwtSign jwt ''HS256'' c (JwtSecret opts) = Inr token"
  shows "tokenVerify jwt inMemoryOps opts t token (snd (cacheDel ks s)) = Inr user \<longleftrightarrow>
      user = \<lparr>ui_Name = cl_Username c, ui_Groups = cl_Groups c, ui_Extra = cl_Extra c\<rparr> \<and> claimsValid c t \<and>
      (AccessTokenMaxAge opts = 0 \<or> cl_TokenType c = StaticToken \<or>
       tokenKey (cl_Username c) token \<notin> set ks \<and> cacheExists [tokenKey (cl_Username c) token] s = Inr True)"
proof -
  have k: "keyFunc (operatorIssuer opts) (HMAC ''HS256'') = Inr (JwtSecret opts)"
    by (simp add: keyFunc_def operatorIssuer_def NewTokenIssuer_def)
  have p: "if claimsValid c t then jwtParse jwt token (keyFunc (operatorIssuer opts)) t = Inr c
      else \<exists>e. jwtParse jwt token (keyFunc (operatorIssuer opts)) t = Inl e"
    using assms k unfolding jwtCodec_def by blast
  show ?thesis
  proof (cases "claimsValid c t")
    case True
    with p show ?thesis
      by (auto simp: tokenVerify_def issuerVerify_def tokenCacheValidate_def inMemoryOps_def)
  next
    case False
    with p show ?thesis by (auto simp: tokenVerify_def issuerVerify_def)
  qed
qed

theorem token_revoked_or_expired_witness:
  "tokenVerify exampleJwt inMemoryOps exampleOptions (200 * Second) ''ref''
     (snd (cacheDel [tokenKey ''alice'' ''ref''] aliceCache)) \<noteq> Inr alice"
proof -
  let ?c = "claimsFor (operatorIssuer exampleOptions) (100 * Second) alice RefreshToken (4 * Hour)"
  have ne: "claimsFor i n u AccessToken d \<noteq> claimsFor i n u RefreshToken d'" for i n u d d'
    by (metis TokenType.distinct(1) claimsFor_simps(4))
  have "jwtSign exampleJwt ''HS256'' ?c (JwtSecret exampleOptions) = Inr ''ref''"
    using ne by (simp add: exampleJwt_def tableJwt_def exampleOptions_def)
  from token_revoked_or_expired [OF exampleJwt_codec this, of "200 * Second" "[tokenKey ''alice'' ''ref'']" aliceCache alice]
  have "tokenVerify exampleJwt inMemoryOps exampleOptions (200 * Second) ''ref''
     (snd (cacheDel [tokenKey ''alice'' ''ref''] aliceCache)) = Inr alice \<longleftrightarrow>
     AccessTokenMaxAge exampleOptions = 0 \<and> claimsValid ?c (200 * Second)"
    by (auto simp: alice_def)
  then show ?thesis by (simp add: exampleOptions_def duration_defs)
qed

text \<open>
  C31. A token of a login is worth the account, not what was signed: until its lifetime is over, the JWT
  token authenticator answers an access token that was issued to a user with the account that the lister
  has under the name of the user, with the groups of the account as they are now; when there is no such
  account the token is refused with the error of the lister.
\<close>

theorem issued_token_authenticates:
  assumes "jwtCodec jwt" and "0 < AccessTokenMaxAge opts" and "0 \<le> MaximumClockSkew opts"
    and "tokenIssueTo jwt inMemoryOps opts now user None None s = (Inr tok, s')"
    and "now \<le> t"
    and "t div Second \<le> now div Second - wholeSeconds (MaximumClockSkew opts) + wholeSeconds (AccessTokenMaxAge opts)"
  shows "AuthenticateToken jwt inMemoryOps opts users t s' (tok_AccessToken tok) =
    (case lget users (ui_Name user) of
       Inl err \<Rightarrow> Inl err
     | Inr account \<Rightarrow>
         Inr (\<lparr>ui_Name = Name (user_meta account),
               ui_Groups = spec_Groups (user_spec account) @ [AllAuthenticated], ui_Extra = []\<rparr>, True))"
  by (simp add: AuthenticateToken_def issued_verifies [OF assms])

theorem issued_token_authenticates_witness:
  "AuthenticateToken exampleJwt inMemoryOps exampleOptions
     \<lparr>lget = (\<lambda>n. Inr \<lparr>user_meta = emptyMeta\<lparr>Name := n\<rparr>, user_spec = emptySpec\<lparr>spec_Groups := [''ops'']\<rparr>,
         user_status = emptyStatus\<rparr>), llist = (\<lambda>_. Inr [])\<rparr>
     (7200 * Second) aliceCache ''acc'' =
   Inr (\<lparr>ui_Name = ''alice'', ui_Groups = [''ops'', AllAuthenticated], ui_Extra = []\<rparr>, True)"
  using issued_token_authenticates [OF exampleJwt_codec _ _ example_issue, of "7200 * Second"]
  by (simp add: exampleOptions_def aliceToken_def alice_def duration_defs wholeSeconds_def wrap64_def)

text \<open>
  The verification does not look at the token type: a refresh token, which is cached like an
  access token, is accepted where an access token is expected, and for the longer lifetime of a
  refresh token.
\<close>

theorem refresh_token_accepted:
  assumes "jwtCodec jwt" and "0 < AccessTokenMaxAge opts" and "0 \<le> MaximumClockSkew opts"
    and "tokenIssueTo jwt inMemoryOps opts now user None None s = (Inr tok, s')"
    and "now \<le> t"
    and "t div Second \<le> now div Second - wholeSeconds (MaximumClockSkew opts) +
      wholeSeconds (wrap64 (AccessTokenMaxAge opts + AccessTokenInactivityTimeout opts))"
  shows "tokenVerify jwt inMemoryOps opts t (tok_RefreshToken tok) s' = Inr user"
proof -
  note i = inMemory.issue_cached [unfolded inMemory_ops, OF assms(4,2)]
  have "claimsValid (claimsFor (operatorIssuer opts) now user RefreshToken
      (wrap64 (AccessTokenMaxAge opts + AccessTokenInactivityTimeout opts))) t"
    by (rule claimsFor_valid) (use assms in simp_all)
  then have "issuerVerify jwt (operatorIssuer opts) t (tok_RefreshToken tok) = Inr (user, RefreshToken)"
    using issuer_roundtrip [OF assms(1)] i by blast
  with i show ?thesis by (simp add: tokenVerify_def)
qed

theorem refresh_token_accepted_witness:
  "tokenVerify exampleJwt inMemoryOps exampleOptions (14400 * Second) ''ref'' aliceCache = Inr alice"
  using refresh_token_accepted [OF exampleJwt_codec _ _ example_issue, of "14400 * Second"]
  by (simp add: exampleOptions_def aliceToken_def duration_defs wholeSeconds_def wrap64_def)

end
