(* ===== verification/Api_Result.thy ===== *)
theory Api_Result
  imports Iam_Types Slice_Utils
begin

text \<open>
  \<open>pkg/api\<close> and \<open>pkg/utils/errors\<close>: the result envelope of the REST handlers, its list filter, the
  error responses and the joining of errors. An element type comes with an accessor (\<open>Accessor\<close>): its
  metadata when it is an \<open>ObjectMetaAccessor\<close>, and the same value with the managed fields cleared. The
  text of an error, its \<open>Error\<close> method, is a parameter.
\<close>

section \<open>Results\<close>

record ResultPage =
  Total :: int
  PageNo :: int
  PageLimit :: int

datatype 'a ResultData = NoData | DataList "'a list" | DataObject 'a | DataString string

record 'a Result =
  Message :: string
  Code :: int
  Data :: "'a ResultData"
  res_Page :: "ResultPage option"
  res_err :: "goerr option"

definition NewResult :: "'a Result" where
  "NewResult = \<lparr>Message = ''OK'', Code = 0, Data = NoData, res_Page = None, res_err = None\<rparr>"

definition NewStringResult :: "'a Result" where
  "NewStringResult = \<lparr>Message = ''OK'', Code = 0, Data = NoData, res_Page = None, res_err = None\<rparr>"

definition NewEmptyResult :: "'a Result" where
  "NewEmptyResult = \<lparr>Message = ''OK'', Code = 0, Data = NoData, res_Page = None, res_err = None\<rparr>"

definition WithObjectAsJSONString :: "(goerr \<Rightarrow> string) \<Rightarrow> string res \<Rightarrow> 'a Result \<Rightarrow> 'a Result" where
  \<comment> \<open>the argument is the outcome of \<open>json.Marshal\<close>\<close>
  "WithObjectAsJSONString errText marshalled r =
     (case marshalled of
        Inr dat \<Rightarrow> r\<lparr>Data := DataString dat\<rparr>
      | Inl err \<Rightarrow> r\<lparr>Data := DataString (errText err)\<rparr>)"

record 'a Accessor =
  accMeta :: "'a \<Rightarrow> ObjectMeta option"
  accClean :: "'a \<Rightarrow> 'a"

type_synonym metadataFilter = "ObjectMeta \<Rightarrow> bool"

definition aliasFilter :: "string \<Rightarrow> metadataFilter" where
  "aliasFilter alias m =
     (case Annotations m of
        None \<Rightarrow> False
      | Some annos \<Rightarrow> Contains (mget (Some annos) NameAnnotationkey) alias)"

definition namesFilter :: "string \<Rightarrow> metadataFilter" where
  "namesFilter names m = list_ex (\<lambda>n. Contains (Name m) n) (SplitChar names CHR '','')"

definition metadataFilters :: "(string \<Rightarrow> string) option \<Rightarrow> metadataFilter list" where
  "metadataFilters querier =
     (case querier of
        None \<Rightarrow> []
      | Some q \<Rightarrow>
          (if q ''aliasname'' \<noteq> '''' then [aliasFilter (q ''aliasname'')] else []) @
          (if q ''name'' \<noteq> '''' then [\<lambda>m. Contains (Name m) (q ''name'')] else []) @
          (if q ''names'' \<noteq> '''' then [namesFilter (q ''names'')] else []))"

definition matchFilters :: "'a Accessor \<Rightarrow> metadataFilter list \<Rightarrow> 'a \<Rightarrow> bool" where
  "matchFilters acc fs obj =
     (if length fs = 0 then True
      else (case accMeta acc obj of None \<Rightarrow> False | Some m \<Rightarrow> list_all (\<lambda>f. f m) fs))"

text \<open>The loop: the list with the kept elements cleaned in place, and the indices to delete.\<close>

fun filterLoop :: "'a Accessor \<Rightarrow> metadataFilter list \<Rightarrow> nat \<Rightarrow> 'a list \<Rightarrow> 'a list \<times> int list" where
  "filterLoop acc fs i [] = ([], [])"
| "filterLoop acc fs i (x # xs) =
     (let (ys, toDels) = filterLoop acc fs (i + 1) xs
      in if \<not> matchFilters acc fs x then (x # ys, int i # toDels)
         else (accClean acc x # ys, toDels))"

definition WithListAndFilter ::
  "(int list \<Rightarrow> int list) \<Rightarrow> 'a Accessor \<Rightarrow> 'a list \<Rightarrow> (string \<Rightarrow> string) option \<Rightarrow> 'a Result \<Rightarrow> 'a Result" where
  "WithListAndFilter long acc xs querier r =
     (let (ys, toDels) = filterLoop acc (metadataFilters querier) 0 xs;
          resultList = RemoveSubSlice long ys toDels;
          r' = r\<lparr>Data := DataList resultList\<rparr>
      in if length resultList > 0
         then r'\<lparr>res_Page := Some \<lparr>Total = int (length resultList), PageNo = 0, PageLimit = 0\<rparr>\<rparr>
         else r')"

definition WithList :: "(int list \<Rightarrow> int list) \<Rightarrow> 'a Accessor \<Rightarrow> 'a list \<Rightarrow> 'a Result \<Rightarrow> 'a Result" where
  "WithList long acc xs r = WithListAndFilter long acc xs None r"

definition WithObject :: "'a Accessor \<Rightarrow> 'a \<Rightarrow> 'a Result \<Rightarrow> 'a Result" where
  "WithObject acc obj r = r\<lparr>Data := DataObject (accClean acc obj)\<rparr>"

definition WithError :: "(goerr \<Rightarrow> string) \<Rightarrow> goerr option \<Rightarrow> 'a Result \<Rightarrow> 'a Result" where
  "WithError errText err r =
     (case err of
        None \<Rightarrow> r\<lparr>res_err := None\<rparr>
      | Some e \<Rightarrow> r\<lparr>res_err := Some e, Message := errText e,
                     Code := (if Code r = 0 then -1 else Code r), Data := NoData\<rparr>)"

section \<open>Responses\<close>

text \<open>What a handler writes: a JSON result with a status, or an error text with a status.\<close>

datatype 'a Response = JsonResponse int "'a Result" | ErrorResponse int string | NoResponse

definition WriteTo :: "'a Result \<Rightarrow> 'a Response" where
  "WriteTo r = JsonResponse (if Code r \<noteq> 0 then 400 else 200) r"

definition sanitizeChar :: "char \<Rightarrow> string" where
  "sanitizeChar c =
     (if c = CHR 0x26 then ''&amp;'' else if c = CHR 0x3C then ''&lt;''
      else if c = CHR 0x3E then ''&gt;'' else [c])"

definition sanitizer :: "string \<Rightarrow> string" where
  "sanitizer s = concat (map sanitizeChar s)"

definition handleErr :: "(goerr \<Rightarrow> string) \<Rightarrow> int \<Rightarrow> goerr \<Rightarrow> 'a Response" where
  "handleErr errText statusCode err = ErrorResponse statusCode (sanitizer (errText err))"

definition HandleInternalError :: "(goerr \<Rightarrow> string) \<Rightarrow> goerr \<Rightarrow> 'a Response" where
  "HandleInternalError errText err = handleErr errText 500 err"

definition HandleBadRequest :: "(goerr \<Rightarrow> string) \<Rightarrow> goerr \<Rightarrow> 'a Response" where
  "HandleBadRequest errText err = handleErr errText 400 err"

definition HandleNotFound :: "(goerr \<Rightarrow> string) \<Rightarrow> goerr \<Rightarrow> 'a Response" where
  "HandleNotFound errText err = handleErr errText 404 err"

definition HandleForbidden :: "(goerr \<Rightarrow> string) \<Rightarrow> goerr \<Rightarrow> 'a Response" where
  "HandleForbidden errText err = handleErr errText 403 err"

definition HandleUnauthorized :: "(goerr \<Rightarrow> string) \<Rightarrow> goerr \<Rightarrow> 'a Response" where
  "HandleUnauthorized errText err = handleErr errText 401 err"

definition HandleTooManyRequests :: "(goerr \<Rightarrow> string) \<Rightarrow> goerr \<Rightarrow> 'a Response" where
  "HandleTooManyRequests errText err = handleErr errText 429 err"

definition HandleConflict :: "(goerr \<Rightarrow> string) \<Rightarrow> goerr \<Rightarrow> 'a Response" where
  "HandleConflict errText err = handleErr errText 409 err"

fun apiStatusCode :: "goerr \<Rightarrow> int option" where
  \<comment> \<open>the status code of an \<open>APIStatus\<close> error\<close>
  "apiStatusCode (NotFound _ _) = Some 404"
| "apiStatusCode (AlreadyExists _ _) = Some 409"
| "apiStatusCode (BadRequest _) = Some 400"
| "apiStatusCode (Unauthorized _) = Some 401"
| "apiStatusCode (Forbidden _ _ _) = Some 403"
| "apiStatusCode (InternalError _) = Some 500"
| "apiStatusCode _ = None"

definition HandleError :: "(goerr \<Rightarrow> string) \<Rightarrow> goerr \<Rightarrow> 'a Response" where
  "HandleError errText err =
     handleErr errText (case apiStatusCode err of Some c \<Rightarrow> c | None \<Rightarrow> 500) err"

section \<open>Joining errors\<close>

definition joinErrors :: "goerr option list \<Rightarrow> goerr list option" where
  "joinErrors errs =
     (let es = fold (\<lambda>e acc. case e of None \<Rightarrow> acc | Some x \<Rightarrow> acc @ [x]) errs []
      in if length es = 0 then None else Some es)"

definition joinText :: "(goerr \<Rightarrow> string) \<Rightarrow> goerr list \<Rightarrow> string" where
  "joinText errText es = Join (map errText es) [CHR 0x0A]"

section \<open>Lemmas\<close>

lemma filterLoop_fst:
  "fst (filterLoop acc fs i xs) = map (\<lambda>x. if matchFilters acc fs x then accClean acc x else x) xs"
  by (induction acc fs i xs rule: filterLoop.induct) (auto simp: Let_def split: prod.splits)

lemma filterLoop_snd_bounds: "d \<in> set (snd (filterLoop acc fs i xs)) \<Longrightarrow> int i \<le> d"
  by (induction acc fs i xs rule: filterLoop.induct) (fastforce simp: Let_def split: prod.splits if_splits)+

lemma filterLoop_sorted: "sorted_wrt (<) (snd (filterLoop acc fs i xs))"
proof (induction acc fs i xs rule: filterLoop.induct)
  case (2 acc fs i x xs)
  then show ?case
    using filterLoop_snd_bounds [of _ acc fs "i + 1" xs]
    by (fastforce simp: Let_def split: prod.splits)
qed simp

lemma length_filterLoop_snd:
  "length (snd (filterLoop acc fs i xs)) = length (filter (\<lambda>x. \<not> matchFilters acc fs x) xs)"
  by (induction acc fs i xs rule: filterLoop.induct) (auto simp: Let_def split: prod.splits)

lemma filterLoop_mem:
  "int (i + k) \<in> set (snd (filterLoop acc fs i xs)) \<longleftrightarrow> k < length xs \<and> \<not> matchFilters acc fs (xs ! k)"
proof (induction acc fs i xs arbitrary: k rule: filterLoop.induct)
  case (2 acc fs i x xs)
  show ?case
  proof (cases k)
    case 0
    have "int i \<notin> set (snd (filterLoop acc fs (i + 1) xs))"
      using filterLoop_snd_bounds [of "int i" acc fs "i + 1" xs] by auto
    with 0 show ?thesis by (auto simp: Let_def split: prod.splits)
  next
    case (Suc k')
    have "int (i + 1 + k') \<in> set (snd (filterLoop acc fs (i + 1) xs)) \<longleftrightarrow>
        k' < length xs \<and> \<not> matchFilters acc fs (xs ! k')"
      using 2 by blast
    with Suc show ?thesis by (auto simp: Let_def split: prod.splits)
  qed
qed simp

lemma nths_filter_index:
  "nths (map f xs) {k. k < length xs \<longrightarrow> P (xs ! k)} = map f (filter P xs)"
proof (induction xs)
  case (Cons x xs)
  have "{j. Suc j < length (x # xs) \<longrightarrow> P ((x # xs) ! Suc j)} = {k. k < length xs \<longrightarrow> P (xs ! k)}" by simp
  then show ?case using Cons by (simp add: nths_Cons)
qed simp

lemma filterLoop_removed:
  assumes "filterLoop acc fs 0 xs = (ys, ds)" and "length ds \<le> 12"
  shows "RemoveSubSlice long ys ds = map (accClean acc) (filter (matchFilters acc fs) xs)"
proof -
  let ?f = "\<lambda>x. if matchFilters acc fs x then accClean acc x else x"
  have ys: "ys = map ?f xs" using filterLoop_fst [of acc fs 0 xs] assms(1) by simp
  have "RemoveSubSlice long ys ds = nths ys (- (nat ` {i \<in> set ds. 0 \<le> i}))"
    using filterLoop_sorted [of acc fs 0 xs] assms by (intro RemoveSubSlice_nths) simp_all
  also have "- (nat ` {i \<in> set ds. 0 \<le> i}) = {k. k < length xs \<longrightarrow> matchFilters acc fs (xs ! k)}"
  proof -
    have "k \<in> nat ` {i \<in> set ds. 0 \<le> i} \<longleftrightarrow> int k \<in> set ds" for k
      by (auto simp: image_iff intro: bexI [of _ "int k"])
    then show ?thesis using filterLoop_mem [of 0 _ acc fs xs] assms(1) by auto
  qed
  also have "nths ys \<dots> = map ?f (filter (matchFilters acc fs) xs)"
    unfolding ys by (rule nths_filter_index)
  finally show ?thesis by (simp cong: map_cong)
qed

text \<open>The filter as a whole, for every client of it.\<close>

lemma WithListAndFilter_kept:
  assumes "length (filter (\<lambda>x. \<not> matchFilters acc (metadataFilters querier) x) xs) \<le> 12"
  shows "Data (WithListAndFilter long acc xs querier r) =
    DataList (map (accClean acc) (filter (matchFilters acc (metadataFilters querier)) xs))"
proof -
  obtain ys ds where l: "filterLoop acc (metadataFilters querier) 0 xs = (ys, ds)" by fastforce
  have "length ds \<le> 12"
    using assms length_filterLoop_snd [of acc "metadataFilters querier" 0 xs] l by simp
  from filterLoop_removed [OF l this, of long] l show ?thesis
    by (simp add: WithListAndFilter_def Let_def)
qed

section \<open>Properties\<close>

text \<open>
  When at most 12 elements are filtered out, \<open>WithListAndFilter\<close> returns exactly the elements that
  satisfy the query, in order and with their managed fields cleared, and counts them.
\<close>

theorem WithListAndFilter_filters:
  assumes "length (filter (\<lambda>x. \<not> matchFilters acc (metadataFilters querier) x) xs) \<le> 12"
  shows "let ys = map (accClean acc) (filter (matchFilters acc (metadataFilters querier)) xs)
    in Data (WithListAndFilter long acc xs querier NewResult) = DataList ys \<and>
       res_Page (WithListAndFilter long acc xs querier NewResult) =
         (if ys = [] then None else Some \<lparr>Total = int (length ys), PageNo = 0, PageLimit = 0\<rparr>)"
  using WithListAndFilter_kept [OF assms, of long NewResult]
  by (auto simp: WithListAndFilter_def NewResult_def Let_def split: prod.splits)

definition metaAccessor :: "ObjectMeta Accessor" where
  "metaAccessor = \<lparr>accMeta = Some, accClean = (\<lambda>m. m\<lparr>ManagedFields := []\<rparr>)\<rparr>"

theorem WithListAndFilter_filters_witness:
  "Data (WithListAndFilter (\<lambda>is. is) metaAccessor [emptyMeta\<lparr>Name := ''web''\<rparr>, emptyMeta\<lparr>Name := ''db''\<rparr>]
     (Some (\<lambda>k. if k = ''name'' then ''we'' else '''')) NewResult) = DataList [emptyMeta\<lparr>Name := ''web''\<rparr>]"
  using WithListAndFilter_filters [of metaAccessor "Some (\<lambda>k. if k = ''name'' then ''we'' else '''')"
      "[emptyMeta\<lparr>Name := ''web''\<rparr>, emptyMeta\<lparr>Name := ''db''\<rparr>]" "\<lambda>is. is"]
  by (simp add: matchFilters_def metadataFilters_def metaAccessor_def emptyMeta_def Contains_def
      HasPrefix_def Let_def)

end
