(* ===== verification/Oauth_Options.thy ===== *)
theory Oauth_Options
  imports Iam_Types Slice_Utils "HOL-Library.AList"
begin

text \<open>
  \<open>pkg/aiserver/authentication/oauth\<close>, \<open>identityprovider\<close> and \<open>authentication/options\<close>: the OAuth
  clients and their redirect URLs, the removal of sensitive options before they are shown, the registry
  of identity providers and the authentication options. \<open>url.Parse\<close> is a parameter, as are the
  factories of providers, which no code of the repository registers.
\<close>

section \<open>Clients\<close>

record OAuthClient =
  oc_Name :: string
  oc_Secret :: string
  RespondWithChallenges :: bool
  RedirectURIs :: "string list"
  GrantMethod :: string
  ScopeRestrictions :: "string list"
  oc_AccessTokenMaxAge :: "duration option"
  oc_AccessTokenInactivityTimeout :: "duration option"

text \<open>Values of a configuration: the dynamic types that the code tells apart.\<close>

datatype ConfigValue =
    CString string
  | CStringMap "(string \<times> ConfigValue) list"
  | CAnyMap "(ConfigKey \<times> ConfigValue) list"
  | COther
and ConfigKey = KString string | KOther

record IdentityProviderOptions =
  ip_Name :: string
  MappingMethod :: string
  ip_Type :: string
  ip_Provider :: "(string \<times> ConfigValue) list"

record OAuthOptions =
  IdentityProviders :: "IdentityProviderOptions list"
  oo_Clients :: "OAuthClient list"
  oo_AccessTokenMaxAge :: duration
  oo_AccessTokenInactivityTimeout :: duration

definition ErrorClientNotFound :: goerr where
  "ErrorClientNotFound = Msg ''the OAuth client was not found''"
definition ErrorProviderNotFound :: goerr where
  "ErrorProviderNotFound = Msg ''the identity provider was not found''"
definition ErrorRedirectURLNotAllowed :: goerr where
  "ErrorRedirectURLNotAllowed = Msg ''redirect URL is not allowed''"

definition AllowAllRedirectURI :: string where "AllowAllRedirectURI = ''*''"

definition DefaultClients :: "OAuthClient list" where
  "DefaultClients = [\<lparr>oc_Name = ''default'', oc_Secret = ''ai'', RespondWithChallenges = True,
     RedirectURIs = [AllowAllRedirectURI], GrantMethod = ''auto'', ScopeRestrictions = [''full''],
     oc_AccessTokenMaxAge = Some (Second * 86400), oc_AccessTokenInactivityTimeout = Some 0\<rparr>]"

definition OAuthClientOf :: "OAuthOptions \<Rightarrow> string \<Rightarrow> OAuthClient res" where
  "OAuthClientOf opts name =
     (case find (\<lambda>c. oc_Name c = name) (oo_Clients opts) of
        Some found \<Rightarrow> Inr found
      | None \<Rightarrow>
          (case find (\<lambda>c. oc_Name c = name) DefaultClients of
             Some defaultClient \<Rightarrow> Inr defaultClient
           | None \<Rightarrow> Inl ErrorClientNotFound))"

definition IdentityProviderOptionsOf :: "OAuthOptions \<Rightarrow> string \<Rightarrow> IdentityProviderOptions res" where
  "IdentityProviderOptionsOf opts name =
     (case find (\<lambda>p. ip_Name p = name) (IdentityProviders opts) of
        Some found \<Rightarrow> Inr found | None \<Rightarrow> Inl ErrorProviderNotFound)"

definition anyRedirectAbleURI :: "(string \<Rightarrow> bool) \<Rightarrow> OAuthClient \<Rightarrow> string list" where
  "anyRedirectAbleURI urlParses c = filter urlParses (RedirectURIs c)"

definition ResolveRedirectURL :: "(string \<Rightarrow> bool) \<Rightarrow> OAuthClient \<Rightarrow> string \<Rightarrow> string res" where
  "ResolveRedirectURL urlParses c expectURL =
     (if length (RedirectURIs c) = 0 then Inl ErrorRedirectURLNotAllowed
      else
        let allowAllRedirectURI = HasString (RedirectURIs c) AllowAllRedirectURI;
            redirectAbleURIs = anyRedirectAbleURI urlParses c
        in if expectURL = '''' then
             (case redirectAbleURIs of u # _ \<Rightarrow> Inr u | [] \<Rightarrow> Inl ErrorRedirectURLNotAllowed)
           else if allowAllRedirectURI \<or> HasString redirectAbleURIs expectURL then Inr expectURL
           else Inl ErrorRedirectURLNotAllowed)"

definition NewOAuthOptions :: OAuthOptions where
  "NewOAuthOptions = \<lparr>IdentityProviders = [], oo_Clients = [], oo_AccessTokenMaxAge = Hour * 2,
     oo_AccessTokenInactivityTimeout = Hour * 2\<rparr>"

section \<open>Sensitive options\<close>

definition sensitiveKeys :: "string list" where "sensitiveKeys = [''password'', ''secret'']"

definition isSensitiveData :: "string \<Rightarrow> bool" where
  "isSensitiveData key = list_ex (\<lambda>v. Contains (ToLower key) v) sensitiveKeys"

text \<open>
  A value is descended into when it is a map with keys of any type; that map is first rebuilt with its
  string keys (\<open>convert\<close>). \<open>desensitizeAny\<close> is \<open>desensitize\<close> after \<open>convert\<close>, see
  \<open>desensitizeAny_convert\<close>.
\<close>

fun convert :: "(ConfigKey \<times> ConfigValue) list \<Rightarrow> (string \<times> ConfigValue) list" where
  "convert [] = []"
| "convert ((KString k, v) # kvs) = (k, v) # convert kvs"
| "convert ((KOther, v) # kvs) = convert kvs"

fun desensitize :: "(string \<times> ConfigValue) list \<Rightarrow> (string \<times> ConfigValue) list"
and desensitizeValue :: "ConfigValue \<Rightarrow> ConfigValue"
and desensitizeAny :: "(ConfigKey \<times> ConfigValue) list \<Rightarrow> (string \<times> ConfigValue) list" where
  "desensitize [] = []"
| "desensitize ((k, v) # kvs) =
     (if isSensitiveData k then desensitize kvs else (k, desensitizeValue v) # desensitize kvs)"
| "desensitizeValue (CAnyMap m) = CStringMap (desensitizeAny m)"
| "desensitizeValue v = v"
| "desensitizeAny [] = []"
| "desensitizeAny ((KString k, v) # kvs) =
     (if isSensitiveData k then desensitizeAny kvs else (k, desensitizeValue v) # desensitizeAny kvs)"
| "desensitizeAny ((KOther, v) # kvs) = desensitizeAny kvs"

lemma desensitizeAny_convert: "desensitizeAny m = desensitize (convert m)"
  by (induction m rule: convert.induct) simp_all

section \<open>Identity providers\<close>

text \<open>
  The registry: the factories by type and the providers by name. A factory creates a provider from
  the options or fails; the failure is logged only.
\<close>

record ('o, 'g) Registry =
  oauthFactories :: "string \<Rightarrow> ((string \<times> ConfigValue) list \<Rightarrow> 'o res) option"
  genericFactories :: "string \<Rightarrow> ((string \<times> ConfigValue) list \<Rightarrow> 'g res) option"
  oauthProviders :: "string \<Rightarrow> 'o option"
  genericProviders :: "string \<Rightarrow> 'g option"

definition emptyRegistry :: "('o, 'g) Registry" where
  "emptyRegistry = \<lparr>oauthFactories = Map.empty, genericFactories = Map.empty,
     oauthProviders = Map.empty, genericProviders = Map.empty\<rparr>"

definition RegisterOAuthProvider ::
  "string \<Rightarrow> ((string \<times> ConfigValue) list \<Rightarrow> 'o res) \<Rightarrow> ('o, 'g) Registry \<Rightarrow> ('o, 'g) Registry" where
  "RegisterOAuthProvider t f r = r\<lparr>oauthFactories := (oauthFactories r)(t \<mapsto> f)\<rparr>"

definition RegisterGenericProvider ::
  "string \<Rightarrow> ((string \<times> ConfigValue) list \<Rightarrow> 'g res) \<Rightarrow> ('o, 'g) Registry \<Rightarrow> ('o, 'g) Registry" where
  "RegisterGenericProvider t f r = r\<lparr>genericFactories := (genericFactories r)(t \<mapsto> f)\<rparr>"

definition setupOAuth :: "IdentityProviderOptions \<Rightarrow> ('o, 'g) Registry \<Rightarrow> ('o, 'g) Registry" where
  "setupOAuth p r =
     (case oauthFactories r (ip_Type p) of
        None \<Rightarrow> r
      | Some factory \<Rightarrow>
          (case factory (ip_Provider p) of
             Inl _ \<Rightarrow> r
           | Inr provider \<Rightarrow> r\<lparr>oauthProviders := (oauthProviders r)(ip_Name p \<mapsto> provider)\<rparr>))"

definition setupGeneric :: "IdentityProviderOptions \<Rightarrow> ('o, 'g) Registry \<Rightarrow> ('o, 'g) Registry" where
  "setupGeneric p r =
     (case genericFactories r (ip_Type p) of
        None \<Rightarrow> r
      | Some factory \<Rightarrow>
          (case factory (ip_Provider p) of
             Inl _ \<Rightarrow> r
           | Inr provider \<Rightarrow> r\<lparr>genericProviders := (genericProviders r)(ip_Name p \<mapsto> provider)\<rparr>))"

fun SetupWithOptions ::
  "IdentityProviderOptions list \<Rightarrow> ('o, 'g) Registry \<Rightarrow> goerr option \<times> ('o, 'g) Registry" where
  "SetupWithOptions [] r = (None, r)"
| "SetupWithOptions (p # ps) r =
     (if oauthProviders r (ip_Name p) \<noteq> None \<or> genericProviders r (ip_Name p) \<noteq> None
        then (Some (Msg (''duplicate identity provider found: '' @ ip_Name p @ '', name must be unique'')), r)
      else if genericFactories r (ip_Type p) = None \<and> oauthFactories r (ip_Type p) = None
        then (Some (Msg (''identity provider '' @ ip_Name p @ '' with type '' @ ip_Type p @
               '' is not supported'')), r)
      else SetupWithOptions ps (setupGeneric p (setupOAuth p r)))"

definition identityProviderNotFound :: goerr where
  "identityProviderNotFound = Msg ''identity provider not found''"

definition GetGenericProvider :: "('o, 'g) Registry \<Rightarrow> string \<Rightarrow> 'g res" where
  "GetGenericProvider r n =
     (case genericProviders r n of Some p \<Rightarrow> Inr p | None \<Rightarrow> Inl identityProviderNotFound)"

definition GetOAuthProvider :: "('o, 'g) Registry \<Rightarrow> string \<Rightarrow> 'o res" where
  "GetOAuthProvider r n =
     (case oauthProviders r n of Some p \<Rightarrow> Inr p | None \<Rightarrow> Inl identityProviderNotFound)"

section \<open>Authentication options\<close>

record AuthenticationOptions =
  RateLimiterMaxTries :: int
  RateLimiterDuration :: duration
  ao_MaximumClockSkew :: duration
  LoginHistoryRetentionPeriod :: duration
  MultipleLogin :: bool
  ao_JwtSecret :: string
  OAuth :: OAuthOptions
  KubectlImage :: string
  Disabled :: bool

definition NewAuthenticateOptions :: AuthenticationOptions where
  "NewAuthenticateOptions = \<lparr>RateLimiterMaxTries = 5, RateLimiterDuration = Minute * 30,
     ao_MaximumClockSkew = 10 * Second, LoginHistoryRetentionPeriod = Hour * 24 * 7,
     MultipleLogin = False, ao_JwtSecret = '''', OAuth = NewOAuthOptions,
     KubectlImage = ''ai/kubectl:v1.0.0'', Disabled = False\<rparr>"

definition ValidateAuthentication ::
  "AuthenticationOptions \<Rightarrow> ('o, 'g) Registry \<Rightarrow> goerr list \<times> ('o, 'g) Registry" where
  "ValidateAuthentication opts r =
     (let errs = (if length (ao_JwtSecret opts) = 0 then [Msg ''jwt secret is empty''] else [])
      in case SetupWithOptions (IdentityProviders (OAuth opts)) r of
           (None, r') \<Rightarrow> (errs, r') | (Some err, r') \<Rightarrow> (errs @ [err], r'))"

section \<open>Properties\<close>

text \<open>
  A redirect URL that is asked for is granted only when the client lists it or lists the wildcard,
  and one chosen by the server is always one the client lists.
\<close>

theorem ResolveRedirectURL_allowed:
  assumes "ResolveRedirectURL urlParses c expectURL = Inr u"
  shows "u \<in> set (RedirectURIs c) \<or> AllowAllRedirectURI \<in> set (RedirectURIs c) \<and> u = expectURL"
  using assms
  by (auto simp: ResolveRedirectURL_def anyRedirectAbleURI_def Let_def filter_eq_Cons_iff
      split: if_splits list.splits)

theorem ResolveRedirectURL_allowed_witness:
  "ResolveRedirectURL (\<lambda>_. True) (hd DefaultClients) ''https://evil.example'' = Inr ''https://evil.example'' \<and>
   AllowAllRedirectURI \<in> set (RedirectURIs (hd DefaultClients))"
proof -
  have r: "ResolveRedirectURL (\<lambda>_. True) (hd DefaultClients) ''https://evil.example'' = Inr ''https://evil.example''"
    by (simp add: ResolveRedirectURL_def DefaultClients_def Let_def)
  from ResolveRedirectURL_allowed [OF r] r show ?thesis
    by (simp add: DefaultClients_def AllowAllRedirectURI_def)
qed

lemma sensitive_eval:
  "isSensitiveData ''clientSecret''" "isSensitiveData ''password''"
  "\<not> isSensitiveData ''url''" "\<not> isSensitiveData ''auth''"
  by code_simp+

text \<open>
  Shown options have no sensitive key at the top level, nor at the top level of any map with keys
  of any type that they contain; the other keys are kept in order.
\<close>

theorem desensitize_no_sensitive:
  "map fst (desensitize kvs) = filter (\<lambda>k. \<not> isSensitiveData k) (map fst kvs) \<and>
   (\<forall>k m. (k, CAnyMap m) \<in> set kvs \<and> \<not> isSensitiveData k \<longrightarrow>
      (k, CStringMap (desensitize (convert m))) \<in> set (desensitize kvs))"
  by (induction kvs) (auto simp: desensitizeAny_convert)

theorem desensitize_no_sensitive_witness:
  "map fst (desensitize [(''clientSecret'', CString ''x''), (''url'', CString ''y'')]) = [''url'']"
  using desensitize_no_sensitive [of "[(''clientSecret'', CString ''x''), (''url'', CString ''y'')]"]
  by (simp add: sensitive_eval)

text \<open>
  A map with string keys inside the options is not descended into: the password in it is shown.
\<close>

theorem desensitize_leaks_nested:
  "desensitize [(''auth'', CStringMap [(''password'', CString p)])] =
     [(''auth'', CStringMap [(''password'', CString p)])]"
  by (simp add: sensitive_eval)

end
