(* ===== verification/Server_Filters.thy ===== *)
theory Server_Filters
  imports Access_Mgmt Auth_Token Password_Auth
begin

text \<open>
  \<open>pkg/aiserver/filters\<close> and \<open>buildHandlerChain\<close> of \<open>pkg/aiserver/aiserver.go\<close>: the filters every
  request passes and the chain the server builds from them. A handler works on a request with its
  context and changes the state of the API server and the list of answers written so far; a handler
  that writes twice shows twice in that list. The union of request authenticators and the proxy to
  Kubernetes belong to the Kubernetes libraries: the first is a parameter, the second an answer.
\<close>

section \<open>Basic credentials\<close>

text \<open>\<open>req.BasicAuth()\<close> of the standard library: the scheme in any case, then padded base64.\<close>

definition b64std :: string where
  "b64std = ''ABCDEFGHIJKLMNOPQRSTUVWXYZabcdefghijklmnopqrstuvwxyz0123456789+/''"

definition stdVal :: "char \<Rightarrow> nat option" where
  "stdVal c = posOf c b64std"

fun stdDecq :: "string \<Rightarrow> string option" where
  "stdDecq [] = Some []"
| "stdDecq (p # q # r # s # rest) =
     (case (stdVal p, stdVal q) of
        (Some w, Some x) \<Rightarrow>
          if rest = [] \<and> r = CHR ''='' \<and> s = CHR ''='' then Some [char_of (w * 4 + x div 16)]
          else (case stdVal r of
            None \<Rightarrow> None
          | Some y \<Rightarrow>
              if rest = [] \<and> s = CHR ''=''
              then Some [char_of (w * 4 + x div 16), char_of (x mod 16 * 16 + y div 4)]
              else (case stdVal s of
                None \<Rightarrow> None
              | Some z \<Rightarrow>
                  map_option ((@) [char_of (w * 4 + x div 16), char_of (x mod 16 * 16 + y div 4),
                    char_of (y mod 4 * 64 + z)]) (stdDecq rest)))
      | _ \<Rightarrow> None)"
| "stdDecq _ = None"

definition stdDecode :: "string \<Rightarrow> string option" where
  "stdDecode s = stdDecq (filter (\<lambda>c. (of_char c :: nat) \<noteq> 10 \<and> (of_char c :: nat) \<noteq> 13) s)"

definition BasicAuthOf :: "HttpRequest \<Rightarrow> (string \<times> string) option" where
  "BasicAuthOf req =
     (let auth = Header req ''Authorization'' in
      if auth = '''' then None
      else if length auth < 6 \<or> ToLower (take 6 auth) \<noteq> ''basic '' then None
      else (case stdDecode (drop 6 auth) of
              None \<Rightarrow> None
            | Some cs \<Rightarrow>
                (case Index cs '':'' of
                   None \<Rightarrow> None
                 | Some i \<Rightarrow> Some (take i cs, drop (i + 1) cs))))"

section \<open>Handlers\<close>

datatype 'r written =
    WInternalError goerr
  | WUnauthorized string string string \<comment> \<open>API group, API version and message\<close>
  | WForbidden AttributesRecord string
  | WProxied string string "string list" HttpRequest
      \<comment> \<open>scheme and host of the Kubernetes API server, protocols, and the request\<close>
  | WBody 'r

type_synonym ('w, 'r) world = "'w \<times> 'r written list"

type_synonym ('w, 'r) handler = "HttpRequest \<Rightarrow> Context \<Rightarrow> (('w, 'r) world, unit) eff"

definition answer :: "'r written \<Rightarrow> (('w, 'r) world, unit) eff" where
  "answer x s = (Inr (), (fst s, snd s @ [x]))"

type_synonym 'w requestAuthn = "HttpRequest \<Rightarrow> Context \<Rightarrow> 'w \<Rightarrow> authn \<times> 'w"

section \<open>Filters\<close>

definition setHeader :: "string \<Rightarrow> string \<Rightarrow> HttpRequest \<Rightarrow> HttpRequest" where
  "setHeader k v req = req\<lparr>Header := (Header req)(k := v)\<rparr>"

definition cookieHeader :: "HttpRequest \<Rightarrow> HttpRequest" where
  \<comment> \<open>the token of a websocket request may come in a cookie\<close>
  "cookieHeader req =
     (if Header req ''Upgrade'' = ''websocket'' then
        if length (Header req ''Authorization'') = 0 then
          let xAuthorization = GetAuthorizationFromCookie (Header req ''Cookie'')
          in if length xAuthorization \<noteq> 0 then setHeader ''Authorization'' xAuthorization req else req
        else req
      else req)"

definition RequestInfoFilter ::
  "(goerr \<Rightarrow> string) \<Rightarrow> ('w, 'r) handler \<Rightarrow> (HttpRequest \<Rightarrow> (RequestInfo \<times> goerr option) go) \<Rightarrow> ('w, 'r) handler" where
  "RequestInfoFilter errorText handler resolver req0 ctx =
     (let req = cookieHeader req0 in
      ebind (eout (ofGo (resolver req))) (\<lambda>(info, err).
        case err of
          Some e \<Rightarrow> answer (WInternalError (Msg (''failed to create RequestInfo: '' @ errorText e)))
        | None \<Rightarrow> handler req (WithRequestInfo ctx info)))"

text \<open>
  The deferred removal of the \<open>Authorization\<close> header happens after the handler has returned, when
  nothing reads the request any more, and is left out.
\<close>

definition AuthenticationFilter ::
  "(goerr \<Rightarrow> string) \<Rightarrow> ('w, 'r) handler \<Rightarrow> 'w requestAuthn option \<Rightarrow> ('w, 'r) handler" where
  "AuthenticationFilter errorText handler authRequest =
     (case authRequest of
        None \<Rightarrow> handler
      | Some authenticate \<Rightarrow> (\<lambda>req ctx s.
          case authenticate req ctx (fst s) of
            ((resp, ok, err), w) \<Rightarrow>
              if err \<noteq> None \<or> \<not> ok then
                (case RequestInfoFrom ctx of
                   None \<Rightarrow> answer (WInternalError (Msg ''no RequestInfo found in the context'')) (w, snd s)
                 | Some requestInfo \<Rightarrow>
                     answer (WUnauthorized (APIGroup requestInfo) (APIVersion requestInfo)
                       (''Unauthorized: '' @ (case err of None \<Rightarrow> ''%!s(<nil>)'' | Some e \<Rightarrow> errorText e)))
                       (w, snd s))
              else
                (case resp of
                   None \<Rightarrow> (Inl (Panic NilDeref), (w, snd s))
                 | Some user \<Rightarrow> handler req (WithUser ctx user) (w, snd s))))"

definition getAuthorizerAttributes :: "Context \<Rightarrow> AttributesRecord res" where
  "getAuthorizerAttributes ctx =
     (case RequestInfoFrom ctx of
        None \<Rightarrow> Inl (Msg ''no RequestInfo found in the context'')
      | Some i \<Rightarrow>
          Inr \<lparr>attr_UserInfo = UserFrom ctx, attr_Verb = Verb i, attr_Cluster = Request_Info.Cluster i,
            attr_Workspace = Workspace i, attr_Namespace = ri_Namespace i, attr_DevOps = DevOps i,
            attr_APIGroup = APIGroup i, attr_APIVersion = APIVersion i, attr_Resource = Resource i,
            attr_Subresource = Subresource i, attr_Name = ri_Name i,
            KubernetesRequest = IsKubernetesRequest i, ResourceRequest = IsResourceRequest i,
            attr_Path = Path i, attr_ResourceScope = ResourceScope i\<rparr>)"

text \<open>An error in getting the attributes is written, but there is no return: the nil attributes go on.\<close>

definition AuthorizationFilter :: "('w, 'r) handler \<Rightarrow> authz option \<Rightarrow> ('w, 'r) handler" where
  "AuthorizationFilter handler authorizers =
     (case authorizers of
        None \<Rightarrow> handler
      | Some authorize \<Rightarrow> (\<lambda>req ctx.
          ebind (case getAuthorizerAttributes ctx of
                   Inl err \<Rightarrow> ebind (answer (WInternalError err)) (\<lambda>_. eret None)
                 | Inr attributes \<Rightarrow> eret (Some attributes)) (\<lambda>attributes.
          ebind (eout (authorize attributes)) (\<lambda>(authorized, reason, err).
            if authorized = DecisionAllow then handler req ctx
            else
              (case err of
                 Some e \<Rightarrow> answer (WInternalError e)
               | None \<Rightarrow>
                   (case attributes of
                      None \<Rightarrow> eout (Inl (Panic NilDeref))
                    | Some a \<Rightarrow> answer (WForbidden a reason)))))))"

fun supportsHTTP11 :: "string list \<Rightarrow> bool" where
  "supportsHTTP11 [] = True"
| "supportsHTTP11 nextProtos = list_ex (\<lambda>proto. proto = ''http/1.1'') nextProtos"

text \<open>
  What the filter uses of \<open>rest.Config\<close>: the parsed URL (nil when it does not parse), whether a
  transport can be made, and the protocols of its TLS configuration (nil when it has none).
\<close>

record KubeConfig =
  kubeURL :: "(string \<times> string) option"
  transportFor :: bool
  tlsNextProtos :: "string list option"

definition KubeAPIServerFilter :: "('w, 'r) handler \<Rightarrow> KubeConfig \<Rightarrow> ('w, 'r) handler go" where
  \<comment> \<open>the outer panic is one of installing the filter\<close>
  "KubeAPIServerFilter handler config =
     (if \<not> transportFor config then Inr handler
      else
        (case tlsNextProtos config of
           None \<Rightarrow> Inl NilDeref
         | Some protos \<Rightarrow>
             let nextProtos = (if supportsHTTP11 protos then [''http/1.1''] else protos) in
             Inr (\<lambda>req ctx.
               case RequestInfoFrom ctx of
                 None \<Rightarrow>
                   ebind (answer (WInternalError (Msg ''Unable to retrieve request info from request'')))
                     (\<lambda>_. eout (Inl (Panic NilDeref)))
               | Some info \<Rightarrow>
                   if IsKubernetesRequest info then
                     (case kubeURL config of
                        None \<Rightarrow> eout (Inl (Panic NilDeref))
                      | Some (scheme, host) \<Rightarrow>
                          answer (WProxied scheme host nextProtos (setHeader ''Authorization'' '''' req)))
                   else handler req ctx)))"

section \<open>The chain\<close>

definition excludedPaths :: "string list" where
  "excludedPaths = [''/oauth/token'', ''/ai-apis/register.ai.io/*'', ''/ai-apis/config.ai.io/*'',
     ''/ai-apis/version'', ''/ai-apis/metrics'', ''/ai-apis/storage.ai.io/v1/s3/health'',
     ''/apidocs'', ''/apidocs/*'', ''/apidocs.json'', ''/debug/pprof'']"

definition requestInfoResolver :: RequestInfoFactory where
  "requestInfoResolver = \<lparr>APIPrefixes = [''api'', ''apis'', ''ai-apis'', ''ai-api''],
     GrouplessAPIPrefixes = [''api'', ''ai-api'']\<rparr>"

definition pathAuthorizerOf :: "string list \<Rightarrow> authz" where
  \<comment> \<open>the error of \<open>path.NewAuthorizer\<close> is dropped; the authorizer is nil then\<close>
  "pathAuthorizerOf pats =
     (case NewPathAuthorizer pats of Inr z \<Rightarrow> z | Inl _ \<Rightarrow> (\<lambda>_. Inl (Panic NilDeref)))"

text \<open>
  The parts that the server hands to the chain. \<open>errorText\<close>, \<open>rego\<close>, \<open>passwords\<close> and \<open>jwt\<close> are the
  library parameters of the components.
\<close>

record ('w, 's) Server =
  sv_errorText :: "goerr \<Rightarrow> string"
  sv_rego :: RbacEnv
  sv_passwords :: PasswordEnv
  sv_jwt :: Jwt
  sv_libs :: Libs
  sv_clients :: "'w Clients"
  sv_informers :: Informers
  sv_cacheOps :: "'s CacheOps"
  sv_tokens :: TokenOptions
  sv_kube :: KubeConfig
  sv_decode :: "(string \<times> string list) list \<Rightarrow> ListOptions res"
  sv_validName :: "string \<Rightarrow> bool"
  sv_disabled :: bool

definition authorizersOf :: "('w, 's) Server \<Rightarrow> authz" where
  "authorizersOf sv =
     unionAuthorize [pathAuthorizerOf excludedPaths,
       rbacAuthorize (sv_errorText sv) (sv_rego sv)
         (rulesAM (NewReadOnlyOperator (sv_libs sv) (sv_informers sv)))]"

text \<open>
  The request authenticators. The union, the anonymous and the bearer token authenticator are those of
  \<open>k8s.io/apiserver\<close> and not the packages of the same names in this repository (which nothing
  uses): they are parameters, the last one a function of the authenticator of the token.
\<close>

type_synonym 'w authnUnion = "'w requestAuthn list \<Rightarrow> 'w requestAuthn"

type_synonym 'w tokenAuthenticator = "string \<Rightarrow> 'w \<Rightarrow> authn \<times> 'w"

record 'w AuthnLib =
  libUnion :: "'w authnUnion" \<comment> \<open>\<open>unionauth.New\<close>\<close>
  libAnonymous :: "'w requestAuthn" \<comment> \<open>\<open>anonymous.NewAuthenticator\<close>\<close>
  libBearertoken :: "'w tokenAuthenticator \<Rightarrow> 'w requestAuthn" \<comment> \<open>\<open>bearertoken.New\<close>\<close>

definition basicAuthn :: "('w, 's) Server \<Rightarrow> ('w \<times> 's) requestAuthn" where
  "basicAuthn sv req ctx w =
     (case basicRequest (AuthenticatePassword (sv_clients sv) (sv_passwords sv)
             (usersLister (sv_informers sv)) True ctx) (BasicAuthOf req) (fst w) of
        (r, api) \<Rightarrow> (r, (api, snd w)))"

definition tokenAuthn :: "('w, 's) Server \<Rightarrow> time \<Rightarrow> ('w \<times> 's) tokenAuthenticator" where
  \<comment> \<open>\<open>jwttoken.NewTokenAuthenticator\<close>, what is handed to the bearer token authenticator\<close>
  "tokenAuthn sv now token w =
     (case AuthenticateToken (sv_jwt sv) (sv_cacheOps sv) (sv_tokens sv)
             (usersLister (sv_informers sv)) now (snd w) token of
        Inl err \<Rightarrow> ((None, False, Some err), w)
      | Inr (user, ok) \<Rightarrow> ((Some user, ok, None), w))"

definition authnOf :: "('w, 's) Server \<Rightarrow> ('w \<times> 's) AuthnLib \<Rightarrow> time \<Rightarrow> ('w \<times> 's) requestAuthn" where
  "authnOf sv lib now =
     libUnion lib [libAnonymous lib, basicAuthn sv, libBearertoken lib (tokenAuthn sv now)]"

definition buildHandlerChain ::
  "('w, 's) Server \<Rightarrow> ('w \<times> 's) AuthnLib \<Rightarrow> time \<Rightarrow> ('w \<times> 's, 'r) handler \<Rightarrow> ('w \<times> 's, 'r) handler go" where
  "buildHandlerChain sv lib now handler0 =
     gbind (KubeAPIServerFilter handler0 (sv_kube sv)) (\<lambda>handler1.
       let handler2 = (if \<not> sv_disabled sv then AuthorizationFilter handler1 (Some (authorizersOf sv))
                       else handler1);
           handler3 = AuthenticationFilter (sv_errorText sv) handler2 (Some (authnOf sv lib now))
       in Inr (RequestInfoFilter (sv_errorText sv) handler3
            (NewRequestInfo requestInfoResolver (sv_decode sv) (sv_validName sv))))"

section \<open>Lemmas\<close>

lemma excludedPaths_valid: "list_all validPattern excludedPaths"
  by code_simp

interpretation chain: two_authorizers
  "pathAuthorizerOf excludedPaths" "pathPermits excludedPaths"
  "rbacAuthorize errorText env am" "rbacPermits env am" for errorText env am
  by unfold_locales (auto simp: pathAuthorizerOf_def path.decides rbac.decides)

lemma pathAuthorizerOf_excluded:
  "pathAuthorizerOf excludedPaths (Some a) =
    Inr (if pathPermits excludedPaths a then DecisionAllow else DecisionNoOpinion, '''', None)"
proof -
  obtain z where z: "NewPathAuthorizer excludedPaths = Inr z"
    using NewPathAuthorizer_ok [of excludedPaths] excludedPaths_valid by (auto simp: isOk_iff)
  show ?thesis using NewPathAuthorizer_decides [OF z] by (simp add: pathAuthorizerOf_def z)
qed

lemma answer_simp [simp]: "answer x s = (Inr (), (fst s, snd s @ [x]))"
  by (simp add: answer_def)

text \<open>What the authorizers of the server allow, over the informer caches.\<close>

definition serverPermits ::
  "('w, 's) Server \<Rightarrow> BindingObj list \<Rightarrow> BindingObj list \<Rightarrow> AttributesRecord \<Rightarrow> bool" where
  "serverPermits sv gbs rbs a \<longleftrightarrow> pathPermits excludedPaths a \<or>
     cachedPermits (sv_rego sv) (NewReadOnlyOperator (sv_libs sv) (sv_informers sv)) gbs rbs a"

definition cachedBindings ::
  "('w, 's) Server \<Rightarrow> string \<Rightarrow> BindingObj list \<Rightarrow> BindingObj list \<Rightarrow> bool" where
  "cachedBindings sv namespace gbs rbs \<longleftrightarrow>
     llist (globalRoleBindingsLister (sv_informers sv)) (cachedSelector (sv_libs sv)) = Inr gbs \<and>
     nslist (k8sRoleBindings (sv_informers sv)) namespace (cachedSelector (sv_libs sv)) = Inr rbs"

lemma authorizersOf_decides:
  assumes "slice_sort (lib_sort (sv_libs sv))" and "cachedBindings sv (attr_Namespace a) gbs rbs"
    and "attr_UserInfo a \<noteq> None"
  shows "\<exists>reason. authorizersOf sv (Some a) =
    Inr (if serverPermits sv gbs rbs a then DecisionAllow else DecisionNoOpinion, reason, None)"
proof -
  obtain reason where "rbacAuthorize (sv_errorText sv) (sv_rego sv)
      (rulesAM (NewReadOnlyOperator (sv_libs sv) (sv_informers sv))) (Some a) =
    Inr (if cachedPermits (sv_rego sv) (NewReadOnlyOperator (sv_libs sv) (sv_informers sv)) gbs rbs a
         then DecisionAllow else DecisionNoOpinion, reason, None)"
    using rbacAuthorize_cached assms unfolding cachedBindings_def by blast
  then show ?thesis
    by (auto simp: authorizersOf_def unionAuthorize_def pathAuthorizerOf_excluded serverPermits_def
        NewAggregate_def Let_def)
qed

definition attributesOf :: "RequestInfo \<Rightarrow> UserInfo \<Rightarrow> AttributesRecord" where
  "attributesOf i u = \<lparr>attr_UserInfo = Some u, attr_Verb = Verb i, attr_Cluster = Request_Info.Cluster i,
     attr_Workspace = Workspace i, attr_Namespace = ri_Namespace i, attr_DevOps = DevOps i,
     attr_APIGroup = APIGroup i, attr_APIVersion = APIVersion i, attr_Resource = Resource i,
     attr_Subresource = Subresource i, attr_Name = ri_Name i,
     KubernetesRequest = IsKubernetesRequest i, ResourceRequest = IsResourceRequest i,
     attr_Path = Path i, attr_ResourceScope = ResourceScope i\<rparr>"

lemma attributesOf_simps [simp]:
  "attr_UserInfo (attributesOf i u) = Some u" "attr_User (attributesOf i u) = u"
  "attr_Namespace (attributesOf i u) = ri_Namespace i" "attr_Path (attributesOf i u) = Path i"
  by (simp_all add: attributesOf_def attr_User_def)

lemma getAuthorizerAttributes_chain:
  "getAuthorizerAttributes (WithUser (WithRequestInfo ctx i) u) = Inr (attributesOf i u)"
  by (simp add: getAuthorizerAttributes_def attributesOf_def RequestInfoFrom_def WithUser_def
      WithRequestInfo_def UserFrom_def)

lemma AuthorizationFilter_run:
  assumes "getAuthorizerAttributes ctx = Inr a" and "z (Some a) = Inr (d, reason, None)"
  shows "AuthorizationFilter h (Some z) req ctx s =
    (if d = DecisionAllow then h req ctx s else (Inr (), (fst s, snd s @ [WForbidden a reason])))"
  using assms by (simp add: AuthorizationFilter_def ebind_def)

lemma AuthenticationFilter_ok:
  assumes "authn req ctx (fst s) = ((Some user, True, None), w)"
  shows "AuthenticationFilter errorText h (Some authn) req ctx s = h req (WithUser ctx user) (w, snd s)"
  using assms by (simp add: AuthenticationFilter_def)

lemma AuthenticationFilter_fail:
  assumes "authn req ctx (fst s) = ((resp, ok, err), w)" and "\<not> ok \<or> err \<noteq> None"
    and "RequestInfoFrom ctx = Some i"
  shows "AuthenticationFilter errorText h (Some authn) req ctx s =
    (Inr (), (w, snd s @ [WUnauthorized (APIGroup i) (APIVersion i)
       (''Unauthorized: '' @ (case err of None \<Rightarrow> ''%!s(<nil>)'' | Some e \<Rightarrow> errorText e))]))"
  using assms by (auto simp: AuthenticationFilter_def)

lemma RequestInfoFilter_ok:
  assumes "resolver (cookieHeader req) = Inr (info, None)"
  shows "RequestInfoFilter errorText h resolver req ctx s = h (cookieHeader req) (WithRequestInfo ctx info) s"
  using assms by (simp add: RequestInfoFilter_def ebind_def ofGo_def Let_def)

text \<open>A built chain is the four filters; the innermost is the one of the Kubernetes API.\<close>

lemma buildHandlerChain_run:
  assumes "buildHandlerChain sv lib now h = Inr chain"
    and "NewRequestInfo requestInfoResolver (sv_decode sv) (sv_validName sv) (cookieHeader req) = Inr (info, None)"
  obtains h1 where "KubeAPIServerFilter h (sv_kube sv) = Inr h1"
    "chain req ctx s = AuthenticationFilter (sv_errorText sv)
       (if \<not> sv_disabled sv then AuthorizationFilter h1 (Some (authorizersOf sv)) else h1)
       (Some (authnOf sv lib now)) (cookieHeader req) (WithRequestInfo ctx info) s"
proof -
  from assms(1) obtain h1 where h1: "KubeAPIServerFilter h (sv_kube sv) = Inr h1"
    "chain = RequestInfoFilter (sv_errorText sv)
       (AuthenticationFilter (sv_errorText sv)
         (if \<not> sv_disabled sv then AuthorizationFilter h1 (Some (authorizersOf sv)) else h1)
         (Some (authnOf sv lib now)))
       (NewRequestInfo requestInfoResolver (sv_decode sv) (sv_validName sv))"
    by (auto simp: buildHandlerChain_def gbind_def Let_def split: sum.splits)
  show thesis
    by (rule that [OF h1(1)])
      (simp only: h1(2)
        RequestInfoFilter_ok [where resolver = "NewRequestInfo requestInfoResolver (sv_decode sv) (sv_validName sv)",
          OF assms(2)])
qed

section \<open>Properties of the chain\<close>

text \<open>
  What the server relies on of the union of request authenticators, as documented: the authenticators
  are tried in turn, the first that authenticates the request without an error decides, and when
  none does the request is not authenticated.
\<close>

definition authenticates :: "authn \<Rightarrow> bool" where
  "authenticates r \<longleftrightarrow> fst (snd r) \<and> snd (snd r) = None"

definition firstDecides :: "'w authnUnion \<Rightarrow> bool" where
  "firstDecides u \<longleftrightarrow>
     (\<forall>req ctx w. fst (snd (fst (u [] req ctx w))) = False \<and> snd (u [] req ctx w) = w) \<and>
     (\<forall>h hs req ctx w r w'. h req ctx w = (r, w') \<longrightarrow>
        (if authenticates r then u (h # hs) req ctx w = (r, w')
         else snd (u (h # hs) req ctx w) = snd (u hs req ctx w') \<and>
              fst (fst (u (h # hs) req ctx w)) = fst (fst (u hs req ctx w')) \<and>
              fst (snd (fst (u (h # hs) req ctx w))) = fst (snd (fst (u hs req ctx w'))) \<and>
              (authenticates (fst (u hs req ctx w')) \<longrightarrow> u (h # hs) req ctx w = u hs req ctx w')))"

lemma chain_authenticated:
  assumes "buildHandlerChain sv lib now h = Inr chain" and "\<not> sv_disabled sv"
    and "slice_sort (lib_sort (sv_libs sv))"
    and "NewRequestInfo requestInfoResolver (sv_decode sv) (sv_validName sv) (cookieHeader req) = Inr (info, None)"
    and "cachedBindings sv (ri_Namespace info) gbs rbs"
    and "authnOf sv lib now (cookieHeader req) (WithRequestInfo ctx info) (fst s) = ((Some user, True, None), w)"
  shows "\<exists>h1 reason. KubeAPIServerFilter h (sv_kube sv) = Inr h1 \<and>
    chain req ctx s =
      (if serverPermits sv gbs rbs (attributesOf info user)
       then h1 (cookieHeader req) (WithUser (WithRequestInfo ctx info) user) (w, snd s)
       else (Inr (), (w, snd s @ [WForbidden (attributesOf info user) reason])))"
proof -
  obtain h1 where run: "KubeAPIServerFilter h (sv_kube sv) = Inr h1"
    "chain req ctx s = AuthenticationFilter (sv_errorText sv)
       (if \<not> sv_disabled sv then AuthorizationFilter h1 (Some (authorizersOf sv)) else h1)
       (Some (authnOf sv lib now)) (cookieHeader req) (WithRequestInfo ctx info) s"
    by (rule buildHandlerChain_run [OF assms(1,4), of ctx s])
  note h1 = run(1) run(2) [unfolded if_P [OF assms(2)]]
  obtain reason where z: "authorizersOf sv (Some (attributesOf info user)) =
      Inr (if serverPermits sv gbs rbs (attributesOf info user) then DecisionAllow else DecisionNoOpinion, reason, None)"
    using authorizersOf_decides [OF assms(3), of "attributesOf info user"] assms(5) by auto
  have "chain req ctx s = AuthorizationFilter h1 (Some (authorizersOf sv)) (cookieHeader req)
      (WithUser (WithRequestInfo ctx info) user) (w, snd s)"
    unfolding h1(2) by (rule AuthenticationFilter_ok [of "authnOf sv lib now", OF assms(6)])
  also have "\<dots> = (if serverPermits sv gbs rbs (attributesOf info user)
      then h1 (cookieHeader req) (WithUser (WithRequestInfo ctx info) user) (w, snd s)
      else (Inr (), (w, snd s @ [WForbidden (attributesOf info user) reason])))"
    unfolding AuthorizationFilter_run [where z = "authorizersOf sv", OF getAuthorizerAttributes_chain z] by (rule if_cong) simp_all
  finally show ?thesis using h1(1) by blast
qed

text \<open>
  C3. Complete mediation: when authentication is enabled, an authenticated request goes on to the
  Kubernetes proxy or the API exactly when its path is one of the always-allowed ones or a cached
  binding that names the user grants it; otherwise the only thing it causes is a Forbidden answer.
\<close>

theorem chain_mediates:
  assumes "buildHandlerChain sv lib now h = Inr chain" and "\<not> sv_disabled sv"
    and "slice_sort (lib_sort (sv_libs sv))"
    and "NewRequestInfo requestInfoResolver (sv_decode sv) (sv_validName sv) (cookieHeader req) = Inr (info, None)"
    and "cachedBindings sv (ri_Namespace info) gbs rbs"
    and "authnOf sv lib now (cookieHeader req) (WithRequestInfo ctx info) (fst s) = ((Some user, True, None), w)"
  shows "\<exists>h1 reason. KubeAPIServerFilter h (sv_kube sv) = Inr h1 \<and>
    chain req ctx s =
      (if serverPermits sv gbs rbs (attributesOf info user)
       then h1 (cookieHeader req) (WithUser (WithRequestInfo ctx info) user) (w, snd s)
       else (Inr (), (w, snd s @ [WForbidden (attributesOf info user) reason])))"
  using assms by (rule chain_authenticated)

text \<open>The union for concrete runs.\<close>

fun firstOk :: "'w authnUnion" where
  "firstOk [] req ctx w = ((None, False, None), w)"
| "firstOk (h # hs) req ctx w =
     (case h req ctx w of (r, w') \<Rightarrow> if authenticates r then (r, w') else firstOk hs req ctx w')"

lemma firstDecides_firstOk: "firstDecides firstOk"
  by (simp add: firstDecides_def)

lemma firstDecides_ConsD:
  assumes "firstDecides u" and "h req ctx w = (r, w')"
  shows "authenticates r \<Longrightarrow> u (h # hs) req ctx w = (r, w')"
    and "\<not> authenticates r \<Longrightarrow> authenticates (fst (u hs req ctx w')) \<Longrightarrow> u (h # hs) req ctx w = u hs req ctx w'"
proof -
  from assms have "if authenticates r then u (h # hs) req ctx w = (r, w')
         else snd (u (h # hs) req ctx w) = snd (u hs req ctx w') \<and>
              fst (fst (u (h # hs) req ctx w)) = fst (fst (u hs req ctx w')) \<and>
              fst (snd (fst (u (h # hs) req ctx w))) = fst (snd (fst (u hs req ctx w'))) \<and>
              (authenticates (fst (u hs req ctx w')) \<longrightarrow> u (h # hs) req ctx w = u hs req ctx w')"
    unfolding firstDecides_def by blast
  then show "authenticates r \<Longrightarrow> u (h # hs) req ctx w = (r, w')"
    and "\<not> authenticates r \<Longrightarrow> authenticates (fst (u hs req ctx w')) \<Longrightarrow> u (h # hs) req ctx w = u hs req ctx w'"
    by simp_all
qed

definition anonymousUser :: UserInfo where
  "anonymousUser = \<lparr>ui_Name = Anonymous, ui_Groups = [AllUnauthenticated], ui_Extra = []\<rparr>"

text \<open>
  The documented behaviour of the authenticators of \<open>k8s.io/apiserver\<close>: the union is as above, and the
  anonymous authenticator authenticates every request as the user \<open>system:anonymous\<close> of the group
  \<open>system:unauthenticated\<close>, whatever its headers say.
\<close>

definition authnLaws :: "'w AuthnLib \<Rightarrow> bool" where
  "authnLaws lib \<longleftrightarrow> firstDecides (libUnion lib) \<and>
     (\<forall>req ctx w. libAnonymous lib req ctx w = ((Some anonymousUser, True, None), w))"

definition libAuthn :: "'w AuthnLib" where
  \<comment> \<open>an instance\<close>
  "libAuthn = \<lparr>libUnion = firstOk, libAnonymous = (\<lambda>req ctx w. ((Some anonymousUser, True, None), w)),
     libBearertoken = (\<lambda>auth req ctx w. case bearerToken req of
        None \<Rightarrow> ((None, False, None), w) | Some token \<Rightarrow> auth token w)\<rparr>"

lemma authnLaws_libAuthn: "authnLaws libAuthn"
  by (simp add: authnLaws_def libAuthn_def firstDecides_firstOk)

lemma authnOf_anonymous:
  assumes "authnLaws lib"
  shows "authnOf sv lib now req ctx w = ((Some anonymousUser, True, None), w)"
proof -
  have u: "firstDecides (libUnion lib)" and a: "libAnonymous lib req ctx w = ((Some anonymousUser, True, None), w)"
    using assms unfolding authnLaws_def by blast+
  show ?thesis
    unfolding authnOf_def
    by (rule firstDecides_ConsD(1) [where h = "libAnonymous lib", OF u a]) (simp add: authenticates_def)
qed

text \<open>
  C32. Credentials are never looked at: since the anonymous authenticator comes first in the union,
  every request is the anonymous user, with a valid token or password as without. It goes on when its path
  is always allowed or a cached binding grants it to a subject of that name, and is Forbidden otherwise;
  authenticating it changes nothing.
\<close>

theorem every_request_anonymous:
  assumes "buildHandlerChain sv lib now h = Inr chain" and "\<not> sv_disabled sv"
    and "slice_sort (lib_sort (sv_libs sv))" and "authnLaws lib"
    and "NewRequestInfo requestInfoResolver (sv_decode sv) (sv_validName sv) (cookieHeader req) = Inr (info, None)"
    and "cachedBindings sv (ri_Namespace info) gbs rbs"
  shows "\<exists>h1 reason. KubeAPIServerFilter h (sv_kube sv) = Inr h1 \<and>
    chain req ctx s =
      (if pathPermits excludedPaths (attributesOf info anonymousUser) \<or>
          cachedPermits (sv_rego sv) (NewReadOnlyOperator (sv_libs sv) (sv_informers sv))
            (filter (\<lambda>b. userSubject b Anonymous) gbs) (filter (\<lambda>b. userSubject b Anonymous) rbs)
            (attributesOf info anonymousUser)
       then h1 (cookieHeader req) (WithUser (WithRequestInfo ctx info) anonymousUser) s
       else (Inr (), (fst s, snd s @ [WForbidden (attributesOf info anonymousUser) reason])))"
proof -
  have "containsSubject (Subjects b) Anonymous [] \<longleftrightarrow> userSubject b Anonymous" for b
    by (auto simp: containsSubject_def userSubject_def list_ex_iff Anonymous_def)
  then have "serverPermits sv gbs rbs (attributesOf info anonymousUser) \<longleftrightarrow>
      pathPermits excludedPaths (attributesOf info anonymousUser) \<or>
      cachedPermits (sv_rego sv) (NewReadOnlyOperator (sv_libs sv) (sv_informers sv))
        (filter (\<lambda>b. userSubject b Anonymous) gbs) (filter (\<lambda>b. userSubject b Anonymous) rbs)
        (attributesOf info anonymousUser)"
    by (auto simp: serverPermits_def cachedPermits_def list_ex_iff anonymousUser_def)
  from chain_authenticated [OF assms(1-3,5,6) authnOf_anonymous [OF assms(4)], where s = s, unfolded this prod.collapse]
  show ?thesis by (simp only: prod.collapse)
qed

section \<open>A concrete server\<close>

definition exampleServer :: "(Cluster, cache) Server" where
  "exampleServer = \<lparr>sv_errorText = (\<lambda>_. ''error''), sv_rego = noRego, sv_passwords = exampleEnv,
     sv_jwt = exampleJwt, sv_libs = anyLibs, sv_clients = memClients, sv_informers = adminInformers,
     sv_cacheOps = inMemoryOps, sv_tokens = exampleOptions,
     sv_kube = \<lparr>kubeURL = Some (''https'', ''10.0.0.1:6443''), transportFor = True, tlsNextProtos = Some []\<rparr>,
     sv_decode = (\<lambda>_. Inr emptyOptions), sv_validName = (\<lambda>_. True), sv_disabled = False\<rparr>"

definition okHandler :: "('w, string) handler" where
  "okHandler req ctx = answer (WBody ''ok'')"

lemma exampleServer_built: "\<exists>chain. buildHandlerChain exampleServer libAuthn 0 okHandler = Inr chain"
  by (simp add: buildHandlerChain_def KubeAPIServerFilter_def exampleServer_def gbind_def Let_def)

lemma exampleServer_cached:
  "cachedBindings exampleServer ns [bindingFor ''admin'' PlatformAdmin iamGroup ResourceKindGlobalRole] []"
  by (simp add: cachedBindings_def exampleServer_def adminInformers_eval)

lemma exampleServer_parts [simp]: "\<not> sv_disabled exampleServer" "sv_libs exampleServer = anyLibs"
  by (simp_all add: exampleServer_def)

lemma cookieHeader_getRequest [simp]: "cookieHeader (getRequest m path) = getRequest m path"
  "TrimSpace (Header (getRequest m path) ''Authorization'') = ''''"
  by (simp_all add: cookieHeader_def getRequest_def TrimSpace_def)

lemma resolve_example:
  "\<exists>info. NewRequestInfo requestInfoResolver (sv_decode exampleServer) (sv_validName exampleServer)
       (getRequest ''POST'' ''/oauth/token'') = Inr (info, None) \<and> Path info = ''/oauth/token'' \<and>
     \<not> IsKubernetesRequest info \<and> APIGroup info = ''''"
  "\<exists>info. NewRequestInfo requestInfoResolver (sv_decode exampleServer) (sv_validName exampleServer)
       (getRequest ''GET'' ''/api/v1/pods'') = Inr (info, None) \<and> Path info = ''/api/v1/pods''"
  by (simp_all add: request_eval requestInfoResolver_def exampleServer_def)

lemma excluded_example:
  "list_ex (\<lambda>pat. patternMatches pat ''/oauth/token'') excludedPaths"
  "\<not> list_ex (\<lambda>pat. patternMatches pat ''/api/v1/pods'') excludedPaths"
  by code_simp+

theorem chain_mediates_witness:
  "\<exists>chain. buildHandlerChain exampleServer libAuthn 0 okHandler = Inr chain \<and>
     chain (getRequest ''POST'' ''/oauth/token'') emptyContext ((emptyCluster, []), []) =
       (Inr (), ((emptyCluster, []), [WBody ''ok'']))"
proof -
  obtain chain where chain: "buildHandlerChain exampleServer libAuthn 0 (okHandler :: (Cluster \<times> cache, string) handler) = Inr chain"
    using exampleServer_built by blast
  let ?req = "getRequest ''POST'' ''/oauth/token''"
  obtain info where info: "NewRequestInfo requestInfoResolver (sv_decode exampleServer) (sv_validName exampleServer)
       (cookieHeader ?req) = Inr (info, None)" "Path info = ''/oauth/token''" "\<not> IsKubernetesRequest info"
    using resolve_example(1) by auto
  have p: "serverPermits exampleServer gbs rbs (attributesOf info anonymousUser)" for gbs rbs
    using excluded_example(1) by (simp add: serverPermits_def pathPermits_def info(2))
  obtain h1 reason where "KubeAPIServerFilter okHandler (sv_kube exampleServer) = Inr h1"
      "chain ?req emptyContext ((emptyCluster, []), []) =
        h1 ?req (WithUser (WithRequestInfo emptyContext info) anonymousUser) ((emptyCluster, []), [])"
    using chain_mediates [OF chain _ _ info(1) exampleServer_cached
        authnOf_anonymous [OF authnLaws_libAuthn, where sv = exampleServer and now = 0],
        where s = "((emptyCluster, []), [])" and ctx = emptyContext] p anyLibs_sort
    by auto
  then have "chain ?req emptyContext ((emptyCluster, []), []) = (Inr (), ((emptyCluster, []), [WBody ''ok'']))"
    using info(3) by (auto simp: KubeAPIServerFilter_def exampleServer_def RequestInfoFrom_def WithUser_def
        WithRequestInfo_def okHandler_def)
  with chain show ?thesis by blast
qed

text \<open>A request with the access token that was issued to \<open>alice\<close>.\<close>

definition aliceRequest :: HttpRequest where
  "aliceRequest = setHeader ''Authorization'' ''Bearer acc'' (getRequest ''GET'' ''/api/v1/pods'')"

theorem every_request_anonymous_witness:
  "\<exists>chain a reason. buildHandlerChain exampleServer libAuthn 0 okHandler = Inr chain \<and>
     ui_Name (attr_User a) = Anonymous \<and>
     chain aliceRequest emptyContext ((emptyCluster, aliceCache), []) =
       (Inr (), ((emptyCluster, aliceCache), [WForbidden a reason]))"
proof -
  obtain chain where chain: "buildHandlerChain exampleServer libAuthn 0 (okHandler :: (Cluster \<times> cache, string) handler) = Inr chain"
    using exampleServer_built by blast
  have c: "cookieHeader aliceRequest = aliceRequest"
    by (simp add: cookieHeader_def aliceRequest_def setHeader_def getRequest_def)
  obtain info where info: "NewRequestInfo requestInfoResolver (sv_decode exampleServer) (sv_validName exampleServer)
       (cookieHeader aliceRequest) = Inr (info, None)" "Path info = ''/api/v1/pods''"
    unfolding c by (simp add: request_eval requestInfoResolver_def exampleServer_def aliceRequest_def setHeader_def)
  have np: "\<not> pathPermits excludedPaths (attributesOf info anonymousUser)"
    using excluded_example(2) by (simp add: pathPermits_def info(2))
  have nb: "\<not> userSubject (bindingFor ''admin'' PlatformAdmin iamGroup ResourceKindGlobalRole) Anonymous"
    by (simp add: userSubject_def bindingFor_def Anonymous_def)
  from every_request_anonymous [OF chain _ _ authnLaws_libAuthn info(1) exampleServer_cached,
      where s = "((emptyCluster, aliceCache), [])" and ctx = emptyContext] anyLibs_sort
  obtain reason where "chain aliceRequest emptyContext ((emptyCluster, aliceCache), []) =
      (Inr (), ((emptyCluster, aliceCache), [WForbidden (attributesOf info anonymousUser) reason]))"
    using np nb by (auto simp: cachedPermits_def)
  moreover have "ui_Name (attr_User (attributesOf info anonymousUser)) = Anonymous" by (simp add: anonymousUser_def)
  ultimately show ?thesis using chain by blast
qed

section \<open>The token of a websocket request\<close>

lemma bearer_lower: "ToLower ''Bearer'' = ''bearer''" "ToLower ''Bearer'' \<noteq> ''basic ''"
  by code_simp+

lemma TrimSpace_id:
  assumes "xs \<noteq> []" and "\<not> isSpace (hd xs)" and "\<not> isSpace (last xs)"
  shows "TrimSpace xs = xs"
proof -
  have "dropWhile isSpace xs = xs" using assms(1,2) by (cases xs) auto
  moreover have "dropWhile isSpace (rev xs) = rev xs"
    using assms(1,3) by (cases "rev xs") (auto simp: last_rev hd_rev)
  ultimately show ?thesis by (simp add: TrimSpace_def)
qed

lemma bearerToken_header:
  assumes "Header req ''Authorization'' = ''Bearer '' @ t" and "t \<noteq> ''''" and "\<forall>c \<in> set t. \<not> isSpace c"
  shows "bearerToken req = Some t" and "TrimSpace (Header req ''Authorization'') \<noteq> ''''"
    and "BasicAuthOf req = None"
proof -
  have sp: "CHR '' '' \<notin> set t" using assms(3) by (auto simp: isSpace_def)
  have tr: "TrimSpace (''Bearer '' @ t) = ''Bearer '' @ t"
    by (rule TrimSpace_id) (use assms(2,3) in \<open>auto simp: isSpace_def\<close>)
  have split: "SplitChar (''Bearer '' @ t) CHR '' '' = [''Bearer'', t]"
    using SplitChar_append_sep [of "CHR '' ''" "''Bearer''" t] SplitChar_singleton [OF sp] by simp
  show "bearerToken req = Some t"
    unfolding bearerToken_def assms(1) tr Let_def split
    using assms(2) bearer_lower(1) by simp
  show "TrimSpace (Header req ''Authorization'') \<noteq> ''''"
    unfolding assms(1) tr by simp
  have "take 6 (''Bearer '' @ t) = ''Bearer''" by simp
  then show "BasicAuthOf req = None"
    using bearer_lower(2) by (simp add: BasicAuthOf_def assms(1) Let_def)
qed

definition websocketRequest :: "string \<Rightarrow> HttpRequest" where
  "websocketRequest cookie =
     setHeader ''Upgrade'' ''websocket'' (setHeader ''Cookie'' cookie (getRequest ''GET'' ''/api/v1/pods''))"

lemma cookieLoop_first: "cookieLoop ((''X-Ai-Authorization='' @ t) # ts) = ''Bearer '' @ t"
proof -
  have "Contains (''X-Ai-Authorization='' @ t) ''X-Ai-Authorization=''"
    by (simp only: Contains_def Index_prefix) simp
  then show ?thesis by (simp only: cookieLoop.simps ReplaceOnce_prefix if_True append_Nil)
qed

lemma cookieLoop_spaced: "cookieLoop ((CHR '' '' # ''X-Ai-Authorization='' @ t) # ts) = ''Bearer  '' @ t"
proof -
  have "Contains (CHR '' '' # ''X-Ai-Authorization='' @ t) ''X-Ai-Authorization=''"
    unfolding Contains_def by (subst Index_one) simp_all
  moreover have "ReplaceOnce (CHR '' '' # ''X-Ai-Authorization='' @ t) ''X-Ai-Authorization='' '''' = CHR '' '' # t"
    by (subst ReplaceOnce_one) simp_all
  ultimately show ?thesis by (simp only: cookieLoop.simps if_True append_Cons append_Nil)
qed

lemma cookieLoop_skip: "\<not> Contains tok ''X-Ai-Authorization='' \<Longrightarrow> cookieLoop (tok # ts) = cookieLoop ts"
  by (simp only: cookieLoop.simps if_False)

text \<open>
  The token of a websocket request is read from its cookie only when it comes first: after another
  cookie the header gets two spaces, and the bearer token package of the repository finds no token in it.
\<close>

theorem cookie_token_position:
  assumes "t \<noteq> ''''" and "\<forall>c \<in> set t. \<not> isSpace c \<and> c \<noteq> CHR '';''"
  shows "bearerToken (cookieHeader (websocketRequest (''X-Ai-Authorization='' @ t))) = Some t \<and>
    bearerToken (cookieHeader (websocketRequest (''lang=en; X-Ai-Authorization='' @ t))) = None"
proof -
  have "isSpace CHR '' ''" by (simp add: isSpace_def)
  then have nc: "CHR '';'' \<notin> set t" and sp: "CHR '' '' \<notin> set t" and ns: "\<forall>c \<in> set t. \<not> isSpace c"
    using assms(2) by blast+
  have one: "GetAuthorizationFromCookie (''X-Ai-Authorization='' @ t) = ''Bearer '' @ t"
  proof -
    have "SplitChar (''X-Ai-Authorization='' @ t) CHR '';'' = [''X-Ai-Authorization='' @ t]"
      by (rule SplitChar_singleton) (use nc in simp)
    then show ?thesis by (simp only: GetAuthorizationFromCookie_def cookieLoop_first)
  qed
  have len: "\<not> Contains ''lang=en'' ''X-Ai-Authorization=''" by code_simp
  have two: "GetAuthorizationFromCookie (''lang=en; X-Ai-Authorization='' @ t) = ''Bearer  '' @ t"
  proof -
    have "SplitChar (CHR '' '' # ''X-Ai-Authorization='' @ t) CHR '';'' = [CHR '' '' # ''X-Ai-Authorization='' @ t]"
      by (rule SplitChar_singleton) (use nc in simp)
    then have "SplitChar (''lang=en'' @ CHR '';'' # CHR '' '' # ''X-Ai-Authorization='' @ t) CHR '';'' =
        [''lang=en'', CHR '' '' # ''X-Ai-Authorization='' @ t]"
      using SplitChar_append_sep [of "CHR '';''" "''lang=en''"] by simp
    moreover have "''lang=en; X-Ai-Authorization='' @ t = ''lang=en'' @ CHR '';'' # CHR '' '' # ''X-Ai-Authorization='' @ t"
      by simp
    ultimately show ?thesis
      by (simp only: GetAuthorizationFromCookie_def cookieLoop_skip [OF len] cookieLoop_spaced)
  qed
  have h: "Header (cookieHeader (websocketRequest cookie)) ''Authorization'' = GetAuthorizationFromCookie cookie"
    if "GetAuthorizationFromCookie cookie \<noteq> ''''" for cookie
    using that by (simp add: cookieHeader_def websocketRequest_def setHeader_def getRequest_def Let_def)
  have first: "bearerToken (cookieHeader (websocketRequest (''X-Ai-Authorization='' @ t))) = Some t"
    by (rule bearerToken_header(1) [OF _ assms(1) ns]) (use h [of "''X-Ai-Authorization='' @ t"] one in simp)
  have tr: "TrimSpace (''Bearer  '' @ t) = ''Bearer  '' @ t"
    by (rule TrimSpace_id) (use assms(1) ns in \<open>simp_all add: isSpace_def\<close>)
  have split: "SplitChar (''Bearer  '' @ t) CHR '' '' = [''Bearer'', '''', t]"
    using SplitChar_append_sep [of "CHR '' ''" "''Bearer''" "CHR '' '' # t"] SplitChar_singleton [OF sp] by simp
  have "Header (cookieHeader (websocketRequest (''lang=en; X-Ai-Authorization='' @ t))) ''Authorization'' =
      ''Bearer  '' @ t"
    using h [of "''lang=en; X-Ai-Authorization='' @ t"] unfolding two by simp
  then have "bearerToken (cookieHeader (websocketRequest (''lang=en; X-Ai-Authorization='' @ t))) = None"
    by (simp only: bearerToken_def Let_def tr split) simp
  with first show ?thesis by simp
qed

theorem cookie_token_position_witness:
  "bearerToken (cookieHeader (websocketRequest ''X-Ai-Authorization=abc'')) = Some ''abc''"
  using cookie_token_position [of "''abc''"] by (simp add: isSpace_def)

end
