(* ===== verification/Rest_Handlers.thy ===== *)
theory Rest_Handlers
  imports Server_Filters Identity_Mgmt Api_Result Health_Types
begin

text \<open>
  What the REST handlers of \<open>pkg/aiapis\<close> share: the request as the routing library hands it over, the
  answers they write, and the lifting of operations on the API server to the state of a handler. A
  handler ends in one answer; \<open>recovering\<close> is the recovery of the container, which turns a panic into
  an internal server error.
\<close>

section \<open>Requests and answers\<close>

record RestRequest =
  rr_path :: "string \<Rightarrow> string"         \<comment> \<open>\<open>PathParameter\<close>\<close>
  rr_query :: "string \<Rightarrow> string"        \<comment> \<open>\<open>QueryParameter\<close>\<close>
  rr_body :: "string \<Rightarrow> string res"      \<comment> \<open>\<open>BodyParameter\<close>\<close>
  rr_urlQuery :: "(string \<times> string list) list"
  rr_ctx :: Context

record UserDetails =
  ud_Username :: string
  ud_Email :: string
  ud_GlobalRole :: string
  ud_NamespaceRoles :: "(string \<times> string) list"

record Member =
  m_Username :: string
  m_RoleRef :: string

record PasswordReset =
  pr_CurrentPassword :: string
  pr_Password :: string

text \<open>\<open>pkg/version/version.go\<close>; the values are set when the binary is linked.\<close>

record VersionInfo =
  ReleaseVersion :: string
  Edition :: string
  GitHash :: string
  GitBranch :: string
  BuildDate :: string

datatype Body =
    BEmpty "string Response"
  | BToken "Token Response"
  | BUser "User Response"
  | BUserDetails "UserDetails Response"
  | BRole "RoleObj Response"
  | BMember "Member Response"
  | BLoginRecord "LoginRecord Response"
  | BHealth "Health Response"
  | BVersion VersionInfo
  | BRecovered int string

type_synonym ('w, 's) hworld = "('w \<times> 's, Body) world"

definition write_body :: "Body \<Rightarrow> (('w, 's) hworld, unit) eff" where
  "write_body b = answer (WBody b)"

definition emptyError :: "(goerr \<Rightarrow> string) \<Rightarrow> goerr option \<Rightarrow> (('w, 's) hworld, unit) eff" where
  \<comment> \<open>\<open>api.NewEmptyResult().WithError(err).WriteTo(resp)\<close>\<close>
  "emptyError errorText err = write_body (BEmpty (WriteTo (WithError errorText err NewEmptyResult)))"

definition onApi :: "('w, 'a) eff \<Rightarrow> (('w, 's) hworld, 'a) eff" where
  "onApi m s =
     (case s of ((api, c), ws) \<Rightarrow> (case m api of (r, api') \<Rightarrow> (r, ((api', c), ws))))"

definition onCache :: "('s \<Rightarrow> 'a res \<times> 's) \<Rightarrow> (('w, 's) hworld, 'a) eff" where
  "onCache m s =
     (case s of ((api, c), ws) \<Rightarrow> (case m c of (r, c') \<Rightarrow> (ofRes r, ((api, c'), ws))))"

text \<open>\<open>x, err := m; if err != nil { ...WithError(err)...; return }\<close>\<close>

definition orFail :: "(goerr \<Rightarrow> string) \<Rightarrow> (('w, 's) hworld, 'a) eff \<Rightarrow> ('a \<Rightarrow> (('w, 's) hworld, unit) eff) \<Rightarrow>
   (('w, 's) hworld, unit) eff" where
  "orFail errorText m f = ecatch m (\<lambda>err. emptyError errorText (Some err)) f"

text \<open>The outcome of a call whose error does not end the handler: the value and the error.\<close>

definition attempt :: "(('w, 's) hworld, 'a) eff \<Rightarrow> (('w, 's) hworld, 'a option \<times> goerr option) eff" where
  "attempt m = ecatch m (\<lambda>err. eret (None, Some err)) (\<lambda>x. eret (Some x, None))"

text \<open>Reading through a nil pointer.\<close>

definition deref :: "'a option \<Rightarrow> (('w, 's) hworld, 'a) eff" where
  "deref x = (case x of None \<Rightarrow> eout (Inl (Panic NilDeref)) | Some v \<Rightarrow> eret v)"

definition recovering :: "(('w, 's) hworld, unit) eff \<Rightarrow> (('w, 's) hworld, unit) eff" where
  "recovering m s =
     (case m s of
        (Inl (Panic p), s') \<Rightarrow> write_body (BRecovered 500 ''Internal server error'') s'
      | r \<Rightarrow> r)"

text \<open>Elements of results: pointers to objects, lists of objects, and plain values.\<close>

definition cleanMeta :: "ObjectMeta \<Rightarrow> ObjectMeta" where
  "cleanMeta m = m\<lparr>ManagedFields := []\<rparr>"

definition userAccessor :: "User Accessor" where
  "userAccessor = \<lparr>accMeta = (\<lambda>u. Some (user_meta u)),
     accClean = (\<lambda>u. u\<lparr>user_meta := cleanMeta (user_meta u)\<rparr>)\<rparr>"

definition roleAccessor :: "RoleObj Accessor" where
  "roleAccessor = \<lparr>accMeta = (\<lambda>r. Some (role_meta r)),
     accClean = (\<lambda>r. r\<lparr>role_meta := cleanMeta (role_meta r)\<rparr>)\<rparr>"

definition recordAccessor :: "LoginRecord Accessor" where
  "recordAccessor = \<lparr>accMeta = (\<lambda>r. Some (record_meta r)),
     accClean = (\<lambda>r. r\<lparr>record_meta := cleanMeta (record_meta r)\<rparr>)\<rparr>"

definition plainAccessor :: "'a Accessor" where
  "plainAccessor = \<lparr>accMeta = (\<lambda>_. None), accClean = (\<lambda>x. x)\<rparr>"

definition objectResult :: "(goerr \<Rightarrow> string) \<Rightarrow> 'a Accessor \<Rightarrow> 'a \<Rightarrow> goerr option \<Rightarrow> 'a Response" where
  "objectResult errorText acc x err = WriteTo (WithError errorText err (WithObject acc x NewResult))"

definition listResult ::
  "(goerr \<Rightarrow> string) \<Rightarrow> (int list \<Rightarrow> int list) \<Rightarrow> 'a Accessor \<Rightarrow> 'a list \<Rightarrow> RestRequest \<Rightarrow> goerr option \<Rightarrow>
   'a Response" where
  "listResult errorText long acc xs req err =
     WriteTo (WithError errorText err (WithListAndFilter long acc xs (Some (rr_query req)) NewResult))"

lemma write_body_simp [simp]: "write_body b s = (Inr (), (fst s, snd s @ [WBody b]))"
  by (simp add: write_body_def)

lemma emptyError_simp [simp]:
  "emptyError errorText err s =
    (Inr (), (fst s, snd s @ [WBody (BEmpty (WriteTo (WithError errorText err NewEmptyResult)))]))"
  by (simp add: emptyError_def)

lemma onApi_simps:
  "m api = (r, api') \<Longrightarrow> onApi m ((api, c), ws) = (r, ((api', c), ws))"
  by (simp add: onApi_def)

lemma onCache_simps:
  "m c = (r, c') \<Longrightarrow> onCache m ((api, c), ws) = (ofRes r, ((api, c'), ws))"
  by (simp add: onCache_def)

lemma orFail_simps:
  "m s = (Inr x, s') \<Longrightarrow> orFail errorText m f s = f x s'"
  "m s = (Inl (Err e), s') \<Longrightarrow> orFail errorText m f s = emptyError errorText (Some e) s'"
  "m s = (Inl (Panic p), s') \<Longrightarrow> orFail errorText m f s = (Inl (Panic p), s')"
  by (simp_all add: orFail_def ecatch_def)

lemma attempt_simps:
  "m s = (Inr x, s') \<Longrightarrow> attempt m s = (Inr (Some x, None), s')"
  "m s = (Inl (Err e), s') \<Longrightarrow> attempt m s = (Inr (None, Some e), s')"
  "m s = (Inl (Panic p), s') \<Longrightarrow> attempt m s = (Inl (Panic p), s')"
  by (simp_all add: attempt_def ecatch_def)

lemma deref_simps [simp]: "deref (Some v) s = (Inr v, s)" "deref None s = (Inl (Panic NilDeref), s)"
  by (simp_all add: deref_def)

text \<open>A handler behind the recovery never ends in a panic.\<close>

lemma recovering_not_panic: "fst (recovering m s) \<noteq> Inl (Panic p)"
  by (auto simp: recovering_def split: prod.splits sum.splits stop.splits)

end
