(* ===== verification/Oauth_Handlers.thy ===== *)
theory Oauth_Handlers
  imports Rest_Handlers
begin

text \<open>
  \<open>pkg/aiapis/oauth/handler.go\<close>: the token endpoints. The state is the API server and the token cache.
  The client of config maps and the AES block function are parameters.
\<close>

record ('w, 's) ApiServer = "('w, 's) Server" +
  as_configMaps :: "string \<Rightarrow> string \<Rightarrow> 'w \<Rightarrow> (goerr + strmap) \<times> 'w"
    \<comment> \<open>the annotations of a config map, by namespace and name\<close>
  as_blockDecrypt :: "string \<Rightarrow> string \<Rightarrow> string"
  as_long :: "int list \<Rightarrow> int list"
  as_Namespace :: string
  as_NamePrefix :: string

definition imOf :: "('w, 's) ApiServer \<Rightarrow> imOperator" where
  "imOf sv = NewImOperator (sv_libs sv) (sv_informers sv)"

definition amOf :: "('w, 's) ApiServer \<Rightarrow> amOperator" where
  "amOf sv = NewReadOnlyOperator (sv_libs sv) (sv_informers sv)"

definition issue ::
  "('w, 's) ApiServer \<Rightarrow> time \<Rightarrow> UserInfo \<Rightarrow> duration option \<Rightarrow> duration option \<Rightarrow> (('w, 's) hworld, Token) eff" where
  "issue sv now user maxAge inactivity =
     onCache (tokenIssueTo (sv_jwt sv) (sv_cacheOps sv) (sv_tokens sv) now user maxAge inactivity)"

definition record_login ::
  "('w, 's) ApiServer \<Rightarrow> string \<Rightarrow> RequestInfo \<Rightarrow> goerr option \<Rightarrow> (('w, 's) hworld, unit) eff" where
  \<comment> \<open>the provider is empty for password logins\<close>
  "record_login sv username i err =
     onApi (ecall (RecordLogin (sv_clients sv) (sv_passwords sv) username TokenLogin ''''
       (ri_SourceIP i) (ri_UserAgent i) err))"

definition tokenResult ::
  "('w, 's) ApiServer \<Rightarrow> Token option \<Rightarrow> goerr option \<Rightarrow> (('w, 's) hworld, unit) eff" where
  \<comment> \<open>a nil token is the data of the result only when there is an error, which clears it\<close>
  "tokenResult sv result err =
     write_body (BToken (case result of
       Some token \<Rightarrow> objectResult (sv_errorText sv) plainAccessor token err
     | None \<Rightarrow> WriteTo (WithError (sv_errorText sv) err NewResult)))"

definition passwordGrant ::
  "('w, 's) ApiServer \<Rightarrow> time \<Rightarrow> string \<Rightarrow> string \<Rightarrow> RestRequest \<Rightarrow> (('w, 's) hworld, unit) eff" where
  "passwordGrant sv now username password req =
     orFail (sv_errorText sv) (eout (DescribeUser (imOf sv) username)) (\<lambda>_.
     ecatch (onApi (ecall (Authenticate (sv_clients sv) (sv_passwords sv)
               (usersLister (sv_informers sv)) username password)))
       (\<lambda>err.
          ebind (if err = IncorrectPasswordError then
                   ebind (deref (RequestInfoFrom (rr_ctx req))) (\<lambda>requestInfo.
                     ebind (attempt (record_login sv username requestInfo (Some err))) (\<lambda>_. eret ()))
                 else eret ())
            (\<lambda>_. emptyError (sv_errorText sv) (Some err)))
       (\<lambda>authenticated.
          orFail (sv_errorText sv) (issue sv now authenticated None None) (\<lambda>result.
          ebind (deref (RequestInfoFrom (rr_ctx req))) (\<lambda>requestInfo.
          ebind (attempt (record_login sv (ui_Name authenticated) requestInfo None)) (\<lambda>(_, err).
          tokenResult sv (Some result) err)))))"

definition refreshTokenGrant ::
  "('w, 's) ApiServer \<Rightarrow> time \<Rightarrow> RestRequest \<Rightarrow> (('w, 's) hworld, unit) eff" where
  "refreshTokenGrant sv now req =
     orFail (sv_errorText sv) (eout (ofRes (rr_body req ''refresh_token''))) (\<lambda>refreshToken s.
       case tokenVerify (sv_jwt sv) (sv_cacheOps sv) (sv_tokens sv) now refreshToken (snd (fst s)) of
         Inl err \<Rightarrow>
           emptyError (sv_errorText sv) (Some (Unauthorized (''Unauthorized: '' @ sv_errorText sv err))) s
       | Inr authenticated \<Rightarrow>
           ebind (attempt (issue sv now authenticated None None))
             (\<lambda>(result, err). tokenResult sv result err) s)"

definition bodyOrEmpty :: "RestRequest \<Rightarrow> string \<Rightarrow> string" where
  \<comment> \<open>\<open>v, _ := req.BodyParameter(name)\<close>\<close>
  "bodyOrEmpty req n = (case rr_body req n of Inr v \<Rightarrow> v | Inl _ \<Rightarrow> '''')"

definition TokenHandler ::
  "('w, 's) ApiServer \<Rightarrow> time \<Rightarrow> RestRequest \<Rightarrow> (('w, 's) hworld, unit) eff" where
  "TokenHandler sv now req =
     orFail (sv_errorText sv)
       (onApi (ecall (as_configMaps sv (as_Namespace sv) (as_NamePrefix sv @ ''ai-config'')))) (\<lambda>annotations.
     ebind (eout (ofGo (AesDecrypt (as_blockDecrypt sv) (mget annotations RegisterAnnotationKey) RegisterSecretKey))) (\<lambda>_.
     orFail (sv_errorText sv) (eout (ofRes (rr_body req ''grant_type''))) (\<lambda>grantType.
       if grantType = ''password'' then
         passwordGrant sv now (bodyOrEmpty req ''username'') (bodyOrEmpty req ''password'') req
       else if grantType = ''refresh_token'' then refreshTokenGrant sv now req
       else emptyError (sv_errorText sv)
              (Some (BadRequest (''Grant type '' @ grantType @ '' is not supported''))))))"

definition createTokenFor ::
  "('w, 's) ApiServer \<Rightarrow> time \<Rightarrow> Context \<Rightarrow> (('w, 's) hworld, Token) eff" where
  "createTokenFor sv now ctx =
     issue sv now \<lparr>ui_Name = (case UserFrom ctx of Some u \<Rightarrow> ui_Name u | None \<Rightarrow> ''''),
       ui_Groups = [], ui_Extra = [(ResourcesSingularGlobalRole, [PlatformAdmin])]\<rparr> (Some 0) (Some 0)"

definition createToken ::
  "('w, 's) ApiServer \<Rightarrow> time \<Rightarrow> RestRequest \<Rightarrow> (('w, 's) hworld, unit) eff" where
  "createToken sv now req =
     orFail (sv_errorText sv) (createTokenFor sv now (rr_ctx req)) (\<lambda>result. tokenResult sv (Some result) None)"

section \<open>Properties\<close>

text \<open>
  C39. The token endpoint is out of order: whatever the configuration holds and whatever is asked, once
  the configuration is read the handler panics, because the key is 12 bytes long and AES takes 16, 24
  or 32; the client gets an internal server error, no token is issued and nothing is recorded.
\<close>

theorem TokenHandler_always_panics:
  assumes "as_configMaps sv (as_Namespace sv) (as_NamePrefix sv @ ''ai-config'') api = (Inr annotations, api')"
  shows "recovering (TokenHandler sv now req) ((api, c), ws) =
    (Inr (), ((api', c), ws @ [WBody (BRecovered 500 ''Internal server error'')]))"
proof -
  let ?m = "onApi (ecall (as_configMaps sv (as_Namespace sv) (as_NamePrefix sv @ ''ai-config'')))"
  have m: "?m ((api, c), ws) = (Inr annotations, ((api', c), ws))"
    by (rule onApi_simps) (simp add: ecall_def assms ofRes_def)
  have "\<exists>p. AesDecrypt (as_blockDecrypt sv) (mget annotations RegisterAnnotationKey) RegisterSecretKey = Inl p"
    by (simp add: AesDecrypt_def keyLengthOk_def RegisterSecretKey_def)
  then obtain p where p: "AesDecrypt (as_blockDecrypt sv) (mget annotations RegisterAnnotationKey) RegisterSecretKey = Inl p"
    by blast
  have "TokenHandler sv now req ((api, c), ws) = (Inl (Panic p), ((api', c), ws))"
    by (simp add: TokenHandler_def orFail_def ecatch_def m ebind_def ofGo_def p)
  then show ?thesis by (simp add: recovering_def)
qed

definition exampleApi :: "(Cluster, cache) ApiServer" where
  "exampleApi = \<lparr>sv_errorText = (\<lambda>_. ''error''), sv_rego = noRego, sv_passwords = exampleEnv,
     sv_jwt = exampleJwt, sv_libs = anyLibs, sv_clients = memClients,
     sv_informers = emptyInformers\<lparr>userIx := listIndexer user_meta [aliceUser]\<rparr>,
     sv_cacheOps = inMemoryOps, sv_tokens = exampleOptions,
     sv_kube = \<lparr>kubeURL = Some (''https'', ''10.0.0.1:6443''), transportFor = True, tlsNextProtos = Some []\<rparr>,
     sv_decode = (\<lambda>_. Inr emptyOptions), sv_validName = (\<lambda>_. True), sv_disabled = False,
     as_configMaps = (\<lambda>_ _ api. (Inr None, api)), as_blockDecrypt = (\<lambda>_ b. b), as_long = (\<lambda>xs. xs),
     as_Namespace = ''ai-system'', as_NamePrefix = ''''\<rparr>"

lemma exampleApi_parts [simp]:
  "sv_jwt exampleApi = exampleJwt" "sv_cacheOps exampleApi = inMemoryOps" "sv_tokens exampleApi = exampleOptions"
  "sv_clients exampleApi = memClients" "sv_passwords exampleApi = exampleEnv" "sv_libs exampleApi = anyLibs"
  "as_NamePrefix exampleApi = ''''" "sv_errorText exampleApi e = ''error''"
  by (simp_all add: exampleApi_def)

definition exampleRequest :: RestRequest where
  "exampleRequest = \<lparr>rr_path = (\<lambda>_. ''''), rr_query = (\<lambda>_. ''''), rr_body = (\<lambda>k. if k = ''grant_type'' then Inr ''password'' else Inr ''alice''),
     rr_urlQuery = [], rr_ctx = emptyContext\<rparr>"

theorem TokenHandler_always_panics_witness:
  "snd (recovering (TokenHandler exampleApi 0 exampleRequest) ((emptyCluster, []), [])) =
    ((emptyCluster, []), [WBody (BRecovered 500 ''Internal server error'')])"
  using TokenHandler_always_panics [of exampleApi emptyCluster None emptyCluster 0 exampleRequest "[]" "[]"]
  by (simp add: exampleApi_def)

text \<open>What a password grant does once the password is accepted and the token issued.\<close>

lemma passwordGrant_accepted:
  assumes "DescribeUser (imOf sv) username = Inr u" and "RequestInfoFrom (rr_ctx req) = Some i"
    and "Authenticate (sv_clients sv) (sv_passwords sv) (usersLister (sv_informers sv)) username password api =
      (Inr info, api1)"
    and "tokenIssueTo (sv_jwt sv) (sv_cacheOps sv) (sv_tokens sv) now info None None c = (Inr tok, c')"
    and "RecordLogin (sv_clients sv) (sv_passwords sv) (ui_Name info) TokenLogin '''' (ri_SourceIP i) (ri_UserAgent i)
      None api1 = (r, api2)"
  shows "passwordGrant sv now username password req ((api, c), ws) =
    tokenResult sv (Some tok) (case r of Inr _ \<Rightarrow> None | Inl e \<Rightarrow> Some e) ((api2, c'), ws)"
proof -
  have a: "onApi (ecall (Authenticate (sv_clients sv) (sv_passwords sv) (usersLister (sv_informers sv)) username password))
      ((api, c), ws) = (Inr info, ((api1, c), ws))"
    by (rule onApi_simps) (simp add: ecall_def assms(3) ofRes_def)
  have i: "issue sv now info None None ((api1, c), ws) = (Inr tok, ((api1, c'), ws))"
    unfolding issue_def by (simp add: onCache_def assms(4) ofRes_def)
  have l: "record_login sv (ui_Name info) i None ((api1, c'), ws) = (ofRes r, ((api2, c'), ws))"
    unfolding record_login_def by (rule onApi_simps) (simp add: ecall_def assms(5))
  show ?thesis
    unfolding passwordGrant_def
    by (cases r) (simp_all add: orFail_simps ecatch_def assms(1,2) a i l ofRes_def attempt_simps ebind_def)
qed

text \<open>
  A password grant that is accepted issues one token and records one login; when the record
  cannot be written the token stays issued and cached, but the client is answered with the error.
\<close>

theorem passwordGrant_outcome:
  assumes "DescribeUser (imOf sv) username = Inr u" and "RequestInfoFrom (rr_ctx req) = Some i"
    and "Authenticate (sv_clients sv) (sv_passwords sv) (usersLister (sv_informers sv)) username password api =
      (Inr info, api1)"
    and "tokenIssueTo (sv_jwt sv) (sv_cacheOps sv) (sv_tokens sv) now info None None c = (Inr tok, c')"
    and "RecordLogin (sv_clients sv) (sv_passwords sv) (ui_Name info) TokenLogin '''' (ri_SourceIP i) (ri_UserAgent i)
      None api1 = (r, api2)"
  shows "\<exists>code result. passwordGrant sv now username password req ((api, c), ws) =
      (Inr (), ((api2, c'), ws @ [WBody (BToken (JsonResponse code result))])) \<and>
    (if r = Inr () then code = 200 \<and> Data result = DataObject tok
     else code = 400 \<and> Data result = NoData)"
  unfolding passwordGrant_accepted [OF assms]
  by (cases r) (auto simp: tokenResult_def objectResult_def WriteTo_def WithError_def WithObject_def
      NewResult_def plainAccessor_def)

definition loginInfo :: UserInfo where
  "loginInfo = \<lparr>ui_Name = ''alice'', ui_Groups = [], ui_Extra = [(ResourcesSingularGlobalRole, [''''])]\<rparr>"

definition loginApi :: "(Cluster, cache) ApiServer" where
  "loginApi = exampleApi\<lparr>sv_jwt := tableJwt ''s3cret''
     [(''acc'', claimsFor (operatorIssuer exampleOptions) (100 * Second) loginInfo AccessToken (2 * Hour)),
      (''ref'', claimsFor (operatorIssuer exampleOptions) (100 * Second) loginInfo RefreshToken (4 * Hour))]\<rparr>"

definition loginRequest :: RestRequest where
  "loginRequest = exampleRequest\<lparr>rr_ctx := WithRequestInfo emptyContext (initInfo (getRequest ''POST'' ''/oauth/token''))\<rparr>"

lemma login_authenticates:
  "Authenticate (sv_clients loginApi) (sv_passwords loginApi) (usersLister (sv_informers loginApi)) ''alice'' ''secret'' emptyCluster =
    (Inr loginInfo, emptyCluster)"
  by (simp add: Authenticate_def findUser_def lister_eval loginApi_def exampleApi_def aliceUser_def exampleEnv_def
      emptyMeta_def emptySpec_def emptyStatus_def statusError_def PasswordVerify_def findGlobalRole_def loginInfo_def
      Everything_def mem_eval NamespaceAdmin_def UserActive_def)

lemma login_issues:
  "\<exists>c'. tokenIssueTo (sv_jwt loginApi) (sv_cacheOps loginApi) (sv_tokens loginApi) (100 * Second) loginInfo None None [] =
    (Inr aliceToken, c')"
proof -
  have ne: "claimsFor i n u AccessToken d \<noteq> claimsFor i n u RefreshToken d'" for i n u d d'
    by (metis TokenType.distinct(1) claimsFor_simps(4))
  have "fst (tokenIssueTo (sv_jwt loginApi) (sv_cacheOps loginApi) (sv_tokens loginApi) (100 * Second) loginInfo None None []) =
      Inr aliceToken"
    using ne
    by (simp add: tokenIssueTo_def loginApi_def exampleApi_def tableJwt_def issuerIssueTo_def aliceToken_def
        cacheToken_def inMemoryOps_def cacheSet_def Let_def exampleOptions_def operatorIssuer_def
        NewTokenIssuer_def duration_defs wholeSeconds_def wrap64_def)
  then show ?thesis by (metis prod.collapse)
qed

theorem passwordGrant_outcome_witness:
  "\<exists>s result. passwordGrant loginApi (100 * Second) ''alice'' ''secret'' loginRequest ((emptyCluster, []), []) =
     (Inr (), (s, [WBody (BToken (JsonResponse 200 result))])) \<and> Data result = DataObject aliceToken"
proof -
  obtain c' where c': "tokenIssueTo (sv_jwt loginApi) (sv_cacheOps loginApi) (sv_tokens loginApi) (100 * Second)
      loginInfo None None [] = (Inr aliceToken, c')"
    using login_issues by blast
  have d: "DescribeUser (imOf loginApi) ''alice'' = Inr (ensurePasswordNotOutput aliceUser)"
    by (simp add: DescribeUser_def imOf_def fetch_cached loginApi_def exampleApi_def lister_eval aliceUser_def
        emptyMeta_def ofRes_def)
  obtain i where i: "RequestInfoFrom (rr_ctx loginRequest) = Some i"
    by (simp add: loginRequest_def RequestInfoFrom_def WithRequestInfo_def)
  obtain api2 where "RecordLogin (sv_clients loginApi) (sv_passwords loginApi) (ui_Name loginInfo) TokenLogin ''''
      (ri_SourceIP i) (ri_UserAgent i) None emptyCluster = (Inr (), api2)"
    by (simp add: RecordLogin_def loginApi_def exampleApi_def mem_eval loginEntry_def emptyMeta_def)
  from passwordGrant_outcome [OF d i login_authenticates c' this, of "[]"] show ?thesis by auto
qed

text \<open>
  A user cannot log in to the token endpoint with a mail address: the grant first looks the user up
  by name, and fails when no account has that name, before the authenticator that knows mail
  addresses is asked; no attempt is recorded.
\<close>

theorem passwordGrant_by_name_only:
  assumes "lget (usersLister (sv_informers sv)) username = Inl e"
  shows "passwordGrant sv now username password req s = emptyError (sv_errorText sv) (Some e) s"
  using assms by (simp add: passwordGrant_def imOf_def DescribeUser_def fetch_cached orFail_def ecatch_def ofRes_def)

theorem passwordGrant_by_name_only_witness:
  "passwordGrant exampleApi 0 ''alice@example.com'' ''secret'' exampleRequest ((emptyCluster, []), []) =
     emptyError (sv_errorText exampleApi) (Some (NotFound ''user'' ''alice@example.com'')) ((emptyCluster, []), []) \<and>
   fst (Authenticate memClients exampleEnv (usersLister (sv_informers exampleApi)) ''alice@example.com'' ''secret'' emptyCluster) =
     Inr loginInfo"
proof -
  have "lget (usersLister (sv_informers exampleApi)) ''alice@example.com'' = Inl (NotFound ''user'' ''alice@example.com'')"
    by (simp add: exampleApi_def lister_eval aliceUser_def emptyMeta_def)
  from passwordGrant_by_name_only [OF this] show ?thesis
    by (simp add: Authenticate_def findUser_def lister_eval exampleApi_def aliceUser_def exampleEnv_def
      emptyMeta_def emptySpec_def emptyStatus_def statusError_def PasswordVerify_def findGlobalRole_def loginInfo_def
      Everything_def mem_eval NamespaceAdmin_def UserActive_def)
qed

lemma static_issue:
  assumes "tokenIssueTo jwt ops opts now user (Some 0) (Some 0) c = (Inr tok, c')"
  shows "issuerIssueTo jwt (operatorIssuer opts) now user StaticToken 0 = Inr (tok_AccessToken tok) \<and> c' = c"
  using assms by (auto simp: tokenIssueTo_def Let_def split: sum.splits)

text \<open>
  A static token is for ever: it carries the platform administrator's role for the caller's name,
  is kept in no cache, is accepted at any later time whatever the cache holds, and so cannot be revoked.
\<close>

theorem createToken_for_ever:
  assumes "jwtCodec (sv_jwt sv)" and "0 \<le> MaximumClockSkew (sv_tokens sv)"
    and "createTokenFor sv now ctx ((api, c), ws) = (Inr tok, s')"
    and "now \<le> t"
  shows "s' = ((api, c), ws) \<and>
    tokenVerify (sv_jwt sv) (sv_cacheOps sv) (sv_tokens sv) t (tok_AccessToken tok) anyCache =
      Inr \<lparr>ui_Name = (case UserFrom ctx of Some u \<Rightarrow> ui_Name u | None \<Rightarrow> ''''), ui_Groups = [],
           ui_Extra = [(ResourcesSingularGlobalRole, [PlatformAdmin])]\<rparr>"
proof -
  let ?u = "\<lparr>ui_Name = (case UserFrom ctx of Some u \<Rightarrow> ui_Name u | None \<Rightarrow> ''''), ui_Groups = [],
     ui_Extra = [(ResourcesSingularGlobalRole, [PlatformAdmin])]\<rparr>"
  obtain c' where c': "tokenIssueTo (sv_jwt sv) (sv_cacheOps sv) (sv_tokens sv) now ?u (Some 0) (Some 0) c = (Inr tok, c')"
      "s' = ((api, c'), ws)"
    using assms(3) by (auto simp: createTokenFor_def issue_def onCache_def ofRes_def split: prod.splits sum.splits)
  note i = static_issue [OF c'(1)]
  have "claimsValid (claimsFor (operatorIssuer (sv_tokens sv)) now ?u StaticToken 0) t"
    by (rule claimsFor_valid) (use assms(2,4) in simp_all)
  then have "issuerVerify (sv_jwt sv) (operatorIssuer (sv_tokens sv)) t (tok_AccessToken tok) = Inr (?u, StaticToken)"
    using issuer_roundtrip [OF assms(1)] i by blast
  with i c'(2) show ?thesis by (simp add: tokenVerify_def)
qed

definition staticInfo :: UserInfo where
  "staticInfo = \<lparr>ui_Name = '''', ui_Groups = [], ui_Extra = [(ResourcesSingularGlobalRole, [PlatformAdmin])]\<rparr>"

definition staticApi :: "(Cluster, cache) ApiServer" where
  "staticApi = exampleApi\<lparr>sv_jwt := tableJwt ''s3cret''
     [(''acc'', claimsFor (operatorIssuer exampleOptions) 0 staticInfo StaticToken 0),
      (''ref'', claimsFor (operatorIssuer exampleOptions) 0 staticInfo RefreshToken 0)]\<rparr>"

theorem createToken_for_ever_witness:
  "tokenVerify (sv_jwt staticApi) inMemoryOps exampleOptions (1000000 * Hour) ''acc'' [] = Inr staticInfo"
proof -
  have ne: "claimsFor i n u StaticToken d \<noteq> claimsFor i n u RefreshToken d'" for i n u d d'
    by (metis TokenType.distinct(5) claimsFor_simps(4))
  have codec: "jwtCodec (sv_jwt staticApi)" by (simp add: staticApi_def jwtCodec_tableJwt)
  obtain tok where tok: "createTokenFor staticApi 0 emptyContext ((emptyCluster, []), []) = (Inr tok, ((emptyCluster, []), []))"
      "tok_AccessToken tok = ''acc''"
    using ne
    by (simp add: createTokenFor_def issue_def onCache_def tokenIssueTo_def staticApi_def exampleApi_def tableJwt_def
        issuerIssueTo_def Let_def exampleOptions_def operatorIssuer_def NewTokenIssuer_def ofRes_def
        UserFrom_def emptyContext_def staticInfo_def wrap64_def)
  from createToken_for_ever [OF codec _ tok(1), of "1000000 * Hour" "[]"] tok(2) show ?thesis
    by (simp add: staticApi_def exampleOptions_def duration_defs UserFrom_def emptyContext_def staticInfo_def)
qed

end
