(* ===== verification/Iam_Handlers.thy ===== *)
theory Iam_Handlers
  imports Oauth_Handlers
begin

text \<open>
  \<open>pkg/aiapis/iam/v1/handler.go\<close>: the handlers of users, roles, namespace members and login records. A
  handler whose request has a body takes the outcome of \<open>ReadEntity\<close> as its argument \<open>entity\<close>.
\<close>

abbreviation et :: "('w, 's) ApiServer \<Rightarrow> goerr \<Rightarrow> string" where
  "et sv \<equiv> sv_errorText sv"

definition parsedQuery :: "RestRequest \<Rightarrow> Query" where
  "parsedQuery req = ParseQueryParameter (rr_query req) (rr_urlQuery req)"

definition appendGlobalRoleAnnotation :: "User \<Rightarrow> string \<Rightarrow> User" where
  "appendGlobalRoleAnnotation user globalRole =
     user\<lparr>user_meta := (user_meta user)\<lparr>Annotations :=
       mput (Annotations (user_meta user)) GlobalRoleAnnotation globalRole\<rparr>\<rparr>"

definition shownRole :: "('w, 's) ApiServer \<Rightarrow> RoleObj \<Rightarrow> string" where
  "shownRole sv role = ReplaceStringOnce (Name (role_meta role)) (as_NamePrefix sv)"

text \<open>\<open>if err != nil && !errors.IsNotFound(err)\<close>\<close>

definition notFoundOr ::
  "('w, 's) ApiServer \<Rightarrow> goerr option \<Rightarrow> (('w, 's) hworld, unit) eff \<Rightarrow> (('w, 's) hworld, unit) eff" where
  "notFoundOr sv err k =
     (case err of
        None \<Rightarrow> k
      | Some e \<Rightarrow> if \<not> IsNotFound e then emptyError (et sv) (Some e) else k)"

definition DescribeUserHandler :: "('w, 's) ApiServer \<Rightarrow> RestRequest \<Rightarrow> (('w, 's) hworld, unit) eff" where
  "DescribeUserHandler sv req =
     (let username = rr_path req ''user'' in
      orFail (et sv) (eout (DescribeUser (imOf sv) username)) (\<lambda>user.
      ebind (attempt (eout (GetGlobalRoleOfUser (amOf sv) username))) (\<lambda>(globalRole, err).
      notFoundOr sv err
        (let user = (case globalRole of
                       None \<Rightarrow> user | Some role \<Rightarrow> appendGlobalRoleAnnotation user (shownRole sv role))
         in write_body (BUser (objectResult (et sv) userAccessor user err))))))"

definition GetUserDetail :: "('w, 's) ApiServer \<Rightarrow> RestRequest \<Rightarrow> (('w, 's) hworld, unit) eff" where
  "GetUserDetail sv req =
     (let username = rr_path req ''user'' in
      orFail (et sv) (eout (DescribeUser (imOf sv) username)) (\<lambda>userCrd.
      ebind (attempt (eout (GetGlobalRoleOfUser (amOf sv) username))) (\<lambda>(globalRole, err).
      notFoundOr sv err
        (ebind (deref globalRole) (\<lambda>role.
           write_body (BUserDetails (objectResult (et sv) plainAccessor
             \<lparr>ud_Username = Name (user_meta userCrd), ud_Email = Email (user_spec userCrd),
              ud_GlobalRole = shownRole sv role, ud_NamespaceRoles = []\<rparr> err)))))))"

fun annotateUsers :: "('w, 's) ApiServer \<Rightarrow> User list \<Rightarrow> User list out" where
  "annotateUsers sv [] = Inr []"
| "annotateUsers sv (user # users) =
     (case GetGlobalRoleOfUser (amOf sv) (Name (user_meta user)) of
        Inl (Panic p) \<Rightarrow> Inl (Panic p)
      | Inl (Err err) \<Rightarrow>
          if \<not> IsNotFound err then Inl (Err err)
          else obind (annotateUsers sv users) (\<lambda>us. Inr (user # us))
      | Inr role \<Rightarrow>
          obind (annotateUsers sv users) (\<lambda>us. Inr (appendGlobalRoleAnnotation user (shownRole sv role) # us)))"

definition ListUsersHandler :: "('w, 's) ApiServer \<Rightarrow> RestRequest \<Rightarrow> (('w, 's) hworld, unit) eff" where
  "ListUsersHandler sv req =
     orFail (et sv) (eout (ListUsers (imOf sv) (parsedQuery req))) (\<lambda>items.
     orFail (et sv) (eout (annotateUsers sv items)) (\<lambda>items.
       write_body (BUser (listResult (et sv) (as_long sv) userAccessor items req None))))"

text \<open>The lists below read the items of the result before they look at the error: a nil result panics.\<close>

definition ListRolesHandler :: "('w, 's) ApiServer \<Rightarrow> RestRequest \<Rightarrow> (('w, 's) hworld, unit) eff" where
  "ListRolesHandler sv req =
     ebind (attempt (eout (ListRoles (amOf sv) (rr_path req ''namespace'') (parsedQuery req)))) (\<lambda>(result, err).
     ebind (deref result) (\<lambda>items.
       write_body (BRole (listResult (et sv) (as_long sv) roleAccessor items req err))))"

definition ListGlobalRolesHandler :: "('w, 's) ApiServer \<Rightarrow> RestRequest \<Rightarrow> (('w, 's) hworld, unit) eff" where
  "ListGlobalRolesHandler sv req =
     ebind (attempt (eout (ListGlobalRoles (amOf sv) (parsedQuery req)))) (\<lambda>(result, err).
     ebind (deref result) (\<lambda>items.
       write_body (BRole (listResult (et sv) (as_long sv) roleAccessor items req err))))"

definition ListNamespaceMembers :: "('w, 's) ApiServer \<Rightarrow> RestRequest \<Rightarrow> (('w, 's) hworld, unit) eff" where
  "ListNamespaceMembers sv req =
     (let queryParam = filterSet ScopeNamespace (rr_path req ''namespace'') (parsedQuery req) in
      ebind (attempt (eout (ListUsers (imOf sv) queryParam))) (\<lambda>(result, err).
      ebind (deref result) (\<lambda>items.
        write_body (BUser (listResult (et sv) (as_long sv) userAccessor items req err)))))"

definition DescribeNamespaceMember :: "('w, 's) ApiServer \<Rightarrow> RestRequest \<Rightarrow> (('w, 's) hworld, unit) eff" where
  "DescribeNamespaceMember sv req =
     (let username = rr_path req ''member'';
          queryParam = filterSet ScopeNamespace (rr_path req ''namespace'') (filterSet FieldNames username newQuery)
      in orFail (et sv) (eout (ListUsers (imOf sv) queryParam)) (\<lambda>items.
           case items of
             [] \<Rightarrow> emptyError (et sv) (Some (NotFound ''user'' username))
           | user # _ \<Rightarrow> write_body (BUser (objectResult (et sv) plainAccessor user None))))"

definition withoutRoleAnnotation :: "User \<Rightarrow> User" where
  "withoutRoleAnnotation user =
     user\<lparr>user_meta := (user_meta user)\<lparr>Annotations :=
       mdelete (Annotations (user_meta user)) GlobalRoleAnnotation\<rparr>\<rparr>"

definition CreateUserHandler ::
  "('w, 's) ApiServer \<Rightarrow> User res \<Rightarrow> (('w, 's) hworld, unit) eff" where
  "CreateUserHandler sv entity =
     orFail (et sv) (eout (ofRes entity)) (\<lambda>user0.
     let globalRole = mget (Annotations (user_meta user0)) GlobalRoleAnnotation;
         user = withoutRoleAnnotation user0
     in orFail (et sv) (onApi (CreateUser (sv_clients sv) user)) (\<lambda>created.
        orFail (et sv) (onApi (CreateGlobalRoleBinding (sv_clients sv) (amOf sv) (Name (user_meta user))
            (as_NamePrefix sv @ globalRole))) (\<lambda>_.
        write_body (BUser (objectResult (et sv) userAccessor (ensurePasswordNotOutput created) None)))))"

text \<open>The attributes that the handlers authorize by themselves.\<close>

definition manageUsers :: "string \<Rightarrow> UserInfo \<Rightarrow> AttributesRecord" where
  "manageUsers resource operator =
     \<lparr>attr_UserInfo = Some operator, attr_Verb = ''update'', attr_Cluster = '''', attr_Workspace = '''',
      attr_Namespace = '''', attr_DevOps = '''', attr_APIGroup = '''', attr_APIVersion = '''',
      attr_Resource = resource, attr_Subresource = '''', attr_Name = '''', KubernetesRequest = False,
      ResourceRequest = True, attr_Path = '''', attr_ResourceScope = GlobalScope\<rparr>"

definition handlerAuthorize :: "('w, 's) ApiServer \<Rightarrow> AttributesRecord \<Rightarrow> authz_result out" where
  "handlerAuthorize sv a = rbacAuthorize (et sv) (sv_rego sv) (rulesAM (amOf sv)) (Some a)"

definition ErrNotAllowed :: "string \<Rightarrow> goerr" where
  "ErrNotAllowed n = Forbidden ''user'' n ''update global role binding is not allowed''"

definition updateGlobalRoleBinding ::
  "('w, 's) ApiServer \<Rightarrow> UserInfo \<Rightarrow> User \<Rightarrow> string \<Rightarrow> (('w, 's) hworld, unit) eff" where
  "updateGlobalRoleBinding sv operator user globalRole =
     ebind (attempt (eout (GetGlobalRoleOfUser (amOf sv) (Name (user_meta user))))) (\<lambda>(oldGlobalRole, err).
       if (case err of None \<Rightarrow> False | Some e \<Rightarrow> \<not> IsNotFound e) then eerr (the err)
       else if (case oldGlobalRole of None \<Rightarrow> False | Some r \<Rightarrow> Name (role_meta r) = globalRole) then eret ()
       else
         ebind (eout (handlerAuthorize sv (manageUsers ResourcesPluralUser operator))) (\<lambda>(decision, _, err).
         case err of
           Some e \<Rightarrow> eerr e
         | None \<Rightarrow>
             if decision \<noteq> DecisionAllow then eerr (ErrNotAllowed (Name (user_meta user)))
             else onApi (CreateGlobalRoleBinding (sv_clients sv) (amOf sv) (Name (user_meta user)) globalRole)))"

definition ErrNameMismatch :: "string \<Rightarrow> string \<Rightarrow> goerr" where
  "ErrNameMismatch n username =
     Msg (''the name of the object ('' @ n @ '') does not match the name on the URL ('' @ username @ '')'')"

definition UpdateUserHandler ::
  "('w, 's) ApiServer \<Rightarrow> RestRequest \<Rightarrow> User res \<Rightarrow> (('w, 's) hworld, unit) eff" where
  "UpdateUserHandler sv req entity =
     (let username = rr_path req ''user'' in
      orFail (et sv) (eout (ofRes entity)) (\<lambda>user0.
      if username \<noteq> Name (user_meta user0)
      then emptyError (et sv) (Some (ErrNameMismatch (Name (user_meta user0)) username))
      else
        let globalRole = mget (Annotations (user_meta user0)) GlobalRoleAnnotation;
            user = withoutRoleAnnotation user0
        in orFail (et sv) (onApi (UpdateUser (sv_clients sv) (imOf sv) user)) (\<lambda>updated.
           case UserFrom (rr_ctx req) of
             Some operator \<Rightarrow>
               if globalRole \<noteq> '''' then
                 orFail (et sv) (updateGlobalRoleBinding sv operator updated (as_NamePrefix sv @ globalRole)) (\<lambda>_.
                   write_body (BUser (objectResult (et sv) userAccessor
                     (appendGlobalRoleAnnotation updated globalRole) None)))
               else write_body (BUser (objectResult (et sv) userAccessor updated None))
           | None \<Rightarrow> write_body (BUser (objectResult (et sv) userAccessor updated None)))))"

definition ErrNoUserInfo :: goerr where
  "ErrNoUserInfo = InternalError ''cannot obtain user info''"

text \<open>\<open>err = h.im.ModifyPassword(...); api.NewEmptyResult().WithError(err).WriteTo(resp)\<close>\<close>

definition finishWith :: "('w, 's) ApiServer \<Rightarrow> (('w, 's) hworld, unit) eff \<Rightarrow> (('w, 's) hworld, unit) eff" where
  "finishWith sv m = ebind (attempt m) (\<lambda>(_, err). emptyError (et sv) err)"

definition ModifyPasswordHandler ::
  "('w, 's) ApiServer \<Rightarrow> RestRequest \<Rightarrow> PasswordReset res \<Rightarrow> (('w, 's) hworld, unit) eff" where
  "ModifyPasswordHandler sv req entity =
     (let username = rr_path req ''user'' in
      orFail (et sv) (eout (ofRes entity)) (\<lambda>passwordReset.
      case UserFrom (rr_ctx req) of
        None \<Rightarrow> emptyError (et sv) (Some ErrNoUserInfo)
      | Some operator \<Rightarrow>
          ebind (eout (handlerAuthorize sv (manageUsers ''users/password'' operator))) (\<lambda>(decision, _, err).
          case err of
            Some e \<Rightarrow> emptyError (et sv) (Some e)
          | None \<Rightarrow>
              ecatch
                (if decision \<noteq> DecisionAllow \<or> pr_CurrentPassword passwordReset \<noteq> ''''
                 then eout (imPasswordVerify (sv_passwords sv) (imOf sv) username (pr_CurrentPassword passwordReset))
                 else eret ())
                (\<lambda>e. emptyError (et sv)
                  (Some (if e = IncorrectPasswordError then BadRequest ''incorrect old password'' else e)))
                (\<lambda>_. finishWith sv
                  (onApi (ModifyPassword (sv_clients sv) (imOf sv) username (pr_Password passwordReset)))))))"

definition DeleteUserHandler :: "('w, 's) ApiServer \<Rightarrow> RestRequest \<Rightarrow> (('w, 's) hworld, unit) eff" where
  "DeleteUserHandler sv req =
     (let username = rr_path req ''user'' in
      case UserFrom (rr_ctx req) of
        None \<Rightarrow> emptyError (et sv) (Some ErrNoUserInfo)
      | Some operator \<Rightarrow>
          if username = ui_Name operator
          then emptyError (et sv) (Some (InternalError (''user '' @ username @ '' cannot delete itself'')))
          else
            orFail (et sv) (eout (GetRoleBindingOfUser (amOf sv) username)) (\<lambda>nsRoleBindings.
            if length nsRoleBindings > 0 \<and> Contains (Name (binding_meta (hd nsRoleBindings))) ''-admin''
            then emptyError (et sv) (Some (InternalError (''user '' @ username @ '' manages namespace '' @
                   Namespace (binding_meta (hd nsRoleBindings)))))
            else finishWith sv (onApi (DeleteUser (sv_clients sv) username))))"

fun createMembers :: "'w Clients \<Rightarrow> string \<Rightarrow> Member list \<Rightarrow> ('w, unit) eff" where
  "createMembers cl namespace [] = eret ()"
| "createMembers cl namespace (member # members) =
     ebind (CreateNamespaceRoleBinding cl (m_Username member) namespace (m_RoleRef member))
       (\<lambda>_. createMembers cl namespace members)"

definition CreateNamespaceMembers ::
  "('w, 's) ApiServer \<Rightarrow> RestRequest \<Rightarrow> Member list res \<Rightarrow> (('w, 's) hworld, unit) eff" where
  "CreateNamespaceMembers sv req entity =
     orFail (et sv) (eout (ofRes entity)) (\<lambda>members.
     orFail (et sv) (onApi (createMembers (sv_clients sv) (rr_path req ''namespace'') members)) (\<lambda>_.
       write_body (BMember (listResult (et sv) (as_long sv) plainAccessor members req None))))"

definition UpdateNamespaceMember ::
  "('w, 's) ApiServer \<Rightarrow> RestRequest \<Rightarrow> Member res \<Rightarrow> (('w, 's) hworld, unit) eff" where
  "UpdateNamespaceMember sv req entity =
     (let username = rr_path req ''member''; namespace = rr_path req ''namespace'' in
      orFail (et sv) (eout (ofRes entity)) (\<lambda>member.
      if username \<noteq> m_Username member
      then emptyError (et sv) (Some (ErrNameMismatch (m_Username member) username))
      else
        ebind (attempt (onApi (CreateNamespaceRoleBinding (sv_clients sv) (m_Username member) namespace (m_RoleRef member))))
          (\<lambda>(_, err). write_body (BMember (objectResult (et sv) plainAccessor member err)))))"

definition RemoveNamespaceMember :: "('w, 's) ApiServer \<Rightarrow> RestRequest \<Rightarrow> (('w, 's) hworld, unit) eff" where
  "RemoveNamespaceMember sv req =
     finishWith sv (onApi (RemoveUserFromNamespace (sv_clients sv) (rr_path req ''member'') (rr_path req ''namespace'')))"

definition ListUserLoginRecords :: "('w, 's) ApiServer \<Rightarrow> RestRequest \<Rightarrow> (('w, 's) hworld, unit) eff" where
  "ListUserLoginRecords sv req =
     ebind (attempt (eout (ListLoginRecords (imOf sv) (rr_path req ''user'') (parsedQuery req)))) (\<lambda>(result, err).
     ebind (deref result) (\<lambda>items.
       write_body (BLoginRecord (listResult (et sv) (as_long sv) recordAccessor items req err))))"

section \<open>Answers without passwords\<close>

fun resultUsers :: "User ResultData \<Rightarrow> User set" where
  "resultUsers (DataList us) = set us"
| "resultUsers (DataObject u) = {u}"
| "resultUsers _ = {}"

fun shownUsers :: "Body written \<Rightarrow> User set" where
  "shownUsers (WBody (BUser (JsonResponse _ r))) = resultUsers (Data r)"
| "shownUsers _ = {}"

definition hidden :: "User \<Rightarrow> bool" where
  "hidden u \<longleftrightarrow> EncryptedPassword (user_spec u) = ''''"

text \<open>Whatever happens, a handler only adds answers, and these show no password.\<close>

definition discreet :: "(('w, 's) hworld, 'a) eff \<Rightarrow> bool" where
  "discreet m \<longleftrightarrow>
     (\<forall>s r s'. m s = (r, s') \<longrightarrow>
        (\<exists>ws. snd s' = snd s @ ws \<and> (\<forall>x \<in> set ws. \<forall>u \<in> shownUsers x. hidden u)))"

lemma discreetI:
  "(\<And>s r s'. m s = (r, s') \<Longrightarrow> \<exists>ws. snd s' = snd s @ ws \<and> (\<forall>x \<in> set ws. \<forall>u \<in> shownUsers x. hidden u)) \<Longrightarrow>
   discreet m"
  by (auto simp: discreet_def)

lemma discreetD:
  "discreet m \<Longrightarrow> m s = (r, s') \<Longrightarrow>
   \<exists>ws. snd s' = snd s @ ws \<and> (\<forall>x \<in> set ws. \<forall>u \<in> shownUsers x. hidden u)"
  unfolding discreet_def by blast

lemma discreet_same: "(\<And>s. snd (snd (m s)) = snd s) \<Longrightarrow> discreet m"
  by (rule discreetI) (metis append_Nil2 empty_iff list.set(1) snd_conv)

lemma discreet_eout [simp]: "discreet (eout r)" and discreet_eret [simp]: "discreet (eret x)"
  and discreet_eerr [simp]: "discreet (eerr e)"
  by (simp_all add: discreet_same)

lemma discreet_deref [simp]: "discreet (deref x)"
  by (cases x) (simp_all add: discreet_same)

lemma discreet_onApi [simp]: "discreet (onApi m)"
  by (rule discreet_same) (auto simp: onApi_def split: prod.splits)

lemma discreet_write_body: "(\<And>u. u \<in> shownUsers (WBody b) \<Longrightarrow> hidden u) \<Longrightarrow> discreet (write_body b)"
  by (rule discreetI) auto

lemma discreet_emptyError [simp]: "discreet (emptyError errorText err)"
  unfolding emptyError_def by (rule discreet_write_body) simp

lemma discreet_ecatch:
  assumes "discreet m" and "\<And>e. discreet (h e)" and "\<And>x s s'. m s = (Inr x, s') \<Longrightarrow> discreet (f x)"
  shows "discreet (ecatch m h f)"
proof (rule discreetI)
  fix s r s'
  assume run: "ecatch m h f s = (r, s')"
  obtain r1 s1 where m: "m s = (r1, s1)" by (metis surj_pair)
  obtain ws where ws: "snd s1 = snd s @ ws" "\<forall>x \<in> set ws. \<forall>u \<in> shownUsers x. hidden u"
    using discreetD [OF assms(1) m] by blast
  have "s' = s1 \<or> (\<exists>k. discreet k \<and> k s1 = (r, s'))"
    using run m assms(2) assms(3) [of s _ s1] by (auto simp: ecatch_def split: sum.splits stop.splits)
  then show "\<exists>ws. snd s' = snd s @ ws \<and> (\<forall>x \<in> set ws. \<forall>u \<in> shownUsers x. hidden u)"
  proof
    assume "s' = s1"
    with ws show ?thesis by blast
  next
    assume "\<exists>k. discreet k \<and> k s1 = (r, s')"
    then obtain ws' where "snd s' = snd s1 @ ws'" "\<forall>x \<in> set ws'. \<forall>u \<in> shownUsers x. hidden u"
      using discreetD by blast
    with ws show ?thesis by (intro exI [of _ "ws @ ws'"]) auto
  qed
qed

lemma ebind_ecatch: "ebind m f = ecatch m eerr f"
  by (rule ext) (auto simp: ebind_def ecatch_def split: prod.splits sum.splits stop.splits)

lemma discreet_ebind:
  "discreet m \<Longrightarrow> (\<And>x s s'. m s = (Inr x, s') \<Longrightarrow> discreet (f x)) \<Longrightarrow> discreet (ebind m f)"
  unfolding ebind_ecatch by (rule discreet_ecatch) simp_all

lemma discreet_orFail:
  "discreet m \<Longrightarrow> (\<And>x s s'. m s = (Inr x, s') \<Longrightarrow> discreet (f x)) \<Longrightarrow> discreet (orFail errorText m f)"
  unfolding orFail_def by (rule discreet_ecatch) simp_all

lemma discreet_attempt: "discreet m \<Longrightarrow> discreet (attempt m)"
  unfolding attempt_def by (rule discreet_ecatch) simp_all

lemma attempt_eout_iff:
  "attempt (eout r) s = (Inr p, s') \<longleftrightarrow>
   s' = s \<and> (\<exists>x. r = Inr x \<and> p = (Some x, None) \<or> (\<exists>e. r = Inl (Err e) \<and> p = (None, Some e)))"
  by (auto simp: attempt_def ecatch_def split: sum.splits stop.splits)

lemma deref_Inr_iff: "deref x s = (Inr v, s') \<longleftrightarrow> x = Some v \<and> s' = s"
  by (cases x) auto

lemma set_removeSubLoop: "set (removeSubLoop xs is) \<subseteq> set xs"
proof (induction xs "is" rule: removeSubLoop.induct)
  case (2 slice i "is")
  have "set (removeAt (nat i) slice) \<subseteq> set slice"
    by (auto simp: removeAt_def dest: in_set_takeD in_set_dropD)
  then show ?case using 2 by auto
qed simp

lemma WithListAndFilter_data:
  "\<exists>ys. Data (WithListAndFilter long acc xs querier r) = DataList ys \<and> set ys \<subseteq> set xs \<union> accClean acc ` set xs"
proof -
  obtain ys ds where l: "filterLoop acc (metadataFilters querier) 0 xs = (ys, ds)" by fastforce
  have "set ys \<subseteq> set xs \<union> accClean acc ` set xs"
    using filterLoop_fst [of acc "metadataFilters querier" 0 xs] l by auto
  moreover have "set (RemoveSubSlice long ys ds) \<subseteq> set ys"
    unfolding RemoveSubSlice_def by (rule set_removeSubLoop)
  ultimately show ?thesis by (auto simp: WithListAndFilter_def l Let_def)
qed

lemma hidden_clean [simp]: "hidden (accClean userAccessor u) = hidden u"
  by (simp add: hidden_def userAccessor_def)

lemma hidden_object:
  assumes "hidden (accClean acc u)"
  shows "discreet (write_body (BUser (objectResult errorText acc u err)))"
  by (rule discreet_write_body)
    (use assms in \<open>auto simp: objectResult_def WriteTo_def WithError_def WithObject_def split: option.splits\<close>)

lemma hidden_list:
  assumes "\<forall>u \<in> set us. hidden u"
  shows "discreet (write_body (BUser (listResult errorText long userAccessor us req err)))"
proof (rule discreet_write_body)
  fix u
  assume u: "u \<in> shownUsers (WBody (BUser (listResult errorText long userAccessor us req err)))"
  obtain ys where ys: "Data (WithListAndFilter long userAccessor us (Some (rr_query req)) NewResult) = DataList ys"
      "set ys \<subseteq> set us \<union> accClean userAccessor ` set us"
    using WithListAndFilter_data [of long userAccessor us "Some (rr_query req)" NewResult]
    by (elim exE conjE) (rule that)
  have "u \<in> set ys"
    using u ys(1) by (auto simp: listResult_def WriteTo_def WithError_def split: option.splits)
  with ys(2) assms show "hidden u" by auto
qed

lemma discreet_notFoundOr: "discreet k \<Longrightarrow> discreet (notFoundOr sv err k)"
  by (simp add: notFoundOr_def split: option.splits)

lemma hidden_append [simp]: "hidden (appendGlobalRoleAnnotation u n) = hidden u"
  by (simp add: hidden_def appendGlobalRoleAnnotation_def)

lemma hidden_ensure [simp]: "hidden (ensurePasswordNotOutput u)"
  by (simp add: hidden_def)

lemma DescribeUser_hidden: "DescribeUser im n = Inr u \<Longrightarrow> hidden u"
  by (auto simp: DescribeUser_def obind_Inr_iff)

lemma ListUsers_hidden: "ListUsers im q = Inr us \<Longrightarrow> \<forall>u \<in> set us. hidden u"
  by (auto simp: ListUsers_def obind_Inr_iff)

lemma annotateUsers_hidden:
  "annotateUsers sv us = Inr vs \<Longrightarrow> \<forall>u \<in> set us. hidden u \<Longrightarrow> \<forall>u \<in> set vs. hidden u"
  by (induction sv us arbitrary: vs rule: annotateUsers.induct)
    (auto simp: obind_Inr_iff split: sum.splits stop.splits if_splits)

lemma UpdateUser_hidden:
  assumes "onApi (UpdateUser cl im new) s = (Inr u, s')"
  shows "hidden u"
  using assms by (cases s) (auto simp: onApi_def UpdateUser_def ebind_Inr_iff Let_def split: prod.splits)

lemmas discreet_intros = discreet_ebind discreet_orFail discreet_attempt discreet_notFoundOr
  hidden_object hidden_list

lemma discreet_describe: "discreet (DescribeUserHandler sv req)"
  by (auto simp: DescribeUserHandler_def Let_def attempt_eout_iff intro!: discreet_intros
      split: option.splits dest!: DescribeUser_hidden)

lemma discreet_list: "discreet (ListUsersHandler sv req)"
  unfolding ListUsersHandler_def
  by (intro discreet_intros discreet_eout) (auto dest!: ListUsers_hidden annotateUsers_hidden)

lemma discreet_members: "discreet (ListNamespaceMembers sv req)"
  by (auto simp: ListNamespaceMembers_def Let_def attempt_eout_iff deref_Inr_iff intro!: discreet_intros
      dest!: ListUsers_hidden)

lemma discreet_member: "discreet (DescribeNamespaceMember sv req)"
  by (auto simp: DescribeNamespaceMember_def Let_def plainAccessor_def intro!: discreet_intros
      split: list.splits dest!: ListUsers_hidden)

lemma discreet_create: "discreet (CreateUserHandler sv entity)"
  by (auto simp: CreateUserHandler_def Let_def intro!: discreet_intros)

lemma discreet_updateBinding: "discreet (updateGlobalRoleBinding sv operator user role)"
  by (auto simp: updateGlobalRoleBinding_def intro!: discreet_intros split: option.splits)

lemma discreet_update: "discreet (UpdateUserHandler sv req entity)"
  by (auto simp: UpdateUserHandler_def Let_def intro!: discreet_intros discreet_updateBinding
      split: option.splits) (erule UpdateUser_hidden)+

section \<open>Properties\<close>

text \<open>
  C14. No answer of a handler shows a stored password: whatever the state and the request, every user
  in what the six handlers that answer with users write has an empty password, and they keep the
  answers written before.
\<close>

theorem handlers_hide_passwords:
  "h \<in> {DescribeUserHandler sv req, ListUsersHandler sv req, ListNamespaceMembers sv req,
      DescribeNamespaceMember sv req, CreateUserHandler sv entity, UpdateUserHandler sv req entity} \<Longrightarrow>
   h s = (r, s') \<Longrightarrow>
   \<exists>ws. snd s' = snd s @ ws \<and> (\<forall>x \<in> set ws. \<forall>u \<in> shownUsers x. EncryptedPassword (user_spec u) = '''')"
  using discreetD [of h s r s'] discreet_describe discreet_list discreet_members discreet_member
    discreet_create discreet_update
  unfolding hidden_def by blast

text \<open>An API server with one administrator.\<close>

definition adminApi :: "(Cluster, cache) ApiServer" where
  "adminApi = exampleApi\<lparr>sv_informers := adminInformers\<lparr>userIx := listIndexer user_meta
     [\<lparr>user_meta = emptyMeta\<lparr>Name := ''admin''\<rparr>, user_spec = emptySpec\<lparr>EncryptedPassword := ''hash''\<rparr>,
       user_status = emptyStatus\<lparr>State := Some UserActive\<rparr>\<rparr>]\<rparr>\<rparr>"

definition userRequest :: "string \<Rightarrow> RestRequest" where
  "userRequest n = exampleRequest\<lparr>rr_path := (\<lambda>_. n)\<rparr>"

lemma anyLibs_listing: "listing_libs anyLibs"
  using anyLibs_sort by (simp add: listing_libs_def)

lemma adminApi_role: "GetGlobalRoleOfUser (amOf adminApi) ''admin'' = Inr adminRole"
proof -
  have l: "llist (globalRoleBindingsLister (sv_informers adminApi)) (cachedSelector anyLibs) =
      Inr [bindingFor ''admin'' PlatformAdmin iamGroup ResourceKindGlobalRole]"
    and g: "lget (globalRolesLister (sv_informers adminApi)) PlatformAdmin = Inr adminRole"
    using adminInformers_eval by (simp_all add: adminApi_def globalRoleBindingsLister_def globalRolesLister_def)
  obtain b where b: "ListGlobalRoleBindings (amOf adminApi) ''admin'' = Inr [scrubBinding b]"
      "b = bindingFor ''admin'' PlatformAdmin iamGroup ResourceKindGlobalRole"
    using listing_libs.ListGlobalRoleBindings_cached [OF anyLibs_listing l, of "''admin''"]
    by (auto simp: amOf_def adminApi_def containsSubject_def bindingFor_def kind_defs)
  then show ?thesis using g
    by (simp add: GetGlobalRoleOfUser_def scrubBinding_def bindingFor_def amOf_def Get_cached ofRes_def adminApi_def)
qed

theorem handlers_hide_passwords_witness:
  "\<exists>s' u result. DescribeUserHandler adminApi (userRequest ''admin'') ((emptyCluster, []), []) = (Inr (), s') \<and>
     snd s' = [WBody (BUser (JsonResponse 200 result))] \<and> Data result = DataObject u \<and>
     EncryptedPassword (user_spec u) = ''''"
proof -
  have d: "\<exists>u. DescribeUser (imOf adminApi) ''admin'' = Inr u"
    by (simp add: DescribeUser_def imOf_def fetch_cached adminApi_def lister_eval emptyMeta_def ofRes_def)
  then obtain s' u result where run: "DescribeUserHandler adminApi (userRequest ''admin'') ((emptyCluster, []), []) = (Inr (), s')"
      "snd s' = [WBody (BUser (JsonResponse 200 result))]" "Data result = DataObject u"
    by (auto simp: DescribeUserHandler_def userRequest_def Let_def orFail_simps ebind_def attempt_def ecatch_def
        adminApi_role notFoundOr_def objectResult_def WriteTo_def WithError_def WithObject_def NewResult_def)
  from handlers_hide_passwords [where h = "DescribeUserHandler adminApi (userRequest ''admin'')"
      and sv = adminApi and req = "userRequest ''admin''", OF _ run(1)] run(2,3)
  have "EncryptedPassword (user_spec u) = ''''" by auto
  with run show ?thesis by blast
qed

lemma ofRes_attempt:
  "attempt (eout (Inl (Err e))) s = (Inr (None, Some e), s)" "attempt (eout (Inr x)) s = (Inr (Some x, None), s)"
  by (simp_all add: attempt_def ecatch_def)

lemma GetGlobalRoleOfUser_none:
  "ListGlobalRoleBindings am username = Inr [] \<Longrightarrow>
   GetGlobalRoleOfUser am username = Inl (Err (NotFound ResourcesSingularGlobalRoleBinding username))"
  by (simp add: GetGlobalRoleOfUser_def)

text \<open>
  A user without a global role binding cannot be shown: the details endpoint panics on the nil role
  and answers with an internal server error, and the plain endpoint, which lets the missing role pass,
  still answers with that error and no data.
\<close>

theorem user_without_global_role:
  assumes "DescribeUser (imOf sv) (rr_path req ''user'') = Inr u"
    and "ListGlobalRoleBindings (amOf sv) (rr_path req ''user'') = Inr []"
  shows "recovering (GetUserDetail sv req) s =
      (Inr (), (fst s, snd s @ [WBody (BRecovered 500 ''Internal server error'')])) \<and>
    (\<exists>result. DescribeUserHandler sv req s = (Inr (), (fst s, snd s @ [WBody (BUser (JsonResponse 400 result))])) \<and>
       Data result = NoData)"
proof -
  note g = GetGlobalRoleOfUser_none [OF assms(2)]
  have "GetUserDetail sv req s = (Inl (Panic NilDeref), s)"
    by (simp add: GetUserDetail_def Let_def orFail_simps assms(1) ebind_def g ofRes_attempt notFoundOr_def)
  moreover have "\<exists>result. DescribeUserHandler sv req s =
      (Inr (), (fst s, snd s @ [WBody (BUser (JsonResponse 400 result))])) \<and> Data result = NoData"
    by (simp add: DescribeUserHandler_def Let_def orFail_simps assms(1) ebind_def g ofRes_attempt notFoundOr_def
        objectResult_def WriteTo_def WithError_def WithObject_def NewResult_def)
  ultimately show ?thesis by (simp add: recovering_def)
qed

theorem user_without_global_role_witness:
  "recovering (GetUserDetail exampleApi (userRequest ''alice'')) ((emptyCluster, []), []) =
     (Inr (), ((emptyCluster, []), [WBody (BRecovered 500 ''Internal server error'')]))"
proof -
  have l: "llist (globalRoleBindingsLister (sv_informers exampleApi)) (cachedSelector anyLibs) = Inr []"
    by (simp add: exampleApi_def lister_eval cachedSelector_def)
  have n: "ListGlobalRoleBindings (amOf exampleApi) ''alice'' = Inr []"
    using listing_libs.ListGlobalRoleBindings_cached [OF anyLibs_listing l, of "''alice''"] by (simp add: amOf_def)
  obtain u where d: "DescribeUser (imOf exampleApi) ''alice'' = Inr u"
    by (simp add: DescribeUser_def imOf_def fetch_cached exampleApi_def lister_eval aliceUser_def emptyMeta_def ofRes_def)
  have "rr_path (userRequest ''alice'') ''user'' = ''alice''" by (simp add: userRequest_def)
  with user_without_global_role [of exampleApi "userRequest ''alice''" u] d n show ?thesis by simp
qed

text \<open>What the guarded updates of the handlers need.\<close>



lemma handlerAuthorize_no_error: "handlerAuthorize sv a = Inr (d, reason, err) \<Longrightarrow> err = None"
  by (auto simp: handlerAuthorize_def rbacAuthorize_def obind_Inr_iff split: if_splits)

text \<open>
  C15. A global role is only changed with permission: when the handler's update of a user's global role
  changes the API server, the RBAC authorizer has allowed the operator to update users.
\<close>

theorem role_update_authorized:
  assumes "updateGlobalRoleBinding sv operator user globalRole s = (r, s')" and "fst (fst s') \<noteq> fst (fst s)"
  shows "\<exists>reason. handlerAuthorize sv (manageUsers ResourcesPluralUser operator) = Inr (DecisionAllow, reason, None)"
proof (rule ccontr)
  assume no: "\<nexists>reason. handlerAuthorize sv (manageUsers ResourcesPluralUser operator) = Inr (DecisionAllow, reason, None)"
  have "s' = s"
    using assms(1) no
    by (auto simp: updateGlobalRoleBinding_def ebind_def attempt_def ecatch_def dest: handlerAuthorize_no_error
        split: sum.splits stop.splits option.splits if_splits prod.splits)
  with assms(2) show False by simp
qed

text \<open>
  C16. A password is only changed with permission or with the old one: when the handler changes the
  API server, the operator may update passwords or the request's current password matches the stored hash.
\<close>

theorem password_change_authorized:
  assumes "ModifyPasswordHandler sv req entity s = (r, s')" and "fst (fst s') \<noteq> fst (fst s)"
  shows "\<exists>operator reset. UserFrom (rr_ctx req) = Some operator \<and> entity = Inr reset \<and>
    ((\<exists>reason. handlerAuthorize sv (manageUsers ''users/password'' operator) = Inr (DecisionAllow, reason, None)) \<or>
     (\<exists>u. fetch (imOf sv) (rr_path req ''user'') = Inr u \<and>
        bcryptCompare (sv_passwords sv) (EncryptedPassword (user_spec u)) (pr_CurrentPassword reset)))"
proof (rule ccontr)
  assume no: "\<not> ?thesis"
  have v: "imPasswordVerify (sv_passwords sv) (imOf sv) (rr_path req ''user'') p \<noteq> Inr ()"
    if "\<nexists>u. fetch (imOf sv) (rr_path req ''user'') = Inr u \<and>
        bcryptCompare (sv_passwords sv) (EncryptedPassword (user_spec u)) p" for p
    using that by (auto simp: imPasswordVerify_def obind_Inr_iff ofRes_def PasswordVerify_def split: if_splits)
  have "fst s' = fst s"
    using assms(1) no v
    by (auto simp: ModifyPasswordHandler_def Let_def orFail_def ebind_def ecatch_def dest: handlerAuthorize_no_error
        split: sum.splits stop.splits option.splits if_splits prod.splits)
  with assms(2) show False by simp
qed

text \<open>The administrator of the concrete server may update users; another user may not.\<close>

definition adminInfo :: UserInfo where
  "adminInfo = \<lparr>ui_Name = ''admin'', ui_Groups = [], ui_Extra = []\<rparr>"

lemma adminApi_informers:
  "llist (globalRoleBindingsLister (sv_informers adminApi)) (cachedSelector anyLibs) =
     Inr [bindingFor ''admin'' PlatformAdmin iamGroup ResourceKindGlobalRole]"
  "nslist (k8sRoleBindings (sv_informers adminApi)) ns (cachedSelector anyLibs) = Inr []"
  "lget (globalRolesLister (sv_informers adminApi)) PlatformAdmin = Inr adminRole"
  using adminInformers_eval by (simp_all add: adminApi_def globalRoleBindingsLister_def globalRolesLister_def)

lemma adminApi_parts [simp]:
  "sv_rego adminApi = noRego" "sv_libs adminApi = anyLibs" "sv_clients adminApi = memClients"
  "as_NamePrefix adminApi = ''''"
  by (simp_all add: adminApi_def exampleApi_def)

lemma adminApi_authorizes:
  "\<exists>reason. handlerAuthorize adminApi (manageUsers resource adminInfo) = Inr (DecisionAllow, reason, None)"
proof -
  let ?a = "manageUsers resource adminInfo"
  have "cachedPermits noRego (NewReadOnlyOperator anyLibs (sv_informers adminApi))
      [bindingFor ''admin'' PlatformAdmin iamGroup ResourceKindGlobalRole] [] ?a"
    by (simp add: cachedPermits_def grants_def containsSubject_def bindingFor_def appliesToUser_def
        GetRoleReferenceRules_def Get_cached adminApi_informers rulesOfRole_def adminRole_def
        ruleAllows_def VerbMatches_def APIGroupMatches_def ResourceMatches_def ResourceNameMatches_def
        manageUsers_def kind_defs emptyMeta_def RegoOverrideAnnotation_def attr_User_def adminInfo_def)
  moreover have "attr_UserInfo ?a \<noteq> None" by (simp add: manageUsers_def)
  ultimately show ?thesis
    using rbacAuthorize_cached [OF anyLibs_sort _ adminApi_informers(1,2), of ?a "et adminApi" noRego]
    by (simp add: handlerAuthorize_def amOf_def)
qed

lemma adminApi_unbound:
  "n \<noteq> ''admin'' \<Longrightarrow> n \<noteq> '''' \<Longrightarrow> ListGlobalRoleBindings (amOf adminApi) n = Inr []"
  using listing_libs.ListGlobalRoleBindings_cached [OF anyLibs_listing adminApi_informers(1), of n]
  by (auto simp: amOf_def containsSubject_def bindingFor_def kind_defs)

lemma adminApi_binds:
  "CreateGlobalRoleBinding memClients (amOf adminApi) ''bob'' PlatformAdmin emptyCluster =
    (Inr (), emptyCluster\<lparr>c_globalRoleBindings := [bindingFor ''bob'' PlatformAdmin iamGroup ResourceKindGlobalRole]\<rparr>)"
proof -
  have g: "GetGlobalRole (amOf adminApi) PlatformAdmin = Inr adminRole"
    by (simp add: amOf_def Get_cached adminApi_informers ofRes_def)
  show ?thesis
    by (simp add: CreateGlobalRoleBinding_def g adminApi_unbound mem_eval bindingFor_def emptyMeta_def ofRes_def)
qed

theorem role_update_authorized_witness:
  "\<exists>s' reason. updateGlobalRoleBinding adminApi adminInfo (aliceUser\<lparr>user_meta := emptyMeta\<lparr>Name := ''bob''\<rparr>\<rparr>)
       PlatformAdmin ((emptyCluster, []), []) = (Inr (), s') \<and> fst (fst s') \<noteq> emptyCluster \<and>
     handlerAuthorize adminApi (manageUsers ResourcesPluralUser adminInfo) = Inr (DecisionAllow, reason, None)"
proof -
  let ?u = "aliceUser\<lparr>user_meta := emptyMeta\<lparr>Name := ''bob''\<rparr>\<rparr>"
  obtain reason where a: "handlerAuthorize adminApi (manageUsers ResourcesPluralUser adminInfo) = Inr (DecisionAllow, reason, None)"
    using adminApi_authorizes by blast
  have g: "GetGlobalRoleOfUser (amOf adminApi) ''bob'' = Inl (Err (NotFound ResourcesSingularGlobalRoleBinding ''bob''))"
    by (rule GetGlobalRoleOfUser_none) (simp add: adminApi_unbound)
  obtain s' where run: "updateGlobalRoleBinding adminApi adminInfo ?u PlatformAdmin ((emptyCluster, []), []) = (Inr (), s')"
      "fst (fst s') \<noteq> emptyCluster"
    by (simp add: updateGlobalRoleBinding_def ebind_def attempt_def ecatch_def g a onApi_def adminApi_binds emptyMeta_def)
      (simp add: emptyCluster_def)
  with role_update_authorized [OF run(1)] show ?thesis by auto
qed

definition adminUsers :: Cluster where
  "adminUsers = emptyCluster\<lparr>c_users := [\<lparr>user_meta = emptyMeta\<lparr>Name := ''admin''\<rparr>,
     user_spec = emptySpec\<lparr>EncryptedPassword := ''hash''\<rparr>, user_status = emptyStatus\<lparr>State := Some UserActive\<rparr>\<rparr>]\<rparr>"

theorem password_change_authorized_witness:
  "\<exists>s' operator. ModifyPasswordHandler adminApi ((userRequest ''admin'')\<lparr>rr_ctx := WithUser emptyContext adminInfo\<rparr>)
       (Inr \<lparr>pr_CurrentPassword = '''', pr_Password = ''new''\<rparr>) ((adminUsers, []), []) = (Inr (), s') \<and>
     fst (fst s') \<noteq> adminUsers \<and>
     UserFrom (rr_ctx ((userRequest ''admin'')\<lparr>rr_ctx := WithUser emptyContext adminInfo\<rparr>)) = Some operator"
proof -
  let ?req = "(userRequest ''admin'')\<lparr>rr_ctx := WithUser emptyContext adminInfo\<rparr>"
  let ?e = "Inr \<lparr>pr_CurrentPassword = '''', pr_Password = ''new''\<rparr>"
  obtain reason where a: "handlerAuthorize adminApi (manageUsers ''users/password'' adminInfo) = Inr (DecisionAllow, reason, None)"
    using adminApi_authorizes by blast
  have f: "fetch (imOf adminApi) ''admin'' = Inr \<lparr>user_meta = emptyMeta\<lparr>Name := ''admin''\<rparr>,
      user_spec = emptySpec\<lparr>EncryptedPassword := ''hash''\<rparr>, user_status = emptyStatus\<lparr>State := Some UserActive\<rparr>\<rparr>"
    by (simp add: imOf_def fetch_cached adminApi_def lister_eval emptyMeta_def ofRes_def)
  obtain s' where run: "ModifyPasswordHandler adminApi ?req ?e ((adminUsers, []), []) = (Inr (), s')"
      "fst (fst s') \<noteq> adminUsers"
    by (simp add: ModifyPasswordHandler_def userRequest_def UserFrom_def WithUser_def Let_def orFail_simps ofRes_def
        a finishWith_def ModifyPassword_def f onApi_def mem_eval adminUsers_def emptyMeta_def emptySpec_def attempt_def)
  with password_change_authorized [OF run(1)] show ?thesis by auto
qed

text \<open>
  Creating a user is not atomic: when the global role named in the annotation does not exist, the
  request is answered with the error although the account has been created and stays.
\<close>

theorem CreateUser_not_atomic:
  assumes "CreateUser (sv_clients sv) (withoutRoleAnnotation user0) api = (Inr created, api1)"
    and "lget (globalRolesLister (sv_informers sv))
      (as_NamePrefix sv @ mget (Annotations (user_meta user0)) GlobalRoleAnnotation) = Inl e"
  shows "CreateUserHandler sv (Inr user0) ((api, c), ws) = emptyError (et sv) (Some e) ((api1, c), ws)"
proof -
  have "CreateGlobalRoleBinding (sv_clients sv) (amOf sv) n
      (as_NamePrefix sv @ mget (Annotations (user_meta user0)) GlobalRoleAnnotation) w = (Inl (Err e), w)" for n w
    using assms(2) by (simp add: CreateGlobalRoleBinding_def amOf_def Get_cached ofRes_def ebind_def)
  then show ?thesis
    by (simp add: CreateUserHandler_def Let_def ofRes_def orFail_def ecatch_def onApi_def assms(1))
qed

theorem CreateUser_not_atomic_witness:
  "c_users (fst (fst (snd (CreateUserHandler exampleApi (Inr aliceUser) ((emptyCluster, []), []))))) =
    [withoutRoleAnnotation aliceUser]"
proof -
  have cr: "CreateUser (sv_clients exampleApi) (withoutRoleAnnotation aliceUser) emptyCluster =
      (Inr (withoutRoleAnnotation aliceUser), emptyCluster\<lparr>c_users := [withoutRoleAnnotation aliceUser]\<rparr>)"
    by (simp add: CreateUser_def mem_eval ofRes_def withoutRoleAnnotation_def aliceUser_def emptyMeta_def)
  obtain e where e: "lget (globalRolesLister (sv_informers exampleApi))
      (as_NamePrefix exampleApi @ mget (Annotations (user_meta aliceUser)) GlobalRoleAnnotation) = Inl e"
    by (simp add: exampleApi_def lister_eval)
  show ?thesis using CreateUser_not_atomic [OF cr e, of "[]" "[]"] by simp
qed

text \<open>
  Deleting a user looks at one role binding only: when the first binding found is not an admin one,
  the user is deleted although a later one may make it the manager of a namespace.
\<close>

theorem DeleteUser_checks_first_binding:
  assumes "UserFrom (rr_ctx req) = Some operator" and "rr_path req ''user'' \<noteq> ui_Name operator"
    and "GetRoleBindingOfUser (amOf sv) (rr_path req ''user'') = Inr (b # bs)"
    and "\<not> Contains (Name (binding_meta b)) ''-admin''"
  shows "DeleteUserHandler sv req s = finishWith sv (onApi (DeleteUser (sv_clients sv) (rr_path req ''user''))) s"
  using assms by (simp add: DeleteUserHandler_def Let_def orFail_simps)

definition operatorBinding :: BindingObj where
  "operatorBinding = (bindingFor ''alice'' ''operator'' rbacGroup ResourceKindRole)\<lparr>
     binding_meta := (binding_meta (bindingFor ''alice'' ''operator'' rbacGroup ResourceKindRole))\<lparr>Namespace := ''prod''\<rparr>\<rparr>"

definition operatorApi :: "(Cluster, cache) ApiServer" where
  "operatorApi = exampleApi\<lparr>sv_informers := emptyInformers\<lparr>
     k8sRoleBindings := listNsLister ''rolebinding'' binding_meta [operatorBinding]\<rparr>\<rparr>"

lemma operatorApi_binding: "GetRoleBindingOfUser (amOf operatorApi) ''alice'' = Inr [scrubBinding operatorBinding]"
proof -
  have l: "nslist (k8sRoleBindings (sv_informers operatorApi)) '''' (cachedSelector anyLibs) = Inr [operatorBinding]"
    by (simp add: operatorApi_def lister_eval cachedSelector_def)
  obtain items where items: "listItems (rolebindingsGetter anyLibs (sv_informers operatorApi)) '''' newQuery = Inr items"
      "mset items = mset (map (\<lambda>b. ORoleBinding (scrubBinding b)) [operatorBinding])"
    using listing_libs.listItems_rolebindings [OF anyLibs_listing l] by blast
  then show ?thesis
    by (simp add: GetRoleBindingOfUser_def amOf_def NewReadOnlyOperator_def operatorApi_def assertAs_def
        operatorBinding_def bindingFor_def mget_def mlookup_def)
qed

theorem DeleteUser_checks_first_binding_witness:
  "DeleteUserHandler operatorApi ((userRequest ''alice'')\<lparr>rr_ctx := WithUser emptyContext adminInfo\<rparr>)
      ((emptyCluster, []), []) =
    finishWith operatorApi (onApi (DeleteUser memClients ''alice'')) ((emptyCluster, []), [])"
proof -
  let ?req = "(userRequest ''alice'')\<lparr>rr_ctx := WithUser emptyContext adminInfo\<rparr>"
  have req: "UserFrom (rr_ctx ?req) = Some adminInfo" "rr_path ?req ''user'' = ''alice''"
    by (simp_all add: userRequest_def UserFrom_def WithUser_def)
  have n: "\<not> Contains (Name (binding_meta (scrubBinding operatorBinding))) ''-admin''"
  proof -
    have "Name (binding_meta (scrubBinding operatorBinding)) = ''alice-operator''"
      by (simp add: operatorBinding_def bindingFor_def)
    moreover have "\<not> Contains ''alice-operator'' ''-admin''" by code_simp
    ultimately show ?thesis by simp
  qed
  have c: "sv_clients operatorApi = memClients" by (simp add: operatorApi_def)
  show ?thesis
    using DeleteUser_checks_first_binding [OF req(1) _ _ n, of operatorApi "[]" "((emptyCluster, []), [])"] req(2) operatorApi_binding c
    by (simp add: adminInfo_def)
qed

end
