(* ===== verification/Reconciler.thy ===== *)
theory Reconciler
  imports Api_Client
begin

text \<open>
  What the controllers under \<open>pkg/controllers\<close> use of controller-runtime: a client per kind whose calls
  answer and change the state \<open>'w\<close> of the outside world, the reading of the clock, and the result of a
  reconciliation. The API server is outside the program: \<open>kubeStore\<close> states the documented behaviour
  of the verbs, seen through a function \<open>view\<close> from the world to the stored objects; \<open>memKube\<close> is an
  executable server with that behaviour. The locale \<open>object_reconciler\<close> is what every reconciler of the
  program promises when the object of its request cannot be read.
\<close>

section \<open>Clients\<close>

record ('o, 'w) KubeClient =
  kGet :: "string \<Rightarrow> string \<Rightarrow> 'w \<Rightarrow> (goerr + 'o) \<times> 'w"
  kList :: "(string \<times> string) list \<Rightarrow> 'w \<Rightarrow> (goerr + 'o list) \<times> 'w"
  kCreate :: "'o \<Rightarrow> 'w \<Rightarrow> (goerr + 'o) \<times> 'w"
  kUpdate :: "'o \<Rightarrow> 'w \<Rightarrow> (goerr + 'o) \<times> 'w"
  kStatusUpdate :: "'o \<Rightarrow> 'w \<Rightarrow> (goerr + 'o) \<times> 'w"
  kDelete :: "'o \<Rightarrow> 'w \<Rightarrow> (goerr + unit) \<times> 'w"
  kDeleteAllOf :: "string \<Rightarrow> (string \<times> string) list \<Rightarrow> 'w \<Rightarrow> (goerr + unit) \<times> 'w"

text \<open>
  \<open>client.MatchingLabels\<close> is the list argument; the string argument of \<open>kDeleteAllOf\<close> is
  \<open>client.InNamespace\<close>, empty when the option is not given. \<open>Hash\<close> is \<open>bcrypt.GenerateFromPassword\<close>,
  which draws a salt from the world, \<open>Cost\<close> is \<open>bcrypt.Cost\<close>, and \<open>SetOwner\<close> is
  \<open>controllerutil.SetControllerReference\<close> with the scheme of the manager.
\<close>

record 'w Manager =
  mUsers :: "(User, 'w) KubeClient"
  mRecords :: "(LoginRecord, 'w) KubeClient"
  mGlobalRoles :: "(RoleObj, 'w) KubeClient"
  mGlobalRoleBindings :: "(BindingObj, 'w) KubeClient"
  mRoleBindings :: "(BindingObj, 'w) KubeClient"
  mClusterRoleBindings :: "(BindingObj, 'w) KubeClient"
  mNamespaces :: "(NamespaceObj, 'w) KubeClient"
  Now :: "'w \<Rightarrow> time"
  Hash :: "string \<Rightarrow> 'w \<Rightarrow> (goerr + string) \<times> 'w"
  Cost :: "string \<Rightarrow> int \<times> goerr option"
  SetOwner :: "BindingObj \<Rightarrow> BindingObj \<Rightarrow> goerr + BindingObj"

record ReconcileResult =
  Requeue :: bool
  RequeueAfter :: duration

definition noResult :: ReconcileResult where
  "noResult = \<lparr>Requeue = False, RequeueAfter = 0\<rparr>"

type_synonym 'w reconcile = "string \<Rightarrow> string \<Rightarrow> ('w, ReconcileResult) eff"

section \<open>What a reconciler does without its object\<close>

text \<open>
  A request names an object that may be gone by now. Then there is nothing to do; when it cannot be
  read the error goes back to the queue.
\<close>

locale object_reconciler =
  fixes get :: "string \<Rightarrow> string \<Rightarrow> 'w \<Rightarrow> (goerr + 'o) \<times> 'w"
    and reconcile :: "'w reconcile"
  assumes missing: "get ns n w = (Inl e, w') \<Longrightarrow> IsNotFound e \<Longrightarrow> reconcile ns n w = (Inr noResult, w')"
    and unreadable: "get ns n w = (Inl e, w') \<Longrightarrow> \<not> IsNotFound e \<Longrightarrow> reconcile ns n w = (Inl (Err e), w')"
begin

lemma found:
  assumes "reconcile ns n w = (Inr r, w')" and "r \<noteq> noResult"
  obtains x w1 where "get ns n w = (Inr x, w1)"
proof (cases "get ns n w")
  case (Pair g w1)
  show ?thesis
  proof (cases g)
    case (Inl e)
    then show ?thesis using assms Pair by (cases "IsNotFound e") (simp_all add: missing unreadable)
  next
    case (Inr x)
    then show ?thesis using that Pair by simp
  qed
qed

lemma no_panic_unread: "fst (get ns n w) = Inl e \<Longrightarrow> \<not> panics (fst (reconcile ns n w))"
  by (cases "get ns n w"; cases "IsNotFound e") (simp_all add: missing unreadable)

lemma not_read:
  assumes "get ns n w = (Inl e, w')" shows "snd (reconcile ns n w) = w'"
  using assms by (cases "IsNotFound e") (simp_all add: missing unreadable)

end

section \<open>The documented behaviour of the verbs\<close>

definition matchingLabels :: "(string \<times> string) list \<Rightarrow> ObjectMeta \<Rightarrow> bool" where
  "matchingLabels ls m \<longleftrightarrow> list_all (\<lambda>(k, v). mlookup (Labels m) k = Some v) ls"

definition inScope :: "string \<Rightarrow> (string \<times> string) list \<Rightarrow> ObjectMeta \<Rightarrow> bool" where
  "inScope ns ls m \<longleftrightarrow> (ns = '''' \<or> Namespace m = ns) \<and> matchingLabels ls m"

definition marked :: "ObjectMeta \<Rightarrow> bool" where
  "marked m \<longleftrightarrow> DeletionTimestamp m \<noteq> None"

text \<open>
  Reading changes nothing and sees the stored objects; the client of the manager answers reads from a
  cache, and the law takes the cache to be up to date. An update that succeeds replaces the object of
  that name by an answer that has the relation \<open>kept\<close> to the object sent and the object stored before,
  or drops it when it was only waiting for its finalizers. Deleting everything in a scope leaves there at most
  objects that are marked for deletion, and brings no object back. A call that fails changes nothing,
  except that \<open>DeleteAllOf\<close> may have deleted a part.
\<close>

definition readsStore ::
  "('w \<Rightarrow> 'c) \<Rightarrow> ('c \<Rightarrow> 'o list) \<Rightarrow> ('o \<Rightarrow> ObjectMeta) \<Rightarrow> ('o, 'w) KubeClient \<Rightarrow> bool" where
  "readsStore view get md c \<longleftrightarrow>
     (\<forall>ns n w r w'. kGet c ns n w = (r, w') \<longrightarrow> view w' = view w \<and>
        (\<forall>x. r = Inr x \<longrightarrow> x \<in> set (get (view w)) \<and> sameKey md ns n x) \<and>
        (\<forall>e. r = Inl e \<longrightarrow> IsNotFound e \<longrightarrow> (\<forall>x \<in> set (get (view w)). \<not> sameKey md ns n x))) \<and>
     (\<forall>ls w r w'. kList c ls w = (r, w') \<longrightarrow> view w' = view w \<and>
        (\<forall>xs. r = Inr xs \<longrightarrow> xs = filter (matchingLabels ls \<circ> md) (get (view w))))"

definition replaced :: "('o \<Rightarrow> ObjectMeta) \<Rightarrow> 'o \<Rightarrow> 'o list \<Rightarrow> 'o list \<Rightarrow> bool" where
  "replaced md y xs xs' \<longleftrightarrow>
     (let rest = {z \<in> set xs. \<not> sameKey md (Namespace (md y)) (Name (md y)) z} in
      set xs' = insert y rest \<or> marked (md y) \<and> Finalizers (md y) = [] \<and> set xs' = rest)"

lemma replacedD:
  "replaced md y xs xs' \<Longrightarrow> x \<in> set xs' \<Longrightarrow>
     x = y \<or> x \<in> set xs \<and> \<not> sameKey md (Namespace (md y)) (Name (md y)) x"
  by (auto simp: replaced_def Let_def)

definition updatesStore ::
  "('o \<Rightarrow> 'o \<Rightarrow> 'o \<Rightarrow> bool) \<Rightarrow> ('w \<Rightarrow> 'c) \<Rightarrow> ('c \<Rightarrow> 'o list) \<Rightarrow> ('o list \<Rightarrow> 'c \<Rightarrow> 'c) \<Rightarrow>
   ('o \<Rightarrow> ObjectMeta) \<Rightarrow> ('o \<Rightarrow> 'w \<Rightarrow> (goerr + 'o) \<times> 'w) \<Rightarrow> bool" where
  "updatesStore kept view get put md call \<longleftrightarrow>
     (\<forall>x w r w'. call x w = (r, w') \<longrightarrow>
        (case r of
           Inl e \<Rightarrow> view w' = view w
         | Inr y \<Rightarrow> (\<exists>z \<in> set (get (view w)). sameKey md (Namespace (md x)) (Name (md x)) z \<and> kept x z y) \<and>
             sameKey md (Namespace (md x)) (Name (md x)) y \<and>
             (\<exists>xs. view w' = put xs (view w) \<and> replaced md y (get (view w)) xs)))"

definition deletesStore ::
  "('w \<Rightarrow> 'c) \<Rightarrow> ('c \<Rightarrow> 'o list) \<Rightarrow> ('o list \<Rightarrow> 'c \<Rightarrow> 'c) \<Rightarrow> ('o \<Rightarrow> ObjectMeta) \<Rightarrow>
   ('o, 'w) KubeClient \<Rightarrow> bool" where
  "deletesStore view get put md c \<longleftrightarrow>
     (\<forall>ns ls w r w'. kDeleteAllOf c ns ls w = (r, w') \<longrightarrow>
        (\<exists>xs. view w' = put xs (view w) \<and>
              (\<forall>x \<in> set xs. x \<in> set (get (view w)) \<or> marked (md x)) \<and>
              (r = Inr () \<longrightarrow> (\<forall>x \<in> set xs. inScope ns ls (md x) \<longrightarrow> marked (md x)))))"

lemma readsStore_getD:
  "readsStore view get md c \<Longrightarrow> kGet c ns n w = (r, w') \<Longrightarrow> view w' = view w"
  "readsStore view get md c \<Longrightarrow> kGet c ns n w = (Inr x, w') \<Longrightarrow> x \<in> set (get (view w)) \<and> sameKey md ns n x"
  "readsStore view get md c \<Longrightarrow> kGet c ns n w = (Inl e, w') \<Longrightarrow> IsNotFound e \<Longrightarrow>
    x \<in> set (get (view w)) \<Longrightarrow> \<not> sameKey md ns n x"
  unfolding readsStore_def by blast+

lemma readsStore_listD:
  "readsStore view get md c \<Longrightarrow> kList c ls w = (r, w') \<Longrightarrow> view w' = view w"
  "readsStore view get md c \<Longrightarrow> kList c ls w = (Inr xs, w') \<Longrightarrow> xs = filter (matchingLabels ls \<circ> md) (get (view w))"
  unfolding readsStore_def by blast+

lemma updatesStoreD:
  assumes "updatesStore kept view get put md call" and "call x w = (Inr y, w')"
  obtains z xs where "z \<in> set (get (view w))" and "sameKey md (Namespace (md x)) (Name (md x)) z" and "kept x z y"
    and "sameKey md (Namespace (md x)) (Name (md x)) y"
    and "view w' = put xs (view w)" and "replaced md y (get (view w)) xs"
  using assms unfolding updatesStore_def by fastforce

lemma updatesStore_failD:
  "updatesStore kept view get put md call \<Longrightarrow> call x w = (Inl e, w') \<Longrightarrow> view w' = view w"
  unfolding updatesStore_def by fastforce

lemma deletesStoreD:
  assumes "deletesStore view get put md c" and "kDeleteAllOf c ns ls w = (r, w')"
  obtains xs where "view w' = put xs (view w)" and "\<forall>x \<in> set xs. x \<in> set (get (view w)) \<or> marked (md x)"
    and "r = Inr () \<longrightarrow> (\<forall>x \<in> set xs. inScope ns ls (md x) \<longrightarrow> marked (md x))"
  using assms unfolding deletesStore_def by meson

section \<open>An in-memory server\<close>

text \<open>
  The world is a cluster and the time. \<open>get\<close> and \<open>put\<close> reach the collection of the kind; \<open>update\<close> and
  \<open>status\<close> make the new object from the one sent and the one stored.
\<close>

type_synonym memWorld = "Cluster \<times> time"

definition storeBack :: "('o \<Rightarrow> ObjectMeta) \<Rightarrow> 'o \<Rightarrow> 'o list \<Rightarrow> 'o list" where
  "storeBack md y xs =
     (let same = sameKey md (Namespace (md y)) (Name (md y)) in
      if marked (md y) \<and> Finalizers (md y) = [] then filter (\<lambda>z. \<not> same z) xs
      else map (\<lambda>z. if same z then y else z) xs)"

definition memUpdate ::
  "string \<Rightarrow> ('o \<Rightarrow> ObjectMeta) \<Rightarrow> ('o \<Rightarrow> 'o \<Rightarrow> 'o) \<Rightarrow> (Cluster \<Rightarrow> 'o list) \<Rightarrow>
   ('o list \<Rightarrow> Cluster \<Rightarrow> Cluster) \<Rightarrow> 'o \<Rightarrow> memWorld \<Rightarrow> (goerr + 'o) \<times> memWorld" where
  \<comment> \<open>\<open>merge sent stored\<close> is what becomes of the stored object\<close>
  "memUpdate res md merge get put x w =
     (case find (sameKey md (Namespace (md x)) (Name (md x))) (get (fst w)) of
        None \<Rightarrow> (Inl (NotFound res (Name (md x))), w)
      | Some z \<Rightarrow> (Inr (merge x z), (put (storeBack md (merge x z) (get (fst w))) (fst w), snd w)))"

definition memKube ::
  "string \<Rightarrow> ('o \<Rightarrow> ObjectMeta) \<Rightarrow> ('o \<Rightarrow> 'o \<Rightarrow> 'o) \<Rightarrow> ('o \<Rightarrow> 'o \<Rightarrow> 'o) \<Rightarrow> (Cluster \<Rightarrow> 'o list) \<Rightarrow>
   ('o list \<Rightarrow> Cluster \<Rightarrow> Cluster) \<Rightarrow> ('o, memWorld) KubeClient" where
  "memKube res md update status get put = \<lparr>
     kGet = (\<lambda>ns n w.
       case find (sameKey md ns n) (get (fst w)) of
         None \<Rightarrow> (Inl (NotFound res n), w) | Some x \<Rightarrow> (Inr x, w)),
     kList = (\<lambda>ls w. (Inr (filter (matchingLabels ls \<circ> md) (get (fst w))), w)),
     kCreate = (\<lambda>x w.
       if list_ex (sameKey md (Namespace (md x)) (Name (md x))) (get (fst w))
       then (Inl (AlreadyExists res (Name (md x))), w)
       else (Inr x, (put (get (fst w) @ [x]) (fst w), snd w))),
     kUpdate = memUpdate res md update get put,
     kStatusUpdate = memUpdate res md status get put,
     kDelete = (\<lambda>x w.
       (Inr (), (put (filter (\<lambda>z. \<not> sameKey md (Namespace (md x)) (Name (md x)) z) (get (fst w))) (fst w), snd w))),
     kDeleteAllOf = (\<lambda>ns ls w.
       (Inr (), (put (filter (\<lambda>z. \<not> inScope ns ls (md z) \<or> marked (md z)) (get (fst w))) (fst w), snd w)))\<rparr>"

definition userStatusFrom :: "User \<Rightarrow> User \<Rightarrow> User" where
  "userStatusFrom x z = z\<lparr>user_status := user_status x\<rparr>"

definition userUpdateFrom :: "User \<Rightarrow> User \<Rightarrow> User" where
  "userUpdateFrom x z = x\<lparr>user_status := user_status z,
     user_meta := (user_meta x)\<lparr>DeletionTimestamp := DeletionTimestamp (user_meta z)\<rparr>\<rparr>"

text \<open>A toy hash that has the property the code relies on: hashes are recognised, other strings are not.\<close>

definition memManager :: "memWorld Manager" where
  "memManager = \<lparr>
     mUsers = memKube ''users'' user_meta userUpdateFrom userStatusFrom c_users (\<lambda>xs c. c\<lparr>c_users := xs\<rparr>),
     mRecords = memKube ''loginrecords'' record_meta (\<lambda>x z. x) (\<lambda>x z. z) c_records (\<lambda>xs c. c\<lparr>c_records := xs\<rparr>),
     mGlobalRoles = memKube ''globalroles'' role_meta (\<lambda>x z. x) (\<lambda>x z. z) c_globalRoles (\<lambda>xs c. c\<lparr>c_globalRoles := xs\<rparr>),
     mGlobalRoleBindings = memKube ''globalrolebindings'' binding_meta (\<lambda>x z. x) (\<lambda>x z. z) c_globalRoleBindings
       (\<lambda>xs c. c\<lparr>c_globalRoleBindings := xs\<rparr>),
     mRoleBindings = memKube ''rolebindings'' binding_meta (\<lambda>x z. x) (\<lambda>x z. z) c_roleBindings
       (\<lambda>xs c. c\<lparr>c_roleBindings := xs\<rparr>),
     mClusterRoleBindings = memKube ''clusterrolebindings'' binding_meta (\<lambda>x z. x) (\<lambda>x z. z) c_clusterRoleBindings
       (\<lambda>xs c. c\<lparr>c_clusterRoleBindings := xs\<rparr>),
     mNamespaces = memKube ''namespaces'' ns_meta (\<lambda>x z. x) (\<lambda>x z. z) c_namespaces (\<lambda>xs c. c\<lparr>c_namespaces := xs\<rparr>),
     Now = snd,
     Hash = (\<lambda>s w. (Inr (''$2a$'' @ s), w)),
     Cost = (\<lambda>s. if HasPrefix s ''$2a$'' then (10, None) else (0, Some (Ext ''crypto/bcrypt: hashedSecret too short''))),
     SetOwner = (\<lambda>owner x. Inr (x\<lparr>binding_meta := (binding_meta x)\<lparr>
       OwnerReferences := [\<lparr>owner_Kind = ''GlobalRoleBinding'', owner_UID = UID (binding_meta owner)\<rparr>]\<rparr>\<rparr>))\<rparr>"

lemma memKube_reads:
  "readsStore fst get md (memKube res md update status get put)"
  by (auto simp: readsStore_def memKube_def find_Some_iff find_None_iff split: option.splits)

lemma memUpdate_updates:
  assumes kept: "\<And>x z. sameKey md (Namespace (md x)) (Name (md x)) z \<Longrightarrow> kept x z (merge x z)"
    and key: "\<And>x z. sameKey md (Namespace (md x)) (Name (md x)) z \<Longrightarrow>
      Namespace (md (merge x z)) = Namespace (md x) \<and> Name (md (merge x z)) = Name (md x)"
  shows "updatesStore kept fst get put md (memUpdate res md merge get put)"
  unfolding updatesStore_def
proof (intro allI impI)
  fix x :: 'a and w r w'
  assume call: "memUpdate res md merge get put x w = (r, w')"
  let ?k = "sameKey md (Namespace (md x)) (Name (md x))"
  show "case r of Inl e \<Rightarrow> fst w' = fst w
    | Inr y \<Rightarrow> (\<exists>z \<in> set (get (fst w)). ?k z \<and> kept x z y) \<and> ?k y \<and>
        (\<exists>xs. fst w' = put xs (fst w) \<and> replaced md y (get (fst w)) xs)"
  proof (cases "find ?k (get (fst w))")
    case None
    then show ?thesis using call by (auto simp: memUpdate_def)
  next
    case (Some z)
    let ?y = "merge x z"
    have z: "?k z" "z \<in> set (get (fst w))" using Some by (auto simp: find_Some_iff)
    have "replaced md ?y (get (fst w)) (storeBack md ?y (get (fst w)))"
      using z key [OF z(1)] by (auto simp: replaced_def storeBack_def Let_def)
    moreover have "?k ?y" using key [OF z(1)] by (simp add: sameKey_def)
    ultimately show ?thesis using call Some kept [OF z(1)] z by (auto simp: memUpdate_def)
  qed
qed

lemma memKube_deletes: "deletesStore fst get put md (memKube res md update status get put)"
  unfolding deletesStore_def by (auto simp: memKube_def)

definition deletesOne ::
  "('w \<Rightarrow> 'c) \<Rightarrow> ('c \<Rightarrow> 'o list) \<Rightarrow> ('o list \<Rightarrow> 'c \<Rightarrow> 'c) \<Rightarrow> ('o \<Rightarrow> ObjectMeta) \<Rightarrow>
   ('o, 'w) KubeClient \<Rightarrow> bool" where
  \<comment> \<open>a deletion removes the object of the name, or marks it; it leaves the others\<close>
  "deletesOne view get put md c \<longleftrightarrow>
     (\<forall>x w r w'. kDelete c x w = (r, w') \<longrightarrow>
        (case r of
           Inl e \<Rightarrow> view w' = view w
         | Inr _ \<Rightarrow> (\<exists>xs. view w' = put xs (view w) \<and>
             (\<forall>z. \<not> sameKey md (Namespace (md x)) (Name (md x)) z \<longrightarrow> z \<in> set xs \<longleftrightarrow> z \<in> set (get (view w))) \<and>
             (\<forall>z \<in> set xs. sameKey md (Namespace (md x)) (Name (md x)) z \<longrightarrow> marked (md z)))))"

lemma deletesOneD:
  assumes "deletesOne view get put md c" and "kDelete c x w = (r, w')"
  shows "view w' = view w \<or> (\<exists>xs. view w' = put xs (view w))"
  using assms unfolding deletesOne_def by (cases r) fastforce+

lemma memKube_deletesOne: "deletesOne fst get put md (memKube res md update status get put)"
  unfolding deletesOne_def by (auto simp: memKube_def)

definition createsStore ::
  "('o \<Rightarrow> 'o \<Rightarrow> bool) \<Rightarrow> ('w \<Rightarrow> 'c) \<Rightarrow> ('c \<Rightarrow> 'o list) \<Rightarrow> ('o list \<Rightarrow> 'c \<Rightarrow> 'c) \<Rightarrow> ('o, 'w) KubeClient \<Rightarrow> bool" where
  "createsStore kept view get put c \<longleftrightarrow>
     (\<forall>x w r w'. kCreate c x w = (r, w') \<longrightarrow>
        (case r of Inl e \<Rightarrow> view w' = view w
         | Inr y \<Rightarrow> kept x y \<and> view w' = put (get (view w) @ [y]) (view w)))"

lemma createsStoreD:
  "createsStore kept view get put c \<Longrightarrow> kCreate c x w = (Inr y, w') \<Longrightarrow>
     kept x y \<and> view w' = put (get (view w) @ [y]) (view w)"
  "createsStore kept view get put c \<Longrightarrow> kCreate c x w = (Inl e, w') \<Longrightarrow> view w' = view w"
  unfolding createsStore_def by fastforce+

lemma memKube_creates:
  "(\<And>x. kept x x) \<Longrightarrow> createsStore kept fst get put (memKube res md update status get put)"
  unfolding createsStore_def by (auto simp: memKube_def)

text \<open>What concrete runs on \<open>memManager\<close> unfold.\<close>

lemmas memKube_eval = memManager_def memKube_def memUpdate_def storeBack_def sameKey_def matchingLabels_def
  userStatusFrom_def userUpdateFrom_def ebind_def ecall_def ecatch_def

end
