(* ===== verification/User_Controller.thy ===== *)
theory User_Controller
  imports Reconciler Slice_Utils Password_Auth
begin

text \<open>
  The user controller, \<open>pkg/controllers/user/user_controller.go\<close>: it puts a finalizer on every user,
  hashes a password that was stored in plain text, keeps the state of the account, and cleans up the
  bindings and login records of a deleted user before it lets the user go. The state of an account is
  a state machine, \<open>statusStep\<close>, that \<open>syncUserStatus\<close> refines.
\<close>

section \<open>The reconciler\<close>

definition finalizer :: string where "finalizer = ''finalizers.ai.io/users''"

definition isEncrypted :: "'w Manager \<Rightarrow> string \<Rightarrow> bool" where
  "isEncrypted m password = (case Cost m password of (cost, _) \<Rightarrow> cost > 0)"

definition userLabels :: "User \<Rightarrow> (string \<times> string) list" where
  "userLabels user = [(UserReferenceLabel, Name (user_meta user))]"

fun deleteInNamespaces :: "'w Manager \<Rightarrow> User \<Rightarrow> NamespaceObj list \<Rightarrow> ('w, unit) eff" where
  "deleteInNamespaces m user [] = eret ()"
| "deleteInNamespaces m user (namespace # rest) =
     ebind (ecall (kDeleteAllOf (mRoleBindings m) (Name (ns_meta namespace)) (userLabels user)))
       (\<lambda>_. deleteInNamespaces m user rest)"

definition deleteRoleBindings :: "'w Manager \<Rightarrow> User \<Rightarrow> ('w, unit) eff" where
  "deleteRoleBindings m user =
     ebind (ecall (kDeleteAllOf (mGlobalRoleBindings m) '''' (userLabels user))) (\<lambda>_.
     ebind (ecall (kList (mNamespaces m) [])) (\<lambda>namespaces.
     deleteInNamespaces m user namespaces))"

definition deleteLoginRecords :: "'w Manager \<Rightarrow> User \<Rightarrow> ('w, unit) eff" where
  "deleteLoginRecords m user =
     ebind (ecall (kDeleteAllOf (mRecords m) '''' (userLabels user))) (\<lambda>_. eret ())"

definition hashedUser :: "string \<Rightarrow> User \<Rightarrow> User" where
  "hashedUser password user =
     user\<lparr>user_spec := (user_spec user)\<lparr>EncryptedPassword := password\<rparr>,
          user_meta := (user_meta user)\<lparr>Annotations :=
            mdelete (mensure (Annotations (user_meta user))) lastAppliedAnnotation\<rparr>\<rparr>"

definition encryptPassword :: "'w Manager \<Rightarrow> User \<Rightarrow> ('w, unit) eff" where
  "encryptPassword m user =
     (let pw = EncryptedPassword (user_spec user) in
      if pw \<noteq> '''' \<and> \<not> isEncrypted m pw then
        ebind (ecall (Hash m pw)) (\<lambda>password.
        ebind (ecall (kUpdate (mUsers m) (hashedUser password user))) (\<lambda>_. eret ()))
      else eret ())"

definition activeStatus :: "time \<Rightarrow> UserStatus" where
  "activeStatus t = emptyStatus\<lparr>State := Some UserActive, LastTransitionTime := Some t\<rparr>"

definition limitedStatus :: "nat \<Rightarrow> time \<Rightarrow> UserStatus" where
  "limitedStatus n t = emptyStatus\<lparr>State := Some UserAuthLimitExceeded,
     status_Reason := ''Failed login attempts exceed '' @ FormatInt (int n) @ '' in last 10min'',
     LastTransitionTime := Some t\<rparr>"

definition recentFailure :: "time \<Rightarrow> LoginRecord \<Rightarrow> bool" where
  "recentFailure now r \<longleftrightarrow>
     \<not> Success (record_spec r) \<and> CreationTimestamp (record_meta r) + 10 * Minute > now"

definition sendStatus :: "'w Manager \<Rightarrow> User \<Rightarrow> (time \<Rightarrow> UserStatus) \<Rightarrow> ('w, unit) eff" where
  "sendStatus m user status w =
     ebind (ecall (kStatusUpdate (mUsers m) (user\<lparr>user_status := status (Now m w)\<rparr>))) (\<lambda>_. eret ()) w"

definition unblocked :: "time \<Rightarrow> UserStatus \<Rightarrow> bool" where
  "unblocked now s \<longleftrightarrow> State s = Some UserAuthLimitExceeded \<and>
     (case LastTransitionTime s of None \<Rightarrow> False | Some t \<Rightarrow> t + 10 * Minute < now)"

definition syncUserStatus :: "'w Manager \<Rightarrow> User \<Rightarrow> ('w, unit) eff" where
  "syncUserStatus m user w =
     (if State (user_status user) = Some UserDisabled then eret () w
      else if isEncrypted m (EncryptedPassword (user_spec user)) \<and> State (user_status user) = None
      then sendStatus m user activeStatus w
      else if unblocked (Now m w) (user_status user) then sendStatus m user activeStatus w
      else
        ebind (ecall (kList (mRecords m) (userLabels user))) (\<lambda>records w1.
          let failedLoginAttempts = length (filter (recentFailure (Now m w1)) records) in
          if failedLoginAttempts \<ge> 10 then sendStatus m user (limitedStatus failedLoginAttempts) w1
          else eret () w1) w)"

definition withFinalizer :: "User \<Rightarrow> User" where
  "withFinalizer user = user\<lparr>user_meta := (user_meta user)\<lparr>
     Finalizers := Finalizers (user_meta user) @ [finalizer]\<rparr>\<rparr>"

definition withoutFinalizer :: "User \<Rightarrow> User" where
  "withoutFinalizer user = user\<lparr>user_meta := (user_meta user)\<lparr>
     Finalizers := RemoveString (Finalizers (user_meta user)) (\<lambda>item. item = finalizer)\<rparr>\<rparr>"

definition deleteUser :: "'w Manager \<Rightarrow> User \<Rightarrow> ('w, ReconcileResult) eff" where
  \<comment> \<open>the branch of a user with a deletion timestamp\<close>
  "deleteUser m user =
     (if HasString (Finalizers (user_meta user)) finalizer then
        ebind (deleteRoleBindings m user) (\<lambda>_.
        ebind (deleteLoginRecords m user) (\<lambda>_.
        ebind (ecall (kUpdate (mUsers m) (withoutFinalizer user))) (\<lambda>_. eret noResult)))
      else eret noResult)"

definition ensureFinalizer :: "'w Manager \<Rightarrow> User \<Rightarrow> ('w, User) eff" where
  \<comment> \<open>\<open>Update\<close> decodes the answer into the user it was given\<close>
  "ensureFinalizer m user =
     (if \<not> HasString (Finalizers (user_meta user)) finalizer
      then ecall (kUpdate (mUsers m) (withFinalizer user)) else eret user)"

definition UserReconcile :: "'w Manager \<Rightarrow> 'w reconcile" where
  "UserReconcile m ns n =
     ecatch (ecall (kGet (mUsers m) ns n))
       (\<lambda>err. if IsNotFound err then eret noResult else eerr err)
       (\<lambda>user.
          if DeletionTimestamp (user_meta user) = None then
            ebind (ensureFinalizer m user) (\<lambda>user.
            ebind (encryptPassword m user) (\<lambda>_.
            ebind (syncUserStatus m user) (\<lambda>_. eret noResult)))
          else deleteUser m user)"

lemma UserReconcile_missing: "kGet (mUsers m) ns n w = (Inl e, w') \<Longrightarrow>
    UserReconcile m ns n w = (if IsNotFound e then (Inr noResult, w') else (Inl (Err e), w'))"
  by (simp add: UserReconcile_def ecatch_def ecall_def)

interpretation user_reconciler: object_reconciler "kGet (mUsers m)" "UserReconcile m" for m :: "'w Manager"
  by unfold_locales (simp_all add: UserReconcile_missing)

section \<open>The state machine of an account\<close>

inductive statusStep :: "bool \<Rightarrow> time \<Rightarrow> nat \<Rightarrow> time \<Rightarrow> UserStatus \<Rightarrow> UserStatus \<Rightarrow> bool"
  for hashed :: bool and start :: time and failures :: nat and now :: time where
  activate: "hashed \<Longrightarrow> State s = None \<Longrightarrow> statusStep hashed start failures now s (activeStatus start)"
| unblock: "unblocked start s \<Longrightarrow> statusStep hashed start failures now s (activeStatus start)"
| block: "State s \<noteq> Some UserDisabled \<Longrightarrow> \<not> (hashed \<and> State s = None) \<Longrightarrow> \<not> unblocked start s \<Longrightarrow> failures \<ge> 10 \<Longrightarrow>
    statusStep hashed start failures now s (limitedStatus failures now)"

inductive_simps statusStep_iff: "statusStep hashed start failures now s s'"
inductive_cases statusStepE: "statusStep hashed start failures now s s'"

text \<open>The failed logins of a user that the server has stored and that are less than ten minutes old.\<close>

definition recentFailures :: "User \<Rightarrow> time \<Rightarrow> Cluster \<Rightarrow> nat" where
  "recentFailures user now c =
     length (filter (\<lambda>rec. mlookup (Labels (record_meta rec)) UserReferenceLabel = Some (Name (user_meta user)) \<and>
       \<not> Success (record_spec rec) \<and> now - CreationTimestamp (record_meta rec) < 10 * Minute) (c_records c))"

lemmas status_simps = activeStatus_def limitedStatus_def emptyStatus_def

lemma statusStep_disabled: "State s = Some UserDisabled \<Longrightarrow> \<not> statusStep hashed start failures now s s'"
  by (auto simp: statusStep_iff unblocked_def state_defs)

text \<open>What the server is taken to do for the users, the bindings and the records.\<close>

definition keptUser :: "User \<Rightarrow> User \<Rightarrow> User \<Rightarrow> bool" where
  \<comment> \<open>the status is a subresource: an update of the user leaves it, and the other way round\<close>
  "keptUser x z y \<longleftrightarrow> user_spec y = user_spec x \<and> user_status y = user_status z \<and>
     Annotations (user_meta y) = Annotations (user_meta x) \<and>
     Finalizers (user_meta y) = Finalizers (user_meta x) \<and>
     DeletionTimestamp (user_meta y) = DeletionTimestamp (user_meta z)"

definition keptUserStatus :: "User \<Rightarrow> User \<Rightarrow> User \<Rightarrow> bool" where
  "keptUserStatus x z y \<longleftrightarrow> user_status y = user_status x \<and> user_spec y = user_spec z \<and>
     Annotations (user_meta y) = Annotations (user_meta z) \<and>
     Finalizers (user_meta y) = Finalizers (user_meta z) \<and>
     DeletionTimestamp (user_meta y) = DeletionTimestamp (user_meta z)"

definition putUsers :: "User list \<Rightarrow> Cluster \<Rightarrow> Cluster" where "putUsers xs c = c\<lparr>c_users := xs\<rparr>"

definition managed :: "('w \<Rightarrow> Cluster) \<Rightarrow> 'w Manager \<Rightarrow> bool" where
  "managed view m \<longleftrightarrow>
     readsStore view c_users user_meta (mUsers m) \<and>
     updatesStore keptUser view c_users putUsers user_meta (kUpdate (mUsers m)) \<and>
     updatesStore keptUserStatus view c_users putUsers user_meta (kStatusUpdate (mUsers m)) \<and>
     readsStore view c_records record_meta (mRecords m) \<and>
     readsStore view c_namespaces ns_meta (mNamespaces m) \<and>
     deletesStore view c_records (\<lambda>xs c. c\<lparr>c_records := xs\<rparr>) record_meta (mRecords m) \<and>
     deletesStore view c_globalRoleBindings (\<lambda>xs c. c\<lparr>c_globalRoleBindings := xs\<rparr>) binding_meta
       (mGlobalRoleBindings m) \<and>
     deletesStore view c_roleBindings (\<lambda>xs c. c\<lparr>c_roleBindings := xs\<rparr>) binding_meta (mRoleBindings m) \<and>
     (\<forall>s w. view (snd (Hash m s w)) = view w) \<and>
     (\<forall>s w p w'. Hash m s w = (Inr p, w') \<longrightarrow> isEncrypted m p)"

lemma managedD:
  assumes "managed view m"
  shows "readsStore view c_users user_meta (mUsers m)"
    "updatesStore keptUser view c_users putUsers user_meta (kUpdate (mUsers m))"
    "updatesStore keptUserStatus view c_users putUsers user_meta (kStatusUpdate (mUsers m))"
    "readsStore view c_records record_meta (mRecords m)"
    "readsStore view c_namespaces ns_meta (mNamespaces m)"
    "deletesStore view c_records (\<lambda>xs c. c\<lparr>c_records := xs\<rparr>) record_meta (mRecords m)"
    "deletesStore view c_globalRoleBindings (\<lambda>xs c. c\<lparr>c_globalRoleBindings := xs\<rparr>) binding_meta (mGlobalRoleBindings m)"
    "deletesStore view c_roleBindings (\<lambda>xs c. c\<lparr>c_roleBindings := xs\<rparr>) binding_meta (mRoleBindings m)"
    "\<And>s w. view (snd (Hash m s w)) = view w"
    "\<And>s w p w'. Hash m s w = (Inr p, w') \<Longrightarrow> isEncrypted m p"
  using assms unfolding managed_def by blast+

lemma memManager_managed: "managed fst memManager"
  unfolding managed_def
  by (intro conjI)
     (simp_all add: memManager_def memKube_reads memKube_deletes isEncrypted_def HasPrefix_def,
      (simp add: memKube_def putUsers_def [abs_def], rule memUpdate_updates;
       simp add: keptUser_def keptUserStatus_def userUpdateFrom_def userStatusFrom_def sameKey_def)+)

section \<open>The branches\<close>

text \<open>
  What a call may do to the stored user of a key: nothing, or put \<open>y\<close> in its place (or drop it), where
  \<open>y\<close> is related to the user \<open>z\<close> that was stored.
\<close>

definition putOne :: "(User \<Rightarrow> User \<Rightarrow> bool) \<Rightarrow> string \<Rightarrow> string \<Rightarrow> Cluster \<Rightarrow> Cluster \<Rightarrow> bool" where
  "putOne P ns n c c' \<longleftrightarrow>
     (\<exists>z y xs. z \<in> set (c_users c) \<and> sameKey user_meta ns n z \<and> sameKey user_meta ns n y \<and> P z y \<and>
        c' = putUsers xs c \<and> replaced user_meta y (c_users c) xs)"

definition rewritten :: "(User \<Rightarrow> User \<Rightarrow> bool) \<Rightarrow> string \<Rightarrow> string \<Rightarrow> Cluster \<Rightarrow> Cluster \<Rightarrow> bool" where
  "rewritten P ns n c c' \<longleftrightarrow> c' = c \<or> putOne P ns n c c'"

lemma putOneI:
  assumes "z \<in> set (c_users c)" "sameKey user_meta ns n z" "sameKey user_meta ns n y" "P z y"
    "c' = putUsers xs c" "replaced user_meta y (c_users c) xs"
  shows "putOne P ns n c c'"
  using assms unfolding putOne_def by blast

lemma putOne_mono: "putOne P ns n c c' \<Longrightarrow> (\<And>z y. P z y \<Longrightarrow> Q z y) \<Longrightarrow> putOne Q ns n c c'"
  unfolding putOne_def by blast

lemma rewrittenI:
  assumes "z \<in> set (c_users c)" "sameKey user_meta ns n z" "sameKey user_meta ns n y" "P z y"
    "c' = putUsers xs c" "replaced user_meta y (c_users c) xs"
  shows "rewritten P ns n c c'"
  using assms unfolding rewritten_def putOne_def by blast

lemma rewritten_mono: "rewritten P ns n c c' \<Longrightarrow> (\<And>z y. P z y \<Longrightarrow> Q z y) \<Longrightarrow> rewritten Q ns n c c'"
  unfolding rewritten_def using putOne_mono by blast

lemma rewritten_stored:
  assumes "rewritten P ns n c c'" and "u \<in> set (c_users c')" and "sameKey user_meta ns n u"
  shows "u \<in> set (c_users c) \<or> (\<exists>z \<in> set (c_users c). sameKey user_meta ns n z \<and> P z u)"
proof (cases "c' = c")
  case True
  then show ?thesis using assms(2) by simp
next
  case False
  with assms(1) obtain z y xs where z: "z \<in> set (c_users c)" "sameKey user_meta ns n z" "P z y"
    and c': "c' = putUsers xs c" and r: "replaced user_meta y (c_users c) xs"
    unfolding rewritten_def putOne_def by blast
  have "u \<in> set xs" using assms(2) c' by (simp add: putUsers_def)
  from replacedD [OF r this] z show ?thesis by blast
qed

lemma encryptPassword_rewritten:
  assumes M: "managed view m" and ok: "encryptPassword m user w = (Inr (), w')"
  shows "rewritten (\<lambda>z y. isEncrypted m (EncryptedPassword (user_spec y)) \<and>
      mget (Annotations (user_meta y)) lastAppliedAnnotation = '''' \<and> user_status y = user_status z)
    (Namespace (user_meta user)) (Name (user_meta user)) (view w) (view w')"
proof (cases "EncryptedPassword (user_spec user) \<noteq> '''' \<and> \<not> isEncrypted m (EncryptedPassword (user_spec user))")
  case False
  then show ?thesis using ok by (auto simp: encryptPassword_def Let_def rewritten_def)
next
  case True
  with ok obtain p w1 y where h: "Hash m (EncryptedPassword (user_spec user)) w = (Inr p, w1)"
    and u: "kUpdate (mUsers m) (hashedUser p user) w1 = (Inr y, w')"
    by (auto simp: encryptPassword_def Let_def ebind_Inr_iff ecall_Inr_iff)
  have v: "view w1 = view w" using managedD(9) [OF M] h by (metis snd_conv)
  have e: "isEncrypted m p" by (rule managedD(10) [OF M h])
  from updatesStoreD [OF managedD(2) [OF M] u] obtain z xs where "z \<in> set (c_users (view w1))"
    "sameKey user_meta (Namespace (user_meta user)) (Name (user_meta user)) z"
    "keptUser (hashedUser p user) z y"
    "sameKey user_meta (Namespace (user_meta user)) (Name (user_meta user)) y"
    "view w' = putUsers xs (view w1)" "replaced user_meta y (c_users (view w1)) xs"
    by (auto simp: hashedUser_def)
  note this [unfolded v]
  from rewrittenI [OF this(1,2,4) _ this(5,6)] this(3) e show ?thesis
    by (simp add: keptUser_def hashedUser_def)
qed

lemma encryptPassword_plain:
  assumes M: "managed view m" and ok: "encryptPassword m user w = (Inr (), w')"
    and plain: "EncryptedPassword (user_spec user) \<noteq> ''''" "\<not> isEncrypted m (EncryptedPassword (user_spec user))"
    and u: "u \<in> set (c_users (view w'))" "sameKey user_meta (Namespace (user_meta user)) (Name (user_meta user)) u"
  shows "isEncrypted m (EncryptedPassword (user_spec u)) \<and> mget (Annotations (user_meta u)) lastAppliedAnnotation = ''''"
proof -
  from ok plain obtain p w1 y where h: "Hash m (EncryptedPassword (user_spec user)) w = (Inr p, w1)"
    and up: "kUpdate (mUsers m) (hashedUser p user) w1 = (Inr y, w')"
    by (auto simp: encryptPassword_def Let_def ebind_Inr_iff ecall_Inr_iff)
  have e: "isEncrypted m p" by (rule managedD(10) [OF M h])
  obtain z xs where k: "keptUser (hashedUser p user) z y"
    and y: "sameKey user_meta (Namespace (user_meta (hashedUser p user))) (Name (user_meta (hashedUser p user))) y"
    and v: "view w' = putUsers xs (view w1)" and r: "replaced user_meta y (c_users (view w1)) xs"
    by (rule updatesStoreD [OF managedD(2) [OF M] up])
  have "u \<in> set xs" using u(1) v by (simp add: putUsers_def)
  from replacedD [OF r this] have "u = y" using y u(2) by (auto simp: sameKey_def hashedUser_def)
  then show ?thesis using k e by (simp add: keptUser_def hashedUser_def)
qed

lemma sendStatus_outcome:
  assumes M: "managed view m" and s: "sendStatus m user status w = (r, w')"
  shows "view w' = view w \<and> \<not> isOk r \<or>
    r = Inr () \<and> putOne (\<lambda>z y. user_status y = status (Now m w) \<and> user_spec y = user_spec z)
      (Namespace (user_meta user)) (Name (user_meta user)) (view w) (view w')"
proof -
  let ?x = "user\<lparr>user_status := status (Now m w)\<rparr>"
  obtain g w1 where g: "kStatusUpdate (mUsers m) ?x w = (g, w1)" by fastforce
  show ?thesis
  proof (cases g)
    case (Inl e)
    then show ?thesis using s g updatesStore_failD [OF managedD(3) [OF M]]
      by (auto simp: sendStatus_def ebind_def ecall_def)
  next
    case (Inr y)
    with g have "kStatusUpdate (mUsers m) ?x w = (Inr y, w1)" by simp
    from updatesStoreD [OF managedD(3) [OF M] this] obtain z xs where "z \<in> set (c_users (view w))"
      "sameKey user_meta (Namespace (user_meta user)) (Name (user_meta user)) z" "keptUserStatus ?x z y"
      "sameKey user_meta (Namespace (user_meta user)) (Name (user_meta user)) y"
      "view w1 = putUsers xs (view w)" "replaced user_meta y (c_users (view w)) xs" by auto
    from putOneI [OF this(1,2,4) _ this(5,6)] this(3)
    have "putOne (\<lambda>z y. user_status y = status (Now m w) \<and> user_spec y = user_spec z)
      (Namespace (user_meta user)) (Name (user_meta user)) (view w) (view w1)"
      by (simp add: keptUserStatus_def)
    moreover have "w' = w1 \<and> r = Inr ()" using s g Inr by (auto simp: sendStatus_def ebind_def ecall_def)
    ultimately show ?thesis by simp
  qed
qed

text \<open>
  One round of \<open>syncUserStatus\<close> sends the status of an enabled step, at a time when the server is as it
  was, or sends nothing; then a call failed or no step is enabled.
\<close>

lemma recentFailures_listed:
  assumes M: "managed view m" and l: "kList (mRecords m) (userLabels user) w = (Inr records, w1)"
  shows "length (filter (recentFailure now) records) = recentFailures user now (view w)"
proof -
  have "records = filter (matchingLabels (userLabels user) \<circ> record_meta) (c_records (view w))"
    by (rule readsStore_listD(2) [OF managedD(4) [OF M] l])
  moreover have "t < i + 10 * Minute \<longleftrightarrow> t - i < 10 * Minute" for t i :: int by linarith
  ultimately show ?thesis
    by (simp add: recentFailures_def recentFailure_def matchingLabels_def userLabels_def conj_assoc)
qed

lemma syncUserStatus_sends:
  assumes M: "managed view m" and s: "syncUserStatus m user w = (r, w')"
  shows "\<exists>w1. view w1 = view w \<and>
    (view w' = view w \<and> (isOk r \<longrightarrow> (\<forall>s'. \<not> statusStep (isEncrypted m (EncryptedPassword (user_spec user))) (Now m w)
        (recentFailures user (Now m w1) (view w)) (Now m w1) (user_status user) s')) \<or>
     (\<exists>status w2. view w2 = view w \<and> sendStatus m user status w2 = (r, w') \<and>
       statusStep (isEncrypted m (EncryptedPassword (user_spec user))) (Now m w)
        (recentFailures user (Now m w1) (view w)) (Now m w1) (user_status user) (status (Now m w2))))"
    (is "\<exists>w1. ?at w1")
proof (cases "State (user_status user) = Some UserDisabled")
  case True
  then have "?at w" using s statusStep_disabled by (auto simp: syncUserStatus_def)
  then show ?thesis by blast
next
  case enabled: False
  show ?thesis
  proof (cases "isEncrypted m (EncryptedPassword (user_spec user)) \<and> State (user_status user) = None \<or>
      unblocked (Now m w) (user_status user)")
    case True
    then have "sendStatus m user activeStatus w = (r, w')"
      using s enabled by (auto simp: syncUserStatus_def split: if_splits)
    moreover have "statusStep (isEncrypted m (EncryptedPassword (user_spec user))) (Now m w) failures now
        (user_status user) (activeStatus (Now m w))" for failures now
      using True by (auto intro: statusStep.intros)
    ultimately have "?at w" by blast
    then show ?thesis by blast
  next
    case waiting: False
    then have off: "\<not> (isEncrypted m (EncryptedPassword (user_spec user)) \<and> State (user_status user) = None)"
      "\<not> unblocked (Now m w) (user_status user)" by blast+
    note s' = s [unfolded syncUserStatus_def if_not_P [OF enabled] if_not_P [OF off(1)] if_not_P [OF off(2)]]
    obtain g w1 where l: "kList (mRecords m) (userLabels user) w = (g, w1)" by fastforce
    have v: "view w1 = view w" by (rule readsStore_listD(1) [OF managedD(4) [OF M] l])
    have "?at w1"
    proof (cases g)
      case (Inl e)
      then show ?thesis using s' l v by (auto simp: ebind_def ecall_def)
    next
      case (Inr records)
      with l have n: "length (filter (recentFailure (Now m w1)) records) = recentFailures user (Now m w1) (view w)"
        using recentFailures_listed [OF M] by blast
      show ?thesis
      proof (cases "recentFailures user (Now m w1) (view w) \<ge> 10")
        case True
        then have "sendStatus m user (limitedStatus (recentFailures user (Now m w1) (view w))) w1 = (r, w')"
          using s' l Inr n by (simp add: ebind_def ecall_def Let_def)
        moreover have "statusStep (isEncrypted m (EncryptedPassword (user_spec user))) (Now m w)
            (recentFailures user (Now m w1) (view w)) (Now m w1) (user_status user)
            (limitedStatus (recentFailures user (Now m w1) (view w)) (Now m w1))"
          using True enabled waiting by (intro statusStep.block) blast+
        ultimately show ?thesis using v by blast
      next
        case False
        then have "w' = w1" using s' l Inr n by (simp add: ebind_def ecall_def Let_def)
        moreover have "\<not> statusStep (isEncrypted m (EncryptedPassword (user_spec user))) (Now m w)
            (recentFailures user (Now m w1) (view w)) (Now m w1) (user_status user) s'" for s'
          using False waiting by (auto simp: statusStep_iff)
        ultimately show ?thesis using v by blast
      qed
    qed
    then show ?thesis by blast
  qed
qed

lemma syncUserStatus_rewritten:
  assumes M: "managed view m" and s: "syncUserStatus m user w = (r, w')"
  shows "rewritten (\<lambda>z y. user_spec y = user_spec z) (Namespace (user_meta user)) (Name (user_meta user)) (view w) (view w')"
  using syncUserStatus_sends [OF assms]
proof (elim exE conjE disjE)
  fix status w2
  assume v: "view w2 = view w" and send: "sendStatus m user status w2 = (r, w')"
  from sendStatus_outcome [OF M send, unfolded v] show ?thesis
    by (auto simp: rewritten_def intro: putOne_mono)
qed (simp add: rewritten_def)

text \<open>
  C5. The controller keeps the state of an account as the state machine says, with the failures counted
  among the stored login records: those labelled with the name of the user, not successful, and less than
  ten minutes old. \<open>syncUserStatus\<close> either makes one step of the machine from the status it was given, in the
  stored user and with the rest of the user left alone; or it changes nothing, and then a call failed
  or the machine has no step. So without a password hash no account is activated, a disabled account is never
  touched, and an account is blocked exactly by ten recent failures.
\<close>

theorem syncUserStatus_refines:
  assumes M: "managed view m" and s: "syncUserStatus m user w = (r, w')"
  shows "\<exists>w1. view w1 = view w \<and>
    (view w' = view w \<and> (isOk r \<longrightarrow> (\<forall>s'. \<not> statusStep (isEncrypted m (EncryptedPassword (user_spec user))) (Now m w)
        (recentFailures user (Now m w1) (view w)) (Now m w1) (user_status user) s')) \<or>
     r = Inr () \<and> putOne (\<lambda>z y. user_spec y = user_spec z \<and>
        statusStep (isEncrypted m (EncryptedPassword (user_spec user))) (Now m w)
          (recentFailures user (Now m w1) (view w)) (Now m w1) (user_status user) (user_status y))
      (Namespace (user_meta user)) (Name (user_meta user)) (view w) (view w'))"
  using syncUserStatus_sends [OF assms]
proof (elim exE conjE disjE)
  fix w1 status w2
  assume v: "view w1 = view w" "view w2 = view w" and send: "sendStatus m user status w2 = (r, w')"
    and step: "statusStep (isEncrypted m (EncryptedPassword (user_spec user))) (Now m w)
      (recentFailures user (Now m w1) (view w)) (Now m w1) (user_status user) (status (Now m w2))"
  from sendStatus_outcome [OF M send, unfolded v(2)] step v(1) show ?thesis
    by (intro exI [of _ w1]) (auto intro: putOne_mono)
qed blast

section \<open>A user that is stored once\<close>

definition sole :: "string \<Rightarrow> string \<Rightarrow> User \<Rightarrow> Cluster \<Rightarrow> bool" where
  \<comment> \<open>names are unique at the server\<close>
  "sole ns n u c \<longleftrightarrow> u \<in> set (c_users c) \<and> sameKey user_meta ns n u \<and>
     (\<forall>x \<in> set (c_users c). sameKey user_meta ns n x \<longrightarrow> x = u)"

lemma sole_replaced:
  assumes "sameKey user_meta ns n y" "replaced user_meta y (c_users c) xs" "DeletionTimestamp (user_meta y) = None"
  shows "sole ns n y (putUsers xs c)"
  using assms by (auto simp: sole_def replaced_def putUsers_def sameKey_def marked_def Let_def)

lemma putUsers_frame [simp]:
  "c_users (putUsers xs c) = xs" "c_records (putUsers xs c) = c_records c"
  "c_namespaces (putUsers xs c) = c_namespaces c"
  "c_globalRoleBindings (putUsers xs c) = c_globalRoleBindings c" "c_roleBindings (putUsers xs c) = c_roleBindings c"
  by (simp_all add: putUsers_def)

lemma sole_get:
  assumes M: "managed view m" and u: "sole ns n u (view w)" and g: "kGet (mUsers m) ns n w = (Inr x, w1)"
  shows "x = u \<and> view w1 = view w"
  using readsStore_getD(1,2) [OF managedD(1) [OF M] g] u by (auto simp: sole_def)

lemma sole_found:
  "managed view m \<Longrightarrow> sole ns n u (view w) \<Longrightarrow> kGet (mUsers m) ns n w = (Inl e, w1) \<Longrightarrow> \<not> IsNotFound e"
  using readsStore_getD(3) [OF managedD(1)] by (fastforce simp: sole_def)

lemma sole_call:
  assumes U: "updatesStore kept view c_users putUsers user_meta call"
    and alive: "\<And>x z y. kept x z y \<Longrightarrow> DeletionTimestamp (user_meta y) = DeletionTimestamp (user_meta z)"
    and u: "sole ns n u (view w)" and live: "DeletionTimestamp (user_meta u) = None"
    and x: "sameKey user_meta ns n x" and c: "call x w = (Inr y, w1)"
  shows "kept x u y \<and> sole ns n y (view w1) \<and> c_records (view w1) = c_records (view w)"
proof -
  have k: "Namespace (user_meta x) = ns" "Name (user_meta x) = n" using x by (simp_all add: sameKey_def)
  obtain z xs where z: "z \<in> set (c_users (view w))" "sameKey user_meta (Namespace (user_meta x)) (Name (user_meta x)) z"
    and kept: "kept x z y" and y: "sameKey user_meta (Namespace (user_meta x)) (Name (user_meta x)) y"
    and v: "view w1 = putUsers xs (view w)" and r: "replaced user_meta y (c_users (view w)) xs"
    by (rule updatesStoreD [OF U c])
  have "z = u" using z u k by (auto simp: sole_def)
  then show ?thesis using sole_replaced [OF y [unfolded k] r] alive [OF kept] live kept v by simp
qed

lemmas sole_update = sole_call [OF managedD(2)] and sole_status = sole_call [OF managedD(3)]

definition passwordSafe :: "'w Manager \<Rightarrow> User \<Rightarrow> bool" where
  "passwordSafe m u \<longleftrightarrow>
     EncryptedPassword (user_spec u) = '''' \<or> isEncrypted m (EncryptedPassword (user_spec u))"

lemma sole_ensureFinalizer:
  assumes M: "managed view m" and u: "sole ns n u (view w)" and live: "DeletionTimestamp (user_meta u) = None"
    and f: "ensureFinalizer m u w = (Inr u', w1)"
  shows "sole ns n u' (view w1) \<and> user_spec u' = user_spec u \<and> user_status u' = user_status u \<and>
    DeletionTimestamp (user_meta u') = None \<and> finalizer \<in> set (Finalizers (user_meta u')) \<and>
    c_records (view w1) = c_records (view w)"
proof (cases "finalizer \<in> set (Finalizers (user_meta u))")
  case True
  then show ?thesis using f u live by (simp add: ensureFinalizer_def)
next
  case False
  with f have c: "kUpdate (mUsers m) (withFinalizer u) w = (Inr u', w1)"
    by (simp add: ensureFinalizer_def ecall_Inr_iff)
  have "sameKey user_meta ns n (withFinalizer u)" using u by (simp add: sole_def sameKey_def withFinalizer_def)
  from sole_update [OF M _ u live this c] live show ?thesis by (auto simp: keptUser_def withFinalizer_def)
qed

lemma sole_encryptPassword:
  assumes M: "managed view m" and u: "sole ns n u (view w)" and live: "DeletionTimestamp (user_meta u) = None"
    and e: "encryptPassword m u w = (Inr (), w1)"
  shows "\<exists>u'. sole ns n u' (view w1) \<and> passwordSafe m u' \<and> user_status u' = user_status u \<and>
    (EncryptedPassword (user_spec u) \<noteq> '''' \<or> isEncrypted m (EncryptedPassword (user_spec u)) \<longrightarrow>
      isEncrypted m (EncryptedPassword (user_spec u'))) \<and>
    DeletionTimestamp (user_meta u') = None \<and> Finalizers (user_meta u') = Finalizers (user_meta u) \<and>
    c_records (view w1) = c_records (view w)"
proof (cases "passwordSafe m u")
  case True
  then show ?thesis using e u live by (auto simp: encryptPassword_def passwordSafe_def Let_def)
next
  case False
  with e obtain p w0 y where h: "Hash m (EncryptedPassword (user_spec u)) w = (Inr p, w0)"
    and c: "kUpdate (mUsers m) (hashedUser p u) w0 = (Inr y, w1)"
    by (auto simp: encryptPassword_def passwordSafe_def Let_def ebind_Inr_iff ecall_Inr_iff)
  have v: "view w0 = view w" using managedD(9) [OF M] h by (metis snd_conv)
  have p: "isEncrypted m p" by (rule managedD(10) [OF M h])
  have k: "sameKey user_meta ns n (hashedUser p u)" using u by (simp add: sole_def sameKey_def hashedUser_def)
  have u0: "sole ns n u (view w0)" using u v by simp
  from sole_update [OF M _ u0 live k c] live p show ?thesis
    by (auto simp: keptUser_def hashedUser_def passwordSafe_def v)
qed

lemma sole_rewritten:
  assumes "rewritten P ns n c c'" and "sole ns n u c" and "v \<in> set (c_users c')" and "sameKey user_meta ns n v"
  shows "v = u \<or> P u v"
  using rewritten_stored [OF assms(1,3,4)] assms(2,4) by (auto simp: sole_def)

text \<open>
  C10. Passwords do not stay in plain text: when the reconciliation of a user that is not being deleted
  succeeds, every stored user of that name has no password or one that is recognised as a hash, on
  whichever of the controller's paths it went.
\<close>

theorem UserReconcile_hashes:
  assumes M: "managed view m" and u: "sole ns n u (view w)" and live: "DeletionTimestamp (user_meta u) = None"
    and ok: "UserReconcile m ns n w = (Inr r, w')"
  shows "\<forall>v \<in> set (c_users (view w')). sameKey user_meta ns n v \<longrightarrow> passwordSafe m v"
proof -
  obtain x w1 where g: "kGet (mUsers m) ns n w = (Inr x, w1)"
    using ok sole_found [OF M u] by (cases "kGet (mUsers m) ns n w"; cases "fst (kGet (mUsers m) ns n w)")
      (auto simp: UserReconcile_missing split: if_splits)
  from sole_get [OF M u this] have x: "x = u" and v1: "view w1 = view w" by simp_all
  with g ok live obtain u2 w2 w3 w4 where f: "ensureFinalizer m u w1 = (Inr u2, w2)"
    and e: "encryptPassword m u2 w2 = (Inr (), w3)" and s: "syncUserStatus m u2 w3 = (Inr (), w4)" and w4: "w' = w4"
    by (auto simp: UserReconcile_def ecatch_def ecall_def ebind_Inr_iff)
  have "sole ns n u (view w1)" using u v1 by simp
  note F = sole_ensureFinalizer [OF M this live f]
  then obtain u3 where u3: "sole ns n u3 (view w3)" "passwordSafe m u3"
    using sole_encryptPassword [OF M _ _ e, of ns n] by blast
  have key: "Namespace (user_meta u2) = ns" "Name (user_meta u2) = n" using F by (simp_all add: sole_def sameKey_def)
  have R: "rewritten (\<lambda>z y. user_spec y = user_spec z) ns n (view w3) (view w4)"
    using syncUserStatus_rewritten [OF M s] key by simp
  show ?thesis
  proof (intro ballI impI)
    fix v assume "v \<in> set (c_users (view w'))" "sameKey user_meta ns n v"
    then have "v = u3 \<or> user_spec v = user_spec u3" using sole_rewritten [OF R u3(1)] w4 by blast
    then show "passwordSafe m v" using u3(2) by (auto simp: passwordSafe_def)
  qed
qed

section \<open>Deleting a user\<close>

definition cleanedOf :: "User \<Rightarrow> Cluster \<Rightarrow> Cluster \<Rightarrow> bool" where
  \<comment> \<open>what is left of the user in the second cluster is waiting for deletion\<close>
  "cleanedOf user c c' \<longleftrightarrow>
     (\<forall>b \<in> set (c_globalRoleBindings c'). matchingLabels (userLabels user) (binding_meta b) \<longrightarrow> marked (binding_meta b)) \<and>
     (\<forall>b \<in> set (c_roleBindings c'). matchingLabels (userLabels user) (binding_meta b) \<longrightarrow>
        Namespace (binding_meta b) \<in> (\<lambda>x. Name (ns_meta x)) ` set (c_namespaces c) \<longrightarrow> marked (binding_meta b)) \<and>
     (\<forall>r \<in> set (c_records c'). matchingLabels (userLabels user) (record_meta r) \<longrightarrow> marked (record_meta r))"

lemma deleteInNamespaces_view:
  assumes M: "managed view m" and d: "deleteInNamespaces m user nss w = (r, w')"
  shows "\<exists>xs. view w' = (view w)\<lparr>c_roleBindings := xs\<rparr> \<and>
    (\<forall>b \<in> set xs. b \<in> set (c_roleBindings (view w)) \<or> marked (binding_meta b)) \<and>
    (isOk r \<longrightarrow> (\<forall>b \<in> set xs. matchingLabels (userLabels user) (binding_meta b) \<longrightarrow>
       Namespace (binding_meta b) \<in> (\<lambda>x. Name (ns_meta x)) ` set nss \<longrightarrow> marked (binding_meta b)))"
  using d
proof (induction nss arbitrary: w)
  case Nil
  then have "view w' = (view w)\<lparr>c_roleBindings := c_roleBindings (view w)\<rparr>" by simp
  then show ?case by (intro exI [of _ "c_roleBindings (view w)"]) simp
next
  case (Cons a nss)
  obtain g w1 where g: "kDeleteAllOf (mRoleBindings m) (Name (ns_meta a)) (userLabels user) w = (g, w1)" by fastforce
  obtain xs where v: "view w1 = (view w)\<lparr>c_roleBindings := xs\<rparr>"
    and old: "\<forall>b \<in> set xs. b \<in> set (c_roleBindings (view w)) \<or> marked (binding_meta b)"
    and new: "g = Inr () \<longrightarrow> (\<forall>b \<in> set xs. inScope (Name (ns_meta a)) (userLabels user) (binding_meta b) \<longrightarrow>
      marked (binding_meta b))"
    by (rule deletesStoreD [OF managedD(8) [OF M] g])
  show ?case
  proof (cases g)
    case (Inl e)
    then show ?thesis using Cons.prems g v old by (auto simp: ebind_def ecall_def)
  next
    case (Inr x)
    with Cons.prems g have "deleteInNamespaces m user nss w1 = (r, w')" by (simp add: ebind_def ecall_def)
    from Cons.IH [OF this] obtain ys where v': "view w' = (view w1)\<lparr>c_roleBindings := ys\<rparr>"
      and old': "\<forall>b \<in> set ys. b \<in> set (c_roleBindings (view w1)) \<or> marked (binding_meta b)"
      and new': "isOk r \<longrightarrow> (\<forall>b \<in> set ys. matchingLabels (userLabels user) (binding_meta b) \<longrightarrow>
        Namespace (binding_meta b) \<in> (\<lambda>x. Name (ns_meta x)) ` set nss \<longrightarrow> marked (binding_meta b))"
      by blast
    have "view w' = (view w)\<lparr>c_roleBindings := ys\<rparr>" using v v' by simp
    moreover have "\<forall>b \<in> set ys. b \<in> set (c_roleBindings (view w)) \<or> marked (binding_meta b)"
      using old old' v by auto
    moreover have "isOk r \<longrightarrow> (\<forall>b \<in> set ys. matchingLabels (userLabels user) (binding_meta b) \<longrightarrow>
       Namespace (binding_meta b) \<in> (\<lambda>x. Name (ns_meta x)) ` set (a # nss) \<longrightarrow> marked (binding_meta b))"
      using new' new old' v Inr by (auto simp: inScope_def)
    ultimately show ?thesis by blast
  qed
qed

lemma deleteRoleBindings_view:
  assumes M: "managed view m" and d: "deleteRoleBindings m user w = (r, w')"
  shows "c_users (view w') = c_users (view w) \<and> c_namespaces (view w') = c_namespaces (view w) \<and>
    (isOk r \<longrightarrow>
      (\<forall>b \<in> set (c_globalRoleBindings (view w')). matchingLabels (userLabels user) (binding_meta b) \<longrightarrow> marked (binding_meta b)) \<and>
      (\<forall>b \<in> set (c_roleBindings (view w')). matchingLabels (userLabels user) (binding_meta b) \<longrightarrow>
        Namespace (binding_meta b) \<in> (\<lambda>x. Name (ns_meta x)) ` set (c_namespaces (view w)) \<longrightarrow> marked (binding_meta b)))"
proof -
  obtain g w1 where g: "kDeleteAllOf (mGlobalRoleBindings m) '''' (userLabels user) w = (g, w1)" by fastforce
  obtain xs where v: "view w1 = (view w)\<lparr>c_globalRoleBindings := xs\<rparr>"
    and "\<forall>b \<in> set xs. b \<in> set (c_globalRoleBindings (view w)) \<or> marked (binding_meta b)"
    and new: "g = Inr () \<longrightarrow> (\<forall>b \<in> set xs. inScope '''' (userLabels user) (binding_meta b) \<longrightarrow> marked (binding_meta b))"
    by (rule deletesStoreD [OF managedD(7) [OF M] g])
  obtain l w2 where l: "kList (mNamespaces m) [] w1 = (l, w2)" by fastforce
  have v2: "view w2 = view w1" by (rule readsStore_listD(1) [OF managedD(5) [OF M] l])
  show ?thesis
  proof (cases g)
    case (Inl e)
    then show ?thesis using d g v by (auto simp: deleteRoleBindings_def ebind_def ecall_def)
  next
    case gok: (Inr x)
    show ?thesis
    proof (cases l)
      case (Inl e)
      then show ?thesis using d g l v v2 gok by (auto simp: deleteRoleBindings_def ebind_def ecall_def)
    next
      case (Inr nss)
      with l have "kList (mNamespaces m) [] w1 = (Inr nss, w2)" by simp
      from readsStore_listD(2) [OF managedD(5) [OF M] this] v have nss: "nss = c_namespaces (view w)"
        by (simp add: matchingLabels_def comp_def)
      have "deleteInNamespaces m user nss w2 = (r, w')"
        using d g l gok Inr by (simp add: deleteRoleBindings_def ebind_def ecall_def)
      from deleteInNamespaces_view [OF M this] show ?thesis
        using v v2 new gok nss by (auto simp: inScope_def)
    qed
  qed
qed

text \<open>
  C11. The user controller lets a deleted user go last: whatever the outcome of reconciling a user that
  is marked for deletion, either the stored users are as before, or every global role binding, every
  role binding in a namespace of the cluster and every login record that carries the user's label is
  deleted or marked for deletion. A reconciliation that succeeds has cleaned up.
\<close>

theorem UserReconcile_cleans_up:
  assumes M: "managed view m" and g: "kGet (mUsers m) ns n w = (Inr user, w0)"
    and del: "marked (user_meta user)" and fin: "finalizer \<in> set (Finalizers (user_meta user))"
    and r: "UserReconcile m ns n w = (r, w')"
  shows "c_users (view w') = c_users (view w) \<and> \<not> isOk r \<or> cleanedOf user (view w) (view w')"
proof -
  have v0: "view w0 = view w" by (rule readsStore_getD(1) [OF managedD(1) [OF M] g])
  from r g del have d: "deleteUser m user w0 = (r, w')"
    by (cases "DeletionTimestamp (user_meta user)") (simp_all add: UserReconcile_def ecatch_def ecall_def marked_def)
  obtain a w1 where b: "deleteRoleBindings m user w0 = (a, w1)" by fastforce
  note B = deleteRoleBindings_view [OF M b, unfolded v0]
  show ?thesis
  proof (cases a)
    case (Inl e)
    then show ?thesis using d b B fin by (auto simp: deleteUser_def ebind_def)
  next
    case aok: (Inr x)
    obtain k w2 where k: "kDeleteAllOf (mRecords m) '''' (userLabels user) w1 = (k, w2)" by fastforce
    obtain xs where v2: "view w2 = (view w1)\<lparr>c_records := xs\<rparr>"
      and "\<forall>b \<in> set xs. b \<in> set (c_records (view w1)) \<or> marked (record_meta b)"
      and new: "k = Inr () \<longrightarrow> (\<forall>b \<in> set xs. inScope '''' (userLabels user) (record_meta b) \<longrightarrow> marked (record_meta b))"
      by (rule deletesStoreD [OF managedD(6) [OF M] k])
    show ?thesis
    proof (cases k)
      case (Inl e)
      then show ?thesis using d b B fin aok k v2
        by (auto simp: deleteUser_def deleteLoginRecords_def ebind_def ecall_def)
    next
      case (Inr y)
      have c: "cleanedOf user (view w) (view w2)"
        using B new v2 aok Inr by (simp add: cleanedOf_def inScope_def)
      obtain q w3 where q: "kUpdate (mUsers m) (withoutFinalizer user) w2 = (q, w3)" by fastforce
      have w': "w' = w3" using d b fin aok k Inr q
        by (cases q) (auto simp: deleteUser_def deleteLoginRecords_def ebind_def ecall_def)
      have "\<exists>ys. view w3 = putUsers ys (view w2) \<or> view w3 = view w2"
      proof (cases q)
        case (Inl e)
        then show ?thesis using updatesStore_failD [OF managedD(2) [OF M]] q by blast
      next
        case (Inr z)
        then show ?thesis using updatesStoreD [OF managedD(2) [OF M]] q by metis
      qed
      then have "cleanedOf user (view w) (view w3)" using c by (auto simp: cleanedOf_def)
      then show ?thesis using w' by simp
    qed
  qed
qed

end
