(* ===== verification/User_Lifecycle.thy ===== *)
theory User_Lifecycle
  imports User_Controller
begin

text \<open>
  The life of an account across components: what the user controller makes of a new user, and how the
  failed logins that \<open>pkg/middles/auth\<close> records and the state that the controller writes act on the
  password authenticator.
\<close>

section \<open>Locking an account\<close>

lemma syncUserStatus_active:
  assumes "State (user_status user) = Some UserActive"
  shows "syncUserStatus m user w = ebind (ecall (kList (mRecords m) (userLabels user))) (\<lambda>records w1.
     if 10 \<le> length (filter (recentFailure (Now m w1)) records)
     then sendStatus m user (limitedStatus (length (filter (recentFailure (Now m w1)) records))) w1
     else eret () w1) w"
  using assms by (simp add: syncUserStatus_def unblocked_def state_defs Let_def)

text \<open>
  C12. Ten failed logins in ten minutes lock an account: when the records that carry the label of an
  active user hold ten failures that are recent at the time the controller looks, a reconciliation
  that succeeds leaves a stored user for whom the password authenticator answers every login with
  RateLimitExceeded, the right password included.
\<close>

theorem failed_logins_lock:
  assumes M: "managed view m" and active: "State (user_status user) = Some UserActive"
    and t: "t = Now m (snd (kList (mRecords m) (userLabels user) w))"
    and ten: "10 \<le> length (filter (\<lambda>r. matchingLabels (userLabels user) (record_meta r) \<and> recentFailure t r)
                 (c_records (view w)))"
    and ok: "syncUserStatus m user w = (Inr (), w')"
    and v: "v \<in> set (c_users (view w'))"
      "sameKey user_meta (Namespace (user_meta user)) (Name (user_meta user)) v"
    and found: "findUser env users username = Inr v"
    and given: "username \<noteq> ''''" "password \<noteq> ''''"
  shows "Authenticate cl env users username password s = (Inl RateLimitExceededError, s)"
proof -
  from ok obtain records w1 where l: "kList (mRecords m) (userLabels user) w = (Inr records, w1)"
    by (auto simp: syncUserStatus_active [OF active] ebind_Inr_iff ecall_Inr_iff)
  have t1: "t = Now m w1" using t l by simp
  have rs: "records = filter (matchingLabels (userLabels user) \<circ> record_meta) (c_records (view w))"
    by (rule readsStore_listD(2) [OF managedD(4) [OF M] l])
  have "10 \<le> length (filter (recentFailure (Now m w1)) records)"
    using ten by (simp add: rs t1 conj_commute)
  with ok l obtain y where u: "kStatusUpdate (mUsers m)
      (user\<lparr>user_status := limitedStatus (length (filter (recentFailure (Now m w1)) records)) (Now m w1)\<rparr>) w1 = (Inr y, w')"
    by (auto simp: syncUserStatus_active [OF active] sendStatus_def ebind_Inr_iff ecall_Inr_iff)
  let ?sent = "user\<lparr>user_status := limitedStatus (length (filter (recentFailure (Now m w1)) records)) (Now m w1)\<rparr>"
  obtain z xs where k: "keptUserStatus ?sent z y"
    and y: "sameKey user_meta (Namespace (user_meta ?sent)) (Name (user_meta ?sent)) y"
    and v': "view w' = putUsers xs (view w1)" and r: "replaced user_meta y (c_users (view w1)) xs"
    by (rule updatesStoreD [OF managedD(3) [OF M] u])
  have "v \<in> set xs" using v(1) v' by simp
  from replacedD [OF r this] have "v = y" using y v(2) by (auto simp: sameKey_def)
  then have "State (user_status v) = Some UserAuthLimitExceeded"
    using k by (simp add: keptUserStatus_def limitedStatus_def)
  then show ?thesis using found given by (simp add: Authenticate_def statusError_def state_defs)
qed

definition failedRecord :: LoginRecord where
  "failedRecord = \<lparr>record_meta = emptyMeta\<lparr>Labels := Some [UserReferenceLabel \<mapsto> ''alice'']\<rparr>,
     record_spec = \<lparr>rec_Type = BasicAuth, Provider = '''', SourceIP = '''', UserAgent = '''',
       Success = False, rec_Reason = ''incorrect password''\<rparr>\<rparr>"

definition attackedWorld :: memWorld where
  "attackedWorld = (emptyCluster\<lparr>c_users := [aliceUser], c_records := replicate 10 failedRecord\<rparr>, 5 * Minute)"

definition lockedAlice :: User where
  "lockedAlice = aliceUser\<lparr>user_status := limitedStatus 10 (5 * Minute)\<rparr>"



lemma attackedWorld_run:
  "syncUserStatus memManager aliceUser attackedWorld =
    (Inr (), (fst attackedWorld)\<lparr>c_users := [lockedAlice]\<rparr>, 5 * Minute)"
proof -
  have s: "State (user_status aliceUser) = Some UserActive" by (simp add: aliceUser_def emptyStatus_def)
  have f: "filter (matchingLabels (userLabels aliceUser) \<circ> record_meta) (replicate 10 failedRecord) = replicate 10 failedRecord"
    by (simp add: matchingLabels_def userLabels_def failedRecord_def aliceUser_def emptyMeta_def mlookup_def
      filter_replicate comp_def)
  have r: "filter (recentFailure (5 * Minute)) (replicate 10 failedRecord) = replicate 10 failedRecord"
    by (simp add: recentFailure_def failedRecord_def emptyMeta_def duration_defs filter_replicate)
  show ?thesis
    by (simp add: syncUserStatus_active [OF s] memKube_eval attackedWorld_def sendStatus_def f r lockedAlice_def marked_def)
      (simp add: aliceUser_def emptyMeta_def sameKey_def)
qed

theorem failed_logins_lock_witness:
  "Authenticate memClients exampleEnv (listLister ''user'' user_meta [lockedAlice]) ''alice@example.com'' ''secret''
     emptyCluster = (Inl RateLimitExceededError, emptyCluster)"
proof -
  let ?user = "aliceUser" let ?t = "Now memManager (snd (kList (mRecords memManager) (userLabels ?user) attackedWorld))"
  have t: "?t = 5 * Minute" by (simp add: memManager_def memKube_def attackedWorld_def)
  have ten: "10 \<le> length (filter (\<lambda>r. matchingLabels (userLabels ?user) (record_meta r) \<and> recentFailure ?t r)
      (c_records (fst attackedWorld)))"
    unfolding t by (simp add: attackedWorld_def recentFailure_def failedRecord_def emptyMeta_def duration_defs
      filter_replicate matchingLabels_def userLabels_def aliceUser_def mlookup_def)
  have active: "State (user_status ?user) = Some UserActive" by (simp add: aliceUser_def emptyStatus_def)
  have f: "findUser exampleEnv (listLister ''user'' user_meta [lockedAlice]) ''alice@example.com'' = Inr lockedAlice"
    by (simp add: findUser_def listLister_def lockedAlice_def aliceUser_def exampleEnv_def emptySpec_def emptyMeta_def
      Everything_def)
  show ?thesis
    by (rule failed_logins_lock [OF memManager_managed active refl ten attackedWorld_run _ _ f])
      (simp_all add: sameKey_def lockedAlice_def)
qed

text \<open>The record of a login is labelled with what was typed as the user name.\<close>

lemma loginEntry_label:
  "matchingLabels (userLabels user) (record_meta (loginEntry env username ty pr ip ua err)) \<longleftrightarrow>
     ReplaceChar username CHR ''@'' CHR ''-'' = Name (user_meta user)"
  by (simp add: matchingLabels_def userLabels_def loginEntry_def Let_def mlookup_def)

text \<open>
  C35. Failed logins with the mail address are not counted: a login record carries the name that was
  typed, so when every record at the server was written for a login whose name, with the at-sign
  replaced, is not the user's name, the controller leaves an active account as it is however many
  failures there are.
\<close>

theorem mail_failures_not_counted:
  assumes M: "managed view m" and active: "State (user_status user) = Some UserActive"
    and mail: "\<forall>r \<in> set (c_records (view w)). \<exists>env username ty pr ip ua err.
      ReplaceChar username CHR ''@'' CHR ''-'' \<noteq> Name (user_meta user) \<and>
      Labels (record_meta r) = Labels (record_meta (loginEntry env username ty pr ip ua err))"
    and run: "syncUserStatus m user w = (r, w')"
  shows "view w' = view w"
proof -
  obtain g w1 where l: "kList (mRecords m) (userLabels user) w = (g, w1)" by fastforce
  have v: "view w1 = view w" by (rule readsStore_listD(1) [OF managedD(4) [OF M] l])
  show ?thesis
  proof (cases g)
    case (Inl e)
    then show ?thesis using run l v by (simp add: syncUserStatus_active [OF active] ebind_def ecall_def)
  next
    case (Inr records)
    with l have "kList (mRecords m) (userLabels user) w = (Inr records, w1)" by simp
    from readsStore_listD(2) [OF managedD(4) [OF M] this]
    have rs: "records = filter (matchingLabels (userLabels user) \<circ> record_meta) (c_records (view w))" .
    have "\<not> matchingLabels (userLabels user) (record_meta x)" if "x \<in> set (c_records (view w))" for x
      using mail that loginEntry_label [of user] unfolding matchingLabels_def by metis
    then have "records = []" unfolding rs by (simp add: filter_empty_conv)
    then show ?thesis using run l v Inr by (simp add: syncUserStatus_active [OF active] ebind_def ecall_def)
  qed
qed

definition mailWorld :: memWorld where
  "mailWorld = (emptyCluster\<lparr>c_users := [aliceUser], c_records := replicate 100
     (loginEntry exampleEnv ''alice@example.com'' BasicAuth '''' '''' '''' (Some IncorrectPasswordError))\<rparr>, 5 * Minute)"

theorem mail_failures_not_counted_witness:
  "fst (snd (syncUserStatus memManager aliceUser mailWorld)) = fst mailWorld"
proof -
  have active: "State (user_status aliceUser) = Some UserActive" by (simp add: aliceUser_def emptyStatus_def)
  have "ReplaceChar ''alice@example.com'' CHR ''@'' CHR ''-'' \<noteq> Name (user_meta aliceUser)"
    by (simp add: ReplaceChar_def aliceUser_def)
  then have "\<forall>r \<in> set (c_records (fst mailWorld)). \<exists>env username ty pr ip ua err.
      ReplaceChar username CHR ''@'' CHR ''-'' \<noteq> Name (user_meta aliceUser) \<and>
      Labels (record_meta r) = Labels (record_meta (loginEntry env username ty pr ip ua err))"
    unfolding mailWorld_def by (auto simp del: loginEntry_label intro!: exI)
  from mail_failures_not_counted [OF memManager_managed active this, of "fst (syncUserStatus memManager aliceUser mailWorld)"
      "snd (syncUserStatus memManager aliceUser mailWorld)"]
  show ?thesis by simp
qed

section \<open>A new user settles\<close>

text \<open>
  A server that answers: every read of a stored user and every update of it succeeds. This is an
  idealisation: no update meets a conflict of resource versions, as when nobody else writes the user
  meanwhile (after a conflict the queue would repeat the reconciliation).
\<close>

definition available :: "('w \<Rightarrow> Cluster) \<Rightarrow> 'w Manager \<Rightarrow> bool" where
  "available view m \<longleftrightarrow>
     (\<forall>ns n u w. sole ns n u (view w) \<longrightarrow> isOk (fst (kGet (mUsers m) ns n w)) \<and>
        (\<forall>x. sameKey user_meta ns n x \<longrightarrow>
           isOk (fst (kUpdate (mUsers m) x w)) \<and> isOk (fst (kStatusUpdate (mUsers m) x w)))) \<and>
     (\<forall>ls w. isOk (fst (kList (mRecords m) ls w))) \<and> (\<forall>s w. isOk (fst (Hash m s w)))"

lemma availableE:
  assumes "available view m" and "sole ns n u (view w)"
  obtains x w' where "kGet (mUsers m) ns n w = (Inr x, w')"
  using assms unfolding available_def isOk_iff by (metis prod.collapse)

lemma available_updateE:
  assumes "available view m" and "sole ns n u (view w)" and "sameKey user_meta ns n x"
  obtains y w' where "kUpdate (mUsers m) x w = (Inr y, w')"
  using assms unfolding available_def isOk_iff by (metis prod.collapse)

lemma available_statusE:
  assumes "available view m" and "sole ns n u (view w)" and "sameKey user_meta ns n x"
  obtains y w' where "kStatusUpdate (mUsers m) x w = (Inr y, w')"
  using assms unfolding available_def isOk_iff by (metis prod.collapse)

lemma available_listE:
  assumes "available view m" obtains rs w' where "kList (mRecords m) ls w = (Inr rs, w')"
  using assms unfolding available_def isOk_iff by (metis prod.collapse)

lemma available_hashE:
  assumes "available view m" obtains p w' where "Hash m s w = (Inr p, w')"
  using assms unfolding available_def isOk_iff by (metis prod.collapse)

definition fewFailures :: "User \<Rightarrow> Cluster \<Rightarrow> bool" where
  "fewFailures u c \<longleftrightarrow> length (filter (\<lambda>r. matchingLabels (userLabels u) (record_meta r) \<and> \<not> Success (record_spec r))
     (c_records c)) < 10"

lemma fewFailures_recent:
  assumes "fewFailures u c"
  shows "length (filter (recentFailure t) (filter (matchingLabels (userLabels u) \<circ> record_meta) (c_records c))) < 10"
proof -
  have "length (filter (recentFailure t) (filter (matchingLabels (userLabels u) \<circ> record_meta) rs)) \<le>
    length (filter (\<lambda>r. matchingLabels (userLabels u) (record_meta r) \<and> \<not> Success (record_spec r)) rs)" for rs
    by (induction rs) (auto simp: recentFailure_def)
  then show ?thesis using assms unfolding fewFailures_def by (meson le_less_trans)
qed

lemma sync_quiet:
  assumes M: "managed view m" and A: "available view m" and few: "fewFailures u (view w)"
    and st: "\<not> (isEncrypted m (EncryptedPassword (user_spec u)) \<and> State (user_status u) = None)"
      "State (user_status u) \<noteq> Some UserAuthLimitExceeded"
  obtains w' where "syncUserStatus m u w = (Inr (), w')" and "view w' = view w"
proof (cases "State (user_status u) = Some UserDisabled")
  case True
  then show ?thesis using that by (simp add: syncUserStatus_def)
next
  case False
  obtain rs w1 where l: "kList (mRecords m) (userLabels u) w = (Inr rs, w1)" by (rule available_listE [OF A])
  have "view w1 = view w" by (rule readsStore_listD(1) [OF managedD(4) [OF M] l])
  moreover have "rs = filter (matchingLabels (userLabels u) \<circ> record_meta) (c_records (view w))"
    by (rule readsStore_listD(2) [OF managedD(4) [OF M] l])
  ultimately show ?thesis
    using that False st l fewFailures_recent [OF few, of "Now m w1"]
    by (auto simp: syncUserStatus_def unblocked_def ebind_def ecall_def Let_def)
qed

lemma sync_activates:
  assumes M: "managed view m" and A: "available view m" and u: "sole ns n u (view w)"
    and live: "DeletionTimestamp (user_meta u) = None" and key: "sameKey user_meta ns n x"
    and st: "isEncrypted m (EncryptedPassword (user_spec x))" "State (user_status x) = None"
  obtains y w' where "syncUserStatus m x w = (Inr (), w')" and "sole ns n y (view w')"
    and "State (user_status y) = Some UserActive" and "user_spec y = user_spec u"
    and "Finalizers (user_meta y) = Finalizers (user_meta u)" and "DeletionTimestamp (user_meta y) = None"
    and "c_records (view w') = c_records (view w)"
proof -
  let ?x = "x\<lparr>user_status := activeStatus (Now m w)\<rparr>"
  have k: "sameKey user_meta ns n ?x" using key by (simp add: sameKey_def)
  obtain y w' where c: "kStatusUpdate (mUsers m) ?x w = (Inr y, w')" by (rule available_statusE [OF A u k])
  have "syncUserStatus m x w = (Inr (), w')"
    using st c by (simp add: syncUserStatus_def sendStatus_def ebind_def ecall_def)
  moreover have "keptUserStatus ?x u y \<and> sole ns n y (view w') \<and> c_records (view w') = c_records (view w)"
    by (rule sole_status [OF M _ u live k c]) (simp add: keptUserStatus_def)
  ultimately show ?thesis using that [of w' y] live by (simp add: keptUserStatus_def activeStatus_def)
qed

lemma userLabels_same: "sameKey user_meta ns n x \<Longrightarrow> userLabels x = [(UserReferenceLabel, n)]"
  by (simp add: userLabels_def sameKey_def)

text \<open>One round: what reaches \<open>syncUserStatus\<close>, and what is stored by then.\<close>

lemma UserReconcile_round:
  assumes M: "managed view m" and A: "available view m" and u: "sole ns n u (view w)"
    and live: "DeletionTimestamp (user_meta u) = None"
  obtains x v w1 where "UserReconcile m ns n w = ebind (syncUserStatus m x) (\<lambda>_. eret noResult) w1"
    and "sameKey user_meta ns n x" and "user_spec x = user_spec u" and "user_status x = user_status u"
    and "sole ns n v (view w1)" and "user_status v = user_status u" and "passwordSafe m v"
    and "EncryptedPassword (user_spec u) \<noteq> '''' \<or> isEncrypted m (EncryptedPassword (user_spec u)) \<longrightarrow>
      isEncrypted m (EncryptedPassword (user_spec v))"
    and "finalizer \<in> set (Finalizers (user_meta v))" and "DeletionTimestamp (user_meta v) = None"
    and "c_records (view w1) = c_records (view w)"
    and "finalizer \<in> set (Finalizers (user_meta u)) \<longrightarrow> passwordSafe m u \<longrightarrow> view w1 = view w"
proof -
  obtain g w0 where g: "kGet (mUsers m) ns n w = (Inr g, w0)" by (rule availableE [OF A u])
  have gu: "g = u" and v0: "view w0 = view w" using sole_get [OF M u g] by simp_all
  have u0: "sole ns n u (view w0)" using u v0 by simp
  have ku: "sameKey user_meta ns n u" using u by (simp add: sole_def)
  have kf: "sameKey user_meta ns n (withFinalizer u)" using ku by (simp add: sameKey_def withFinalizer_def)
  obtain x w1 where f: "ensureFinalizer m u w0 = (Inr x, w1)"
    by (cases "finalizer \<in> set (Finalizers (user_meta u))", simp add: ensureFinalizer_def,
      rule available_updateE [OF A u0 kf], simp add: ensureFinalizer_def ecall_def)
  note F = sole_ensureFinalizer [OF M u0 live f]
  have kx: "sameKey user_meta ns n x" using F by (simp add: sole_def)
  obtain w2 where e: "encryptPassword m x w1 = (Inr (), w2)"
  proof (cases "passwordSafe m x")
    case True
    then show ?thesis using that by (auto simp: encryptPassword_def passwordSafe_def Let_def)
  next
    case False
    obtain p w3 where h: "Hash m (EncryptedPassword (user_spec x)) w1 = (Inr p, w3)" by (rule available_hashE [OF A])
    have v3: "view w3 = view w1" using managedD(9) [OF M] h by (metis snd_conv)
    have s3: "sole ns n x (view w3)" using F v3 by simp
    have "sameKey user_meta ns n (hashedUser p x)" using kx by (simp add: sameKey_def hashedUser_def)
    then obtain y w4 where "kUpdate (mUsers m) (hashedUser p x) w3 = (Inr y, w4)" by (rule available_updateE [OF A s3])
    then show ?thesis using that False h by (simp add: encryptPassword_def passwordSafe_def Let_def ebind_def ecall_def)
  qed
  have Fx: "sole ns n x (view w1)" "DeletionTimestamp (user_meta x) = None" using F by simp_all
  from sole_encryptPassword [OF M Fx e]
  obtain v where v: "sole ns n v (view w2)" "passwordSafe m v" "user_status v = user_status x"
    "EncryptedPassword (user_spec x) \<noteq> '''' \<or> isEncrypted m (EncryptedPassword (user_spec x)) \<longrightarrow>
      isEncrypted m (EncryptedPassword (user_spec v))"
    "DeletionTimestamp (user_meta v) = None" "Finalizers (user_meta v) = Finalizers (user_meta x)"
    "c_records (view w2) = c_records (view w1)"
    by (elim exE conjE) (rule that)
  have run: "UserReconcile m ns n w = ebind (syncUserStatus m x) (\<lambda>_. eret noResult) w2"
    using g gu live f e by (simp add: UserReconcile_def ecatch_def ecall_def ebind_def)
  have quiet: "view w2 = view w" if "finalizer \<in> set (Finalizers (user_meta u))" "passwordSafe m u"
  proof -
    have "x = u" "w1 = w0" using f that by (simp_all add: ensureFinalizer_def)
    moreover from this have "w2 = w1" using e that by (auto simp: encryptPassword_def passwordSafe_def Let_def split: if_splits)
    ultimately show ?thesis using v0 by simp
  qed
  show ?thesis by (rule that [OF run kx _ _ v(1)]) (use F v v0 quiet in simp_all)
qed

text \<open>An account that needs no more work, and the two steps towards it.\<close>

definition settled :: "'w Manager \<Rightarrow> User \<Rightarrow> bool" where
  "settled m v \<longleftrightarrow> finalizer \<in> set (Finalizers (user_meta v)) \<and>
     isEncrypted m (EncryptedPassword (user_spec v)) \<and> State (user_status v) = Some UserActive \<and>
     DeletionTimestamp (user_meta v) = None"

lemma fewFailures_same:
  "sameKey user_meta ns n x \<Longrightarrow> sameKey user_meta ns n u \<Longrightarrow> c_records c = c_records c' \<Longrightarrow>
    fewFailures x c \<longleftrightarrow> fewFailures u c'"
  using userLabels_same [of ns n x] userLabels_same [of ns n u] by (simp add: fewFailures_def)

lemma settled_rests:
  assumes M: "managed view m" and A: "available view m" and v: "sole ns n v (view s)" "settled m v"
    and few: "fewFailures v (view s)"
  obtains s' where "UserReconcile m ns n s = (Inr noResult, s')" and "view s' = view s"
proof -
  have l: "DeletionTimestamp (user_meta v) = None" using v(2) by (simp add: settled_def)
  obtain x s1 where r: "UserReconcile m ns n s = ebind (syncUserStatus m x) (\<lambda>_. eret noResult) s1"
    and k: "sameKey user_meta ns n x" and x: "user_status x = user_status v"
    and q: "finalizer \<in> set (Finalizers (user_meta v)) \<longrightarrow> passwordSafe m v \<longrightarrow> view s1 = view s"
    and c: "c_records (view s1) = c_records (view s)"
    by (rule UserReconcile_round [OF M A v(1) l]) blast
  have "sameKey user_meta ns n v" using v(1) by (simp add: sole_def)
  then have f: "fewFailures x (view s1)" using few fewFailures_same [OF k _ c] by simp
  obtain s2 where "syncUserStatus m x s1 = (Inr (), s2)" "view s2 = view s1"
    by (rule sync_quiet [OF M A f]) (use x v(2) in \<open>simp_all add: settled_def state_defs\<close>)
  then show ?thesis using that r q v(2) by (simp add: ebind_def settled_def passwordSafe_def)
qed

lemma hashed_settles:
  assumes M: "managed view m" and A: "available view m"
    and v: "sole ns n v (view s)" "State (user_status v) = None" "DeletionTimestamp (user_meta v) = None"
      "isEncrypted m (EncryptedPassword (user_spec v))"
  obtains y where "sole ns n y (view (snd (UserReconcile m ns n s)))" and "settled m y"
    and "c_records (view (snd (UserReconcile m ns n s))) = c_records (view s)"
proof -
  obtain x v' s1 where r: "UserReconcile m ns n s = ebind (syncUserStatus m x) (\<lambda>_. eret noResult) s1"
    and k: "sameKey user_meta ns n x" and x: "user_spec x = user_spec v" "user_status x = user_status v"
    and v': "sole ns n v' (view s1)" "isEncrypted m (EncryptedPassword (user_spec v'))"
      "finalizer \<in> set (Finalizers (user_meta v'))" "DeletionTimestamp (user_meta v') = None"
    and c: "c_records (view s1) = c_records (view s)"
    by (rule UserReconcile_round [OF M A v(1,3)]) (use v(4) in blast)
  show ?thesis
    by (rule sync_activates [OF M A v'(1,4) k]) (use that x v v' r c in \<open>auto simp: settled_def ebind_def\<close>)
qed

lemma plain_hashed:
  assumes M: "managed view m" and A: "available view m" and u: "sole ns n u (view w)"
    and live: "DeletionTimestamp (user_meta u) = None" and pw: "EncryptedPassword (user_spec u) \<noteq> ''''"
    and fresh: "State (user_status u) = None" and few: "fewFailures u (view w)"
    and plain: "\<not> isEncrypted m (EncryptedPassword (user_spec u))"
  obtains v where "sole ns n v (view (snd (UserReconcile m ns n w)))" and "State (user_status v) = None"
    and "DeletionTimestamp (user_meta v) = None" and "isEncrypted m (EncryptedPassword (user_spec v))"
    and "c_records (view (snd (UserReconcile m ns n w))) = c_records (view w)"
proof -
  obtain x v s1 where r: "UserReconcile m ns n w = ebind (syncUserStatus m x) (\<lambda>_. eret noResult) s1"
    and k: "sameKey user_meta ns n x" and x: "user_spec x = user_spec u" "user_status x = user_status u"
    and v: "sole ns n v (view s1)" "user_status v = user_status u" "isEncrypted m (EncryptedPassword (user_spec v))"
      "DeletionTimestamp (user_meta v) = None"
    and c: "c_records (view s1) = c_records (view w)"
    by (rule UserReconcile_round [OF M A u live]) (use pw in blast)
  have "sameKey user_meta ns n u" using u by (simp add: sole_def)
  then have f: "fewFailures x (view s1)" using few fewFailures_same [OF k _ c] by simp
  obtain s2 where "syncUserStatus m x s1 = (Inr (), s2)" "view s2 = view s1"
    by (rule sync_quiet [OF M A f]) (use x plain fresh in simp_all)
  then have "view (snd (UserReconcile m ns n w)) = view s1" using r by (simp add: ebind_def)
  then show ?thesis using that [of v] v c fresh by simp
qed

text \<open>
  C9. A new user settles in two rounds: when the server answers, a user with a password and without a
  state who has failed to log in fewer than ten times is, after two reconciliations, stored with the
  finalizer, a hashed password and the state Active, and a third reconciliation changes nothing.
\<close>

theorem new_user_settles:
  assumes M: "managed view m" and A: "available view m" and u: "sole ns n u (view w)"
    and live: "DeletionTimestamp (user_meta u) = None" and pw: "EncryptedPassword (user_spec u) \<noteq> ''''"
    and fresh: "State (user_status u) = None" and few: "fewFailures u (view w)"
    and w1: "w1 = snd (UserReconcile m ns n w)" and w2: "w2 = snd (UserReconcile m ns n w1)"
  shows "\<exists>v w3. sole ns n v (view w2) \<and> finalizer \<in> set (Finalizers (user_meta v)) \<and>
    isEncrypted m (EncryptedPassword (user_spec v)) \<and> State (user_status v) = Some UserActive \<and>
    UserReconcile m ns n w2 = (Inr noResult, w3) \<and> view w3 = view w2"
proof -
  have few': "fewFailures y c" if "sole ns n y c" "c_records c = c_records (view w)" for y c
    using few fewFailures_same [of ns n y u c "view w"] u that by (simp add: sole_def)
  have "\<exists>y. sole ns n y (view w2) \<and> settled m y \<and> c_records (view w2) = c_records (view w)"
  proof (cases "isEncrypted m (EncryptedPassword (user_spec u))")
    case True
    obtain y where y: "sole ns n y (view w1)" "settled m y" "c_records (view w1) = c_records (view w)"
      by (rule hashed_settles [OF M A u fresh live True]) (simp add: w1)
    obtain s' where "UserReconcile m ns n w1 = (Inr noResult, s')" "view s' = view w1"
      by (rule settled_rests [OF M A y(1,2) few' [OF y(1,3)]])
    with y show ?thesis by (auto simp: w2)
  next
    case False
    obtain v where v: "sole ns n v (view w1)" "State (user_status v) = None" "DeletionTimestamp (user_meta v) = None"
      "isEncrypted m (EncryptedPassword (user_spec v))" and c: "c_records (view w1) = c_records (view w)"
      by (rule plain_hashed [OF M A u live pw fresh few False]) (simp add: w1)
    show ?thesis unfolding w2 by (rule hashed_settles [OF M A v]) (auto simp: c)
  qed
  then obtain y where y: "sole ns n y (view w2)" "settled m y" "c_records (view w2) = c_records (view w)" by blast
  obtain s' where "UserReconcile m ns n w2 = (Inr noResult, s')" "view s' = view w2"
    by (rule settled_rests [OF M A y(1,2) few' [OF y(1,3)]])
  with y show ?thesis by (auto simp: settled_def)
qed

lemma memManager_available: "available fst memManager"
proof -
  have "find (sameKey user_meta ns n) (c_users (fst w)) \<noteq> None" if "sole ns n u (fst w)" for ns n u w
    using that by (auto simp: sole_def find_None_iff)
  then show ?thesis
    unfolding available_def
    by (auto simp: memManager_def memKube_def memUpdate_def sameKey_def [abs_def] split: option.splits; fastforce)
qed

definition newAlice :: User where
  "newAlice = \<lparr>user_meta = emptyMeta\<lparr>Name := ''alice''\<rparr>, user_spec = emptySpec\<lparr>EncryptedPassword := ''secret''\<rparr>,
     user_status = emptyStatus\<rparr>"

theorem new_user_settles_witness:
  "\<exists>v. sole '''' ''alice'' v (fst (snd (UserReconcile memManager '''' ''alice''
       (snd (UserReconcile memManager '''' ''alice'' (emptyCluster\<lparr>c_users := [newAlice]\<rparr>, 0)))))) \<and>
     State (user_status v) = Some UserActive \<and> isEncrypted memManager (EncryptedPassword (user_spec v))"
proof -
  let ?w = "(emptyCluster\<lparr>c_users := [newAlice]\<rparr>, 0) :: memWorld"
  have "sole '''' ''alice'' newAlice (fst ?w)" by (simp add: sole_def sameKey_def newAlice_def emptyMeta_def)
  from new_user_settles [OF memManager_managed memManager_available this _ _ _ _ refl refl]
  show ?thesis by (auto simp: newAlice_def emptyMeta_def emptySpec_def emptyStatus_def fewFailures_def emptyCluster_def)
qed

section \<open>Runs of the controller's properties\<close>

theorem syncUserStatus_refines_witness:
  "\<exists>w1. fst w1 = fst attackedWorld \<and> putOne (\<lambda>z y. user_spec y = user_spec z \<and>
      statusStep (isEncrypted memManager ''hash'') (5 * Minute) (recentFailures aliceUser (Now memManager w1) (fst attackedWorld))
        (Now memManager w1) (user_status aliceUser) (user_status y))
    '''' ''alice'' (fst attackedWorld) ((fst attackedWorld)\<lparr>c_users := [lockedAlice]\<rparr>)"
proof -
  have "(fst attackedWorld)\<lparr>c_users := [lockedAlice]\<rparr> \<noteq> fst attackedWorld"
    by (auto simp: attackedWorld_def lockedAlice_def limitedStatus_def aliceUser_def emptyStatus_def state_defs
        dest: arg_cong [where f = c_users])
  moreover have "Now memManager attackedWorld = 5 * Minute" by (simp add: memManager_def attackedWorld_def)
  moreover have "Namespace (user_meta aliceUser) = ''''" "Name (user_meta aliceUser) = ''alice''"
      "EncryptedPassword (user_spec aliceUser) = ''hash''"
    by (simp_all add: aliceUser_def emptyMeta_def emptySpec_def)
  ultimately show ?thesis
    using syncUserStatus_refines [OF memManager_managed attackedWorld_run] by (simp only: fst_conv) blast
qed

theorem UserReconcile_hashes_witness:
  "let w = (emptyCluster\<lparr>c_users := [newAlice]\<rparr>, 0) in
   EncryptedPassword (user_spec newAlice) = ''secret'' \<and>
   (\<forall>v \<in> set (c_users (fst (snd (UserReconcile memManager '''' ''alice'' w)))).
      sameKey user_meta '''' ''alice'' v \<longrightarrow> passwordSafe memManager v)"
proof -
  let ?w = "(emptyCluster\<lparr>c_users := [newAlice]\<rparr>, 0) :: memWorld"
  have s: "sole '''' ''alice'' newAlice (fst ?w)" by (simp add: sole_def sameKey_def newAlice_def emptyMeta_def)
  have "fst (UserReconcile memManager '''' ''alice'' ?w) = Inr noResult"
    by (simp add: UserReconcile_def ensureFinalizer_def withFinalizer_def encryptPassword_def hashedUser_def
      syncUserStatus_def isEncrypted_def HasPrefix_def memKube_eval newAlice_def emptyMeta_def emptySpec_def
      emptyStatus_def marked_def unblocked_def emptyCluster_def finalizer_def Let_def)
  then obtain w' where r: "UserReconcile memManager '''' ''alice'' ?w = (Inr noResult, w')" by (metis prod.collapse)
  have "DeletionTimestamp (user_meta newAlice) = None" by (simp add: newAlice_def emptyMeta_def)
  from UserReconcile_hashes [OF memManager_managed s this r] r show ?thesis
    by (simp add: newAlice_def emptySpec_def Let_def)
qed

definition goneAlice :: User where
  "goneAlice = aliceUser\<lparr>user_meta := emptyMeta\<lparr>Name := ''alice'', DeletionTimestamp := Some 7, Finalizers := [finalizer]\<rparr>\<rparr>"

theorem UserReconcile_cleans_up_witness:
  "cleanedOf goneAlice (emptyCluster\<lparr>c_users := [goneAlice], c_records := [failedRecord]\<rparr>)
     (fst (snd (UserReconcile memManager '''' ''alice'' (emptyCluster\<lparr>c_users := [goneAlice], c_records := [failedRecord]\<rparr>, 9))))"
proof -
  let ?w = "(emptyCluster\<lparr>c_users := [goneAlice], c_records := [failedRecord]\<rparr>, 9) :: memWorld"
  have g: "kGet (mUsers memManager) '''' ''alice'' ?w = (Inr goneAlice, ?w)"
    by (simp add: memKube_eval goneAlice_def emptyMeta_def)
  have "fst (UserReconcile memManager '''' ''alice'' ?w) = Inr noResult"
    by (simp add: UserReconcile_def deleteUser_def deleteRoleBindings_def deleteLoginRecords_def withoutFinalizer_def
      memKube_eval goneAlice_def emptyMeta_def marked_def emptyCluster_def)
  then obtain w' where r: "UserReconcile memManager '''' ''alice'' ?w = (Inr noResult, w')" by (metis prod.collapse)
  have "marked (user_meta goneAlice)" "finalizer \<in> set (Finalizers (user_meta goneAlice))"
    by (simp_all add: goneAlice_def marked_def)
  from UserReconcile_cleans_up [OF memManager_managed g this r] r show ?thesis by simp
qed

end
