(* ===== verification/Iam_Controllers.thy ===== *)
theory Iam_Controllers
  imports User_Controller
begin

text \<open>
  The other controllers of the IAM kinds: \<open>pkg/controllers/loginrecord\<close> keeps the time of the last
  login of a user and removes old records, \<open>pkg/controllers/globalrolebinding\<close> makes cluster
  administrators of the users of a platform-admin binding, \<open>pkg/controllers/globalrole\<close> only reads.
\<close>

section \<open>Login records\<close>

definition timeBefore :: "time option \<Rightarrow> time \<Rightarrow> bool" where
  \<comment> \<open>\<open>t.Before(&u)\<close> of a pointer that may be nil, with the nil check before it\<close>
  "timeBefore t u = (case t of None \<Rightarrow> True | Some t \<Rightarrow> t < u)"

definition withLastLogin :: "LoginRecord \<Rightarrow> User \<Rightarrow> User" where
  "withLastLogin loginRecord user = user\<lparr>user_status := (user_status user)\<lparr>
     LastLoginTime := Some (CreationTimestamp (record_meta loginRecord))\<rparr>\<rparr>"

definition updateUserLastLoginTime :: "'w Manager \<Rightarrow> LoginRecord \<Rightarrow> ('w, unit) eff" where
  "updateUserLastLoginTime m loginRecord =
     (case mlookup (Labels (record_meta loginRecord)) UserReferenceLabel of
        None \<Rightarrow> eerr (Msg ''login doesn't belong to any user'')
      | Some username \<Rightarrow>
          if length username = 0 then eerr (Msg ''login doesn't belong to any user'')
          else
            ebind (ecall (kGet (mUsers m) '''' username)) (\<lambda>user.
              if DeletionTimestamp (user_meta user) = None \<and>
                 timeBefore (LastLoginTime (user_status user)) (CreationTimestamp (record_meta loginRecord))
              then ebind (ecall (kStatusUpdate (mUsers m) (withLastLogin loginRecord user))) (\<lambda>_. eret ())
              else eret ()))"

definition LoginRecordReconcile :: "'w Manager \<Rightarrow> 'w reconcile" where
  "LoginRecordReconcile m ns n =
     ecatch (ecall (kGet (mRecords m) ns n))
       (\<lambda>err. if IsNotFound err then eret noResult else eerr err)
       (\<lambda>loginRecord.
          if DeletionTimestamp (record_meta loginRecord) \<noteq> None then eret noResult
          else
            ebind (updateUserLastLoginTime m loginRecord) (\<lambda>_ w.
              if CreationTimestamp (record_meta loginRecord) + 168 * Hour < Now m w
              then ebind (ecall (kDelete (mRecords m) loginRecord)) (\<lambda>_. eret noResult) w
              else eret noResult w))"

lemma LoginRecordReconcile_missing: "kGet (mRecords m) ns n w = (Inl e, w') \<Longrightarrow>
    LoginRecordReconcile m ns n w = (if IsNotFound e then (Inr noResult, w') else (Inl (Err e), w'))"
  by (simp add: LoginRecordReconcile_def ecatch_def ecall_def)

interpretation record_reconciler: object_reconciler "kGet (mRecords m)" "LoginRecordReconcile m" for m :: "'w Manager"
  by unfold_locales (simp_all add: LoginRecordReconcile_missing)

definition recordOf :: "string \<Rightarrow> LoginRecord \<Rightarrow> bool" where
  "recordOf n r \<longleftrightarrow> mlookup (Labels (record_meta r)) UserReferenceLabel = Some n"







text \<open>
  A login record whose user does not exist is never removed: while no stored user has the name of
  the record's label, reconciling the record fails, however old it is, and changes nothing.
\<close>

theorem orphan_record_kept:
  assumes M: "managed view m" and g: "kGet (mRecords m) ns n w = (Inr record, w0)"
    and live: "DeletionTimestamp (record_meta record) = None"
    and orphan: "\<forall>user \<in> set (c_users (view w)). \<not> recordOf (Name (user_meta user)) record"
    and r: "LoginRecordReconcile m ns n w = (r, w')"
  shows "\<not> isOk r \<and> view w' = view w"
proof -
  have v0: "view w0 = view w" by (rule readsStore_getD(1) [OF managedD(4) [OF M] g])
  have run: "LoginRecordReconcile m ns n w = ebind (updateUserLastLoginTime m record) (\<lambda>_ w.
      if CreationTimestamp (record_meta record) + 168 * Hour < Now m w
      then ebind (ecall (kDelete (mRecords m) record)) (\<lambda>_. eret noResult) w else eret noResult w) w0"
    using g live by (simp add: LoginRecordReconcile_def ecatch_def ecall_def)
  have "\<exists>s w1. updateUserLastLoginTime m record w0 = (Inl s, w1) \<and> view w1 = view w"
  proof (cases "mlookup (Labels (record_meta record)) UserReferenceLabel")
    case None
    then show ?thesis using v0 by (simp add: updateUserLastLoginTime_def)
  next
    case (Some n)
    obtain q w1 where q: "kGet (mUsers m) '''' n w0 = (q, w1)" by fastforce
    have v1: "view w1 = view w" using readsStore_getD(1) [OF managedD(1) [OF M] q] v0 by simp
    have "\<exists>e. q = Inl e"
    proof (cases q)
      case (Inr u)
      then have "u \<in> set (c_users (view w0)) \<and> sameKey user_meta '''' n u"
        using q by (intro readsStore_getD(2) [OF managedD(1) [OF M]]) simp
      then show ?thesis using orphan Some v0 by (auto simp: recordOf_def sameKey_def)
    qed simp
    then show ?thesis using Some q v0 v1 by (auto simp: updateUserLastLoginTime_def ebind_def ecall_def)
  qed
  then show ?thesis using run r by (auto simp: ebind_def)
qed

section \<open>Global roles and their bindings\<close>

definition GlobalRoleReconcile :: "'w Manager \<Rightarrow> 'w reconcile" where
  "GlobalRoleReconcile m ns n =
     ecatch (ecall (kGet (mGlobalRoles m) ns n))
       (\<lambda>err. if IsNotFound err then eret noResult else eerr err) (\<lambda>_. eret noResult)"

interpretation role_reconciler: object_reconciler "kGet (mGlobalRoles m)" "GlobalRoleReconcile m" for m :: "'w Manager"
  by unfold_locales (simp_all add: GlobalRoleReconcile_def ecatch_def ecall_def)

fun findExpectUsername :: "Subject list \<Rightarrow> string" where
  "findExpectUsername [] = ''''"
| "findExpectUsername (subject # rest) =
     (if subj_Kind subject = ResourceKindUser then subj_Name subject else findExpectUsername rest)"

definition validSubject :: "string \<Rightarrow> Subject" where
  "validSubject name = \<lparr>subj_Kind = ResourceKindUser, subj_APIGroup = rbacGroup, subj_Name = name, subj_Namespace = ''''\<rparr>"

fun ensureSubjectAPIVersionIsValid :: "Subject list \<Rightarrow> Subject list" where
  "ensureSubjectAPIVersionIsValid [] = []"
| "ensureSubjectAPIVersionIsValid (subject # rest) =
     (if subj_Kind subject = ResourceKindUser
      then validSubject (subj_Name subject) # ensureSubjectAPIVersionIsValid rest
      else ensureSubjectAPIVersionIsValid rest)"

definition clusterAdminBinding :: "BindingObj \<Rightarrow> string \<Rightarrow> BindingObj" where
  "clusterAdminBinding globalRoleBinding username =
     \<lparr>binding_meta = emptyMeta\<lparr>Name := username @ ''-'' @ ClusterAdmin\<rparr>,
      Subjects = ensureSubjectAPIVersionIsValid (Subjects globalRoleBinding),
      roleRef = \<lparr>ref_APIGroup = rbacGroup, ref_Kind = ResourceKindClusterRole, ref_Name = ClusterAdmin\<rparr>\<rparr>"

definition assignClusterAdminRole :: "'w Manager \<Rightarrow> BindingObj \<Rightarrow> ('w, unit) eff" where
  "assignClusterAdminRole m globalRoleBinding =
     (let username = findExpectUsername (Subjects globalRoleBinding) in
      if username = '''' then eret ()
      else
        (case SetOwner m globalRoleBinding (clusterAdminBinding globalRoleBinding username) of
           Inl err \<Rightarrow> eerr err
         | Inr clusterRoleBinding \<Rightarrow>
             ecatch (ecall (kCreate (mClusterRoleBindings m) clusterRoleBinding))
               (\<lambda>err. if IsAlreadyExists err then eret () else eerr err) (\<lambda>_. eret ())))"

definition GlobalRoleBindingReconcile :: "'w Manager \<Rightarrow> 'w reconcile" where
  "GlobalRoleBindingReconcile m ns n =
     ecatch (ecall (kGet (mGlobalRoleBindings m) ns n))
       (\<lambda>err. if IsNotFound err then eret noResult else eerr err)
       (\<lambda>globalRoleBinding.
          if ref_Name (roleRef globalRoleBinding) = PlatformAdmin
          then ebind (assignClusterAdminRole m globalRoleBinding) (\<lambda>_. eret noResult)
          else eret noResult)"

lemma GlobalRoleBindingReconcile_missing: "kGet (mGlobalRoleBindings m) ns n w = (Inl e, w') \<Longrightarrow>
    GlobalRoleBindingReconcile m ns n w = (if IsNotFound e then (Inr noResult, w') else (Inl (Err e), w'))"
  by (simp add: GlobalRoleBindingReconcile_def ecatch_def ecall_def)

interpretation binding_reconciler: object_reconciler "kGet (mGlobalRoleBindings m)" "GlobalRoleBindingReconcile m"
  for m :: "'w Manager"
  by unfold_locales (simp_all add: GlobalRoleBindingReconcile_missing)

lemma ensureSubjectAPIVersionIsValid_eq:
  "ensureSubjectAPIVersionIsValid ss =
    map (\<lambda>s. validSubject (subj_Name s)) (filter (\<lambda>s. subj_Kind s = ResourceKindUser) ss)"
  by (induction ss) simp_all

lemma findExpectUsername_eq:
  "findExpectUsername ss = (case filter (\<lambda>s. subj_Kind s = ResourceKindUser) ss of [] \<Rightarrow> '''' | s # _ \<Rightarrow> subj_Name s)"
  by (induction ss) simp_all

definition keptBinding :: "BindingObj \<Rightarrow> BindingObj \<Rightarrow> bool" where
  "keptBinding x y \<longleftrightarrow> Name (binding_meta y) = Name (binding_meta x) \<and> Subjects y = Subjects x \<and> roleRef y = roleRef x"

definition bindingStore :: "('w \<Rightarrow> Cluster) \<Rightarrow> 'w Manager \<Rightarrow> bool" where
  "bindingStore view m \<longleftrightarrow>
     readsStore view c_globalRoleBindings binding_meta (mGlobalRoleBindings m) \<and>
     createsStore keptBinding view c_clusterRoleBindings (\<lambda>xs c. c\<lparr>c_clusterRoleBindings := xs\<rparr>) (mClusterRoleBindings m) \<and>
     (\<forall>owner x y. SetOwner m owner x = Inr y \<longrightarrow> keptBinding x y)"

lemma memManager_bindingStore: "bindingStore fst memManager"
  unfolding bindingStore_def
  by (intro conjI)
    (simp_all add: memManager_def memKube_reads memKube_creates keptBinding_def)

text \<open>What is left of a run once the binding is read: at most one call, which creates.\<close>

lemma GlobalRoleBindingReconcile_state:
  assumes "kGet (mGlobalRoleBindings m) ns n w = (Inr b, w0)"
  shows "snd (GlobalRoleBindingReconcile m ns n w) =
    (if ref_Name (roleRef b) = PlatformAdmin \<and> findExpectUsername (Subjects b) \<noteq> ''''
     then (case SetOwner m b (clusterAdminBinding b (findExpectUsername (Subjects b))) of
             Inl _ \<Rightarrow> w0 | Inr x \<Rightarrow> snd (kCreate (mClusterRoleBindings m) x w0))
     else w0)"
  using assms by (auto simp: GlobalRoleBindingReconcile_def assignClusterAdminRole_def ecatch_def ecall_def ebind_def
    ofRes_def Let_def split: sum.splits prod.splits)

text \<open>
  C28. Cluster administrators come from platform-admin bindings only: whatever the outcome, reconciling
  a global role binding changes nothing but the cluster role bindings, keeps those that exist, and adds
  at most one, for a stored binding of that name to the role platform-admin that has a user; the new
  one refers to the role cluster-admin, is named after the first user of the binding, and its subjects
  are exactly the users among the subjects of the binding.
\<close>

theorem cluster_admins_from_platform_admins:
  assumes S: "bindingStore view m" and r: "GlobalRoleBindingReconcile m ns n w = (r, w')"
  shows "view w' = view w \<or> (\<exists>b y. b \<in> set (c_globalRoleBindings (view w)) \<and> sameKey binding_meta ns n b \<and>
    ref_Name (roleRef b) = PlatformAdmin \<and> findExpectUsername (Subjects b) \<noteq> '''' \<and>
    view w' = (view w)\<lparr>c_clusterRoleBindings := c_clusterRoleBindings (view w) @ [y]\<rparr> \<and>
    ref_Name (roleRef y) = ClusterAdmin \<and> Name (binding_meta y) = findExpectUsername (Subjects b) @ ''-cluster-admin'' \<and>
    Subjects y = map (\<lambda>s. validSubject (subj_Name s)) (filter (\<lambda>s. subj_Kind s = ResourceKindUser) (Subjects b)))"
    (is "?same \<or> ?added")
proof -
  have R: "readsStore view c_globalRoleBindings binding_meta (mGlobalRoleBindings m)"
    and C: "createsStore keptBinding view c_clusterRoleBindings (\<lambda>xs c. c\<lparr>c_clusterRoleBindings := xs\<rparr>) (mClusterRoleBindings m)"
    and O: "\<And>owner x y. SetOwner m owner x = Inr y \<Longrightarrow> keptBinding x y"
    using S unfolding bindingStore_def by blast+
  obtain g w0 where g: "kGet (mGlobalRoleBindings m) ns n w = (g, w0)" by fastforce
  have v0: "view w0 = view w" by (rule readsStore_getD(1) [OF R g])
  show ?thesis
  proof (cases "w' = w0")
    case True
    with v0 show ?thesis by simp
  next
    case False
    then obtain b where gb: "kGet (mGlobalRoleBindings m) ns n w = (Inr b, w0)"
      using g r binding_reconciler.not_read [of m ns n w _ w0] by (cases g) (auto split: if_splits)
    let ?u = "findExpectUsername (Subjects b)"
    obtain x where admin: "ref_Name (roleRef b) = PlatformAdmin" "?u \<noteq> ''''"
      and x: "SetOwner m b (clusterAdminBinding b ?u) = Inr x" and w': "w' = snd (kCreate (mClusterRoleBindings m) x w0)"
      using GlobalRoleBindingReconcile_state [OF gb] r False by (auto split: if_splits sum.splits)
    obtain q where q: "kCreate (mClusterRoleBindings m) x w0 = (q, w')" using w' by (metis prod.collapse)
    show ?thesis
    proof (cases q)
      case (Inl e)
      with q have "view w' = view w0" using createsStoreD(2) [OF C] by blast
      then show ?thesis using v0 by simp
    next
      case (Inr y)
      from createsStoreD(1) [OF C q [unfolded Inr]] O [OF x] readsStore_getD(2) [OF R gb] have "?added"
        by (intro exI [of _ b] exI [of _ y])
          (simp add: admin v0 keptBinding_def clusterAdminBinding_def ensureSubjectAPIVersionIsValid_eq ClusterAdmin_def)
      then show ?thesis ..
    qed
  qed
qed

section \<open>Runs\<close>



definition loginAt :: "string \<Rightarrow> time \<Rightarrow> LoginRecord" where
  "loginAt n t = \<lparr>record_meta = emptyMeta\<lparr>Name := ''login'', CreationTimestamp := t, Labels := Some [UserReferenceLabel \<mapsto> n]\<rparr>,
     record_spec = \<lparr>rec_Type = BasicAuth, Provider = '''', SourceIP = '''', UserAgent = '''', Success = True,
       rec_Reason = AuthenticatedSuccessfully\<rparr>\<rparr>"






theorem orphan_record_kept_witness:
  "let w = (emptyCluster\<lparr>c_users := [aliceUser], c_records := [loginAt ''alice-example.com'' 0]\<rparr>, 1000 * Hour) in
   fst (snd (LoginRecordReconcile memManager '''' ''login'' w)) = fst w"
proof -
  let ?w = "(emptyCluster\<lparr>c_users := [aliceUser], c_records := [loginAt ''alice-example.com'' 0]\<rparr>, 1000 * Hour) :: memWorld"
  have g: "kGet (mRecords memManager) '''' ''login'' ?w = (Inr (loginAt ''alice-example.com'' 0), ?w)"
    by (simp add: memKube_eval loginAt_def emptyMeta_def)
  have l: "DeletionTimestamp (record_meta (loginAt ''alice-example.com'' 0)) = None"
    by (simp add: loginAt_def emptyMeta_def)
  have o: "\<forall>user \<in> set (c_users (fst ?w)). \<not> recordOf (Name (user_meta user)) (loginAt ''alice-example.com'' 0)"
    by (simp add: recordOf_def loginAt_def mlookup_def aliceUser_def)
  obtain r w' where run: "LoginRecordReconcile memManager '''' ''login'' ?w = (r, w')" by (metis surj_pair)
  from orphan_record_kept [OF memManager_managed g l o run] run show ?thesis by (simp add: Let_def)
qed

text \<open>The statement has no hypothesis about the binding, so a run shows the interesting case.\<close>

definition adminBinding :: BindingObj where
  "adminBinding = \<lparr>binding_meta = emptyMeta\<lparr>Name := ''b''\<rparr>,
     Subjects = [\<lparr>subj_Kind = ''Group'', subj_APIGroup = '''', subj_Name = ''staff'', subj_Namespace = ''''\<rparr>,
                 \<lparr>subj_Kind = ''User'', subj_APIGroup = '''', subj_Name = ''alice'', subj_Namespace = ''''\<rparr>],
     roleRef = \<lparr>ref_APIGroup = iamGroup, ref_Kind = ResourceKindGlobalRole, ref_Name = PlatformAdmin\<rparr>\<rparr>"

theorem cluster_admins_from_platform_admins_witness:
  "\<exists>y. c_clusterRoleBindings (fst (snd (GlobalRoleBindingReconcile memManager '''' ''b''
     (emptyCluster\<lparr>c_globalRoleBindings := [adminBinding]\<rparr>, 0)))) = [y] \<and> Subjects y = [validSubject ''alice'']"
proof -
  let ?w = "(emptyCluster\<lparr>c_globalRoleBindings := [adminBinding]\<rparr>, 0) :: memWorld"
  obtain r w' where run: "GlobalRoleBindingReconcile memManager '''' ''b'' ?w = (r, w')" by (metis surj_pair)
  have "fst (snd (GlobalRoleBindingReconcile memManager '''' ''b'' ?w)) \<noteq> fst ?w"
    by (simp add: GlobalRoleBindingReconcile_def assignClusterAdminRole_def memKube_eval adminBinding_def emptyMeta_def
      emptyCluster_def kind_defs Let_def)
  with cluster_admins_from_platform_admins [OF memManager_bindingStore run] run show ?thesis
    by (auto simp: emptyCluster_def adminBinding_def kind_defs)
qed

end
