(* ===== verification/Feature_Gate.thy ===== *)
theory Feature_Gate
  imports Reconciler Slice_Utils
begin

text \<open>
  Which controllers run: \<open>pkg/controllers/common/reconciler.go\<close> (groups of reconcilers behind a feature
  gate), \<open>pkg/controllers/core/named.go\<close> (named groups) and the start of the controller manager in
  \<open>cmd/ai-controller-manager\<close>. Setting a reconciler up with the manager is a call that may fail.
\<close>

section \<open>Featured reconcilers\<close>

record 'w Featured =
  FeatureGroup :: string
  FeatureName :: string
  FeatureGate :: string
  SetupWithManager :: "('w, unit) eff"

definition gateMap :: "string \<rightharpoonup> int" where
  "gateMap = [''release'' \<mapsto> 1, ''beta'' \<mapsto> 2, ''alpha'' \<mapsto> 3]"

definition getGateValue :: "string \<Rightarrow> int" where
  "getGateValue name = (case gateMap (ToLower name) of None \<Rightarrow> -1 | Some val \<Rightarrow> val)"

fun initFeatured :: "'w Featured list \<Rightarrow> string \<Rightarrow> string \<Rightarrow> ('w, unit) eff" where
  "initFeatured [] name featureGate = eret ()"
| "initFeatured (reconciler # rest) name featureGate =
     (if FeatureGroup reconciler \<noteq> name then initFeatured rest name featureGate
      else if getGateValue featureGate = -1 \<or> getGateValue (FeatureGate reconciler) = -1 \<or>
              getGateValue featureGate < getGateValue (FeatureGate reconciler)
      then initFeatured rest name featureGate
      else ebind (SetupWithManager reconciler) (\<lambda>_. initFeatured rest name featureGate))"

record 'w FeaturedGroup =
  controllers :: "'w Featured list"

definition NewFeaturedReconcilerGroup :: "'w FeaturedGroup" where
  "NewFeaturedReconcilerGroup = \<lparr>controllers = []\<rparr>"

definition PutReconciler :: "'w FeaturedGroup \<Rightarrow> 'w Featured \<Rightarrow> 'w FeaturedGroup" where
  "PutReconciler g reconciler = g\<lparr>controllers := controllers g @ [reconciler]\<rparr>"

fun InitFeatures :: "'w FeaturedGroup \<Rightarrow> string list \<Rightarrow> string \<Rightarrow> ('w, unit) eff" where
  "InitFeatures g [] featureGate = eret ()"
| "InitFeatures g (feature # rest) featureGate =
     ebind (initFeatured (controllers g) feature featureGate) (\<lambda>_. InitFeatures g rest featureGate)"

section \<open>What the gate lets through\<close>

text \<open>The reference: the reconcilers of a feature, each set up in turn until one fails.\<close>

definition gateOpen :: "string \<Rightarrow> string \<Rightarrow> bool" where
  "gateOpen featureGate gate \<longleftrightarrow>
     getGateValue featureGate \<noteq> -1 \<and> getGateValue gate \<noteq> -1 \<and> getGateValue gate \<le> getGateValue featureGate"

fun setupAll :: "('w, unit) eff list \<Rightarrow> ('w, unit) eff" where
  "setupAll [] = eret ()"
| "setupAll (s # ss) = ebind s (\<lambda>_. setupAll ss)"

lemma ebind_assoc: "ebind (ebind p f) g = ebind p (\<lambda>x. ebind (f x) g)"
  by (rule ext) (simp add: ebind_def split: prod.splits sum.splits)

lemma ebind_eret: "ebind (eret x) f = f x"
  by (rule ext) (simp add: ebind_def)

lemma setupAll_append: "setupAll (xs @ ys) = ebind (setupAll xs) (\<lambda>_. setupAll ys)"
  by (induction xs) (simp_all add: ebind_assoc ebind_eret)

lemma setupAll_concat_Nil: "setupAll (concat (map (\<lambda>f. []) fs)) = eret ()"
  by (induction fs) simp_all

lemma initFeatured_eq:
  "initFeatured rs name featureGate =
    setupAll (map SetupWithManager (filter (\<lambda>r. FeatureGroup r = name \<and> gateOpen featureGate (FeatureGate r)) rs))"
  by (induction rs) (auto simp: gateOpen_def)

lemma InitFeatures_reference_eq:
  "InitFeatures g features featureGate =
    setupAll (concat (map (\<lambda>f. map SetupWithManager
      (filter (\<lambda>r. FeatureGroup r = f \<and> gateOpen featureGate (FeatureGate r)) (controllers g))) features))"
  by (induction features) (simp_all add: initFeatured_eq setupAll_append)

text \<open>
  C23. Starting features equals a reference: for each feature of the list in order, the reconcilers of
  that group whose gate is open are set up in the order they were put, and the first error ends the
  start. A gate is open when both names are known and the reconciler is at least as mature as the
  gate asks; an unknown gate starts nothing and reports nothing.
\<close>

theorem InitFeatures_reference:
  "InitFeatures g features featureGate =
    setupAll (concat (map (\<lambda>f. map SetupWithManager
      (filter (\<lambda>r. FeatureGroup r = f \<and> gateOpen featureGate (FeatureGate r)) (controllers g))) features)) \<and>
   (getGateValue featureGate = -1 \<longrightarrow> InitFeatures g features featureGate = eret ())"
proof
  show r: "InitFeatures g features featureGate =
    setupAll (concat (map (\<lambda>f. map SetupWithManager
      (filter (\<lambda>r. FeatureGroup r = f \<and> gateOpen featureGate (FeatureGate r)) (controllers g))) features))"
    by (rule InitFeatures_reference_eq)
  show "getGateValue featureGate = -1 \<longrightarrow> InitFeatures g features featureGate = eret ()"
    unfolding r by (simp add: gateOpen_def setupAll_concat_Nil)
qed

lemma gates_nested:
  "gateOpen ''release'' gate \<Longrightarrow> gateOpen ''beta'' gate" "gateOpen ''beta'' gate \<Longrightarrow> gateOpen ''alpha'' gate"
proof -
  have "getGateValue ''release'' = 1" "getGateValue ''beta'' = 2" "getGateValue ''alpha'' = 3" by code_simp+
  then show "gateOpen ''release'' gate \<Longrightarrow> gateOpen ''beta'' gate"
    "gateOpen ''beta'' gate \<Longrightarrow> gateOpen ''alpha'' gate"
    by (auto simp: gateOpen_def)
qed

section \<open>Named groups\<close>

record 'w Grouped =
  GetGroupName :: string
  groupedSetup :: "('w, unit) eff"

definition AppendReconciler :: "'w Grouped list \<Rightarrow> 'w Grouped \<Rightarrow> 'w Grouped list" where
  "AppendReconciler g reconciler = g @ [reconciler]"

definition SizeOfGroup :: "'w Grouped list \<Rightarrow> int" where
  "SizeOfGroup g = int (length g)"

definition GetName :: "'w Grouped list \<Rightarrow> string" where
  "GetName g = (if length g > 0 then GetGroupName (g ! 0) else '''')"

fun SetupGroup :: "'w Grouped list \<Rightarrow> ('w, unit) eff" where
  "SetupGroup [] = eret ()"
| "SetupGroup (item # rest) = ebind (groupedSetup item) (\<lambda>_. SetupGroup rest)"

lemma SetupGroup_eq: "SetupGroup g = setupAll (map groupedSetup g)"
  by (induction g) simp_all

section \<open>The controller manager\<close>

text \<open>
  The controllers of the repository; \<open>setup\<close> is what \<open>SetupWithManager\<close> of one of them does. An error
  ends the process, which is the error of the start here.
\<close>

datatype Controller = HealthC | UserC | LoginRecordC | GlobalRoleC | GlobalRoleBindingC

definition NewHealthReconciler :: "(Controller \<Rightarrow> ('w, unit) eff) \<Rightarrow> 'w Featured" where
  "NewHealthReconciler setup = \<lparr>FeatureGroup = ''core'', FeatureName = ''health'', FeatureGate = ''alpha'',
     SetupWithManager = setup HealthC\<rparr>"

definition addDefaults :: "(Controller \<Rightarrow> ('w, unit) eff) \<Rightarrow> ('w, unit) eff" where
  "addDefaults setup = ebind (setup UserC) (\<lambda>_. ebind (setup LoginRecordC) (\<lambda>_. eret ()))"

definition startControllers :: "(Controller \<Rightarrow> ('w, unit) eff) \<Rightarrow> string \<Rightarrow> string \<Rightarrow> ('w, unit) eff" where
  "startControllers setup features featureGate =
     (let featureSlice = SplitChar features CHR '','';
          g = PutReconciler NewFeaturedReconcilerGroup (NewHealthReconciler setup)
      in ebind (InitFeatures g featureSlice featureGate) (\<lambda>_.
           if HasString featureSlice ''default'' then addDefaults setup else eret ()))"

definition putFeaturedReconciler ::
  "(string \<rightharpoonup> 'w Featured list) \<Rightarrow> 'w Featured \<Rightarrow> (string \<rightharpoonup> 'w Featured list)" where
  \<comment> \<open>the appended slice is assigned to a local variable only\<close>
  "putFeaturedReconciler cs reconciler =
     (let name = FeatureName reconciler in
      case cs name of Some items \<Rightarrow> cs | None \<Rightarrow> cs(name \<mapsto> [reconciler]))"

lemma putFeaturedReconciler_drops:
  "FeatureName r2 = FeatureName r1 \<Longrightarrow>
   putFeaturedReconciler (putFeaturedReconciler Map.empty r1) r2 (FeatureName r1) = Some [r1]"
  by (simp add: putFeaturedReconciler_def)

text \<open>The start as a log of the controllers it sets up.\<close>

definition logSetup :: "Controller \<Rightarrow> (Controller list, unit) eff" where
  "logSetup c w = (Inr (), w @ [c])"

lemma setupAll_log: "setupAll (map logSetup cs) w = (Inr (), w @ cs)"
  by (induction cs arbitrary: w) (simp_all add: logSetup_def ebind_def)

text \<open>
  Which controllers run: the manager sets up the health controller once for every occurrence of
  the feature core, if the gate is alpha, and then, if the feature default is listed, the user and the
  login record controllers. The controllers of global roles and of their bindings never run, so no
  cluster administrator is made; with the default flags the users and login records are all.
\<close>

theorem manager_controllers:
  "startControllers logSetup features featureGate [] =
     (Inr (), (if ToLower featureGate = ''alpha''
               then replicate (count_list (SplitChar features CHR '','') ''core'') HealthC else []) @
              (if ''default'' \<in> set (SplitChar features CHR '','') then [UserC, LoginRecordC] else []))"
proof -
  let ?fs = "SplitChar features CHR '',''" and ?h = "NewHealthReconciler logSetup"
  have a: "getGateValue ''alpha'' = 3" by code_simp
  have g: "gateOpen featureGate ''alpha'' \<longleftrightarrow> ToLower featureGate = ''alpha''"
    unfolding gateOpen_def a by (auto simp: getGateValue_def gateMap_def split: if_splits)
  have c: "concat (map (\<lambda>f. map SetupWithManager (filter (\<lambda>r. FeatureGroup r = f \<and> gateOpen featureGate (FeatureGate r)) [?h])) fs) =
    map logSetup (if ToLower featureGate = ''alpha'' then replicate (count_list fs ''core'') HealthC else [])" for fs
    by (induction fs) (auto simp: NewHealthReconciler_def g)
  have i: "InitFeatures (PutReconciler NewFeaturedReconcilerGroup ?h) ?fs featureGate =
    setupAll (map logSetup (if ToLower featureGate = ''alpha'' then replicate (count_list ?fs ''core'') HealthC else []))"
    using InitFeatures_reference_eq [of "PutReconciler NewFeaturedReconcilerGroup ?h" ?fs featureGate] c [of ?fs]
    by (simp add: PutReconciler_def NewFeaturedReconcilerGroup_def)
  show ?thesis
    unfolding startControllers_def Let_def i ebind_def setupAll_log
    by (simp add: addDefaults_def logSetup_def ebind_def)
qed

theorem manager_controllers_default:
  "startControllers logSetup ''default'' ''release'' [] = (Inr (), [UserC, LoginRecordC])"
  by code_simp

theorem InitFeatures_reference_witness:
  "InitFeatures (PutReconciler NewFeaturedReconcilerGroup (NewHealthReconciler logSetup)) [''core''] ''nightly'' = eret ()"
proof -
  have "getGateValue ''nightly'' = -1" by code_simp
  then show ?thesis
    using InitFeatures_reference [of "PutReconciler NewFeaturedReconcilerGroup (NewHealthReconciler logSetup)" "[''core'']"
        "''nightly''"] by blast
qed

end
