(* ===== verification/Health_Controller.thy ===== *)
theory Health_Controller
  imports Reconciler Health_Types
begin

text \<open>
  The health controller, \<open>pkg/controllers/core/health_controller.go\<close>, on the types of
  \<open>Health_Types\<close>: it looks at the pods that a selector names and at services over
  HTTP, writes what it finds into the status, and asks to be called again. Go iterates over a map in
  an order of its choice: the maps of the specification are lists of entries with distinct keys, in the
  order of the iteration, and \<open>sentComponents\<close> shows that the order does not matter.
\<close>

text \<open>
  The parser of label selectors, the list of pods, the HTTP client (the status code of the answer) and
  the text of an error are library code.
\<close>

record ('s, 'w) HealthReconciler =
  hrClient :: "(Health, 'w) KubeClient"
  parseSelector :: "string \<Rightarrow> goerr + 's"
  listPods :: "'s \<Rightarrow> 'w \<Rightarrow> (goerr + Pod list) \<times> 'w"
  httpGet :: "string \<Rightarrow> 'w \<Rightarrow> (goerr + int) \<times> 'w"
  hrErrorText :: "goerr \<Rightarrow> string"

section \<open>Checks\<close>

definition IntValue :: "IntOrString \<Rightarrow> int" where
  "IntValue p = (if isString p then fst (Atoi (StrVal p)) else IntVal p)"

definition fillAction :: "HTTPGetAction \<Rightarrow> HTTPGetAction" where
  "fillAction action =
     (let a1 = (if act_Scheme action = '''' then action\<lparr>act_Scheme := ''HTTP''\<rparr> else action);
          a2 = (if IntValue (act_Port a1) = 0
                then a1\<lparr>act_Port := (act_Port a1)\<lparr>isString := True, StrVal := ''80''\<rparr>\<rparr> else a1);
          a3 = (if act_Host a2 = '''' then a2\<lparr>act_Host := ''localhost''\<rparr> else a2)
      in if HasPrefix (act_Path a3) ''/'' then a3\<lparr>act_Path := TrimPrefix (act_Path a3) ''/''\<rparr> else a3)"

definition actionURL :: "HTTPGetAction \<Rightarrow> string" where
  "actionURL a = act_Scheme a @ ''://'' @ act_Host a @ '':'' @ FormatInt (IntValue (act_Port a)) @ ''/'' @ act_Path a"

text \<open>The action is filled in place: the result has it as it is afterwards.\<close>

definition HTTPCheck ::
  "('s, 'w) HealthReconciler \<Rightarrow> HTTPGetAction option \<Rightarrow> 'w \<Rightarrow> HTTPGetAction option \<times> unit res \<times> 'w" where
  "HTTPCheck r action w =
     (case action of
        None \<Rightarrow> (None, Inr (), w)
      | Some action \<Rightarrow>
          let a = fillAction action in
          (case httpGet r (actionURL a) w of
             (Inl err, w') \<Rightarrow> (Some a, Inl err, w')
           | (Inr code, w') \<Rightarrow>
               if code \<noteq> 200
               then (Some a, Inl (Msg (''response status code '' @ [CHR 39] @ FormatInt code @ [CHR 39] @ '' is not 200'')), w')
               else (Some a, Inr (), w')))"

fun restartSum :: "int \<Rightarrow> int list \<Rightarrow> int" where
  "restartSum n [] = n"
| "restartSum n (c # cs) = restartSum (wrap64 (n + c)) cs"

definition getPodRestartCount :: "Pod \<Rightarrow> int" where
  "getPodRestartCount pod = (case ContainerStatuses pod of None \<Rightarrow> 0 | Some cs \<Rightarrow> restartSum 0 cs)"

definition podStatus :: "Pod \<Rightarrow> PodStatus" where
  "podStatus pod = \<lparr>ps_Name = Name (pod_meta pod), ps_Namespace = Namespace (pod_meta pod),
     RestartCount = getPodRestartCount pod, ps_Status = pod_Phase pod,
     ps_CreationTimestamp = CreationTimestamp (pod_meta pod)\<rparr>"

definition messageOnly :: "string \<Rightarrow> Component" where
  "messageOnly text = \<lparr>comp_Name = '''', PodList = [], comp_Message = text\<rparr>"

definition checkSelector :: "('s, 'w) HealthReconciler \<Rightarrow> string \<Rightarrow> 'w \<Rightarrow> Component \<times> 'w" where
  "checkSelector r val w =
     (case parseSelector r val of
        Inl err \<Rightarrow> (messageOnly (hrErrorText r err), w)
      | Inr selector \<Rightarrow>
          (case listPods r selector w of
             (Inl err, w') \<Rightarrow> (messageOnly (hrErrorText r err), w')
           | (Inr pods, w') \<Rightarrow> (\<lparr>comp_Name = '''', PodList = map podStatus pods, comp_Message = ''ok''\<rparr>, w')))"

fun checkSelectors ::
  "('s, 'w) HealthReconciler \<Rightarrow> (string \<times> string) list \<Rightarrow> (string \<rightharpoonup> Component) \<Rightarrow> 'w \<Rightarrow> (string \<rightharpoonup> Component) \<times> 'w" where
  "checkSelectors r [] comps w = (comps, w)"
| "checkSelectors r ((key, val) # rest) comps w =
     (case checkSelector r val w of (c, w') \<Rightarrow> checkSelectors r rest (comps(key \<mapsto> c)) w')"

fun checkProbes ::
  "('s, 'w) HealthReconciler \<Rightarrow> (string \<times> Probe) list \<Rightarrow> (string \<rightharpoonup> Component) \<Rightarrow> 'w \<Rightarrow>
   (string \<times> Probe) list \<times> (string \<rightharpoonup> Component) \<times> 'w" where
  "checkProbes r [] comps w = ([], comps, w)"
| "checkProbes r ((key, val) # rest) comps w =
     (case HTTPCheck r (HTTPGet val) w of
        (action, res, w') \<Rightarrow>
          (let c = messageOnly (case res of Inl err \<Rightarrow> hrErrorText r err | Inr _ \<Rightarrow> ''ok'') in
           case checkProbes r rest (comps(key \<mapsto> c)) w' of
             (rest', comps', w'') \<Rightarrow> ((key, val\<lparr>HTTPGet := action\<rparr>) # rest', comps', w'')))"

section \<open>The reconciler\<close>

definition RegularReconcile :: "Health \<Rightarrow> ReconcileResult" where
  \<comment> \<open>of a reconciliation without an error\<close>
  "RegularReconcile health =
     noResult\<lparr>RequeueAfter := (if Interval (health_spec health) = 0 then 30 * Second else Interval (health_spec health))\<rparr>"

definition entries :: "(string \<times> 'a) list option \<Rightarrow> (string \<times> 'a) list" where
  "entries m = (case m of None \<Rightarrow> [] | Some kvs \<Rightarrow> kvs)"

definition checkHealth :: "('s, 'w) HealthReconciler \<Rightarrow> Health \<Rightarrow> 'w \<Rightarrow> Health \<times> 'w" where
  "checkHealth r health w =
     (let comps0 = (case Components (health_status health) of None \<Rightarrow> Map.empty | Some c \<Rightarrow> c) in
      case checkSelectors r (entries (ComponentSelectors (health_spec health))) comps0 w of
        (comps1, w1) \<Rightarrow>
          (case checkProbes r (entries (ServiceProbes (health_spec health))) comps1 w1 of
             (probes, comps2, w2) \<Rightarrow>
               (health\<lparr>health_spec := (health_spec health)\<lparr>ServiceProbes :=
                         (case ServiceProbes (health_spec health) of None \<Rightarrow> None | Some _ \<Rightarrow> Some probes)\<rparr>,
                       health_status := \<lparr>Components = Some comps2\<rparr>\<rparr>, w2)))"

definition HealthReconcile :: "('s, 'w) HealthReconciler \<Rightarrow> 'w reconcile" where
  "HealthReconcile r ns n =
     ecatch (ecall (kGet (hrClient r) ns n))
       (\<lambda>err. if IsNotFound err then eret noResult else eerr err)
       (\<lambda>health.
          if ComponentSelectors (health_spec health) = None \<and> ServiceProbes (health_spec health) = None
          then eret (RegularReconcile health)
          else (\<lambda>w. case checkHealth r health w of
                 (health', w') \<Rightarrow>
                   ebind (ecall (kStatusUpdate (hrClient r) health')) (\<lambda>answer. eret (RegularReconcile answer)) w'))"

lemma HealthReconcile_missing: "kGet (hrClient r) ns n w = (Inl e, w') \<Longrightarrow>
    HealthReconcile r ns n w = (if IsNotFound e then (Inr noResult, w') else (Inl (Err e), w'))"
  by (simp add: HealthReconcile_def ecatch_def ecall_def)

interpretation health_reconciler: object_reconciler "kGet (hrClient r)" "HealthReconcile r"
  for r :: "('s, 'w) HealthReconciler"
  by unfold_locales (simp_all add: HealthReconcile_missing)

section \<open>Properties\<close>

text \<open>
  When controller-runtime calls a reconciler again after a success: for a positive delay, or when it is
  asked to without one. \<open>keepsInterval\<close>: an update of the status leaves the specification.
\<close>

definition requeued :: "ReconcileResult \<Rightarrow> bool" where
  "requeued result \<longleftrightarrow> RequeueAfter result > 0 \<or> Requeue result"

definition keepsInterval :: "('s, 'w) HealthReconciler \<Rightarrow> bool" where
  "keepsInterval r \<longleftrightarrow> (\<forall>x w y w'. kStatusUpdate (hrClient r) x w = (Inr y, w') \<longrightarrow>
     Interval (health_spec y) = Interval (health_spec x))"

lemma checkHealth_interval: "checkHealth r h w = (h', w') \<Longrightarrow> Interval (health_spec h') = Interval (health_spec h)"
  by (auto simp: checkHealth_def Let_def split: prod.splits)

text \<open>
  C29. When a health object is polled again: a reconciliation that succeeds is repeated exactly when it has
  found the object and the interval of the object is not negative, after that interval, or after thirty
  seconds when it is zero. An object with a negative interval, which nothing forbids, is not polled any more.
\<close>

theorem health_polled_while_it_exists:
  assumes "HealthReconcile r ns n w = (Inr result, w')" and "keepsInterval r"
  shows "(requeued result \<longleftrightarrow> (\<exists>health. fst (kGet (hrClient r) ns n w) = Inr health \<and> 0 \<le> Interval (health_spec health))) \<and>
    RequeueAfter result = (case fst (kGet (hrClient r) ns n w) of
        Inl _ \<Rightarrow> 0
      | Inr health \<Rightarrow> if Interval (health_spec health) = 0 then 30 * Second else Interval (health_spec health))"
proof (cases "kGet (hrClient r) ns n w")
  case (Pair g w1)
  show ?thesis
  proof (cases g)
    case (Inl e)
    then show ?thesis using assms(1) Pair HealthReconcile_missing [of r ns n w e w1]
      by (auto simp: noResult_def requeued_def split: if_splits)
  next
    case (Inr health)
    have "result = RegularReconcile health \<or> (\<exists>h w2 y. checkHealth r health w1 = (h, w2) \<and>
        kStatusUpdate (hrClient r) h w2 = (Inr y, w') \<and> result = RegularReconcile y)"
      using assms(1) Pair Inr
      by (auto simp: HealthReconcile_def ecatch_def ecall_def ebind_Inr_iff split: if_splits prod.splits)
    then have "\<exists>h. result = RegularReconcile h \<and> Interval (health_spec h) = Interval (health_spec health)"
      using assms(2) checkHealth_interval [of r health w1] unfolding keepsInterval_def by metis
    then show ?thesis using Pair Inr by (auto simp: RegularReconcile_def noResult_def requeued_def duration_defs)
  qed
qed









section \<open>Runs\<close>

definition emptyAction :: HTTPGetAction where
  "emptyAction = \<lparr>act_Path = ''/'', act_Port = \<lparr>isString = False, IntVal = 0, StrVal = ''''\<rparr>, act_Host = '''', act_Scheme = ''''\<rparr>"

lemma emptyAction_URL: "actionURL (fillAction emptyAction) = ''HTTP://localhost:80/''"
  by code_simp

definition exampleHealth :: Health where
  "exampleHealth = \<lparr>health_meta = emptyMeta\<lparr>Name := ''h''\<rparr>,
     health_spec = \<lparr>Interval = 0, ComponentSelectors = Some [(''web'', ''app=web''), (''db'', ''app=db'')],
       ServiceProbes = Some [(''web'', \<lparr>HTTPGet = Some emptyAction\<rparr>)]\<rparr>,
     health_status = \<lparr>Components = None\<rparr>\<rparr>"

definition web404 :: "(string, unit) HealthReconciler" where
  "web404 = \<lparr>hrClient = \<lparr>
       kGet = (\<lambda>_ n w. (if n = ''h'' then Inr exampleHealth else Inl (NotFound ''healths'' n), w)), kList = (\<lambda>_ w. (Inr [], w)),
       kCreate = (\<lambda>x w. (Inr x, w)), kUpdate = (\<lambda>x w. (Inr x, w)), kStatusUpdate = (\<lambda>x w. (Inr x, w)),
       kDelete = (\<lambda>_ w. (Inr (), w)), kDeleteAllOf = (\<lambda>_ _ w. (Inr (), w))\<rparr>,
     parseSelector = (\<lambda>s. Inr s), listPods = (\<lambda>_ w. (Inr [], w)), httpGet = (\<lambda>_ w. (Inr 404, w)),
     hrErrorText = (\<lambda>e. case e of Msg s \<Rightarrow> s | _ \<Rightarrow> ''error'')\<rparr>"


theorem health_polled_while_it_exists_witness:
  "\<exists>result w. HealthReconcile web404 '''' ''h'' () = (Inr result, w) \<and> requeued result \<and> RequeueAfter result = 30 * Second"
proof -
  have "isOk (fst (HealthReconcile web404 '''' ''h'' ()))"
    by (simp add: HealthReconcile_def ecatch_def ecall_def ebind_def web404_def exampleHealth_def split: prod.splits)
  then obtain result w where r: "HealthReconcile web404 '''' ''h'' () = (Inr result, w)"
    by (metis isOk_iff prod.collapse)
  have k: "keepsInterval web404" by (simp add: keepsInterval_def web404_def)
  have "fst (kGet (hrClient web404) '''' ''h'' ()) = Inr exampleHealth" by (simp add: web404_def)
  then show ?thesis using health_polled_while_it_exists [OF r k] r by (simp add: exampleHealth_def)
qed

end
