(* ===== verification/Informer_Factory.thy ===== *)
theory Informer_Factory
  imports Iam_Types
begin

text \<open>
  The shared informers of the IAM and core kinds, \<open>pkg/client/ai/informers/externalversions\<close>: a factory
  hands out one informer per type, starts each of them once, and can be shut down. Goroutines are
  counted, not run: \<open>runs\<close> lists the informers that were started, \<open>wg\<close> counts those whose goroutine has
  not ended. The key of an informer, a \<open>reflect.Type\<close>, is the kind; the reflector behind an informer
  is library code. \<open>'o\<close> stands for the list options.
\<close>

section \<open>Informers\<close>

datatype Kind = KHealth | KGlobalRole | KGlobalRoleBinding | KLoginRecord | KUser

record 'o Informer =
  infKind :: Kind
  infResync :: duration
  infTweak :: "('o \<Rightarrow> 'o) option"

definition listFunc :: "(Kind \<Rightarrow> 'o \<Rightarrow> 'r) \<Rightarrow> 'o Informer \<Rightarrow> 'o \<Rightarrow> 'r" where
  \<comment> \<open>the ListFunc and the WatchFunc of an informer, over the call of the clientset\<close>
  "listFunc call i options = call (infKind i) (case infTweak i of None \<Rightarrow> options | Some tweak \<Rightarrow> tweak options)"

definition NewFilteredUserInformer :: "duration \<Rightarrow> ('o \<Rightarrow> 'o) option \<Rightarrow> 'o Informer" where
  "NewFilteredUserInformer resyncPeriod tweak = \<lparr>infKind = KUser, infResync = resyncPeriod, infTweak = tweak\<rparr>"

definition NewFilteredGlobalRoleInformer :: "duration \<Rightarrow> ('o \<Rightarrow> 'o) option \<Rightarrow> 'o Informer" where
  "NewFilteredGlobalRoleInformer resyncPeriod tweak = \<lparr>infKind = KGlobalRole, infResync = resyncPeriod, infTweak = tweak\<rparr>"

definition NewFilteredGlobalRoleBindingInformer :: "duration \<Rightarrow> ('o \<Rightarrow> 'o) option \<Rightarrow> 'o Informer" where
  "NewFilteredGlobalRoleBindingInformer resyncPeriod tweak =
     \<lparr>infKind = KGlobalRoleBinding, infResync = resyncPeriod, infTweak = tweak\<rparr>"

definition NewFilteredLoginRecordInformer :: "duration \<Rightarrow> ('o \<Rightarrow> 'o) option \<Rightarrow> 'o Informer" where
  "NewFilteredLoginRecordInformer resyncPeriod tweak = \<lparr>infKind = KLoginRecord, infResync = resyncPeriod, infTweak = tweak\<rparr>"

definition NewFilteredHealthInformer :: "duration \<Rightarrow> ('o \<Rightarrow> 'o) option \<Rightarrow> 'o Informer" where
  "NewFilteredHealthInformer resyncPeriod tweak = \<lparr>infKind = KHealth, infResync = resyncPeriod, infTweak = tweak\<rparr>"

lemmas informer_defs = NewFilteredUserInformer_def NewFilteredGlobalRoleInformer_def
  NewFilteredGlobalRoleBindingInformer_def NewFilteredLoginRecordInformer_def NewFilteredHealthInformer_def

section \<open>The factory\<close>

text \<open>The map of informers is a list with distinct kinds; Go may iterate it in any order.\<close>

record 'o Factory =
  fNamespace :: string
  tweakListOptions :: "('o \<Rightarrow> 'o) option"
  defaultResync :: duration
  customResync :: "Kind \<rightharpoonup> duration"
  informers :: "(Kind \<times> 'o Informer) list"
  startedInformers :: "Kind \<Rightarrow> bool"
  wg :: nat
  shuttingDown :: bool
  runs :: "Kind list"

type_synonym 'o FactoryOption = "'o Factory \<Rightarrow> 'o Factory"

definition WithCustomResyncConfig :: "(Kind \<times> duration) list \<Rightarrow> 'o FactoryOption" where
  "WithCustomResyncConfig resyncConfig factory =
     factory\<lparr>customResync := customResync factory ++ map_of (rev resyncConfig)\<rparr>"

definition WithTweakListOptions :: "('o \<Rightarrow> 'o) option \<Rightarrow> 'o FactoryOption" where
  "WithTweakListOptions tweak factory = factory\<lparr>tweakListOptions := tweak\<rparr>"

definition WithNamespaceOption :: "string \<Rightarrow> 'o FactoryOption" where
  "WithNamespaceOption namespace factory = factory\<lparr>fNamespace := namespace\<rparr>"

definition NewSharedInformerFactoryWithOptions :: "duration \<Rightarrow> 'o FactoryOption list \<Rightarrow> 'o Factory" where
  "NewSharedInformerFactoryWithOptions resync options =
     fold (\<lambda>opt factory. opt factory) options
       \<lparr>fNamespace = '''', tweakListOptions = None, defaultResync = resync, customResync = Map.empty,
        informers = [], startedInformers = (\<lambda>_. False), wg = 0, shuttingDown = False, runs = []\<rparr>"

definition NewSharedInformerFactory :: "duration \<Rightarrow> 'o Factory" where
  "NewSharedInformerFactory resync = NewSharedInformerFactoryWithOptions resync []"

definition NewFilteredSharedInformerFactory ::
  "duration \<Rightarrow> string \<Rightarrow> ('o \<Rightarrow> 'o) option \<Rightarrow> 'o Factory" where
  "NewFilteredSharedInformerFactory resync namespace tweak =
     NewSharedInformerFactoryWithOptions resync [WithNamespaceOption namespace, WithTweakListOptions tweak]"

fun startLoop :: "(Kind \<times> 'o Informer) list \<Rightarrow> 'o Factory \<Rightarrow> 'o Factory" where
  "startLoop [] f = f"
| "startLoop ((informerType, informer) # rest) f =
     startLoop rest
       (if \<not> startedInformers f informerType
        then f\<lparr>wg := wg f + 1, runs := runs f @ [informerType],
               startedInformers := (startedInformers f)(informerType := True)\<rparr>
        else f)"

definition StartFactory :: "'o Factory \<Rightarrow> 'o Factory" where
  "StartFactory f = (if shuttingDown f then f else startLoop (informers f) f)"

text \<open>\<open>Shutdown\<close> marks the factory and then waits until no goroutine is left.\<close>

definition markShutdown :: "'o Factory \<Rightarrow> 'o Factory" where
  "markShutdown f = f\<lparr>shuttingDown := True\<rparr>"

definition ShutdownReturns :: "'o Factory \<Rightarrow> bool" where
  "ShutdownReturns f \<longleftrightarrow> shuttingDown f \<and> wg f = 0"

definition WaitForCacheSyncOf :: "(Kind \<Rightarrow> bool) \<Rightarrow> 'o Factory \<Rightarrow> (Kind \<rightharpoonup> bool)" where
  \<comment> \<open>\<open>synced\<close> is what waiting for \<open>HasSynced\<close> of a started informer gives\<close>
  "WaitForCacheSyncOf synced f =
     map_of (map (\<lambda>(t, _). (t, synced t)) (filter (\<lambda>(t, _). startedInformers f t) (informers f)))"

definition InformerFor :: "Kind \<Rightarrow> (duration \<Rightarrow> 'o Informer) \<Rightarrow> 'o Factory \<Rightarrow> 'o Informer \<times> 'o Factory" where
  "InformerFor informerType newFunc f =
     (case map_of (informers f) informerType of
        Some informer \<Rightarrow> (informer, f)
      | None \<Rightarrow>
          let resyncPeriod = (case customResync f informerType of None \<Rightarrow> defaultResync f | Some d \<Rightarrow> d);
              informer = newFunc resyncPeriod
          in (informer, f\<lparr>informers := informers f @ [(informerType, informer)]\<rparr>))"

text \<open>\<open>f.Iam().V1().Users().Informer()\<close> and its siblings: the group passes the options of the factory on.\<close>

definition userInformer :: "'o Factory \<Rightarrow> 'o Informer \<times> 'o Factory" where
  "userInformer f = InformerFor KUser (\<lambda>d. NewFilteredUserInformer d (tweakListOptions f)) f"

definition globalRoleInformer :: "'o Factory \<Rightarrow> 'o Informer \<times> 'o Factory" where
  "globalRoleInformer f = InformerFor KGlobalRole (\<lambda>d. NewFilteredGlobalRoleInformer d (tweakListOptions f)) f"

definition globalRoleBindingInformer :: "'o Factory \<Rightarrow> 'o Informer \<times> 'o Factory" where
  "globalRoleBindingInformer f =
     InformerFor KGlobalRoleBinding (\<lambda>d. NewFilteredGlobalRoleBindingInformer d (tweakListOptions f)) f"

definition loginRecordInformer :: "'o Factory \<Rightarrow> 'o Informer \<times> 'o Factory" where
  "loginRecordInformer f = InformerFor KLoginRecord (\<lambda>d. NewFilteredLoginRecordInformer d (tweakListOptions f)) f"

definition healthInformer :: "'o Factory \<Rightarrow> 'o Informer \<times> 'o Factory" where
  "healthInformer f = InformerFor KHealth (\<lambda>d. NewFilteredHealthInformer d (tweakListOptions f)) f"

lemmas kind_informer_defs = userInformer_def globalRoleInformer_def globalRoleBindingInformer_def
  loginRecordInformer_def healthInformer_def

record GroupVersion =
  gv_Group :: string
  gv_Version :: string

record GroupVersionResource = GroupVersion +
  gv_Resource :: string

definition WithResource :: "GroupVersion \<Rightarrow> string \<Rightarrow> GroupVersionResource" where
  "WithResource gv resource = GroupVersion.extend gv (GroupVersionResource.fields resource)"

definition coreGV :: GroupVersion where "coreGV = \<lparr>gv_Group = ''core.ai.io'', gv_Version = ''v1''\<rparr>"
definition iamGV :: GroupVersion where "iamGV = \<lparr>gv_Group = ''iam.ai.io'', gv_Version = ''v1''\<rparr>"

definition ForResource ::
  "GroupVersionResource \<Rightarrow> 'o Factory \<Rightarrow> (goerr + 'o Informer) \<times> 'o Factory" where
  "ForResource resource f =
     (if resource = WithResource coreGV ''healths'' then (case healthInformer f of (i, f') \<Rightarrow> (Inr i, f'))
      else if resource = WithResource iamGV ''globalroles'' then (case globalRoleInformer f of (i, f') \<Rightarrow> (Inr i, f'))
      else if resource = WithResource iamGV ''globalrolebindings''
      then (case globalRoleBindingInformer f of (i, f') \<Rightarrow> (Inr i, f'))
      else if resource = WithResource iamGV ''loginrecords'' then (case loginRecordInformer f of (i, f') \<Rightarrow> (Inr i, f'))
      else if resource = WithResource iamGV ''users'' then (case userInformer f of (i, f') \<Rightarrow> (Inr i, f'))
      else (Inl (Msg ''no informer found''), f))"

section \<open>What happens to a factory\<close>

text \<open>
  The calls of the program in any order, from any goroutine (the lock makes each of them one step),
  and the end of a goroutine.
\<close>

inductive factoryStep :: "'o Factory \<Rightarrow> 'o Factory \<Rightarrow> bool" where
  request: "factoryStep f (snd (InformerFor t newFunc f))"
| start: "factoryStep f (StartFactory f)"
| shutdown: "factoryStep f (markShutdown f)"
| goroutine_ends: "wg f > 0 \<Longrightarrow> factoryStep f (f\<lparr>wg := wg f - 1\<rparr>)"

inductive_cases factoryStepE: "factoryStep f f'"

definition factoryInv :: "'o Factory \<Rightarrow> bool" where
  "factoryInv f \<longleftrightarrow> distinct (map fst (informers f)) \<and> distinct (runs f) \<and>
     set (runs f) = {t. startedInformers f t} \<and> set (runs f) \<subseteq> fst ` set (informers f) \<and> wg f \<le> length (runs f)"

lemma startLoop_frame [simp]:
  "informers (startLoop tis f) = informers f" "shuttingDown (startLoop tis f) = shuttingDown f"
  by (induction tis arbitrary: f) (auto simp: split_paired_all)

lemma startLoop_inv:
  assumes "factoryInv f" and "fst ` set tis \<subseteq> fst ` set (informers f)"
  shows "factoryInv (startLoop tis f) \<and> set (runs (startLoop tis f)) = set (runs f) \<union> fst ` set tis \<and>
    (\<exists>new. runs (startLoop tis f) = runs f @ new)"
  using assms
proof (induction tis arbitrary: f)
  case (Cons ti tis)
  obtain t i where ti: "ti = (t, i)" by fastforce
  let ?f = "if \<not> startedInformers f t then f\<lparr>wg := wg f + 1, runs := runs f @ [t],
    startedInformers := (startedInformers f)(t := True)\<rparr> else f"
  have "factoryInv ?f" and r: "set (runs ?f) = insert t (set (runs f))" and "informers ?f = informers f"
    and new: "\<exists>new. runs ?f = runs f @ new"
    using Cons.prems ti by (auto simp: factoryInv_def)
  then show ?case using Cons.IH [of ?f] Cons.prems(2) by (auto simp: ti)
qed simp

lemma map_of_fst: "map_of kvs t = None \<longleftrightarrow> t \<notin> fst ` set kvs"
  by (rule map_of_eq_None_iff)

lemma InformerFor_frame:
  assumes "InformerFor t newFunc f = (i, f')"
  shows "runs f' = runs f \<and> startedInformers f' = startedInformers f \<and> wg f' = wg f \<and>
    shuttingDown f' = shuttingDown f \<and> map_of (informers f') t = Some i \<and>
    fst ` set (informers f') = insert t (fst ` set (informers f)) \<and>
    (\<forall>t' i'. map_of (informers f) t' = Some i' \<longrightarrow> map_of (informers f') t' = Some i') \<and>
    (distinct (map fst (informers f)) \<longrightarrow> distinct (map fst (informers f')))"
proof (cases "map_of (informers f) t")
  case (Some j)
  then have "t \<in> fst ` set (informers f)" by (metis map_of_fst option.distinct(1))
  then show ?thesis using assms Some by (auto simp: InformerFor_def)
next
  case None
  have m: "map_of (xs @ [(t, i)]) k = (case map_of xs k of None \<Rightarrow> if k = t then Some i else None | Some x \<Rightarrow> Some x)"
    for xs k by (simp add: map_add_def split: option.splits)
  show ?thesis using assms None map_of_fst [of "informers f" t]
    by (auto simp: InformerFor_def Let_def m map_add_def split: option.splits)
qed

lemma InformerFor_inv: "factoryInv f \<Longrightarrow> factoryInv (snd (InformerFor t newFunc f))"
  using InformerFor_frame [of t newFunc f "fst (InformerFor t newFunc f)" "snd (InformerFor t newFunc f)"]
  by (auto simp: factoryInv_def)

lemma StartFactory_inv: "factoryInv f \<Longrightarrow> factoryInv (StartFactory f)"
  using startLoop_inv [of f "informers f"] by (simp add: StartFactory_def)

lemma factoryInv_step: "factoryStep f f' \<Longrightarrow> factoryInv f \<Longrightarrow> factoryInv f'"
proof (induction rule: factoryStep.induct)
  case (goroutine_ends f)
  then show ?case by (auto simp: factoryInv_def)
next
  case (shutdown f)
  then show ?case by (auto simp: factoryInv_def markShutdown_def)
qed (simp_all add: InformerFor_inv StartFactory_inv)

lemma runs_step: "factoryStep f f' \<Longrightarrow> factoryInv f \<Longrightarrow>
  (\<exists>new. runs f' = runs f @ new) \<and> (shuttingDown f \<longrightarrow> shuttingDown f' \<and> runs f' = runs f \<and> wg f' \<le> wg f)"
proof (induction rule: factoryStep.induct)
  case (request f t newFunc)
  then show ?case
    using InformerFor_frame [of t newFunc f "fst (InformerFor t newFunc f)" "snd (InformerFor t newFunc f)"] by simp
next
  case (start f)
  then show ?case using startLoop_inv [of f "informers f"] by (auto simp: StartFactory_def)
qed (simp_all add: markShutdown_def)

definition newFactory :: "'o Factory \<Rightarrow> bool" where
  \<comment> \<open>as a constructor returns it\<close>
  "newFactory f \<longleftrightarrow> informers f = [] \<and> runs f = [] \<and> startedInformers f = (\<lambda>_. False) \<and> wg f = 0 \<and> \<not> shuttingDown f"

lemma reachable_inv: "factoryStep\<^sup>*\<^sup>* f f' \<Longrightarrow> newFactory f \<Longrightarrow> factoryInv f'"
proof (induction rule: rtranclp_induct)
  case base
  then show ?case by (simp add: factoryInv_def newFactory_def)
next
  case (step y z)
  then show ?case by (blast intro: factoryInv_step)
qed

lemma newFactory_options:
  "newFactory (NewSharedInformerFactory d)" "newFactory (NewFilteredSharedInformerFactory d ns tweak)"
  by (simp_all add: newFactory_def NewSharedInformerFactory_def NewFilteredSharedInformerFactory_def
    NewSharedInformerFactoryWithOptions_def WithNamespaceOption_def WithTweakListOptions_def)

text \<open>
  C13. No informer is started twice: in every state that a new factory reaches by requests, starts,
  shutdowns and ends of goroutines, in any order, each kind has at most one informer and at most one
  goroutine was started for it, only for a requested one, and no more goroutines are waited for than
  were started.
\<close>

theorem informers_run_once:
  assumes "factoryStep\<^sup>*\<^sup>* f f'" and "newFactory f"
  shows "distinct (runs f') \<and> distinct (map fst (informers f')) \<and> set (runs f') \<subseteq> fst ` set (informers f') \<and>
    wg f' \<le> length (runs f')"
proof -
  have "factoryInv f'" by (rule reachable_inv [OF assms])
  then show ?thesis by (auto simp: factoryInv_def)
qed

lemma shut_stays:
  assumes "factoryStep\<^sup>*\<^sup>* f f'" and "factoryInv f" and "shuttingDown f"
  shows "factoryInv f' \<and> shuttingDown f' \<and> runs f' = runs f \<and> wg f' \<le> wg f"
  using assms by (induction rule: rtranclp_induct) (auto dest: factoryInv_step runs_step order_trans)

text \<open>
  A shutdown is final: whatever is called afterwards, no goroutine is started any more, the number
  of goroutines that are waited for only falls, and once Shutdown may return it may return for ever.
\<close>

theorem shutdown_is_final:
  assumes "factoryStep\<^sup>*\<^sup>* f0 f" and "newFactory f0" and "factoryStep\<^sup>*\<^sup>* (markShutdown f) f'"
  shows "runs f' = runs f \<and> wg f' \<le> wg f \<and> (ShutdownReturns (markShutdown f) \<longrightarrow> ShutdownReturns f')"
proof -
  have "factoryInv f" by (rule reachable_inv [OF assms(1,2)])
  then have "factoryInv (markShutdown f)" by (auto simp: factoryInv_def markShutdown_def)
  from shut_stays [OF assms(3) this] show ?thesis by (auto simp: markShutdown_def ShutdownReturns_def)
qed

text \<open>
  Start reaches everything that was requested: unless the factory is being shut down, after a
  start every informer of the factory is started, those that were requested after an earlier start
  included, and WaitForCacheSync then answers for all of them.
\<close>

theorem start_reaches_all:
  assumes "factoryStep\<^sup>*\<^sup>* f0 f" and "newFactory f0" and "\<not> shuttingDown f"
  shows "set (runs (StartFactory f)) = fst ` set (informers f) \<and>
    dom (WaitForCacheSyncOf synced (StartFactory f)) = fst ` set (informers f)"
proof -
  have i: "factoryInv f" by (rule reachable_inv [OF assms(1,2)])
  have s: "StartFactory f = startLoop (informers f) f" using assms(3) by (simp add: StartFactory_def)
  have r: "set (runs (StartFactory f)) = fst ` set (informers f)"
    using startLoop_inv [OF i, of "informers f"] i s by (auto simp: factoryInv_def)
  moreover have "startedInformers (StartFactory f) t" if "t \<in> fst ` set (informers f)" for t
    using StartFactory_inv [OF i] r that by (auto simp: factoryInv_def)
  ultimately show ?thesis using s
    by (auto simp: WaitForCacheSyncOf_def dom_map_of_conv_image_fst image_iff split: prod.splits) force+
qed

section \<open>Runs\<close>

definition usersRequested :: "unit Factory" where
  "usersRequested = snd (userInformer (NewSharedInformerFactory 600))"

lemma usersRequested_reached: "factoryStep\<^sup>*\<^sup>* (NewSharedInformerFactory 600) usersRequested"
  unfolding usersRequested_def userInformer_def by (rule r_into_rtranclp) (rule factoryStep.request)

theorem informers_run_once_witness:
  "distinct (runs (StartFactory (StartFactory usersRequested))) \<and> runs (StartFactory (StartFactory usersRequested)) = [KUser]"
proof -
  have "factoryStep\<^sup>*\<^sup>* (NewSharedInformerFactory 600) (StartFactory (StartFactory usersRequested))"
    using usersRequested_reached by (meson factoryStep.start rtranclp.rtrancl_into_rtrancl)
  from informers_run_once [OF this newFactory_options(1)] show ?thesis
    by (simp, simp add: usersRequested_def userInformer_def InformerFor_def Let_def NewSharedInformerFactory_def
      NewSharedInformerFactoryWithOptions_def StartFactory_def)
qed

theorem shutdown_is_final_witness:
  "runs (StartFactory (markShutdown usersRequested)) = []"
proof -
  have "factoryStep\<^sup>*\<^sup>* (markShutdown usersRequested) (StartFactory (markShutdown usersRequested))"
    by (meson factoryStep.start r_into_rtranclp)
  from shutdown_is_final [OF usersRequested_reached newFactory_options(1) this] show ?thesis
    by (simp add: usersRequested_def userInformer_def InformerFor_def Let_def NewSharedInformerFactory_def
      NewSharedInformerFactoryWithOptions_def)
qed

theorem start_reaches_all_witness:
  "set (runs (StartFactory usersRequested)) = {KUser}"
proof -
  have "\<not> shuttingDown usersRequested" and i: "fst ` set (informers usersRequested) = {KUser}"
    by (simp_all add: usersRequested_def userInformer_def InformerFor_def Let_def NewSharedInformerFactory_def
      NewSharedInformerFactoryWithOptions_def)
  from start_reaches_all [OF usersRequested_reached newFactory_options(1) this(1)] i show ?thesis by simp
qed

end
