(* ===== verification/Cache_Sync.thy ===== *)
theory Cache_Sync
  imports Informer_Factory Api_Client
begin

text \<open>
  How the server fills its caches before it listens: \<open>pkg/client/informers\<close>, and \<open>waitForResourceSync\<close>,
  \<open>waitForCacheSync\<close> and \<open>Run\<close> of \<open>pkg/aiserver/aiserver.go\<close>. The three factories, of which two are
  library code, are used through one interface: the locale \<open>informer_factory\<close> says what the server
  expects of a factory, and the factory of the IAM kinds is an interpretation. Discovery is a call that
  may fail and is retried.
\<close>

section \<open>The factories together\<close>

record ('k, 'x, 'o) InformerFactories =
  informerFactory :: "'k option"
  apiextensionsInformerFactory :: "'x option"
  alSharedInformerFactory :: "'o Factory option"

definition defaultResyncPeriod :: duration where "defaultResyncPeriod = 600 * Second"

definition NewInformerFactories ::
  "(duration \<Rightarrow> 'k) \<Rightarrow> (duration \<Rightarrow> 'x) \<Rightarrow> bool \<Rightarrow> bool \<Rightarrow> bool \<Rightarrow> ('k, 'x, 'o) InformerFactories" where
  \<comment> \<open>the flags say which of the clients are not nil\<close>
  "NewInformerFactories newK8s newExt client apiextensionsClient aiClient =
     \<lparr>informerFactory = (if client then Some (newK8s defaultResyncPeriod) else None),
      apiextensionsInformerFactory = (if apiextensionsClient then Some (newExt defaultResyncPeriod) else None),
      alSharedInformerFactory = (if aiClient then Some (NewSharedInformerFactory defaultResyncPeriod) else None)\<rparr>"

definition StartFactories ::
  "('k \<Rightarrow> 'k) \<Rightarrow> ('x \<Rightarrow> 'x) \<Rightarrow> ('k, 'x, 'o) InformerFactories \<Rightarrow> ('k, 'x, 'o) InformerFactories" where
  "StartFactories startK8s startExt f =
     \<lparr>informerFactory = map_option startK8s (informerFactory f),
      apiextensionsInformerFactory = map_option startExt (apiextensionsInformerFactory f),
      alSharedInformerFactory = map_option StartFactory (alSharedInformerFactory f)\<rparr>"

section \<open>Waiting for the caches\<close>

definition gvString :: "GroupVersion \<Rightarrow> string" where
  "gvString gv = (if gv_Group gv = '''' then gv_Version gv else gv_Group gv @ ''/'' @ gv_Version gv)"

fun isResourceExists :: "string list \<Rightarrow> GroupVersionResource \<Rightarrow> bool" where
  "isResourceExists [] resource = False"
| "isResourceExists (apiResource # rest) resource =
     (if apiResource = gv_Resource resource then True else isResourceExists rest resource)"

text \<open>
  \<open>retry.OnError\<close> with \<open>retry.DefaultRetry\<close>, which makes five attempts: the last error is the result.
\<close>

fun retryOnError :: "nat \<Rightarrow> (goerr \<Rightarrow> bool) \<Rightarrow> ('d \<Rightarrow> (goerr + 'a) \<times> 'd) \<Rightarrow> 'd \<Rightarrow> (goerr + 'a) \<times> 'd" where
  "retryOnError 0 retriable fn d = fn d"
| "retryOnError (Suc k) retriable fn d =
     (case fn d of
        (Inr x, d') \<Rightarrow> (Inr x, d')
      | (Inl err, d') \<Rightarrow> if retriable err then retryOnError k retriable fn d' else (Inl err, d'))"

definition defaultSteps :: nat where "defaultSteps = 4" \<comment> \<open>retries after the first attempt\<close>

text \<open>A factory as the server uses it: its \<open>ForResource\<close> and its \<open>Start\<close>; the informer is not used.\<close>

fun requestAll ::
  "(GroupVersionResource \<Rightarrow> 'f \<Rightarrow> (goerr + unit) \<times> 'f) \<Rightarrow> GroupVersion \<Rightarrow> string list \<Rightarrow> string list \<Rightarrow>
   'f \<Rightarrow> (goerr + unit) \<times> 'f" where
  "requestAll forResource gv apiResources [] f = (Inr (), f)"
| "requestAll forResource gv apiResources (resourceName # rest) f =
     (let gvr = WithResource gv resourceName in
      if \<not> isResourceExists apiResources gvr then requestAll forResource gv apiResources rest f
      else (case forResource gvr f of
              (Inl err, f') \<Rightarrow> (Inl (Msg ''failed to create informer''), f')
            | (Inr _, f') \<Rightarrow> requestAll forResource gv apiResources rest f'))"

fun syncGroups ::
  "(string \<Rightarrow> 'd \<Rightarrow> (goerr + string list) \<times> 'd) \<Rightarrow> (GroupVersionResource \<Rightarrow> 'f \<Rightarrow> (goerr + unit) \<times> 'f) \<Rightarrow>
   (GroupVersion \<times> string list) list \<Rightarrow> 'f \<times> 'd \<Rightarrow> (goerr + unit) \<times> 'f \<times> 'd" where
  "syncGroups discover forResource [] s = (Inr (), s)"
| "syncGroups discover forResource ((gv, resourceNames) # rest) (f, d) =
     (case retryOnError defaultSteps (\<lambda>err. \<not> IsNotFound err) (discover (gvString gv)) d of
        (Inl err, d') \<Rightarrow> (Inl (Msg ''failed to fetch group version resources''), (f, d'))
      | (Inr apiResources, d') \<Rightarrow>
          (case requestAll forResource gv apiResources resourceNames f of
             (Inl err, f') \<Rightarrow> (Inl err, (f', d'))
           | (Inr _, f') \<Rightarrow> syncGroups discover forResource rest (f', d')))"

definition waitForCacheSync ::
  "(string \<Rightarrow> 'd \<Rightarrow> (goerr + string list) \<times> 'd) \<Rightarrow> (GroupVersionResource \<Rightarrow> 'f \<Rightarrow> (goerr + unit) \<times> 'f) \<Rightarrow>
   ('f \<Rightarrow> 'f) \<Rightarrow> (GroupVersion \<times> string list) list \<Rightarrow> 'f \<times> 'd \<Rightarrow> (goerr + unit) \<times> 'f \<times> 'd" where
  \<comment> \<open>the result of waiting for the caches is thrown away\<close>
  "waitForCacheSync discover forResource start GVRs s =
     (case syncGroups discover forResource GVRs s of
        (Inl err, s') \<Rightarrow> (Inl err, s')
      | (Inr _, (f, d)) \<Rightarrow> (Inr (), (start f, d)))"

section \<open>What the server expects of a factory\<close>

lemma retryOnError_answer:
  assumes "retryOnError k retriable fn d = (Inr x, d')"
  obtains d0 where "fn d0 = (Inr x, d')"
  using assms
proof (induction k arbitrary: d)
  case (Suc k)
  then show ?case by (auto split: prod.splits sum.splits if_splits)
qed simp

locale informer_factory =
  fixes forResource :: "GroupVersionResource \<Rightarrow> 'f \<Rightarrow> (goerr + unit) \<times> 'f"
    and start :: "'f \<Rightarrow> 'f"
    and requested :: "'f \<Rightarrow> GroupVersionResource set"
    and started :: "'f \<Rightarrow> GroupVersionResource set"
    and ready :: "'f \<Rightarrow> bool"
  assumes request: "ready f \<Longrightarrow> forResource g f = (Inr u, f') \<Longrightarrow> ready f' \<and> g \<in> requested f' \<and> requested f \<subseteq> requested f'"
    and starts: "ready f \<Longrightarrow> requested f \<subseteq> started (start f)"
begin

lemma requestAll_ok:
  assumes "requestAll forResource gv rs names f = (Inr u, f')" and "ready f"
  shows "ready f' \<and> requested f \<subseteq> requested f' \<and>
    (\<forall>n \<in> set names. isResourceExists rs (WithResource gv n) \<longrightarrow> WithResource gv n \<in> requested f')"
  using assms
proof (induction names arbitrary: f)
  case (Cons n names)
  show ?case
  proof (cases "isResourceExists rs (WithResource gv n)")
    case False
    then show ?thesis using Cons by simp
  next
    case True
    then obtain v f1 where f1: "forResource (WithResource gv n) f = (Inr v, f1)"
      and rest: "requestAll forResource gv rs names f1 = (Inr u, f')"
      using Cons.prems(1) by (auto simp: Let_def split: prod.splits sum.splits)
    from request [OF Cons.prems(2) f1] Cons.IH [OF rest] show ?thesis by auto
  qed
qed simp

lemma syncGroups_ok:
  assumes "syncGroups discover forResource gvrs (f, d) = (Inr u, (f', d'))" and "ready f"
    and answers: "\<And>g d rs d'. discover g d = (Inr rs, d') \<Longrightarrow> answers g rs"
  shows "ready f' \<and> requested f \<subseteq> requested f' \<and>
    (\<forall>(gv, names) \<in> set gvrs. \<exists>rs. answers (gvString gv) rs \<and>
       (\<forall>n \<in> set names. isResourceExists rs (WithResource gv n) \<longrightarrow> WithResource gv n \<in> requested f'))"
  using assms(1,2)
proof (induction gvrs arbitrary: f d)
  case (Cons gn gvrs)
  obtain gv names where gn: "gn = (gv, names)" by fastforce
  obtain rs d1 where d1: "retryOnError defaultSteps (\<lambda>err. \<not> IsNotFound err) (discover (gvString gv)) d = (Inr rs, d1)"
    using Cons.prems(1) gn by (auto split: prod.splits sum.splits)
  obtain d0 where "discover (gvString gv) d0 = (Inr rs, d1)" by (rule retryOnError_answer [OF d1])
  then have rs: "answers (gvString gv) rs" by (rule answers)
  obtain v f1 where f1: "requestAll forResource gv rs names f = (Inr v, f1)"
    and rest: "syncGroups discover forResource gvrs (f1, d1) = (Inr u, (f', d'))"
    using Cons.prems(1) gn d1 by (auto split: prod.splits sum.splits)
  from requestAll_ok [OF f1 Cons.prems(2)] Cons.IH [OF rest] rs gn show ?case by (auto; blast)
qed simp

lemma waitForCacheSync_ok:
  assumes "waitForCacheSync discover forResource start gvrs (f, d) = (Inr u, (f', d'))" and "ready f"
    and answers: "\<And>g d rs d'. discover g d = (Inr rs, d') \<Longrightarrow> answers g rs"
    and "(gv, names) \<in> set gvrs" and "n \<in> set names"
  shows "\<exists>rs. answers (gvString gv) rs \<and> (n \<in> set rs \<longrightarrow> WithResource gv n \<in> started f')"
proof -
  have e: "isResourceExists rs r \<longleftrightarrow> gv_Resource r \<in> set rs" for rs r by (induction rs) auto
  have g: "gv_Resource (WithResource gv n) = n" for gv n
    by (simp add: WithResource_def GroupVersion.extend_def GroupVersionResource.fields_def)
  obtain f1 where s: "syncGroups discover forResource gvrs (f, d) = (Inr (), (f1, d'))" and f': "f' = start f1"
    using assms(1) by (auto simp: waitForCacheSync_def split: prod.splits sum.splits)
  from syncGroups_ok [where answers = answers, OF s assms(2) answers] assms(4,5) starts [of f1] f'
  show ?thesis by (fastforce simp: e g)
qed

end

section \<open>The factory of the IAM and core kinds\<close>

definition forResourceUnit :: "GroupVersionResource \<Rightarrow> 'o Factory \<Rightarrow> (goerr + unit) \<times> 'o Factory" where
  \<comment> \<open>the function that \<open>waitForResourceSync\<close> passes on\<close>
  "forResourceUnit resource f =
     (case ForResource resource f of (Inl err, f') \<Rightarrow> (Inl err, f') | (Inr _, f') \<Rightarrow> (Inr (), f'))"

definition kindOf :: "GroupVersionResource \<Rightarrow> Kind option" where
  "kindOf r = map_of [(WithResource coreGV ''healths'', KHealth), (WithResource iamGV ''globalroles'', KGlobalRole),
     (WithResource iamGV ''globalrolebindings'', KGlobalRoleBinding), (WithResource iamGV ''loginrecords'', KLoginRecord),
     (WithResource iamGV ''users'', KUser)] r"

definition requestedResources :: "'o Factory \<Rightarrow> GroupVersionResource set" where
  "requestedResources f = {r. \<exists>k. kindOf r = Some k \<and> k \<in> fst ` set (informers f)}"

definition startedResources :: "'o Factory \<Rightarrow> GroupVersionResource set" where
  "startedResources f = {r. \<exists>k. kindOf r = Some k \<and> startedInformers f k}"

lemma startLoop_started:
  "t \<in> fst ` set tis \<or> startedInformers f t \<Longrightarrow> startedInformers (startLoop tis f) t"
proof (induction tis arbitrary: f)
  case (Cons ti tis)
  obtain k i where ti: "ti = (k, i)" by fastforce
  show ?case unfolding ti startLoop.simps by (rule Cons.IH) (use Cons.prems ti in auto)
qed simp

lemma ForResource_ok:
  assumes "ForResource r f = (Inr i, f')"
  obtains k newFunc where "kindOf r = Some k" and "InformerFor k newFunc f = (i, f')"
  using assms unfolding ForResource_def kindOf_def kind_informer_defs
  by (auto split: if_splits prod.splits)

interpretation iam_factory: informer_factory forResourceUnit StartFactory requestedResources startedResources
  "\<lambda>f. \<not> shuttingDown f"
proof
  fix f f' :: "'o Factory" and g u
  assume "\<not> shuttingDown f" and "forResourceUnit g f = (Inr u, f')"
  then obtain i where "ForResource g f = (Inr i, f')"
    by (auto simp: forResourceUnit_def split: prod.splits sum.splits)
  then obtain k newFunc where "kindOf g = Some k" "InformerFor k newFunc f = (i, f')" by (rule ForResource_ok)
  then show "\<not> shuttingDown f' \<and> g \<in> requestedResources f' \<and> requestedResources f \<subseteq> requestedResources f'"
    using InformerFor_frame [of k newFunc f i f'] \<open>\<not> shuttingDown f\<close> by (auto simp: requestedResources_def)
next
  fix f :: "'o Factory"
  assume "\<not> shuttingDown f"
  then show "requestedResources f \<subseteq> startedResources (StartFactory f)"
    by (auto simp: requestedResources_def startedResources_def StartFactory_def intro!: startLoop_started)
qed

section \<open>The server\<close>

definition k8sGVRs :: "(GroupVersion \<times> string list) list" where
  "k8sGVRs = [
     (\<lparr>gv_Group = '''', gv_Version = ''v1''\<rparr>,
      [''namespaces'', ''nodes'', ''resourcequotas'', ''pods'', ''services'', ''persistentvolumeclaims'', ''secrets'',
       ''configmaps'', ''serviceaccounts'']),
     (\<lparr>gv_Group = ''rbac.authorization.k8s.io'', gv_Version = ''v1''\<rparr>,
      [''roles'', ''rolebindings'', ''clusterroles'', ''clusterrolebindings'']),
     (\<lparr>gv_Group = ''apps'', gv_Version = ''v1''\<rparr>,
      [''deployments'', ''daemonsets'', ''replicasets'', ''statefulsets'', ''controllerrevisions'']),
     (\<lparr>gv_Group = ''storage.k8s.io'', gv_Version = ''v1''\<rparr>, [''storageclasses'']),
     (\<lparr>gv_Group = ''batch'', gv_Version = ''v1''\<rparr>, [''jobs'', ''cronjobs'']),
     (\<lparr>gv_Group = ''networking.k8s.io'', gv_Version = ''v1''\<rparr>, [''ingresses'', ''networkpolicies'']),
     (\<lparr>gv_Group = ''autoscaling'', gv_Version = ''v2beta2''\<rparr>, [''horizontalpodautoscalers''])]"

definition alGVRs :: "(GroupVersion \<times> string list) list" where
  "alGVRs = [(iamGV, [''users'', ''globalroles'', ''globalrolebindings'', ''loginrecords''])]"

definition apiextensionsGVRs :: "(GroupVersion \<times> string list) list" where
  "apiextensionsGVRs = [(\<lparr>gv_Group = ''apiextensions.k8s.io'', gv_Version = ''v1''\<rparr>, [''customresourcedefinitions''])]"

record ('k, 'x, 'o, 'd) CacheState =
  csK8s :: 'k
  csExt :: 'x
  csAi :: "'o Factory"
  csWorld :: 'd

definition waitForResourceSync ::
  "(string \<Rightarrow> 'd \<Rightarrow> (goerr + string list) \<times> 'd) \<Rightarrow>
   (GroupVersionResource \<Rightarrow> 'k \<Rightarrow> (goerr + unit) \<times> 'k) \<Rightarrow> ('k \<Rightarrow> 'k) \<Rightarrow>
   (GroupVersionResource \<Rightarrow> 'x \<Rightarrow> (goerr + unit) \<times> 'x) \<Rightarrow> ('x \<Rightarrow> 'x) \<Rightarrow>
   ('k, 'x, 'o, 'd) CacheState \<Rightarrow> (goerr + unit) \<times> ('k, 'x, 'o, 'd) CacheState" where
  "waitForResourceSync discover forK startK forX startX s =
     (case waitForCacheSync discover forK startK k8sGVRs (csK8s s, csWorld s) of
        (Inl err, (k, d)) \<Rightarrow> (Inl err, s\<lparr>csK8s := k, csWorld := d\<rparr>)
      | (Inr _, (k, d)) \<Rightarrow>
          (case waitForCacheSync discover forResourceUnit StartFactory alGVRs (csAi s, d) of
             (Inl err, (a, d)) \<Rightarrow> (Inl err, s\<lparr>csK8s := k, csAi := a, csWorld := d\<rparr>)
           | (Inr _, (a, d)) \<Rightarrow>
               (case waitForCacheSync discover forX startX apiextensionsGVRs (csExt s, d) of
                  (r, (x, d)) \<Rightarrow> (r, s\<lparr>csK8s := k, csAi := a, csExt := x, csWorld := d\<rparr>))))"

text \<open>
  \<open>Run\<close>: nothing is served before the caches were asked for. \<open>listen\<close> is the HTTP server, over TLS when its
  flag is set, until it fails or is shut down because the context has ended.
\<close>

definition RunServer ::
  "('s \<Rightarrow> (goerr + unit) \<times> 's) \<Rightarrow> bool \<Rightarrow> (bool \<Rightarrow> 's \<Rightarrow> goerr + unit) \<Rightarrow> 's \<Rightarrow> (goerr + unit) \<times> 's" where
  "RunServer sync tlsConfig listen s =
     (case sync s of
        (Inl err, s') \<Rightarrow> (Inl err, s')
      | (Inr _, s') \<Rightarrow> (if tlsConfig then listen True s' else listen False s', s'))"

text \<open>
  C24. The server does not listen before its caches run: whatever discovery answers, fails and answers
  again, \<open>Run\<close> either ends with an error of filling the caches and never listens, or all that it does
  after filling them is to listen, in a state in which the informer of every IAM kind is started that the
  API server names whenever it answers for the IAM group. All that is asked of the other two factories
  is their functions.
\<close>

theorem iam_caches_started:
  assumes ready: "\<not> shuttingDown (csAi s)"
    and kind: "n \<in> {''users'', ''globalroles'', ''globalrolebindings'', ''loginrecords''}"
    and served: "\<And>d rs d'. discover ''iam.ai.io/v1'' d = (Inr rs, d') \<Longrightarrow> n \<in> set rs"
  shows "(\<exists>err s'. \<forall>listen. RunServer (waitForResourceSync discover forK startK forX startX) tlsConfig listen s = (Inl err, s')) \<or>
    (\<exists>s'. (\<forall>listen. RunServer (waitForResourceSync discover forK startK forX startX) tlsConfig listen s =
        (listen tlsConfig s', s')) \<and> WithResource iamGV n \<in> startedResources (csAi s'))"
proof (cases "waitForResourceSync discover forK startK forX startX s")
  case (Pair r s')
  show ?thesis
  proof (cases r)
    case (Inl err)
    with Pair show ?thesis by (simp add: RunServer_def)
  next
    case (Inr u)
    note ok = Pair [unfolded Inr]
    obtain k d where k: "waitForCacheSync discover forK startK k8sGVRs (csK8s s, csWorld s) = (Inr (), (k, d))"
      using ok by (auto simp: waitForResourceSync_def split: prod.splits sum.splits)
    obtain a d' where a: "waitForCacheSync discover forResourceUnit StartFactory alGVRs (csAi s, d) = (Inr (), (a, d'))"
      and s': "csAi s' = a"
      using ok k by (auto simp: waitForResourceSync_def split: prod.splits sum.splits)
    have gv: "(iamGV, [''users'', ''globalroles'', ''globalrolebindings'', ''loginrecords'']) \<in> set alGVRs"
      by (simp add: alGVRs_def)
    have n: "n \<in> set [''users'', ''globalroles'', ''globalrolebindings'', ''loginrecords'']" using kind by simp
    have g: "gvString iamGV = ''iam.ai.io/v1''" by (simp add: gvString_def iamGV_def)
    have "\<exists>rs. (gvString iamGV = ''iam.ai.io/v1'' \<longrightarrow> n \<in> set rs) \<and> (n \<in> set rs \<longrightarrow> WithResource iamGV n \<in> startedResources a)"
      by (rule iam_factory.waitForCacheSync_ok [where answers = "\<lambda>g rs. g = ''iam.ai.io/v1'' \<longrightarrow> n \<in> set rs", OF a ready _ gv n])
        (use served in blast)
    with ok s' g show ?thesis by (auto simp: RunServer_def)
  qed
qed

text \<open>
  Every group version has to be served: when the API server does not know one of the group versions
  of the list for Kubernetes, the autoscaling one included, the server ends with an error before it
  listens, whatever its own resources are.
\<close>

theorem unknown_group_ends_server:
  assumes gone: "(gv, names) \<in> set k8sGVRs" "resources (gvString gv) = Inl e"
    and steady: "\<And>g d. fst (discover g d) = resources g"
  shows "\<exists>err s'. RunServer (waitForResourceSync discover forK startK forX startX) tlsConfig listen s = (Inl err, s') \<and>
    csAi s' = csAi s"
proof -
  have retry: "fst (retryOnError k p (discover g) d) = resources g" for k p g d
  proof (induction k arbitrary: d)
    case (Suc k)
    then show ?case using steady [of g d] by (auto split: prod.splits sum.splits)
  qed (simp add: steady)
  have "fst (syncGroups discover forK gvrs (f, d)) \<noteq> Inr ()" if "(gv, names) \<in> set gvrs" for gvrs f d
    using that
  proof (induction gvrs arbitrary: f d)
    case (Cons gn gvrs)
    obtain g ns where gn: "gn = (g, ns)" by fastforce
    then show ?case using Cons retry [of defaultSteps "\<lambda>err. \<not> IsNotFound err" "gvString g" d] gone(2)
      by (fastforce split: prod.splits sum.splits)
  qed simp
  from this [OF gone(1)] have "fst (waitForCacheSync discover forK startK k8sGVRs (csK8s s, csWorld s)) \<noteq> Inr ()"
    by (auto simp: waitForCacheSync_def split: prod.splits sum.splits) (metis fst_conv)+
  then obtain err k d where "waitForCacheSync discover forK startK k8sGVRs (csK8s s, csWorld s) = (Inl err, (k, d))"
    by (cases "waitForCacheSync discover forK startK k8sGVRs (csK8s s, csWorld s)"; cases "fst (waitForCacheSync discover forK startK k8sGVRs (csK8s s, csWorld s))")
      auto
  then show ?thesis by (simp add: RunServer_def waitForResourceSync_def)
qed

text \<open>A discovery client that counts its calls; the answer may depend on how often it was asked.\<close>

definition counting :: "(string \<Rightarrow> nat \<Rightarrow> goerr + string list) \<Rightarrow> string \<Rightarrow> nat \<Rightarrow> (goerr + string list) \<times> nat" where
  "counting answer g calls = (answer g calls, calls + 1)"

lemma retry_calls:
  "retryOnError k retriable (counting answer g) calls = (r, calls') \<Longrightarrow> calls + 1 \<le> calls' \<and> calls' \<le> calls + k + 1"
proof (induction k arbitrary: calls)
  case (Suc k)
  show ?case
  proof (cases "answer g calls")
    case (Inl e)
    then show ?thesis using Suc.IH [of "calls + 1"] Suc.prems by (auto simp: counting_def split: if_splits)
  qed (use Suc.prems in \<open>auto simp: counting_def\<close>)
qed (auto simp: counting_def)

lemma syncGroups_calls:
  "syncGroups (counting answer) forResource gvrs (f, calls) = (r, (f', calls')) \<Longrightarrow>
    calls' \<le> calls + 5 * length gvrs \<and> (isOk r \<longrightarrow> calls + length gvrs \<le> calls')"
proof (induction gvrs arbitrary: f calls)
  case (Cons gvr gvrs)
  obtain gv names where gvr: "gvr = (gv, names)" by fastforce
  obtain a n where a: "retryOnError defaultSteps (\<lambda>err. \<not> IsNotFound err) (counting answer (gvString gv)) calls = (a, n)"
    by fastforce
  have n: "calls + 1 \<le> n" "n \<le> calls + 5" using retry_calls [OF a] by (simp_all add: defaultSteps_def)
  show ?case
  proof (cases a)
    case (Inl e)
    then show ?thesis using Cons.prems a n by (auto simp: gvr)
  next
    case (Inr rs)
    obtain q f1 where q: "requestAll forResource gv rs names f = (q, f1)" by fastforce
    show ?thesis
    proof (cases q)
      case (Inl e)
      then show ?thesis using Cons.prems a q Inr n by (auto simp: gvr)
    next
      case (Inr u)
      have "syncGroups (counting answer) forResource gvrs (f1, n) = (r, (f', calls'))"
        using Cons.prems a q \<open>a = Inr rs\<close> Inr by (simp add: gvr)
      from Cons.IH [OF this] n show ?thesis by auto
    qed
  qed
qed simp

lemma waitForCacheSync_calls:
  assumes "waitForCacheSync (counting answer) forResource start gvrs (f, calls) = (r, (f', calls'))"
  shows "calls' \<le> calls + 5 * length gvrs \<and> (isOk r \<longrightarrow> calls + length gvrs \<le> calls')"
proof -
  obtain r1 f1 n where s: "syncGroups (counting answer) forResource gvrs (f, calls) = (r1, (f1, n))"
    by (metis surj_pair)
  from syncGroups_calls [OF s] assms s show ?thesis
    by (auto simp: waitForCacheSync_def split: sum.splits)
qed

text \<open>
  C26. Filling the caches asks the API server at most forty-five times, five times for each of the nine
  group versions, whatever it answers and however its answers change; a server that gets as far as
  listening has asked for each of them at least once.
\<close>

theorem discovery_bounded:
  assumes "waitForResourceSync (counting answer) forK startK forX startX s = (r, s')"
  shows "csWorld s' \<le> csWorld s + 45 \<and> (isOk r \<longrightarrow> csWorld s + 9 \<le> csWorld s')"
proof -
  have len: "length k8sGVRs = 7" "length alGVRs = 1" "length apiextensionsGVRs = 1"
    by (simp_all add: k8sGVRs_def alGVRs_def apiextensionsGVRs_def)
  obtain r1 k n1 where k: "waitForCacheSync (counting answer) forK startK k8sGVRs (csK8s s, csWorld s) = (r1, (k, n1))"
    by (metis surj_pair)
  obtain r2 a n2 where a: "waitForCacheSync (counting answer) forResourceUnit StartFactory alGVRs (csAi s, n1) = (r2, (a, n2))"
    by (metis surj_pair)
  obtain r3 x n3 where x: "waitForCacheSync (counting answer) forX startX apiextensionsGVRs (csExt s, n2) = (r3, (x, n3))"
    by (metis surj_pair)
  from waitForCacheSync_calls [OF k] waitForCacheSync_calls [OF a] waitForCacheSync_calls [OF x] assms k a x
  show ?thesis
    by (auto simp: waitForResourceSync_def len split: sum.splits)
qed

section \<open>Runs\<close>

definition everyResource :: "string \<Rightarrow> goerr + string list" where
  "everyResource g = Inr [''users'', ''globalroles'', ''globalrolebindings'']"

definition freshCaches :: "(nat, nat, unit, nat) CacheState" where
  "freshCaches = \<lparr>csK8s = 0, csExt = 0, csAi = NewSharedInformerFactory defaultResyncPeriod, csWorld = 0\<rparr>"

lemmas sync_eval = waitForResourceSync_def waitForCacheSync_def k8sGVRs_def alGVRs_def apiextensionsGVRs_def
  Let_def WithResource_def GroupVersion.extend_def GroupVersionResource.fields_def defaultSteps_def freshCaches_def
  everyResource_def

lemma retryOnError_first: "fn d = (Inr x, d') \<Longrightarrow> retryOnError k retriable fn d = (Inr x, d')"
  by (cases k) simp_all

lemma requestAll_unit: "requestAll (\<lambda>_ f. (Inr (), f)) gv rs names f = (Inr (), f)"
  by (induction names arbitrary: f) (simp_all add: Let_def)

lemma requestAll_iam:
  assumes "set ns \<subseteq> {''users'', ''globalroles'', ''globalrolebindings'', ''loginrecords''}"
  shows "\<exists>f'. requestAll forResourceUnit iamGV rs ns f = (Inr (), f')"
  using assms
proof (induction ns arbitrary: f)
  case (Cons n ns)
  have "\<exists>f1. forResourceUnit (WithResource iamGV n) f = (Inr (), f1)"
    using Cons.prems by (auto simp: forResourceUnit_def ForResource_def prod.case_eq_if)
  then obtain f1 where f1: "forResourceUnit (WithResource iamGV n) f = (Inr (), f1)" ..
  from Cons.IH [of f] Cons.IH [of f1] Cons.prems f1 show ?case by (simp add: Let_def)
qed simp

text \<open>A discovery of which every other call fails.\<close>

definition flaky :: "string \<Rightarrow> nat \<Rightarrow> (goerr + string list) \<times> nat" where
  "flaky g calls = (if even calls then Inl (Ext ''connection refused'') else everyResource g, calls + 1)"

lemma flaky_retried:
  "\<exists>calls'. retryOnError defaultSteps (\<lambda>err. \<not> IsNotFound err) (flaky g) calls =
    (Inr [''users'', ''globalroles'', ''globalrolebindings''], calls')"
proof -
  have four: "(4 :: nat) = Suc (Suc 2)" by simp
  show ?thesis
    unfolding defaultSteps_def four retryOnError.simps
    by (cases "even calls") (simp_all add: flaky_def everyResource_def)
qed

lemma flaky_lib: "\<exists>d'. waitForCacheSync flaky (\<lambda>_ f. (Inr (), f)) (\<lambda>f. f) gvrs (f, d) = (Inr (), (f, d'))"
proof -
  have "\<exists>d'. syncGroups flaky (\<lambda>_ f. (Inr (), f)) gvrs (f, d) = (Inr (), (f, d'))"
  proof (induction gvrs arbitrary: d)
    case (Cons gn gvrs)
    obtain gv names where gn: "gn = (gv, names)" by fastforce
    obtain d1 where "retryOnError defaultSteps (\<lambda>err. \<not> IsNotFound err) (flaky (gvString gv)) d =
        (Inr [''users'', ''globalroles'', ''globalrolebindings''], d1)" using flaky_retried by blast
    with Cons.IH [of d1] show ?case by (simp add: gn requestAll_unit)
  qed simp
  then show ?thesis by (auto simp: waitForCacheSync_def)
qed

lemma flaky_iam: "\<exists>a d'. waitForCacheSync flaky forResourceUnit StartFactory alGVRs (f, d) = (Inr (), (a, d'))"
proof -
  obtain d1 where "retryOnError defaultSteps (\<lambda>err. \<not> IsNotFound err) (flaky (gvString iamGV)) d =
      (Inr [''users'', ''globalroles'', ''globalrolebindings''], d1)" using flaky_retried by blast
  with requestAll_iam [of "[''users'', ''globalroles'', ''globalrolebindings'', ''loginrecords'']"
      "[''users'', ''globalroles'', ''globalrolebindings'']" f]
  show ?thesis by (auto simp: waitForCacheSync_def alGVRs_def simp del: requestAll.simps)
qed

theorem iam_caches_started_witness:
  "\<exists>s'. RunServer (waitForResourceSync flaky (\<lambda>_ f. (Inr (), f)) (\<lambda>f. f) (\<lambda>_ f. (Inr (), f)) (\<lambda>f. f)) False
      (\<lambda>tls s. Inl (Ext ''closed'')) freshCaches = (Inl (Ext ''closed''), s') \<and>
    WithResource iamGV ''users'' \<in> startedResources (csAi s')"
proof -
  let ?sync = "waitForResourceSync flaky (\<lambda>_ f. (Inr (), f)) (\<lambda>f. f) (\<lambda>_ f. (Inr (), f)) (\<lambda>f. f)"
  obtain d1 where k: "waitForCacheSync flaky (\<lambda>_ f. (Inr (), f)) (\<lambda>f. f) k8sGVRs (csK8s freshCaches, csWorld freshCaches) =
      (Inr (), (csK8s freshCaches, d1))" by (rule exE [OF flaky_lib])
  obtain a d2 where a: "waitForCacheSync flaky forResourceUnit StartFactory alGVRs (csAi freshCaches, d1) = (Inr (), (a, d2))"
    using flaky_iam [of "csAi freshCaches" d1] by blast
  obtain d3 where x: "waitForCacheSync flaky (\<lambda>_ f. (Inr (), f)) (\<lambda>f. f) apiextensionsGVRs (csExt freshCaches, d2) =
      (Inr (), (csExt freshCaches, d3))" by (rule exE [OF flaky_lib])
  obtain s' where "?sync freshCaches = (Inr (), s')" using k a x by (simp add: waitForResourceSync_def)
  then have run: "RunServer ?sync False listen freshCaches = (listen False s', s')" for listen by (simp add: RunServer_def)
  have ready: "\<not> shuttingDown (csAi freshCaches)"
    by (simp add: freshCaches_def NewSharedInformerFactory_def NewSharedInformerFactoryWithOptions_def)
  have served: "flaky ''iam.ai.io/v1'' d = (Inr rs, d') \<Longrightarrow> ''users'' \<in> set rs" for d rs d'
    by (auto simp: flaky_def everyResource_def split: if_splits)
  have no: "\<not> (\<exists>err t. \<forall>listen. RunServer ?sync False listen freshCaches = (Inl err, t))"
    using run [of "\<lambda>_ _. Inr ()"] by (metis Inr_not_Inl prod.inject)
  have "\<exists>t. (\<forall>listen. RunServer ?sync False listen freshCaches = (listen False t, t)) \<and>
      WithResource iamGV ''users'' \<in> startedResources (csAi t)"
    by (rule mp [OF iffD1 [OF disj_imp iam_caches_started [OF ready _ served]] no]) simp_all
  then obtain t where t: "\<forall>listen. RunServer ?sync False listen freshCaches = (listen False t, t)"
      "WithResource iamGV ''users'' \<in> startedResources (csAi t)" by blast
  from t(1) have "RunServer ?sync False (\<lambda>tls s. Inl (Ext ''closed'')) freshCaches = (Inl (Ext ''closed''), t)" by blast
  with t(2) show ?thesis by blast
qed

definition withoutAutoscaling :: "string \<Rightarrow> goerr + string list" where
  "withoutAutoscaling g = (if g = ''autoscaling/v2beta2'' then Inl (NotFound ''apigroup'' g) else everyResource g)"

theorem unknown_group_ends_server_witness:
  "\<not> isOk (fst (RunServer (waitForResourceSync (\<lambda>g d. (withoutAutoscaling g, d)) (\<lambda>_ f. (Inr (), f)) (\<lambda>f. f)
     (\<lambda>_ f. (Inr (), f)) (\<lambda>f. f)) False (\<lambda>_ _. Inr ()) freshCaches))"
proof -
  let ?gv = "\<lparr>gv_Group = ''autoscaling'', gv_Version = ''v2beta2''\<rparr>"
  have "(?gv, [''horizontalpodautoscalers'']) \<in> set k8sGVRs" by (simp add: k8sGVRs_def)
  moreover have "withoutAutoscaling (gvString ?gv) = Inl (NotFound ''apigroup'' ''autoscaling/v2beta2'')"
    by (simp add: withoutAutoscaling_def gvString_def)
  ultimately show ?thesis
    using unknown_group_ends_server [of ?gv "[''horizontalpodautoscalers'']" withoutAutoscaling _ "\<lambda>g d. (withoutAutoscaling g, d)"]
    by (metis fst_conv isOk_simps(2))
qed

theorem discovery_bounded_witness:
  "csWorld (snd (waitForResourceSync (counting (\<lambda>_ _. Inl (Ext ''refused''))) (\<lambda>_ f. (Inr (), f)) (\<lambda>f. f)
     (\<lambda>_ f. (Inr (), f)) (\<lambda>f. f) freshCaches)) \<le> 45"
proof -
  obtain r s' where run: "waitForResourceSync (counting (\<lambda>_ _. Inl (Ext ''refused''))) (\<lambda>_ f. (Inr (), f)) (\<lambda>f. f)
      (\<lambda>_ f. (Inr (), f)) (\<lambda>f. f) freshCaches = (r, s')"
    by (metis surj_pair)
  then show ?thesis using discovery_bounded [OF run] by (simp add: freshCaches_def)
qed

end
