(* ===== verification/Rest_Clientset.thy ===== *)
theory Rest_Clientset
  imports Informer_Factory Request_Info
begin

text \<open>
  The generated clientset, \<open>pkg/client/ai/clientset/versioned\<close>: how its clients are made from a
  configuration, and the calls they hand to the REST client of the library, \<open>rest.Interface\<close>. A call
  is the chain of the builder's methods up to \<open>Do\<close> or \<open>Watch\<close>. What the REST client makes of a call is
  library code: \<open>sendsRest\<close> states the documented layout of the request.
\<close>

section \<open>Calls\<close>

text \<open>\<open>metav1.ListOptions\<close>; only \<open>Watch\<close> and \<open>TimeoutSeconds\<close> are touched by the calls.\<close>

record MetaListOptions =
  metaLabelSelector :: string
  metaFieldSelector :: string
  metaWatch :: bool
  metaAllowWatchBookmarks :: bool
  metaResourceVersion :: string
  metaResourceVersionMatch :: string
  TimeoutSeconds :: "int option"
  metaLimit :: int
  metaContinue :: string

datatype 'p Params = NoParams | ListParams MetaListOptions | OtherParams 'p

record ('p, 'b) RestCall =
  rcMethod :: string
  rcResource :: string
  rcName :: "string option"
  rcSubresources :: "string list"
  rcParams :: "'p Params"
  rcTimeout :: duration
  rcBody :: "'b option"

definition restCall :: "string \<Rightarrow> string \<Rightarrow> ('p, 'b) RestCall" where
  \<comment> \<open>the verb and \<open>Resource\<close>\<close>
  "restCall m resource = \<lparr>rcMethod = m, rcResource = resource, rcName = None, rcSubresources = [],
     rcParams = NoParams, rcTimeout = 0, rcBody = None\<rparr>"

definition listTimeout :: "MetaListOptions \<Rightarrow> duration" where
  "listTimeout opts = (case TimeoutSeconds opts of None \<Rightarrow> 0 | Some s \<Rightarrow> wrap64 (s * Second))"

text \<open>The methods of the client of one resource; the options and bodies are what the caller gives.\<close>

definition restGet :: "string \<Rightarrow> string \<Rightarrow> 'p \<Rightarrow> ('p, 'b) RestCall" where
  "restGet resource name options =
     (restCall ''GET'' resource)\<lparr>rcName := Some name, rcParams := OtherParams options\<rparr>"

definition restList :: "string \<Rightarrow> MetaListOptions \<Rightarrow> ('p, 'b) RestCall" where
  "restList resource opts = (restCall ''GET'' resource)\<lparr>rcParams := ListParams opts, rcTimeout := listTimeout opts\<rparr>"

definition restWatch :: "string \<Rightarrow> MetaListOptions \<Rightarrow> ('p, 'b) RestCall" where
  "restWatch resource opts =
     (let opts' = opts\<lparr>metaWatch := True\<rparr> in
      (restCall ''GET'' resource)\<lparr>rcParams := ListParams opts', rcTimeout := listTimeout opts\<rparr>)"

definition restCreate :: "string \<Rightarrow> 'b \<Rightarrow> 'p \<Rightarrow> ('p, 'b) RestCall" where
  "restCreate resource obj opts = (restCall ''POST'' resource)\<lparr>rcParams := OtherParams opts, rcBody := Some obj\<rparr>"

definition restUpdate :: "string \<Rightarrow> string \<Rightarrow> 'b \<Rightarrow> 'p \<Rightarrow> ('p, 'b) RestCall" where
  \<comment> \<open>the second argument is the name of the object\<close>
  "restUpdate resource name obj opts =
     (restCall ''PUT'' resource)\<lparr>rcName := Some name, rcParams := OtherParams opts, rcBody := Some obj\<rparr>"

definition restUpdateStatus :: "string \<Rightarrow> string \<Rightarrow> 'b \<Rightarrow> 'p \<Rightarrow> ('p, 'b) RestCall" where
  "restUpdateStatus resource name obj opts =
     (restCall ''PUT'' resource)\<lparr>rcName := Some name, rcSubresources := [''status''],
       rcParams := OtherParams opts, rcBody := Some obj\<rparr>"

definition restDelete :: "string \<Rightarrow> string \<Rightarrow> 'b \<Rightarrow> ('p, 'b) RestCall" where
  \<comment> \<open>the options are the body\<close>
  "restDelete resource name opts = (restCall ''DELETE'' resource)\<lparr>rcName := Some name, rcBody := Some opts\<rparr>"

definition restDeleteCollection :: "string \<Rightarrow> 'b \<Rightarrow> MetaListOptions \<Rightarrow> ('p, 'b) RestCall" where
  "restDeleteCollection resource opts listOpts =
     (restCall ''DELETE'' resource)\<lparr>rcParams := ListParams listOpts, rcTimeout := listTimeout listOpts,
       rcBody := Some opts\<rparr>"

definition restPatch :: "string \<Rightarrow> string \<Rightarrow> 'b \<Rightarrow> 'p \<Rightarrow> string list \<Rightarrow> ('p, 'b) RestCall" where
  "restPatch resource name data opts subresources =
     (restCall ''PATCH'' resource)\<lparr>rcName := Some name, rcSubresources := subresources,
       rcParams := OtherParams opts, rcBody := Some data\<rparr>"

lemmas rest_defs = restGet_def restList_def restWatch_def restCreate_def restUpdate_def restUpdateStatus_def
  restDelete_def restDeleteCollection_def restPatch_def restCall_def Let_def

section \<open>Clients of a kind\<close>

record ('p, 'b) TypedClient =
  tcGet :: "string \<Rightarrow> 'p \<Rightarrow> ('p, 'b) RestCall"
  tcList :: "MetaListOptions \<Rightarrow> ('p, 'b) RestCall"
  tcWatch :: "MetaListOptions \<Rightarrow> ('p, 'b) RestCall"
  tcCreate :: "'b \<Rightarrow> 'p \<Rightarrow> ('p, 'b) RestCall"
  tcUpdate :: "string \<Rightarrow> 'b \<Rightarrow> 'p \<Rightarrow> ('p, 'b) RestCall"
  tcUpdateStatus :: "(string \<Rightarrow> 'b \<Rightarrow> 'p \<Rightarrow> ('p, 'b) RestCall) option"
    \<comment> \<open>only for the types with a status\<close>
  tcDelete :: "string \<Rightarrow> 'b \<Rightarrow> ('p, 'b) RestCall"
  tcDeleteCollection :: "'b \<Rightarrow> MetaListOptions \<Rightarrow> ('p, 'b) RestCall"
  tcPatch :: "string \<Rightarrow> 'b \<Rightarrow> 'p \<Rightarrow> string list \<Rightarrow> ('p, 'b) RestCall"

definition usersClient :: "('p, 'b) TypedClient" where
  "usersClient = \<lparr>tcGet = restGet ''users'', tcList = restList ''users'', tcWatch = restWatch ''users'',
     tcCreate = restCreate ''users'', tcUpdate = restUpdate ''users'',
     tcUpdateStatus = Some (restUpdateStatus ''users''), tcDelete = restDelete ''users'',
     tcDeleteCollection = restDeleteCollection ''users'', tcPatch = restPatch ''users''\<rparr>"

definition globalRolesClient :: "('p, 'b) TypedClient" where
  "globalRolesClient = \<lparr>tcGet = restGet ''globalroles'', tcList = restList ''globalroles'',
     tcWatch = restWatch ''globalroles'', tcCreate = restCreate ''globalroles'', tcUpdate = restUpdate ''globalroles'',
     tcUpdateStatus = None, tcDelete = restDelete ''globalroles'',
     tcDeleteCollection = restDeleteCollection ''globalroles'', tcPatch = restPatch ''globalroles''\<rparr>"

definition globalRoleBindingsClient :: "('p, 'b) TypedClient" where
  "globalRoleBindingsClient = \<lparr>tcGet = restGet ''globalrolebindings'', tcList = restList ''globalrolebindings'',
     tcWatch = restWatch ''globalrolebindings'', tcCreate = restCreate ''globalrolebindings'',
     tcUpdate = restUpdate ''globalrolebindings'', tcUpdateStatus = None, tcDelete = restDelete ''globalrolebindings'',
     tcDeleteCollection = restDeleteCollection ''globalrolebindings'', tcPatch = restPatch ''globalrolebindings''\<rparr>"

definition loginRecordsClient :: "('p, 'b) TypedClient" where
  "loginRecordsClient = \<lparr>tcGet = restGet ''loginrecords'', tcList = restList ''loginrecords'',
     tcWatch = restWatch ''loginrecords'', tcCreate = restCreate ''loginrecords'', tcUpdate = restUpdate ''loginrecords'',
     tcUpdateStatus = None, tcDelete = restDelete ''loginrecords'',
     tcDeleteCollection = restDeleteCollection ''loginrecords'', tcPatch = restPatch ''loginrecords''\<rparr>"

definition healthsClient :: "('p, 'b) TypedClient" where
  "healthsClient = \<lparr>tcGet = restGet ''healths'', tcList = restList ''healths'', tcWatch = restWatch ''healths'',
     tcCreate = restCreate ''healths'', tcUpdate = restUpdate ''healths'',
     tcUpdateStatus = Some (restUpdateStatus ''healths''), tcDelete = restDelete ''healths'',
     tcDeleteCollection = restDeleteCollection ''healths'', tcPatch = restPatch ''healths''\<rparr>"

lemmas client_defs = usersClient_def globalRolesClient_def globalRoleBindingsClient_def loginRecordsClient_def
  healthsClient_def

definition clientOf :: "string \<Rightarrow> ('p, 'b) TypedClient \<Rightarrow> bool" where
  "clientOf resource c \<longleftrightarrow> tcGet c = restGet resource \<and> tcList c = restList resource \<and> tcWatch c = restWatch resource \<and>
     tcCreate c = restCreate resource \<and> tcUpdate c = restUpdate resource \<and>
     (\<forall>f. tcUpdateStatus c = Some f \<longrightarrow> f = restUpdateStatus resource) \<and> tcDelete c = restDelete resource \<and>
     tcDeleteCollection c = restDeleteCollection resource \<and> tcPatch c = restPatch resource"

lemma clients:
  "clientOf ''users'' usersClient" "clientOf ''globalroles'' globalRolesClient"
  "clientOf ''globalrolebindings'' globalRoleBindingsClient" "clientOf ''loginrecords'' loginRecordsClient"
  "clientOf ''healths'' healthsClient"
  by (simp_all add: clientOf_def client_defs)

section \<open>From the client to the request information\<close>

text \<open>
  What both ends use of the Kubernetes libraries: whether \<open>IsValidPathSegmentName\<close> has nothing against a
  name, whether a label selector parses, and \<open>RequiresExactMatch\<close> of a field selector that parses.
\<close>

record SelectorLib =
  validSegment :: "string \<Rightarrow> bool"
  labelsParse :: "string \<Rightarrow> bool"
  fieldsParse :: "string \<Rightarrow> (string \<Rightarrow> string option) option"

definition segmentNames :: "SelectorLib \<Rightarrow> bool" where
  \<comment> \<open>the documented rule for a name in a path\<close>
  "segmentNames q \<longleftrightarrow> (\<forall>n. validSegment q n \<longleftrightarrow>
     n \<noteq> ''.'' \<and> n \<noteq> ''..'' \<and> CHR ''/'' \<notin> set n \<and> CHR ''%'' \<notin> set n)"

definition decodedOptions :: "SelectorLib \<Rightarrow> MetaListOptions \<Rightarrow> ListOptions option" where
  \<comment> \<open>nothing when one of the selectors does not parse\<close>
  "decodedOptions q o' =
     (if labelsParse q (metaLabelSelector o')
      then map_option (\<lambda>sel. \<lparr>Watch = metaWatch o', FieldSelector = Some sel\<rparr>) (fieldsParse q (metaFieldSelector o'))
      else None)"

definition sendable :: "SelectorLib \<Rightarrow> ('p, 'b) RestCall \<Rightarrow> bool" where
  \<comment> \<open>the REST client refuses other names and sends nothing\<close>
  "sendable q c \<longleftrightarrow> (\<forall>n. rcName c = Some n \<longrightarrow> n \<noteq> '''' \<and> validSegment q n) \<and>
     list_all (\<lambda>x. x \<noteq> '''' \<and> validSegment q x) (rcSubresources c)"

text \<open>
  The request that the REST client sends: below the API path and the group and version of the client
  come the resource, the name and the subresources. The options are in the query, with \<open>watch\<close> when it
  is set; the server decodes the list options from it when their selectors parse, and gets an error
  otherwise.
\<close>

definition sendsRest ::
  "SelectorLib \<Rightarrow> ((string \<times> string list) list \<Rightarrow> goerr + ListOptions) \<Rightarrow> (('p, 'b) RestCall \<Rightarrow> HttpRequest) \<Rightarrow>
   GroupVersion \<Rightarrow> bool" where
  "sendsRest q decode send gv \<longleftrightarrow> (\<forall>c. sendable q c \<longrightarrow>
     Method (send c) = rcMethod c \<and>
     URLPath (send c) = CHR ''/'' # Join ([''apis'', gv_Group gv, gv_Version gv, rcResource c] @
       (case rcName c of None \<Rightarrow> [] | Some n \<Rightarrow> [n]) @ rcSubresources c) ''/'' \<and>
     (\<forall>o'. rcParams c = ListParams o' \<longrightarrow>
        map_of (URLQuery (send c)) ''watch'' = (if metaWatch o' then Some [''true''] else None) \<and>
        (case decodedOptions q o' of
           Some l \<Rightarrow> decode (URLQuery (send c)) = Inr l
         | None \<Rightarrow> \<not> isOk (decode (URLQuery (send c))))))"

definition askedName :: "SelectorLib \<Rightarrow> MetaListOptions \<Rightarrow> string" where
  \<comment> \<open>the object that list options ask for by a field selector\<close>
  "askedName q o' =
     (case Option.bind (decodedOptions q o') FieldSelector of
        None \<Rightarrow> ''''
      | Some sel \<Rightarrow> (case sel ''metadata.name'' of Some n \<Rightarrow> if validSegment q n then n else '''' | None \<Rightarrow> ''''))"

definition resolvesTo ::
  "(RequestInfo \<times> goerr option) go \<Rightarrow> string \<Rightarrow> GroupVersion \<Rightarrow> string \<Rightarrow> string \<Rightarrow> string \<Rightarrow> bool" where
  "resolvesTo r verb gv resource name sub \<longleftrightarrow> (\<exists>info. r = Inr (info, None) \<and> IsResourceRequest info \<and>
     Verb info = verb \<and> APIGroup info = gv_Group gv \<and> APIVersion info = gv_Version gv \<and>
     Resource info = resource \<and> ri_Name info = name \<and> Subresource info = sub \<and> ri_Namespace info = '''')"

definition plainSegment :: "string \<Rightarrow> bool" where
  "plainSegment x \<longleftrightarrow> x \<noteq> '''' \<and> CHR ''/'' \<notin> set x"

definition aiResources :: "string list" where
  "aiResources = [''users'', ''globalroles'', ''globalrolebindings'', ''loginrecords'', ''healths'']"

definition parsesAi :: "RequestInfoFactory \<Rightarrow> GroupVersion \<Rightarrow> bool" where
  "parsesAi r gv \<longleftrightarrow> ''apis'' \<in> set (APIPrefixes r) \<and> ''apis'' \<notin> set (GrouplessAPIPrefixes r) \<and>
     plainSegment (gv_Group gv) \<and> plainSegment (gv_Version gv)"

lemma resolves_call:
  assumes r: "parsesAi r gv" and q: "segmentNames q" and s: "sendsRest q decode send gv" and c: "sendable q c"
    and res: "rcResource c \<in> set aiResources" and n: "rcName c = None \<Longrightarrow> rcSubresources c = []"
  shows "resolvesTo (NewRequestInfo r decode vn (send c))
    (case rcName c of
       Some _ \<Rightarrow> methodVerb (rcMethod c)
     | None \<Rightarrow>
         if methodVerb (rcMethod c) = ''get'' then if Watch (listOptions decode (send c)) then ''watch'' else ''list''
         else if methodVerb (rcMethod c) = ''delete'' then ''deletecollection'' else methodVerb (rcMethod c))
    gv (rcResource c)
    (case rcName c of
       Some name \<Rightarrow> name
     | None \<Rightarrow> if methodVerb (rcMethod c) = ''get'' then selectedName decode vn (send c) else '''')
    (case rcSubresources c of [] \<Rightarrow> '''' | x # _ \<Rightarrow> x)"
proof -
  let ?rest = "(case rcName c of None \<Rightarrow> [] | Some n \<Rightarrow> [n]) @ rcSubresources c"
  have g: "gv_Group gv \<noteq> ''''" and sl: "CHR ''/'' \<notin> set (gv_Group gv)" and pre: "''apis'' \<in> set (APIPrefixes r)"
      "''apis'' \<in> set (GrouplessAPIPrefixes r) \<longleftrightarrow> gv_Group gv = ''''"
    using r by (auto simp: parsesAi_def plainSegment_def)
  have m: "Method (send c) = rcMethod c"
    and path: "URLPath (send c) = resourcePath ''apis'' (gv_Group gv) (gv_Version gv) '''' (rcResource c) ?rest"
    using s c g by (simp_all add: sendsRest_def resourcePath_def)
  have parts: "\<forall>x \<in> set (''apis'' # gv_Version gv # rcResource c # ?rest). x \<noteq> '''' \<and> CHR ''/'' \<notin> set x"
  proof -
    have v: "CHR ''/'' \<notin> set x" if "validSegment q x" for x using q that by (simp add: segmentNames_def)
    have "rcResource c \<noteq> '''' \<and> CHR ''/'' \<notin> set (rcResource c)" using res by (auto simp: aiResources_def)
    moreover have "x \<noteq> '''' \<and> CHR ''/'' \<notin> set x" if "x \<in> set ?rest" for x
      using c v that by (cases "rcName c") (auto simp: sendable_def list_all_iff)
    moreover have "gv_Version gv \<noteq> '''' \<and> CHR ''/'' \<notin> set (gv_Version gv)" using r by (simp add: parsesAi_def plainSegment_def)
    ultimately show ?thesis by simp
  qed
  have ok: "if '''' = '''' then rcResource c \<notin> {''workspaces'', ''namespaces'', ''watch'', ''proxy''}
      else rcResource c \<notin> set namespaceSubresources"
    using res by (auto simp: aiResources_def)
  have sl0: "CHR ''/'' \<notin> set ''''" by simp
  obtain info where i: "NewRequestInfo r decode vn (send c) = Inr (info, None)" "IsResourceRequest info"
      "APIGroup info = gv_Group gv" "APIVersion info = gv_Version gv" "ri_Namespace info = ''''" "Resource info = rcResource c"
    and name: "ri_Name info = (case ?rest of name # _ \<Rightarrow> name
      | [] \<Rightarrow> if methodVerb (Method (send c)) = ''get'' then selectedName decode vn (send c) else '''')"
    and sub: "Subresource info = (case ?rest of _ # sub # _ \<Rightarrow> sub | _ \<Rightarrow> '''')"
    and verb: "Verb info = (case ?rest of _ # _ \<Rightarrow> methodVerb (Method (send c))
      | [] \<Rightarrow> if methodVerb (Method (send c)) = ''get''
              then if Watch (listOptions decode (send c)) then ''watch'' else ''list''
              else if methodVerb (Method (send c)) = ''delete'' then ''deletecollection''
              else methodVerb (Method (send c)))"
    using resource_read_back [OF parts sl sl0 pre ok path, of decode vn] by blast
  show ?thesis
  proof (cases "rcName c")
    case None
    with n have "?rest = []" "rcSubresources c = []" by simp_all
    then show ?thesis using i name sub verb unfolding resolvesTo_def None m by simp
  next
    case (Some x)
    then have "?rest = x # rcSubresources c" by simp
    then show ?thesis using i name sub verb unfolding resolvesTo_def Some m by (cases "rcSubresources c") simp_all
  qed
qed

lemma decoded:
  assumes s: "sendsRest q decode send gv" and c: "sendable q c" and p: "rcParams c = ListParams o'"
  shows "Watch (listOptions decode (send c)) = metaWatch o'"
    and "selectedName decode (validSegment q) (send c) = askedName q o'"
proof -
  from s c p have "map_of (URLQuery (send c)) ''watch'' = (if metaWatch o' then Some [''true''] else None)"
    and d: "case decodedOptions q o' of
        Some l \<Rightarrow> decode (URLQuery (send c)) = Inr l | None \<Rightarrow> \<not> isOk (decode (URLQuery (send c)))"
    unfolding sendsRest_def by blast+
  moreover have "ToLower ''true'' = ''true''" by code_simp
  ultimately have o': "listOptions decode (send c) =
      (case decodedOptions q o' of Some l \<Rightarrow> l | None \<Rightarrow> \<lparr>Watch = metaWatch o', FieldSelector = None\<rparr>)"
    by (auto simp: listOptions_def emptyOptions_def isOk_def split: option.splits sum.splits)
  have w: "Watch l = metaWatch o'" if "decodedOptions q o' = Some l" for l
    using that by (auto simp: decodedOptions_def split: if_splits)
  show "Watch (listOptions decode (send c)) = metaWatch o'"
    by (simp add: o' w split: option.split)
  show "selectedName decode (validSegment q) (send c) = askedName q o'"
    by (simp add: selectedName_def askedName_def o' split: option.split)
qed

lemma calls_resolve:
  assumes r: "parsesAi r gv" and q: "segmentNames q" and s: "sendsRest q decode send gv"
    and c: "clientOf res c" "res \<in> set aiResources"
    and n: "n \<noteq> ''''" "validSegment q n" and subs: "list_all (\<lambda>x. x \<noteq> '''' \<and> validSegment q x) subs"
    and info: "info = (\<lambda>call. NewRequestInfo r decode (validSegment q) (send call))"
  shows "resolvesTo (info (tcGet c n p)) ''get'' gv res n '''' \<and>
    resolvesTo (info (tcList c lo)) (if metaWatch lo then ''watch'' else ''list'') gv res (askedName q lo) '''' \<and>
    resolvesTo (info (tcWatch c lo)) ''watch'' gv res (askedName q lo) '''' \<and>
    resolvesTo (info (tcCreate c b p)) ''create'' gv res '''' '''' \<and>
    resolvesTo (info (tcUpdate c n b p)) ''update'' gv res n '''' \<and>
    (\<forall>f. tcUpdateStatus c = Some f \<longrightarrow> resolvesTo (info (f n b p)) ''update'' gv res n ''status'') \<and>
    resolvesTo (info (tcDelete c n b)) ''delete'' gv res n '''' \<and>
    resolvesTo (info (tcDeleteCollection c b lo)) ''deletecollection'' gv res '''' '''' \<and>
    resolvesTo (info (tcPatch c n b p subs)) ''patch'' gv res n (case subs of [] \<Rightarrow> '''' | x # _ \<Rightarrow> x)"
proof -
  have C: "tcGet c = restGet res" "tcList c = restList res" "tcWatch c = restWatch res" "tcCreate c = restCreate res"
    "tcUpdate c = restUpdate res" "\<And>f. tcUpdateStatus c = Some f \<Longrightarrow> f = restUpdateStatus res"
    "tcDelete c = restDelete res" "tcDeleteCollection c = restDeleteCollection res" "tcPatch c = restPatch res"
    using c(1) by (simp_all add: clientOf_def)
  have st: "validSegment q ''status''" using q by (simp add: segmentNames_def)
  note K = resolves_call [OF r q s, where vn = "validSegment q"] and D = rest_defs methodVerb_def sendable_def
  show ?thesis
  proof (intro conjI allI impI)
    show "resolvesTo (info (tcGet c n p)) ''get'' gv res n ''''"
      using K [of "restGet res n p"] c(2) n by (simp add: D C info)
    show "resolvesTo (info (tcUpdate c n b p)) ''update'' gv res n ''''"
      using K [of "restUpdate res n b p"] c(2) n by (simp add: D C info)
    show "resolvesTo (info (tcDelete c n b)) ''delete'' gv res n ''''"
      using K [of "restDelete res n b"] c(2) n by (simp add: D C info)
    show "resolvesTo (info (tcPatch c n b p subs)) ''patch'' gv res n (case subs of [] \<Rightarrow> '''' | x # _ \<Rightarrow> x)"
      using K [of "restPatch res n b p subs"] c(2) n subs by (simp add: D C info)
    show "resolvesTo (info (f n b p)) ''update'' gv res n ''status''" if "tcUpdateStatus c = Some f" for f
      using K [of "restUpdateStatus res n b p"] c(2) n st C(6) [OF that] by (simp add: D info)
    show "resolvesTo (info (tcList c lo)) (if metaWatch lo then ''watch'' else ''list'') gv res (askedName q lo) ''''"
      using K [of "restList res lo"] decoded [OF s, of "restList res lo" lo] c(2) by (simp add: D C info)
    have "askedName q (lo\<lparr>metaWatch := True\<rparr>) = askedName q lo"
      by (simp add: askedName_def decodedOptions_def Option.bind_map_option comp_def)
    then show "resolvesTo (info (tcWatch c lo)) ''watch'' gv res (askedName q lo) ''''"
      using K [of "restWatch res lo"] decoded [OF s, of "restWatch res lo" "lo\<lparr>metaWatch := True\<rparr>"] c(2)
      by (simp add: D C info)
    show "resolvesTo (info (tcCreate c b p)) ''create'' gv res '''' ''''"
      using K [of "restCreate res b p"] c(2) by (simp add: D C info)
    show "resolvesTo (info (tcDeleteCollection c b lo)) ''deletecollection'' gv res '''' ''''"
      using K [of "restDeleteCollection res b lo"] c(2) by (simp add: D C info)
  qed
qed

text \<open>
  C19. What the clientset asks for is what the server reads: every call of every client of the
  clientset that the REST client sends (it sends no invalid name) is resolved by the server's request
  information to the group and version of the client, its resource, the name and the subresource of
  the call, in no namespace, with the verb of the method called: get, list, watch, create, update
  (also for the status), delete, deletecollection and patch. A list whose options ask to watch is a
  watch; lists and watches have the name that their field selector asks for, also when it does
  not parse (then none).
\<close>

theorem clientset_resolves:
  assumes r: "parsesAi r gv" and q: "segmentNames q" and s: "sendsRest q decode send gv"
    and c: "clientOf res c" "res \<in> set aiResources"
    and n: "n \<noteq> ''''" "validSegment q n" and subs: "list_all (\<lambda>x. x \<noteq> '''' \<and> validSegment q x) subs"
    and info: "info = (\<lambda>call. NewRequestInfo r decode (validSegment q) (send call))"
  shows "resolvesTo (info (tcGet c n p)) ''get'' gv res n '''' \<and>
    resolvesTo (info (tcList c lo)) (if metaWatch lo then ''watch'' else ''list'') gv res (askedName q lo) '''' \<and>
    resolvesTo (info (tcWatch c lo)) ''watch'' gv res (askedName q lo) '''' \<and>
    resolvesTo (info (tcCreate c b p)) ''create'' gv res '''' '''' \<and>
    resolvesTo (info (tcUpdate c n b p)) ''update'' gv res n '''' \<and>
    (\<forall>f. tcUpdateStatus c = Some f \<longrightarrow> resolvesTo (info (f n b p)) ''update'' gv res n ''status'') \<and>
    resolvesTo (info (tcDelete c n b)) ''delete'' gv res n '''' \<and>
    resolvesTo (info (tcDeleteCollection c b lo)) ''deletecollection'' gv res '''' '''' \<and>
    resolvesTo (info (tcPatch c n b p subs)) ''patch'' gv res n (case subs of [] \<Rightarrow> '''' | x # _ \<Rightarrow> x)"
  by (rule calls_resolve [OF assms])

section \<open>Configuration\<close>

text \<open>
  The fields of \<open>rest.Config\<close> that the clientset reads or writes; of the query rate only the sign
  matters. Making an HTTP client or a REST client from a configuration is library code.
\<close>

record RestConfig =
  cfgGroupVersion :: "GroupVersion option"
  cfgAPIPath :: string
  cfgUserAgent :: string
  cfgRateLimiter :: bool
  cfgQPS :: int
  cfgBurst :: int
  cfgHost :: string
  cfgInsecure :: bool \<comment> \<open>the server certificate is not verified\<close>
  cfgBearerToken :: string

definition setConfigDefaults :: "GroupVersion \<Rightarrow> string \<Rightarrow> RestConfig \<Rightarrow> RestConfig" where
  \<comment> \<open>of the client of the group; the string is the default user agent\<close>
  "setConfigDefaults gv agent config =
     (let c = config\<lparr>cfgGroupVersion := Some gv, cfgAPIPath := ''/apis''\<rparr>
      in if cfgUserAgent c = '''' then c\<lparr>cfgUserAgent := agent\<rparr> else c)"

record ('h, 'c) RestLib =
  defaultAgent :: string
  httpClientFor :: "RestConfig \<Rightarrow> goerr + 'h"
  restClientFor :: "RestConfig \<Rightarrow> 'h \<Rightarrow> goerr + 'c"
  discoveryFor :: "RestConfig \<Rightarrow> 'h \<Rightarrow> goerr + 'c"

definition groupClientForConfigAndClient ::
  "('h, 'c) RestLib \<Rightarrow> GroupVersion \<Rightarrow> RestConfig \<Rightarrow> 'h \<Rightarrow> goerr + 'c" where
  \<comment> \<open>\<open>NewForConfigAndClient\<close> of the client of a group\<close>
  "groupClientForConfigAndClient lib gv c h = restClientFor lib (setConfigDefaults gv (defaultAgent lib) c) h"

record 'c Clientset =
  csCoreV1 :: 'c
  csIamV1 :: 'c
  csDiscovery :: 'c

definition withRateLimiter :: "RestConfig \<Rightarrow> RestConfig res" where
  "withRateLimiter c =
     (if \<not> cfgRateLimiter c \<and> cfgQPS c > 0 then
        if cfgBurst c \<le> 0
        then Inl (Msg ''burst is required to be greater than 0 when RateLimiter is not set and QPS is set to greater than 0'')
        else Inr (c\<lparr>cfgRateLimiter := True\<rparr>)
      else Inr c)"

definition clientsetForConfigAndClient :: "('h, 'c) RestLib \<Rightarrow> RestConfig \<Rightarrow> 'h \<Rightarrow> 'c Clientset res" where
  "clientsetForConfigAndClient lib c httpClient =
     (case withRateLimiter c of
        Inl err \<Rightarrow> Inl err
      | Inr c' \<Rightarrow>
          (case groupClientForConfigAndClient lib coreGV c' httpClient of
             Inl err \<Rightarrow> Inl err
           | Inr core \<Rightarrow>
               (case groupClientForConfigAndClient lib iamGV c' httpClient of
                  Inl err \<Rightarrow> Inl err
                | Inr iam \<Rightarrow>
                    (case discoveryFor lib c' httpClient of
                       Inl err \<Rightarrow> Inl err
                     | Inr d \<Rightarrow> Inr \<lparr>csCoreV1 = core, csIamV1 = iam, csDiscovery = d\<rparr>))))"

definition clientsetForConfig :: "('h, 'c) RestLib \<Rightarrow> RestConfig \<Rightarrow> 'c Clientset res" where
  "clientsetForConfig lib c =
     (let c' = (if cfgUserAgent c = '''' then c\<lparr>cfgUserAgent := defaultAgent lib\<rparr> else c) in
      case httpClientFor lib c' of Inl err \<Rightarrow> Inl err | Inr h \<Rightarrow> clientsetForConfigAndClient lib c' h)"

text \<open>
  The clients of a clientset share one limit of the query rate: each of its REST clients is made from a
  configuration that has a limiter whenever the given one asks for a rate, and addresses its own group
  below the API path.
\<close>

lemma clientset_clients:
  assumes "clientsetForConfig lib c = Inr cs"
  obtains h c' where "withRateLimiter (if cfgUserAgent c = '''' then c\<lparr>cfgUserAgent := defaultAgent lib\<rparr> else c) = Inr c'"
    and "restClientFor lib (setConfigDefaults coreGV (defaultAgent lib) c') h = Inr (csCoreV1 cs)"
    and "restClientFor lib (setConfigDefaults iamGV (defaultAgent lib) c') h = Inr (csIamV1 cs)"
  using assms
  by (auto simp: clientsetForConfig_def clientsetForConfigAndClient_def groupClientForConfigAndClient_def Let_def
    split: sum.splits if_splits)

lemma clientset_configs:
  assumes "clientsetForConfig lib c = Inr cs"
  obtains h c1 c2 where "restClientFor lib c1 h = Inr (csCoreV1 cs)" and "restClientFor lib c2 h = Inr (csIamV1 cs)"
    and "cfgGroupVersion c1 = Some coreGV" and "cfgGroupVersion c2 = Some iamGV"
    and "cfgAPIPath c1 = ''/apis''" and "cfgAPIPath c2 = ''/apis''"
    and "cfgQPS c > 0 \<longrightarrow> cfgRateLimiter c1 \<and> cfgRateLimiter c2"
proof -
  let ?c = "if cfgUserAgent c = '''' then c\<lparr>cfgUserAgent := defaultAgent lib\<rparr> else c"
  obtain h c' where "withRateLimiter ?c = Inr c'"
    and "restClientFor lib (setConfigDefaults coreGV (defaultAgent lib) c') h = Inr (csCoreV1 cs)"
    and "restClientFor lib (setConfigDefaults iamGV (defaultAgent lib) c') h = Inr (csIamV1 cs)"
    using assms by (rule clientset_clients)
  moreover from this(1) have "cfgQPS c > 0 \<longrightarrow> cfgRateLimiter c'"
    by (auto simp: withRateLimiter_def split: if_splits)
  ultimately show ?thesis using that by (auto simp: setConfigDefaults_def Let_def)
qed

section \<open>A run\<close>

text \<open>A library that knows the one field selector for the name.\<close>

definition exampleSelectors :: SelectorLib where
  "exampleSelectors = \<lparr>validSegment = (\<lambda>n. n \<noteq> ''.'' \<and> n \<noteq> ''..'' \<and> CHR ''/'' \<notin> set n \<and> CHR ''%'' \<notin> set n),
     labelsParse = (\<lambda>_. True),
     fieldsParse = (\<lambda>t. if t = '''' then Some (\<lambda>_. None)
       else if HasPrefix t ''metadata.name='' then Some [''metadata.name'' \<mapsto> TrimPrefix t ''metadata.name='']
       else None)\<rparr>"

definition exampleSend :: "(unit, unit) RestCall \<Rightarrow> HttpRequest" where
  "exampleSend c = \<lparr>Method = rcMethod c,
     URLPath = CHR ''/'' # Join ([''apis'', ''iam.ai.io'', ''v1'', rcResource c] @
       (case rcName c of None \<Rightarrow> [] | Some n \<Rightarrow> [n]) @ rcSubresources c) ''/'',
     URLText = '''',
     URLQuery = (case rcParams c of
       ListParams opts \<Rightarrow> (''fieldSelector'', [metaFieldSelector opts]) # (if metaWatch opts then [(''watch'', [''true''])] else [])
     | _ \<Rightarrow> []),
     Header = (\<lambda>_. ''''), RemoteAddr = ''''\<rparr>"

definition exampleDecode :: "(string \<times> string list) list \<Rightarrow> goerr + ListOptions" where
  "exampleDecode query =
     (case fieldsParse exampleSelectors (queryGet query ''fieldSelector'') of
        None \<Rightarrow> Inl (Msg ''invalid selector'')
      | Some sel \<Rightarrow> Inr \<lparr>Watch = (map_of query ''watch'' \<noteq> None), FieldSelector = Some sel\<rparr>)"

lemma example_sends: "sendsRest exampleSelectors exampleDecode exampleSend iamGV"
  by (auto simp: sendsRest_def exampleSend_def exampleDecode_def decodedOptions_def queryGet_def iamGV_def
      exampleSelectors_def)

theorem clientset_resolves_witness:
  "resolvesTo (NewRequestInfo exampleFactory exampleDecode (validSegment exampleSelectors)
     (exampleSend (restList ''users'' \<lparr>metaLabelSelector = '''', metaFieldSelector = ''metadata.name=alice'',
        metaWatch = False, metaAllowWatchBookmarks = False, metaResourceVersion = '''', metaResourceVersionMatch = '''',
        TimeoutSeconds = None, metaLimit = 0, metaContinue = ''''\<rparr>)))
     ''list'' iamGV ''users'' ''alice'' ''''"
proof -
  let ?lo = "\<lparr>metaLabelSelector = '''', metaFieldSelector = ''metadata.name=alice'',
        metaWatch = False, metaAllowWatchBookmarks = False, metaResourceVersion = '''', metaResourceVersionMatch = '''',
        TimeoutSeconds = None, metaLimit = 0, metaContinue = ''''\<rparr>"
  have a: "askedName exampleSelectors ?lo = ''alice''"
    by (simp add: askedName_def decodedOptions_def exampleSelectors_def HasPrefix_def TrimPrefix_def)
  have "parsesAi exampleFactory iamGV" "segmentNames exampleSelectors" "''users'' \<in> set aiResources"
      "validSegment exampleSelectors ''alice''"
    by (simp_all add: parsesAi_def exampleFactory_def iamGV_def plainSegment_def segmentNames_def exampleSelectors_def
        aiResources_def)
  from clientset_resolves [OF this(1,2) example_sends clients(1) this(3) _ this(4) _ refl, of "[]" "()" ?lo "()"] a
  show ?thesis by (simp add: usersClient_def)
qed

end
