(* ===== verification/Server_Process.thy ===== *)
theory Server_Process
  imports Oauth_Options Cache_Store Request_Info
begin

text \<open>
  The server process: its options and their validation (\<open>pkg/server/options\<close>, \<open>cmd/ai-server/app/options\<close>),
  the configuration file (\<open>pkg/aiserver/config\<close>), the Kubernetes client options (\<open>pkg/client/k8s\<close>), and
  the loop of \<open>cmd/ai-server/app/server.go\<close> that restarts the server when the configuration changes.
  The loop, its goroutines and the channel of errors are a step relation.
\<close>

section \<open>Ports and addresses\<close>

definition IsValidPort :: "int \<Rightarrow> bool" where
  \<comment> \<open>0 is considered as a non valid port\<close>
  "IsValidPort port \<longleftrightarrow> port > 0 \<and> port < 65535"

definition GetRequestIP :: "HttpRequest \<Rightarrow> (string \<Rightarrow> string option) \<Rightarrow> string" where
  \<comment> \<open>the second argument is the host part of \<open>net.SplitHostPort\<close>, none on an error\<close>
  "GetRequestIP req split =
     (let address = TrimChar (Header req ''X-Real-Ip'') CHR '' '' in
      if address \<noteq> '''' then address
      else
        let address = TrimChar (Header req ''X-Forwarded-For'') CHR '' '' in
        if address \<noteq> '''' then address
        else (case split (RemoteAddr req) of None \<Rightarrow> RemoteAddr req | Some host \<Rightarrow> host))"

section \<open>Options\<close>

record GenericOptions =
  BindAddress :: string
  InsecurePort :: int
  SecurePort :: int
  TlsCertFile :: string
  TlsPrivateKey :: string

definition NewGenericOptions :: GenericOptions where
  "NewGenericOptions = \<lparr>BindAddress = ''0.0.0.0'', InsecurePort = 8080, SecurePort = 0, TlsCertFile = '''',
     TlsPrivateKey = ''''\<rparr>"

text \<open>\<open>stat\<close> is the error of \<open>os.Stat\<close>, if any.\<close>

definition fileErrors :: "(string \<Rightarrow> goerr option) \<Rightarrow> string \<Rightarrow> string \<Rightarrow> goerr list" where
  "fileErrors stat text file =
     (if file = '''' then [Msg text] else (case stat file of None \<Rightarrow> [] | Some err \<Rightarrow> [err]))"

definition ValidateGeneric :: "(string \<Rightarrow> goerr option) \<Rightarrow> GenericOptions \<Rightarrow> goerr list" where
  "ValidateGeneric stat s =
     (let errs = (if SecurePort s = 0 \<and> InsecurePort s = 0
                  then [Msg ''insecure and secure port can not be disabled at the same time''] else [])
      in if IsValidPort (SecurePort s) then
           errs @ fileErrors stat ''tls cert file is empty while secure serving'' (TlsCertFile s) @
           fileErrors stat ''tls private key file is empty while secure serving'' (TlsPrivateKey s)
         else errs)"

record KubernetesOptions =
  KubeConfig :: string
  Master :: string
  QPS :: int
  Burst :: int
  Token :: string

definition NewKubernetesOptions :: KubernetesOptions where
  "NewKubernetesOptions = \<lparr>KubeConfig = '''', Master = '''', QPS = 1000000, Burst = 1000000, Token = ''''\<rparr>"

definition ValidateKubernetes :: "(string \<Rightarrow> goerr option) \<Rightarrow> KubernetesOptions \<Rightarrow> goerr list" where
  "ValidateKubernetes stat k =
     (if KubeConfig k \<noteq> '''' then (case stat (KubeConfig k) of None \<Rightarrow> [] | Some err \<Rightarrow> [err]) else [])"

text \<open>
  \<open>Override\<close> of \<open>pkg/utils/reflectutils\<close>, on pointers to these options: every field of the second that is
  not zero replaces the field of the first.
\<close>

definition overrideField :: "'a \<Rightarrow> 'a \<Rightarrow> 'a \<Rightarrow> 'a" where
  "overrideField zero new old = (if new \<noteq> zero then new else old)"

definition Override :: "KubernetesOptions option \<Rightarrow> KubernetesOptions option \<Rightarrow> KubernetesOptions option" where
  "Override left right =
     (case (left, right) of
        (Some old, Some new) \<Rightarrow>
          Some \<lparr>KubeConfig = overrideField '''' (KubeConfig new) (KubeConfig old),
            Master = overrideField '''' (Master new) (Master old),
            QPS = overrideField 0 (QPS new) (QPS old), Burst = overrideField 0 (Burst new) (Burst old),
            Token = overrideField '''' (Token new) (Token old)\<rparr>
      | _ \<Rightarrow> left)"

definition ApplyTo :: "KubernetesOptions option \<Rightarrow> KubernetesOptions option \<Rightarrow> KubernetesOptions option" where
  "ApplyTo k options = Override options k"

lemma overrideField_laws:
  "overrideField z (overrideField z new new') old = overrideField z new (overrideField z new' old)"
  "overrideField z x x = x" "overrideField z z x = x"
  by (simp_all add: overrideField_def)

lemma overrideField_zero [simp]: "overrideField z x z = x"
  by (simp add: overrideField_def)

text \<open>Applying options twice is applying them once; what is applied later wins; empty options do nothing.\<close>

theorem ApplyTo_laws:
  "ApplyTo (Override k k') options = (if k = None then ApplyTo None options else ApplyTo k' (ApplyTo k options))"
  "ApplyTo k (ApplyTo k options) = ApplyTo k options"
  "ApplyTo (Some \<lparr>KubeConfig = '''', Master = '''', QPS = 0, Burst = 0, Token = ''''\<rparr>) options = options"
  by (auto simp: ApplyTo_def Override_def overrideField_def split: option.splits)

record AiOptions =
  aiNamespace :: string
  aiNamePrefix :: string

record 'o Config =
  cfgKubernetes :: KubernetesOptions
  cfgAi :: AiOptions
  cfgCache :: "'o CacheOptions"
  cfgAuthentication :: AuthenticationOptions

definition NewConfig :: "'o \<Rightarrow> 'o Config" where
  \<comment> \<open>the argument is the empty map of cache options\<close>
  "NewConfig noOptions = \<lparr>cfgKubernetes = NewKubernetesOptions, cfgAi = \<lparr>aiNamespace = '''', aiNamePrefix = ''''\<rparr>,
     cfgCache = \<lparr>CacheType = typeInMemoryCache, DynOptions = noOptions\<rparr>, cfgAuthentication = NewAuthenticateOptions\<rparr>"

record 'o ServerRunOptions =
  sroGeneric :: GenericOptions
  sroConfig :: "'o Config"
  DebugMode :: bool

definition NewServerRunOptions :: "'o \<Rightarrow> 'o ServerRunOptions" where
  "NewServerRunOptions noOptions =
     \<lparr>sroGeneric = NewGenericOptions, sroConfig = NewConfig noOptions, DebugMode = False\<rparr>"

definition ValidateServer :: "(string \<Rightarrow> goerr option) \<Rightarrow> 'o ServerRunOptions \<Rightarrow> goerr list" where
  "ValidateServer stat s = ValidateGeneric stat (sroGeneric s)"

section \<open>The configuration file\<close>

text \<open>
  The state is the configuration, whether the body of \<open>loadOnce\<close> has run, and what viper holds.
  \<open>readInConfig\<close> reads the file into viper, \<open>isNotFound\<close> tells its error for a missing file,
  \<open>errorText\<close> prints an error, and \<open>unmarshal\<close> writes what viper holds over a configuration.
\<close>

record ('c, 'v) Loader =
  ldConfig :: 'c
  loadOnce :: bool
  viperState :: 'v

record ('c, 'v) Viper =
  readInConfig :: "'v \<Rightarrow> goerr option \<times> 'v"
  isNotFound :: "goerr \<Rightarrow> bool"
  viperErrorText :: "goerr \<Rightarrow> string"
  unmarshal :: "'v \<Rightarrow> 'c \<Rightarrow> 'c \<times> goerr option"

definition loadFromDisk :: "('c, 'v) Viper \<Rightarrow> ('c, 'v) Loader \<Rightarrow> ('c \<times> goerr option) \<times> ('c, 'v) Loader" where
  "loadFromDisk lib c =
     (let err = None in
      if loadOnce c then ((ldConfig c, err), c)
      else
        case readInConfig lib (viperState c) of (readErr, v) \<Rightarrow>
          let err = (case readErr of
                 None \<Rightarrow> None
               | Some e \<Rightarrow>
                   if \<not> isNotFound lib e
                   then Some (Msg (''error parsing configuration file '' @ viperErrorText lib e)) else Some e)
          in
          case unmarshal lib v (ldConfig c) of (cfg, unmarshalErr) \<Rightarrow>
            let err = unmarshalErr
            in ((cfg, err), c\<lparr>ldConfig := cfg, loadOnce := True, viperState := v\<rparr>))"

text \<open>On every change of the file a fresh configuration is sent on \<open>cfgChangeCh\<close>, unless it cannot be read.\<close>

definition onConfigChange :: "('o Config, 'v) Viper \<Rightarrow> 'o \<Rightarrow> 'v \<Rightarrow> 'o Config option" where
  "onConfigChange lib noOptions v =
     (case unmarshal lib v (NewConfig noOptions) of (cfg, None) \<Rightarrow> Some cfg | (_, Some err) \<Rightarrow> None)"

text \<open>The command takes the configuration of the file; its options keep no debug flag.\<close>

definition AIServerOptions :: "'o \<Rightarrow> 'o Config \<times> goerr option \<Rightarrow> 'o ServerRunOptions res" where
  \<comment> \<open>an error is fatal\<close>
  "AIServerOptions noOptions loaded =
     (case loaded of
        (conf, None) \<Rightarrow> Inr \<lparr>sroGeneric = sroGeneric (NewServerRunOptions noOptions), sroConfig = conf, DebugMode = False\<rparr>
      | (_, Some err) \<Rightarrow> Inl err)"

section \<open>Making the server\<close>

record HttpServer =
  Addr :: string
  TLSConfig :: "string option"

text \<open>
  The Kubernetes client, the cache and the key pair come from library calls and \<open>NewCache\<close>. The new
  \<open>http.Server\<close> has no TLS configuration, and its field is written without one.
\<close>

definition NewHttpServer :: "(string \<Rightarrow> string \<Rightarrow> goerr + string) \<Rightarrow> GenericOptions \<Rightarrow> HttpServer out" where
  "NewHttpServer loadKeyPair g =
     (let server = \<lparr>Addr = '':'' @ FormatInt (InsecurePort g), TLSConfig = None\<rparr> in
      if SecurePort g \<noteq> 0 then
        obind (ofRes (loadKeyPair (TlsCertFile g) (TlsPrivateKey g))) (\<lambda>certificate.
          (case TLSConfig server of
             None \<Rightarrow> Inl (Panic NilDeref)
           | Some _ \<Rightarrow> Inr (server\<lparr>TLSConfig := Some certificate\<rparr>)))
      else Inr server)"

definition NewAPIServer ::
  "(KubernetesOptions \<Rightarrow> goerr + 'k) \<Rightarrow> (string \<times> 'o cacheFactory) list \<Rightarrow> (string \<Rightarrow> string \<Rightarrow> goerr + string) \<Rightarrow>
   'o ServerRunOptions \<Rightarrow> ('k \<times> duration \<times> HttpServer) out" where
  "NewAPIServer newClient factories loadKeyPair s =
     (case newClient (cfgKubernetes (sroConfig s)) of
        Inl err \<Rightarrow> Inl (Err (Msg ''failed to create kubernetes client''))
      | Inr client \<Rightarrow>
          (case snd (NewCache factories (cfgCache (sroConfig s))) of
             Inl err \<Rightarrow> Inl (Err (Msg ''failed to create cache''))
           | Inr cache \<Rightarrow>
               obind (NewHttpServer loadKeyPair (sroGeneric s)) (\<lambda>server. Inr (client, cache, server))))"

text \<open>
  The server cannot serve over TLS: with any secure port, once the client, the cache and the key
  pair are there, making the server panics with a nil dereference, and validation has reported nothing
  when the port is valid and the files exist.
\<close>

theorem secure_port_panics:
  assumes "SecurePort (sroGeneric s) \<noteq> 0" and "newClient (cfgKubernetes (sroConfig s)) = Inr client"
    and "snd (NewCache factories (cfgCache (sroConfig s))) = Inr period"
    and "loadKeyPair (TlsCertFile (sroGeneric s)) (TlsPrivateKey (sroGeneric s)) = Inr certificate"
  shows "NewAPIServer newClient factories loadKeyPair s = Inl (Panic NilDeref)"
  using assms by (simp add: NewAPIServer_def NewHttpServer_def Let_def)

definition tlsOptions :: "unit ServerRunOptions" where
  "tlsOptions = (NewServerRunOptions ())\<lparr>sroGeneric := NewGenericOptions\<lparr>SecurePort := 8443,
     TlsCertFile := ''tls.crt'', TlsPrivateKey := ''tls.key''\<rparr>\<rparr>"

theorem secure_port_panics_witness:
  "ValidateServer (\<lambda>_. None) tlsOptions = [] \<and>
   NewAPIServer (\<lambda>_. Inr ()) [(typeInMemoryCache, \<lambda>_. Inr 0)] (\<lambda>_ _. Inr ''cert'') tlsOptions = Inl (Panic NilDeref)"
  using secure_port_panics [of tlsOptions "\<lambda>_. Inr ()" "()" "[(typeInMemoryCache, \<lambda>_. Inr 0)]" 0 "\<lambda>_ _. Inr ''cert''" "''cert''"]
  by (simp add: tlsOptions_def NewServerRunOptions_def NewConfig_def NewGenericOptions_def ValidateServer_def
    ValidateGeneric_def IsValidPort_def fileErrors_def NewCache_def typeInMemoryCache_def)

lemma load_drops_error:
  "readInConfig lib v = (readErr, v) \<Longrightarrow> unmarshal lib v cfg = (cfg, None) \<Longrightarrow>
   fst (loadFromDisk lib \<lparr>ldConfig = cfg, loadOnce = False, viperState = v\<rparr>) = (cfg, None)"
  by (simp add: loadFromDisk_def)

lemma default_options_valid:
  "AIServerOptions noOptions (cfg, None) = Inr s \<Longrightarrow> ValidateServer stat s = [] \<and> sroConfig s = cfg"
  by (auto simp: AIServerOptions_def ValidateServer_def ValidateGeneric_def NewServerRunOptions_def
    NewGenericOptions_def IsValidPort_def)

lemma default_secret:
  "ao_JwtSecret (cfgAuthentication (NewConfig noOptions)) = ''''"
  "Msg ''jwt secret is empty'' \<in> set (fst (ValidateAuthentication (cfgAuthentication (NewConfig noOptions)) r))"
  by (simp_all add: NewConfig_def NewAuthenticateOptions_def ValidateAuthentication_def Let_def
    split: prod.splits option.splits)

text \<open>
  C37. A configuration file that cannot be read or parsed does not stop the server, nor does validation:
  when the failed read leaves viper as it was and viper has nothing to write over the defaults, the
  command runs the server with the default configuration, whose JWT secret is empty, although the
  validation of the authentication options, which nothing calls, would say so.
\<close>

theorem broken_config_accepted:
  assumes "readInConfig lib v = (Some e, v)" and "unmarshal lib v (NewConfig noOptions) = (NewConfig noOptions, None)"
  shows "\<exists>s. AIServerOptions noOptions
        (fst (loadFromDisk lib \<lparr>ldConfig = NewConfig noOptions, loadOnce = False, viperState = v\<rparr>)) = Inr s \<and>
      ValidateServer stat s = [] \<and> ao_JwtSecret (cfgAuthentication (sroConfig s)) = '''' \<and>
      Msg ''jwt secret is empty'' \<in> set (fst (ValidateAuthentication (cfgAuthentication (sroConfig s)) r))"
proof -
  obtain s where s: "AIServerOptions noOptions (NewConfig noOptions, None) = Inr s"
    by (simp add: AIServerOptions_def)
  from load_drops_error [OF assms] default_options_valid [OF s] default_secret s show ?thesis by auto
qed

definition brokenFile :: "(unit Config, nat) Viper" where
  "brokenFile = \<lparr>readInConfig = \<lambda>v. (Some (Msg ''yaml: line 1''), v), isNotFound = \<lambda>_. False,
     viperErrorText = \<lambda>_. ''yaml: line 1'', unmarshal = \<lambda>_ cfg. (cfg, None)\<rparr>"

theorem broken_config_accepted_witness:
  "\<exists>s. AIServerOptions ()
        (fst (loadFromDisk brokenFile \<lparr>ldConfig = NewConfig (), loadOnce = False, viperState = 0\<rparr>)) = Inr s \<and>
      ValidateServer (\<lambda>_. None) s = [] \<and> ao_JwtSecret (cfgAuthentication (sroConfig s)) = ''''"
  using broken_config_accepted [of brokenFile 0 "Msg ''yaml: line 1''" "()" "\<lambda>_. None"]
  by (auto simp: brokenFile_def)

section \<open>The loop that restarts the server\<close>

text \<open>
  \<open>Run\<close> of \<open>cmd/ai-server/app/server.go\<close>. A context is its number; the closures of the goroutines read
  the variables \<open>ictx\<close> and \<open>s.Config\<close> when they begin to run, not when they are made. \<open>starting\<close> counts
  the goroutines that have not read them, \<open>serving\<close> holds what the others read, and \<open>sending\<close> the errors
  that wait to be sent on \<open>errCh\<close>, which has no buffer and is closed when \<open>Run\<close> returns.
\<close>

datatype Outcome = Looping | Returned "goerr option"

record 'c RunState =
  ictx :: nat
  runConfig :: 'c
  cancelled :: "nat list"
  starting :: nat
  serving :: "(nat \<times> 'c) list"
  sending :: "goerr list"
  outcome :: Outcome
  crashed :: bool

definition initRun :: "'c \<Rightarrow> 'c RunState" where
  "initRun cfg = \<lparr>ictx = 0, runConfig = cfg, cancelled = [], starting = 1, serving = [], sending = [],
     outcome = Looping, crashed = False\<rparr>"

definition cancelFunc :: "'c RunState \<Rightarrow> 'c RunState" where
  "cancelFunc s = s\<lparr>cancelled := ictx s # cancelled s\<rparr>"

inductive runStep :: "'c RunState \<Rightarrow> 'c RunState \<Rightarrow> bool" where
  starts: "runStep s (s\<lparr>starting := starting s - 1, serving := (ictx s, runConfig s) # serving s\<rparr>)"
    if "\<not> crashed s" "0 < starting s"
| stops: "runStep s (s\<lparr>serving := remove1 server (serving s)\<rparr>)"
    if "\<not> crashed s" "server \<in> set (serving s)"
| fails: "runStep s (s\<lparr>serving := remove1 server (serving s), sending := err # sending s\<rparr>)"
    if "\<not> crashed s" "server \<in> set (serving s)"
| finishes: "runStep s ((cancelFunc s)\<lparr>outcome := Returned None\<rparr>)"
    if "\<not> crashed s" "outcome s = Looping"
| reload: "runStep s ((cancelFunc s)\<lparr>runConfig := cfg, ictx := Suc (ictx s), starting := Suc (starting s)\<rparr>)"
    if "\<not> crashed s" "outcome s = Looping"
| receives: "runStep s ((cancelFunc s)\<lparr>outcome := Returned (Some err), sending := remove1 err (sending s)\<rparr>)"
    if "\<not> crashed s" "outcome s = Looping" "err \<in> set (sending s)"
| closed: "runStep s (s\<lparr>crashed := True\<rparr>)"
    if "\<not> crashed s" "outcome s \<noteq> Looping" "sending s \<noteq> []"

inductive_cases runStepE: "runStep s s'"

text \<open>The goroutines that start, serve or fail: at most one for each configuration.\<close>

definition goroutines :: "'c RunState \<Rightarrow> nat" where
  "goroutines s = starting s + length (serving s) + length (sending s)"

definition servingInv :: "'c RunState \<Rightarrow> bool" where
  "servingInv s \<longleftrightarrow> (\<forall>c cfg. (c, cfg) \<in> set (serving s) \<longrightarrow> c \<le> ictx s \<and> (c = ictx s \<longrightarrow> cfg = runConfig s))"

definition cancelledInv :: "'c RunState \<Rightarrow> bool" where
  "cancelledInv s \<longleftrightarrow> (\<forall>c \<le> ictx s. c \<in> set (cancelled s) \<longleftrightarrow> c < ictx s \<or> outcome s \<noteq> Looping) \<and>
     (\<forall>c \<in> set (cancelled s). c \<le> ictx s)"

definition runInv :: "'c RunState \<Rightarrow> bool" where
  "runInv s \<longleftrightarrow> servingInv s \<and> cancelledInv s \<and> goroutines s \<le> Suc (ictx s)"

lemma runInv_init: "runInv (initRun cfg)"
  by (simp add: runInv_def servingInv_def cancelledInv_def goroutines_def initRun_def)

lemma length_remove1_member: "x \<in> set xs \<Longrightarrow> length xs = Suc (length (remove1 x xs))"
  by (induction xs) auto

lemma in_remove1: "x \<in> set (remove1 y xs) \<Longrightarrow> x \<in> set xs"
  using set_remove1_subset [of y xs] by blast

lemma servingInv_step: "runStep s s' \<Longrightarrow> servingInv s \<Longrightarrow> servingInv s'"
  unfolding servingInv_def by (erule runStepE) (auto simp: cancelFunc_def le_Suc_eq dest: in_remove1, metis Suc_n_not_le_n)

lemma cancelledInv_step: "runStep s s' \<Longrightarrow> cancelledInv s \<Longrightarrow> cancelledInv s'"
  unfolding cancelledInv_def by (erule runStepE) (auto simp: cancelFunc_def le_Suc_eq less_Suc_eq_le)

lemma goroutines_step: "runStep s s' \<Longrightarrow> goroutines s \<le> Suc (ictx s) \<Longrightarrow> goroutines s' \<le> Suc (ictx s')"
  unfolding goroutines_def by (erule runStepE) (auto simp: cancelFunc_def dest!: length_remove1_member)

lemma runInv_step: "runStep s s' \<Longrightarrow> runInv s \<Longrightarrow> runInv s'"
  unfolding runInv_def by (simp add: servingInv_step cancelledInv_step goroutines_step)

lemma runInv_reach: "runStep\<^sup>*\<^sup>* (initRun cfg) s \<Longrightarrow> runInv s"
  by (induction rule: rtranclp_induct) (auto intro: runInv_init runInv_step)

text \<open>
  C20. However the goroutines are scheduled, a server whose context is not cancelled has the latest context
  and the latest configuration, no more servers were made than there were configurations, and once \<open>Run\<close>
  has returned every server, and every goroutine that starts later, has a cancelled context.
\<close>

theorem run_cancels_servers:
  assumes "runStep\<^sup>*\<^sup>* (initRun cfg) s"
  shows "(\<forall>(c, cfg') \<in> set (serving s). c \<notin> set (cancelled s) \<longrightarrow> c = ictx s \<and> cfg' = runConfig s) \<and>
    starting s + length (serving s) \<le> Suc (ictx s) \<and>
    (outcome s \<noteq> Looping \<longrightarrow> ictx s \<in> set (cancelled s) \<and> (\<forall>(c, cfg') \<in> set (serving s). c \<in> set (cancelled s)))"
proof -
  have "runInv s" using assms by (rule runInv_reach)
  then show ?thesis unfolding runInv_def servingInv_def cancelledInv_def goroutines_def by fastforce
qed

definition exampleRace :: "nat RunState" where
  \<comment> \<open>a change of the configuration before the first server has read its context, and both serve\<close>
  "exampleRace = \<lparr>ictx = 1, runConfig = 7, cancelled = [0], starting = 0, serving = [(1, 7), (1, 7)], sending = [],
     outcome = Looping, crashed = False\<rparr>"

lemma three_steps: "r a b \<Longrightarrow> r b c \<Longrightarrow> r c d \<Longrightarrow> r\<^sup>*\<^sup>* a d"
  by (metis converse_rtranclp_into_rtranclp r_into_rtranclp)

lemma race_reachable: "runStep\<^sup>*\<^sup>* (initRun 5) exampleRace"
proof -
  let ?s1 = "\<lparr>ictx = 1, runConfig = 7::nat, cancelled = [0], starting = 2, serving = [], sending = [],
    outcome = Looping, crashed = False\<rparr>"
  have "runStep (initRun 5) ?s1"
    using runStep.reload [of "initRun 5" "7::nat"] by (simp add: initRun_def cancelFunc_def numeral_2_eq_2)
  moreover have "runStep ?s1 (?s1\<lparr>starting := 1, serving := [(1, 7)]\<rparr>)"
    using runStep.starts [of ?s1] by (simp add: numeral_2_eq_2)
  moreover have "runStep (?s1\<lparr>starting := 1, serving := [(1, 7)]\<rparr>) exampleRace"
    using runStep.starts [of "?s1\<lparr>starting := 1, serving := [(1, 7)]\<rparr>"] by (simp add: exampleRace_def)
  ultimately show ?thesis by (rule three_steps)
qed

theorem run_cancels_servers_witness:
  "list_all (\<lambda>(c, cfg'). c = ictx exampleRace \<and> cfg' = runConfig exampleRace) (serving exampleRace) \<and>
   starting exampleRace + length (serving exampleRace) \<le> Suc (ictx exampleRace)"
  using run_cancels_servers [OF race_reachable] by (simp add: exampleRace_def)

text \<open>
  Two defects of the loop: one change of the configuration can leave two servers with the same context,
  neither cancelled, because the goroutine of the first one had not read the variable; and a server that
  fails after \<open>Run\<close> has returned without an error sends on the closed channel, which ends the process.
\<close>

theorem run_races:
  "(\<exists>s. runStep\<^sup>*\<^sup>* (initRun cfg) s \<and> serving s = [(ictx s, cfg'), (ictx s, cfg')] \<and> ictx s \<notin> set (cancelled s)) \<and>
   (\<exists>s. runStep\<^sup>*\<^sup>* (initRun cfg) s \<and> outcome s = Returned None \<and> crashed s)"
proof -
  let ?r = "(cancelFunc (initRun cfg))\<lparr>runConfig := cfg', ictx := 1, starting := 2\<rparr>"
  let ?r1 = "?r\<lparr>starting := 1, serving := [(1, cfg')]\<rparr>"
  let ?r2 = "?r\<lparr>starting := 0, serving := [(1, cfg'), (1, cfg')]\<rparr>"
  have "runStep (initRun cfg) ?r" using runStep.reload [of "initRun cfg" cfg']
    by (simp add: initRun_def cancelFunc_def numeral_2_eq_2)
  moreover have "runStep ?r ?r1" "runStep ?r1 ?r2"
    using runStep.starts [of ?r] runStep.starts [of ?r1] by (simp_all add: initRun_def cancelFunc_def numeral_2_eq_2)
  ultimately have "runStep\<^sup>*\<^sup>* (initRun cfg) ?r2" by (rule three_steps)
  then have race: "\<exists>s. runStep\<^sup>*\<^sup>* (initRun cfg) s \<and> serving s = [(ictx s, cfg'), (ictx s, cfg')] \<and> ictx s \<notin> set (cancelled s)"
    by (rule exI [of _ ?r2, OF conjI]) (simp add: initRun_def cancelFunc_def)
  let ?t1 = "(initRun cfg)\<lparr>starting := 0, serving := [(0, cfg)]\<rparr>"
  let ?t2 = "?t1\<lparr>outcome := Returned None, cancelled := [0]\<rparr>"
  let ?t3 = "?t2\<lparr>serving := [], sending := [Msg ''shutdown'']\<rparr>"
  have "runStep (initRun cfg) ?t1" "runStep ?t1 ?t2"
    using runStep.starts [of "initRun cfg"] runStep.finishes [of ?t1] by (simp_all add: initRun_def cancelFunc_def)
  moreover have "runStep ?t2 ?t3" "runStep ?t3 (?t3\<lparr>crashed := True\<rparr>)"
    using runStep.fails [of ?t2 "(0, cfg)" "Msg ''shutdown''"] runStep.closed [of ?t3] by (simp_all add: initRun_def)
  ultimately have "runStep\<^sup>*\<^sup>* (initRun cfg) (?t3\<lparr>crashed := True\<rparr>)"
    by (rule rtranclp.rtrancl_into_rtrancl [OF three_steps])
  then have "\<exists>s. runStep\<^sup>*\<^sup>* (initRun cfg) s \<and> outcome s = Returned None \<and> crashed s"
    by (rule exI [of _ "?t3\<lparr>crashed := True\<rparr>", OF conjI]) simp
  with race show ?thesis by blast
qed

end
