(* ===== verification/Server_Start.thy ===== *)
theory Server_Start
  imports Server_Process Cache_Sync
begin

text \<open>
  One life of a server, \<open>run\<close> of \<open>cmd/ai-server/app/server.go\<close>: making it, preparing its handlers, filling
  the caches and listening. Preparing (\<open>PrepareRun\<close> of \<open>Api_Routes\<close>) and listening are arguments.
\<close>

definition ErrServerClosed :: goerr where
  \<comment> \<open>what \<open>ListenAndServe\<close> returns after a shutdown\<close>
  "ErrServerClosed = Ext ''http: Server closed''"

definition run ::
  "('k \<times> duration \<times> HttpServer) out \<Rightarrow> ('k \<times> duration \<times> HttpServer \<Rightarrow> 'h go) \<Rightarrow> ('s \<Rightarrow> (goerr + unit) \<times> 's) \<Rightarrow>
   ('h \<Rightarrow> bool \<Rightarrow> 's \<Rightarrow> goerr + unit) \<Rightarrow> 's \<Rightarrow> unit out \<times> 's" where
  "run newServer prepare sync listen s =
     (case newServer of
        Inl stop \<Rightarrow> (Inl stop, s)
      | Inr (client, cache, server) \<Rightarrow>
          (case prepare (client, cache, server) of
             Inl p \<Rightarrow> (Inl (Panic p), s)
           | Inr handler \<Rightarrow>
               (case RunServer sync (TLSConfig server \<noteq> None) (listen handler) s of
                  (Inl err, s') \<Rightarrow> (if err = ErrServerClosed then Inr () else Inl (Err err), s')
                | (Inr _, s') \<Rightarrow> (Inr (), s'))))"

lemma NewHttpServer_plain:
  "NewHttpServer loadKeyPair g = Inr server \<Longrightarrow> SecurePort g = 0 \<and> TLSConfig server = None"
  by (auto simp: NewHttpServer_def Let_def obind_def ofRes_def split: if_splits sum.splits)

lemma NewAPIServer_plain:
  assumes "NewAPIServer newClient factories loadKeyPair opts = Inr (client, cache, server)"
  shows "SecurePort (sroGeneric opts) = 0 \<and> TLSConfig server = None"
proof -
  have "NewHttpServer loadKeyPair (sroGeneric opts) = Inr server"
    using assms by (auto simp: NewAPIServer_def obind_def split: sum.splits)
  then show ?thesis by (rule NewHttpServer_plain)
qed

text \<open>
  A server that ends without an error has filled its caches and then listened without TLS, until it was
  shut down: with a secure port it does not get that far, whatever key pair there is.
\<close>

theorem run_listens_plain:
  assumes "run (NewAPIServer newClient factories loadKeyPair opts) prepare sync listen s = (Inr (), s')"
    and "fst (sync s) \<noteq> Inl ErrServerClosed"
  shows "SecurePort (sroGeneric opts) = 0 \<and> sync s = (Inr (), s') \<and>
    (\<exists>handler. listen handler False s' = Inr () \<or> listen handler False s' = Inl ErrServerClosed)"
proof -
  obtain client cache server where new: "NewAPIServer newClient factories loadKeyPair opts = Inr (client, cache, server)"
    using assms(1) by (cases "NewAPIServer newClient factories loadKeyPair opts") (auto simp: run_def)
  have plain: "SecurePort (sroGeneric opts) = 0" "TLSConfig server = None"
    using NewAPIServer_plain [OF new] by simp_all
  obtain handler where h: "prepare (client, cache, server) = Inr handler"
    using assms(1) by (cases "prepare (client, cache, server)") (auto simp: run_def new)
  have "(case RunServer sync False (listen handler) s of
      (Inl err, s') \<Rightarrow> (if err = ErrServerClosed then Inr () else Inl (Err err), s')
    | (Inr _, s') \<Rightarrow> (Inr (), s')) = (Inr (), s')"
    using assms(1) by (simp add: run_def new h plain(2))
  then have "sync s = (Inr (), s') \<and> (listen handler False s' = Inr () \<or> listen handler False s' = Inl ErrServerClosed)"
    using assms(2) by (auto simp: RunServer_def split: prod.splits sum.splits if_splits)
  with plain(1) show ?thesis by blast
qed

theorem run_listens_plain_witness:
  "run (NewAPIServer (\<lambda>_. Inr ()) [(typeInMemoryCache, \<lambda>_. Inr 0)] (\<lambda>_ _. Inl (Ext ''no file''))
       (NewServerRunOptions ''default'')) (\<lambda>_. Inr ()) (\<lambda>s. (Inr (), s)) (\<lambda>_ _ _. Inl ErrServerClosed) () = (Inr (), ()) \<and>
   SecurePort (sroGeneric (NewServerRunOptions ''default'')) = 0"
proof -
  let ?factories = "[(typeInMemoryCache, \<lambda>_. Inr 0)]" and ?keys = "\<lambda>_ _. Inl (Ext ''no file'')"
  let ?new = "NewAPIServer (\<lambda>_. Inr ()) ?factories ?keys (NewServerRunOptions ''default'')"
  have r: "run ?new (\<lambda>_. Inr ()) (\<lambda>s. (Inr (), s)) (\<lambda>_ _ _. Inl ErrServerClosed) () = (Inr (), ())"
    by (simp add: run_def RunServer_def NewAPIServer_def NewServerRunOptions_def NewConfig_def NewGenericOptions_def
      NewHttpServer_def NewCache_def typeInMemoryCache_def)
  from run_listens_plain [OF r] r show ?thesis by simp
qed

end
