(* ===== verification/Kube_Client.thy ===== *)
theory Kube_Client
  imports Rest_Clientset Server_Process
begin

text \<open>
  \<open>pkg/client/k8s/kubernetes.go\<close>: the bundle of clients that the server uses, all made from one
  configuration. Reading a kubeconfig file and making the clients of the Kubernetes libraries are
  parameters; the clientset of the program's own kinds is the one of \<open>Rest_Clientset\<close>.
\<close>

definition zeroConfig :: RestConfig where
  "zeroConfig = \<lparr>cfgGroupVersion = None, cfgAPIPath = '''', cfgUserAgent = '''', cfgRateLimiter = False,
     cfgQPS = 0, cfgBurst = 0, cfgHost = '''', cfgInsecure = False, cfgBearerToken = ''''\<rparr>"

record ('h, 'c, 'k) KubeLib =
  kbBuildConfig :: "string \<Rightarrow> RestConfig res"       \<comment> \<open>\<open>clientcmd.BuildConfigFromFlags\<close>\<close>
  kbKubernetes :: "RestConfig \<Rightarrow> 'k res"
  kbDiscovery :: "RestConfig \<Rightarrow> 'k res"
  kbApiExtensions :: "RestConfig \<Rightarrow> 'k res"
  kbRest :: "('h, 'c) RestLib"

record ('c, 'k) KubernetesClient =
  kcKubernetes :: 'k
  kcDiscovery :: 'k
  kcApiExtensions :: 'k
  kcAi :: "'c Clientset"
  kcMaster :: string
  kcConfig :: RestConfig

definition rbind :: "'a res \<Rightarrow> ('a \<Rightarrow> 'b res) \<Rightarrow> 'b res" where
  "rbind r f = (case r of Inl err \<Rightarrow> Inl err | Inr x \<Rightarrow> f x)"

lemma rbind_Inr_iff: "rbind r f = Inr y \<longleftrightarrow> (\<exists>x. r = Inr x \<and> f x = Inr y)"
  by (auto simp: rbind_def split: sum.splits)

definition clientConfig :: "KubernetesOptions \<Rightarrow> RestConfig \<Rightarrow> RestConfig" where
  "clientConfig options config =
     (let config = config\<lparr>cfgQPS := QPS options, cfgBurst := Burst options\<rparr> in
      if Token options \<noteq> ''''
      then zeroConfig\<lparr>cfgHost := cfgHost config, cfgInsecure := True, cfgBearerToken := Token options\<rparr>
      else config)"

definition NewKubernetesClient ::
  "('h, 'c, 'k) KubeLib \<Rightarrow> KubernetesOptions \<Rightarrow> ('c, 'k) KubernetesClient res" where
  "NewKubernetesClient lib options =
     rbind (kbBuildConfig lib (KubeConfig options)) (\<lambda>config.
     let config = clientConfig options config in
     rbind (kbKubernetes lib config) (\<lambda>k8s.
     rbind (kbDiscovery lib config) (\<lambda>discovery.
     rbind (kbApiExtensions lib config) (\<lambda>apiExtensions.
     rbind (clientsetForConfig (kbRest lib) config) (\<lambda>ai.
       Inr \<lparr>kcKubernetes = k8s, kcDiscovery = discovery, kcApiExtensions = apiExtensions, kcAi = ai,
         kcMaster = Master options, kcConfig = config\<rparr>)))))"

text \<open>The two REST clients of a clientset, with the configurations that they come from.\<close>

lemma client_configs:
  assumes "NewKubernetesClient lib options = Inr k"
  obtains config c1 c2 h where "kcConfig k = clientConfig options config"
    and "restClientFor (kbRest lib) c1 h = Inr (csCoreV1 (kcAi k))"
    and "restClientFor (kbRest lib) c2 h = Inr (csIamV1 (kcAi k))"
    and "cfgRateLimiter c1 \<longleftrightarrow> cfgRateLimiter (kcConfig k) \<or> 0 < cfgQPS (kcConfig k)"
    and "cfgRateLimiter c2 \<longleftrightarrow> cfgRateLimiter (kcConfig k) \<or> 0 < cfgQPS (kcConfig k)"
    and "cfgQPS c1 = cfgQPS (kcConfig k)" and "cfgQPS c2 = cfgQPS (kcConfig k)"
    and "cfgInsecure c1 = cfgInsecure (kcConfig k)" and "cfgInsecure c2 = cfgInsecure (kcConfig k)"
proof -
  obtain config where config: "kcConfig k = clientConfig options config"
    and cs: "clientsetForConfig (kbRest lib) (kcConfig k) = Inr (kcAi k)"
    using assms by (auto simp: NewKubernetesClient_def rbind_Inr_iff Let_def)
  let ?lib = "kbRest lib" and ?c = "kcConfig k"
  let ?u = "if cfgUserAgent ?c = '''' then ?c\<lparr>cfgUserAgent := defaultAgent ?lib\<rparr> else ?c"
  obtain h c' where l: "withRateLimiter ?u = Inr c'"
    and "restClientFor ?lib (setConfigDefaults coreGV (defaultAgent ?lib) c') h = Inr (csCoreV1 (kcAi k))"
    and "restClientFor ?lib (setConfigDefaults iamGV (defaultAgent ?lib) c') h = Inr (csIamV1 (kcAi k))"
    using cs by (rule clientset_clients)
  moreover from l have "cfgRateLimiter c' \<longleftrightarrow> cfgRateLimiter ?c \<or> 0 < cfgQPS ?c" "cfgQPS c' = cfgQPS ?c"
      "cfgInsecure c' = cfgInsecure ?c"
    by (auto simp: withRateLimiter_def split: if_splits)
  ultimately show ?thesis using that [OF config] by (simp add: setConfigDefaults_def Let_def)
qed

text \<open>
  The rate of queries that the options ask for is lost when they carry a token: the configuration is
  then made anew from the host and the token, so its clients have neither the limiter nor the rate of the
  options, whatever these are, and do not verify the certificate of the server. Without a token they have
  the rate of the options and a limiter for it, and verify as the kubeconfig says.
\<close>

theorem token_drops_rate:
  assumes "NewKubernetesClient lib options = Inr k" and "0 < QPS options"
  shows "\<exists>config h. restClientFor (kbRest lib) config h = Inr (csIamV1 (kcAi k)) \<and>
    (if Token options \<noteq> '''' then \<not> cfgRateLimiter config \<and> cfgQPS config = 0 \<and> cfgInsecure config
     else cfgRateLimiter config \<and> cfgQPS config = QPS options)"
proof (rule client_configs [OF assms(1)])
  fix c0 c1 c2 h
  assume c: "kcConfig k = clientConfig options c0" "restClientFor (kbRest lib) c2 h = Inr (csIamV1 (kcAi k))"
    "cfgRateLimiter c2 \<longleftrightarrow> cfgRateLimiter (kcConfig k) \<or> 0 < cfgQPS (kcConfig k)"
    "cfgQPS c2 = cfgQPS (kcConfig k)" "cfgInsecure c2 = cfgInsecure (kcConfig k)"
  have "cfgQPS (kcConfig k) = (if Token options \<noteq> '''' then 0 else QPS options)"
    and "Token options \<noteq> '''' \<longrightarrow> \<not> cfgRateLimiter (kcConfig k) \<and> cfgInsecure (kcConfig k)"
    by (simp_all add: c(1) clientConfig_def zeroConfig_def Let_def)
  with c(2-5) assms(2) show ?thesis by (intro exI [of _ c2] exI [of _ h]) simp
qed

definition plainLib :: "(unit, RestConfig, unit) KubeLib" where
  \<comment> \<open>a REST client is its configuration\<close>
  "plainLib = \<lparr>kbBuildConfig = \<lambda>_. Inr (zeroConfig\<lparr>cfgHost := ''10.0.0.1''\<rparr>), kbKubernetes = \<lambda>_. Inr (),
     kbDiscovery = \<lambda>_. Inr (), kbApiExtensions = \<lambda>_. Inr (),
     kbRest = \<lparr>defaultAgent = ''agent'', httpClientFor = \<lambda>_. Inr (), restClientFor = \<lambda>c _. Inr c,
       discoveryFor = \<lambda>c _. Inr c\<rparr>\<rparr>"

theorem token_drops_rate_witness:
  "\<exists>k. NewKubernetesClient plainLib (NewKubernetesOptions\<lparr>Token := ''secret''\<rparr>) = Inr k \<and>
     \<not> cfgRateLimiter (csIamV1 (kcAi k)) \<and> cfgQPS (csIamV1 (kcAi k)) = 0 \<and> cfgInsecure (csIamV1 (kcAi k))"
proof -
  let ?o = "NewKubernetesOptions\<lparr>Token := ''secret''\<rparr>"
  obtain k where k: "NewKubernetesClient plainLib ?o = Inr k"
    by (simp add: NewKubernetesClient_def rbind_def plainLib_def clientsetForConfig_def clientsetForConfigAndClient_def
      groupClientForConfigAndClient_def withRateLimiter_def clientConfig_def zeroConfig_def NewKubernetesOptions_def Let_def)
  from token_drops_rate [OF k] k show ?thesis
    by (auto simp: plainLib_def NewKubernetesOptions_def)
qed

end
