(* ===== verification/Api_Routes.thy ===== *)
theory Api_Routes
  imports Iam_Handlers
begin

text \<open>
  The routes of the API: the web services of \<open>pkg/aiapis/iam/v1/register.go\<close>, \<open>pkg/aiapis/oauth/register.go\<close>,
  \<open>pkg/aiapis/core\<close> and \<open>pkg/aiapis/version\<close>, the root path of \<open>pkg/aiserver/runtime\<close>, and the container that
  \<open>PrepareRun\<close> and \<open>installAPIs\<close> make of them. The routing library is a parameter; the routes of swagger
  and pprof, whose handlers serve files and profiles, are a parameter list. The theory puts the handlers
  behind the filter chain and the authorizers.
\<close>

section \<open>The handlers of healths\<close>





section \<open>Routes\<close>

datatype Endpoint =
    ECreateUser | EDeleteUser | EUpdateUser | EModifyPassword | EDescribeUser | EGetUserDetail | EListUsers
  | EListUserLoginRecords | EListNamespaceMembers | EDescribeNamespaceMember | ECreateNamespaceMembers
  | EUpdateNamespaceMember | ERemoveNamespaceMember | EListGlobalRoles | EListRoles
  | EToken | ECreateToken | EVersion | EListHealths | EGetHealth
  | EForeign nat

record Route =
  rtMethod :: string
  rtRoot :: string
  rtPath :: string
  rtConsumes :: string \<comment> \<open>empty when any content type will do\<close>
  rtEndpoint :: Endpoint

definition ApiRootPath :: string where "ApiRootPath = ''/ai-apis''"

definition NewWebService :: "string \<Rightarrow> string" where
  \<comment> \<open>the root path, from the text of a group and version\<close>
  "NewWebService gv = ApiRootPath @ ''/'' @ gv"

definition iamRoute :: "string \<Rightarrow> string \<Rightarrow> Endpoint \<Rightarrow> Route" where
  "iamRoute m path e = \<lparr>rtMethod = m, rtRoot = NewWebService ''iam.ai.io/v1'', rtPath = path, rtConsumes = '''', rtEndpoint = e\<rparr>"

definition iamRoutes :: "Route list" where
  "iamRoutes = [
     iamRoute ''POST'' ''/users'' ECreateUser,
     iamRoute ''DELETE'' ''/users/{user}'' EDeleteUser,
     iamRoute ''PUT'' ''/users/{user}'' EUpdateUser,
     iamRoute ''PUT'' ''/users/{user}/password'' EModifyPassword,
     iamRoute ''GET'' ''/users/{user}'' EDescribeUser,
     iamRoute ''GET'' ''/users/{user}/details'' EGetUserDetail,
     iamRoute ''GET'' ''/users'' EListUsers,
     iamRoute ''GET'' ''/users/{user}/loginrecords'' EListUserLoginRecords,
     iamRoute ''GET'' ''/namespaces/{namespace}/members'' EListNamespaceMembers,
     iamRoute ''GET'' ''/namespaces/{namespace}/members/{member}'' EDescribeNamespaceMember,
     iamRoute ''POST'' ''/namespaces/{namespace}/members'' ECreateNamespaceMembers,
     iamRoute ''PUT'' ''/namespaces/{namespace}/members/{member}'' EUpdateNamespaceMember,
     iamRoute ''DELETE'' ''/namespaces/{namespace}/members/{member}'' ERemoveNamespaceMember,
     iamRoute ''GET'' ''/globalroles'' EListGlobalRoles,
     iamRoute ''GET'' ''/namespaces/{namespace}/roles'' EListRoles]"

definition oauthRoutes :: "Route list" where
  "oauthRoutes = [
     \<lparr>rtMethod = ''POST'', rtRoot = ''/oauth'', rtPath = ''/token'',
      rtConsumes = ''application/x-www-form-urlencoded'', rtEndpoint = EToken\<rparr>,
     \<lparr>rtMethod = ''POST'', rtRoot = ''/oauth'', rtPath = ''/statictoken'',
      rtConsumes = ''application/x-www-form-urlencoded'', rtEndpoint = ECreateToken\<rparr>]"

definition versionRoutes :: "Route list" where
  \<comment> \<open>the text of the empty group and version is empty\<close>
  "versionRoutes = [
     \<lparr>rtMethod = ''GET'', rtRoot = NewWebService '''', rtPath = ''/version'', rtConsumes = '''', rtEndpoint = EVersion\<rparr>]"

definition coreRoutes :: "Route list" where
  "coreRoutes = [
     \<lparr>rtMethod = ''GET'', rtRoot = NewWebService ''core.ai.io/v1'', rtPath = ''/healths'', rtConsumes = '''',
      rtEndpoint = EListHealths\<rparr>,
     \<lparr>rtMethod = ''GET'', rtRoot = NewWebService ''core.ai.io/v1'', rtPath = ''/healths/{health}'', rtConsumes = '''',
      rtEndpoint = EGetHealth\<rparr>]"

definition installAPIs :: "Route list \<Rightarrow> Route list" where
  \<comment> \<open>the argument holds the routes of swagger and pprof\<close>
  "installAPIs foreign = iamRoutes @ oauthRoutes @ versionRoutes @ foreign @ coreRoutes"

section \<open>Templates\<close>

text \<open>A path template of the routing library: a segment in braces is a parameter.\<close>

datatype Segment = Lit string | Par string

definition segmentOf :: "string \<Rightarrow> Segment" where
  "segmentOf s =
     (if HasPrefix s ''{'' \<and> HasSuffix s ''}'' then Par (butlast (drop 1 s)) else Lit s)"

definition templateOf :: "Route \<Rightarrow> Segment list" where
  "templateOf r = map segmentOf (splitPath (rtRoot r) @ splitPath (rtPath r))"

fun matchSegments :: "Segment list \<Rightarrow> string list \<Rightarrow> (string \<times> string) list option" where
  "matchSegments [] [] = Some []"
| "matchSegments (Lit l # ts) (p # ps) = (if l = p then matchSegments ts ps else None)"
| "matchSegments (Par x # ts) (p # ps) =
     (if p = '''' then None else map_option (\<lambda>binds. (x, p) # binds) (matchSegments ts ps))"
| "matchSegments _ _ = None"

definition matchRoute :: "Route \<Rightarrow> HttpRequest \<Rightarrow> (string \<times> string) list option" where
  "matchRoute r req =
     (if Method req = rtMethod r \<and> (rtConsumes r = '''' \<or> Header req ''Content-Type'' = rtConsumes r)
      then matchSegments (templateOf r) (splitPath (URLPath req)) else None)"

text \<open>Two templates of which no path matches both.\<close>

fun disjointSegments :: "Segment list \<Rightarrow> Segment list \<Rightarrow> bool" where
  "disjointSegments [] [] = False"
| "disjointSegments (t # ts) (t' # ts') =
     ((case (t, t') of (Lit l, Lit l') \<Rightarrow> l \<noteq> l' | _ \<Rightarrow> False) \<or> disjointSegments ts ts')"
| "disjointSegments _ _ = True"

lemma matchSegments_Nil: "matchSegments [] ps \<noteq> None \<longleftrightarrow> ps = []"
  by (cases ps) auto

lemma matchSegments_Cons:
  "matchSegments (t # ts) ps \<noteq> None \<longleftrightarrow>
    (\<exists>p qs. ps = p # qs \<and> matchSegments ts qs \<noteq> None \<and> (case t of Lit l \<Rightarrow> p = l | Par x \<Rightarrow> p \<noteq> ''''))"
  by (cases t; cases ps) auto

lemma disjointSegments_sound:
  "disjointSegments ts ts' \<Longrightarrow> \<not> (matchSegments ts ps \<noteq> None \<and> matchSegments ts' ps \<noteq> None)"
proof (induction ts ts' arbitrary: ps rule: disjointSegments.induct)
  case (2 t ts t' ts')
  show ?case
  proof
    assume "matchSegments (t # ts) ps \<noteq> None \<and> matchSegments (t' # ts') ps \<noteq> None"
    then obtain p qs where "matchSegments ts qs \<noteq> None" "matchSegments ts' qs \<noteq> None"
      and "case t of Lit l \<Rightarrow> p = l | Par x \<Rightarrow> p \<noteq> ''''" "case t' of Lit l \<Rightarrow> p = l | Par x \<Rightarrow> p \<noteq> ''''"
      unfolding matchSegments_Cons by auto
    with 2 show False by (auto split: Segment.splits; metis option.distinct(1))
  qed
qed (unfold matchSegments_Nil matchSegments_Cons, auto)

section \<open>The container\<close>


definition acceptsJson :: "HttpRequest \<Rightarrow> bool" where
  "acceptsJson req \<longleftrightarrow> Header req ''Accept'' \<in> {'''', ''*/*'', ''application/json''}"








section \<open>No request fits two routes\<close>

definition apiRoutes :: "Route list" where
  "apiRoutes = installAPIs []"

definition foreignRoots :: "Route list \<Rightarrow> bool" where
  \<comment> \<open>as of swagger and pprof, below \<open>/apidocs\<close> and \<open>/debug/pprof\<close>\<close>
  "foreignRoots rs \<longleftrightarrow> (\<forall>r \<in> set rs. \<exists>l ts. templateOf r = Lit l # ts \<and> l \<noteq> ''ai-apis'' \<and> l \<noteq> ''oauth'')"

fun pairwise :: "('a \<Rightarrow> 'a \<Rightarrow> bool) \<Rightarrow> 'a list \<Rightarrow> bool" where
  "pairwise p [] = True"
| "pairwise p (x # xs) = (list_all (p x) xs \<and> pairwise p xs)"

lemma pairwiseD: "pairwise p xs \<Longrightarrow> x \<in> set xs \<Longrightarrow> y \<in> set xs \<Longrightarrow> x \<noteq> y \<Longrightarrow> p x y \<or> p y x"
  by (induction xs) (auto simp: list_all_iff)

definition apart :: "Route \<Rightarrow> Route \<Rightarrow> bool" where
  "apart r r' \<longleftrightarrow> rtMethod r \<noteq> rtMethod r' \<or> disjointSegments (templateOf r) (templateOf r')"

lemma apiRoutes_apart: "pairwise apart apiRoutes"
  by code_simp

lemma apart_sound: "apart r r' \<or> apart r' r \<Longrightarrow> matchRoute r req = Some b \<Longrightarrow> matchRoute r' req = None"
  using disjointSegments_sound [of "templateOf r" "templateOf r'" "splitPath (URLPath req)"]
    disjointSegments_sound [of "templateOf r'" "templateOf r" "splitPath (URLPath req)"]
  by (auto simp: apart_def matchRoute_def split: if_splits)

lemma apiRoutes_hd: "list_all (\<lambda>r. hd (templateOf r) \<in> {Lit ''ai-apis'', Lit ''oauth''} \<and> templateOf r \<noteq> []) apiRoutes"
  by code_simp

lemma set_installAPIs: "set (installAPIs rs) = set apiRoutes \<union> set rs"
  by (auto simp: installAPIs_def apiRoutes_def)

lemma api_route_alone:
  assumes "foreignRoots rs" and "r \<in> set apiRoutes" and "r' \<in> set (installAPIs rs)" and "r' \<noteq> r"
    and "matchRoute r req = Some b"
  shows "matchRoute r' req = None"
proof (cases "r' \<in> set apiRoutes")
  case True
  with assms show ?thesis using pairwiseD [OF apiRoutes_apart] apart_sound by metis
next
  case False
  with assms obtain l ts where "templateOf r' = Lit l # ts" "l \<noteq> ''ai-apis''" "l \<noteq> ''oauth''"
    by (auto simp: set_installAPIs foreignRoots_def)
  moreover obtain l' ts' where "templateOf r = Lit l' # ts'" "l' \<in> {''ai-apis'', ''oauth''}"
    using apiRoutes_hd assms(2) unfolding list_all_iff by (cases "templateOf r") fastforce+
  ultimately have "apart r r'" by (auto simp: apart_def)
  with assms(5) show ?thesis using apart_sound by blast
qed


section \<open>What a binding has to grant\<close>








lemmas step_defs = partsStep_def listStep_def watchStep_def deleteStep_def markKubernetes_def resolveResourceScope_def
  Let_def specialVerbsNoSubresources_def kubernetesAPIPrefixes_def emptyOptions_def



definition prefixInfo :: "HttpRequest \<Rightarrow> RequestInfo" where
  "prefixInfo req = (initInfo req)\<lparr>APIPrefix := ''ai-apis'', APIGroup := ''iam.ai.io'', IsResourceRequest := True,
     APIVersion := ''v1'', Verb := methodVerb (Method req)\<rparr>"











lemma prefixInfo_simps [simp]:
  "ri_Name (prefixInfo req) = ''''" "Subresource (prefixInfo req) = ''''" "Workspace (prefixInfo req) = ''''"
  "IsKubernetesRequest (prefixInfo req) = False" "APIPrefix (prefixInfo req) = ''ai-apis''"
  "Verb (prefixInfo req) = methodVerb (Method req)" "APIGroup (prefixInfo req) = ''iam.ai.io''"
  "APIVersion (prefixInfo req) = ''v1''" "Request_Info.Cluster (prefixInfo req) = ''''" "DevOps (prefixInfo req) = ''''"
  "IsResourceRequest (prefixInfo req) = True" "Path (prefixInfo req) = URLPath req"
  by (simp_all add: prefixInfo_def initInfo_def)






section \<open>The API behind the chain\<close>





lemma acceptsJson_cookie [simp]: "acceptsJson (cookieHeader req) = acceptsJson req"
  by (simp add: acceptsJson_def cookieHeader_def setHeader_def Let_def)


section \<open>A run\<close>





definition deleteRoute :: Route where
  "deleteRoute = iamRoute ''DELETE'' ''/users/{user}'' EDeleteUser"

abbreviation deleteBob :: HttpRequest where
  "deleteBob \<equiv> getRequest ''DELETE'' ''/ai-apis/iam.ai.io/v1/users/bob''"

lemma deleteBob_route:
  "deleteRoute \<in> set iamRoutes" "matchRoute deleteRoute deleteBob = Some [(''user'', ''bob'')]"
proof -
  show "deleteRoute \<in> set iamRoutes" by (simp add: deleteRoute_def iamRoutes_def)
  have "templateOf deleteRoute = [Lit ''ai-apis'', Lit ''iam.ai.io'', Lit ''v1'', Lit ''users'', Par ''user'']"
    and "splitPath ''/ai-apis/iam.ai.io/v1/users/bob'' = [''ai-apis'', ''iam.ai.io'', ''v1'', ''users'', ''bob'']"
    by code_simp+
  then show "matchRoute deleteRoute deleteBob = Some [(''user'', ''bob'')]"
    by (simp add: matchRoute_def deleteRoute_def iamRoute_def getRequest_def)
qed



text \<open>
  No request fits two routes of the API, whatever its method, content type and path: the routing
  library has nothing to choose.
\<close>

theorem routes_unambiguous:
  assumes "r \<in> set apiRoutes" and "r' \<in> set apiRoutes" and "matchRoute r req = Some binds"
    and "matchRoute r' req = Some binds'"
  shows "r = r'"
proof (rule ccontr)
  assume "r \<noteq> r'"
  moreover have "foreignRoots []" by (simp add: foreignRoots_def)
  ultimately have "matchRoute r' req = None"
    using api_route_alone [of "[]" r r' req binds] assms(1-3) by (auto simp: apiRoutes_def)
  with assms(4) show False by simp
qed

theorem routes_unambiguous_witness:
  "\<forall>r \<in> set apiRoutes. \<forall>binds. matchRoute r deleteBob = Some binds \<longrightarrow> r = deleteRoute"
proof (intro ballI allI impI)
  fix r binds
  assume "r \<in> set apiRoutes" "matchRoute r deleteBob = Some binds"
  moreover have "deleteRoute \<in> set apiRoutes"
    using deleteBob_route(1) by (simp add: apiRoutes_def installAPIs_def)
  ultimately show "r = deleteRoute" using routes_unambiguous deleteBob_route(2) by blast
qed

end
