(* ===== verification/Request_Wf.thy ===== *)
theory Request_Wf
  imports Request_Info
begin

text \<open>
  The well-formedness of what the request information resolver hands to the authorizers: the type that
  \<open>pkg/aiserver/request/requestinfo.go\<close> keeps in strings. A field that the authorizers compare with a policy
  never holds a slash, so that resource and subresource joined by one are read unambiguously.
\<close>

definition noSlash :: "string \<Rightarrow> bool" where
  "noSlash s \<longleftrightarrow> CHR ''/'' \<notin> set s"

definition requestVerbs :: "string set" where
  "requestVerbs = {'''', ''create'', ''get'', ''update'', ''patch'', ''delete'', ''watch'', ''proxy'', ''list'', ''deletecollection''}"

definition segmentFields :: "RequestInfo \<Rightarrow> bool" where
  "segmentFields i \<longleftrightarrow> noSlash (APIPrefix i) \<and> noSlash (APIGroup i) \<and> noSlash (APIVersion i) \<and>
     noSlash (ri_Namespace i) \<and> noSlash (Resource i) \<and> noSlash (Subresource i) \<and> noSlash (ri_Name i)"

definition wfInfo :: "RequestInfo \<Rightarrow> bool" where
  "wfInfo i \<longleftrightarrow> segmentFields i \<and>
     (if IsResourceRequest i
      then Verb i \<in> requestVerbs \<and> ResourceScope i \<in> {GlobalScope, WorkspaceScope, NamespaceScope} \<and>
           (ResourceScope i = NamespaceScope \<longrightarrow> ri_Namespace i \<noteq> '''')
      else APIGroup i = '''' \<and> APIVersion i = '''' \<and> ri_Namespace i = '''' \<and> Resource i = '''' \<and>
           Subresource i = '''' \<and> ri_Name i = '''' \<and> ResourceScope i = '''')"

section \<open>Steps\<close>

lemma goNth_mem: "goNth xs n = Inr x \<Longrightarrow> x \<in> set xs"
  by (auto simp: goNth_def split: if_splits)

lemma workspaceStep_seg:
  assumes "workspaceStep i ps = Inr (i', ps')" and "\<forall>p \<in> set ps. noSlash p"
  shows "segmentFields i' = segmentFields i \<and> (\<forall>p \<in> set ps'. noSlash p) \<and> Verb i' = Verb i \<and>
    IsResourceRequest i' = IsResourceRequest i"
  using assms
  by (auto simp: workspaceStep_def segmentFields_def gbind_def Let_def dest: in_set_dropD split: if_splits sum.splits)

lemma namespaceStep_seg:
  assumes "namespaceStep i ps = Inr (i', ps')" and "\<forall>p \<in> set ps. noSlash p" and "segmentFields i"
  shows "segmentFields i' \<and> (\<forall>p \<in> set ps'. noSlash p) \<and> Verb i' = Verb i \<and> IsResourceRequest i' = IsResourceRequest i"
proof -
  have "length ps > 1 \<Longrightarrow> noSlash (ps ! 1)" using assms(2) by simp
  moreover have "noSlash ''''" by (simp add: noSlash_def)
  ultimately show ?thesis
    using assms
    by (auto simp: namespaceStep_def segmentFields_def gbind_def dest: in_set_dropD split: if_splits sum.splits)
qed

lemma partsStep_seg:
  assumes "\<forall>p \<in> set ps. noSlash p" and "segmentFields i"
  shows "segmentFields (partsStep i ps)"
proof -
  have "length ps \<ge> 1 \<Longrightarrow> noSlash (ps ! 0)" "length ps \<ge> 2 \<Longrightarrow> noSlash (ps ! 1)" "length ps \<ge> 3 \<Longrightarrow> noSlash (ps ! 2)"
    using assms(1) nth_mem [of 0 ps] nth_mem [of 1 ps] nth_mem [of 2 ps] by fastforce+
  with assms(2) show ?thesis by (simp add: partsStep_def segmentFields_def Let_def)
qed

lemma listStep_seg:
  assumes "\<forall>n. vn n \<longrightarrow> noSlash n" and "segmentFields i"
  shows "segmentFields (listStep decode vn req i)"
  using assms by (auto simp: listStep_def segmentFields_def Let_def split: option.splits)

lemma listStep_verb: "Verb i \<in> requestVerbs \<Longrightarrow> Verb (listStep decode vn req i) \<in> requestVerbs"
  by (auto simp: listStep_def requestVerbs_def Let_def split: option.splits)

lemma deleteStep_verb: "Verb i \<in> requestVerbs \<Longrightarrow> Verb (deleteStep i) \<in> requestVerbs"
  by (auto simp: deleteStep_def requestVerbs_def)

lemma watchStep_scope:
  "ResourceScope i \<in> {GlobalScope, WorkspaceScope, NamespaceScope} \<Longrightarrow>
    ResourceScope (watchStep req i) \<in> {GlobalScope, WorkspaceScope, NamespaceScope} \<and>
    (ResourceScope (watchStep req i) = NamespaceScope \<longrightarrow> ResourceScope i = NamespaceScope)"
  by (auto simp: watchStep_def Let_def request_const_defs)

lemma watchStep_verb: "Verb (watchStep req i) = Verb i"
  by (cases i) (simp add: watchStep_def Let_def)

lemma other_steps_seg [simp]:
  "segmentFields (watchStep req i) = segmentFields i" "segmentFields (deleteStep i) = segmentFields i"
  "segmentFields (markKubernetes i) = segmentFields i" "segmentFields (i\<lparr>ResourceScope := sc\<rparr>) = segmentFields i"
  "segmentFields (i\<lparr>Verb := v\<rparr>) = segmentFields i"
  by (simp_all add: segmentFields_def watchStep_def deleteStep_def markKubernetes_def Let_def)

lemma resourceParts_wf:
  assumes run: "resourceParts decode vn req i0 ps0 = Inr i" and ps: "\<forall>p \<in> set ps0. noSlash p"
    and i0: "segmentFields i0" "IsResourceRequest i0" "Verb i0 \<in> requestVerbs" and vn: "\<forall>n. vn n \<longrightarrow> noSlash n"
  shows "wfInfo i"
proof -
  obtain i1 ps1 where w: "workspaceStep i0 ps0 = Inr (i1, ps1)"
    using run by (auto simp: resourceParts_def gbind_def split: sum.splits prod.splits)
  obtain i2 ps2 where n: "namespaceStep i1 ps1 = Inr (i2, ps2)"
    using run w by (auto simp: resourceParts_def gbind_def split: sum.splits prod.splits)
  let ?p = "partsStep i2 ps2"
  let ?l = "listStep decode vn req (?p\<lparr>ResourceScope := resolveResourceScope ?p\<rparr>)"
  have i: "i = deleteStep (watchStep req ?l)"
    using run w n by (simp add: resourceParts_def gbind_def Let_def)
  have seg1: "segmentFields i1" "\<forall>p \<in> set ps1. noSlash p" "Verb i1 = Verb i0" "IsResourceRequest i1"
    using workspaceStep_seg [OF w ps] i0 by simp_all
  note seg2 = namespaceStep_seg [OF n seg1(2,1)]
  have "segmentFields ?p" by (rule partsStep_seg) (use seg2 in simp_all)
  then have "segmentFields ?l" by (intro listStep_seg [OF vn]) simp
  then have "segmentFields i" by (simp add: i)
  moreover have "Verb ?p \<in> requestVerbs" using seg1(3) seg2 i0(3) by (simp add: partsStep_def Let_def)
  then have "Verb ?l \<in> requestVerbs" by (intro listStep_verb) simp
  then have "Verb (watchStep req ?l) \<in> requestVerbs" by (simp only: watchStep_verb)
  then have "Verb i \<in> requestVerbs" unfolding i by (rule deleteStep_verb)
  moreover have sc: "ResourceScope ?l = resolveResourceScope ?p" by simp
  have "ResourceScope i \<in> {GlobalScope, WorkspaceScope, NamespaceScope} \<and>
      (ResourceScope i = NamespaceScope \<longrightarrow> ResourceScope ?l = NamespaceScope)"
    using watchStep_scope [of ?l req] by (simp add: i sc resolveResourceScope_def)
  moreover have "ResourceScope ?l = NamespaceScope \<longrightarrow> ri_Namespace i \<noteq> ''''"
    by (simp add: i sc resolveResourceScope_def request_const_defs)
  moreover have "IsResourceRequest i" using seg1(4) seg2 by (simp add: i)
  ultimately show ?thesis by (simp add: wfInfo_def)
qed

lemma methodVerb_request: "methodVerb m \<in> requestVerbs"
  by (simp add: methodVerb_def requestVerbs_def)

lemma resourceRequest_wf:
  assumes run: "resourceRequest decode vn req i0 ps = Inr (i, None)" and ps: "\<forall>p \<in> set ps. noSlash p"
    and i0: "segmentFields i0" and vn: "\<forall>n. vn n \<longrightarrow> noSlash n"
  shows "wfInfo i"
proof -
  obtain v where v: "goNth ps 0 = Inr v" and rest: "goFrom 1 ps = Inr (drop 1 ps)"
    using run by (auto simp: resourceRequest_def gbind_def goFrom_def split: sum.splits if_splits)
  let ?i = "i0\<lparr>IsResourceRequest := True, APIVersion := v\<rparr>" and ?q = "drop 1 ps"
  have seg: "segmentFields ?i" using i0 ps goNth_mem [OF v] by (simp add: segmentFields_def)
  have q: "\<forall>p \<in> set ?q. noSlash p" "\<forall>p \<in> set (drop 1 ?q). noSlash p"
    using ps by (auto dest!: in_set_dropD)
  have rest': "goFrom (Suc 0) ps = Inr (drop (Suc 0) ps)" using rest by simp
  have sp: "hd ?q \<in> requestVerbs" if "HasString specialVerbs (hd ?q)"
    using that by (auto simp: specialVerbs_def requestVerbs_def)
  have "resourceParts decode vn req (?i\<lparr>Verb := hd ?q\<rparr>) (drop 1 ?q) = Inr i \<and> HasString specialVerbs (hd ?q) \<or>
      resourceParts decode vn req (?i\<lparr>Verb := methodVerb (Method req)\<rparr>) ?q = Inr i"
    using run by (auto simp: resourceRequest_def v rest' gbind_def Let_def split: if_splits sum.splits)
  then show ?thesis
  proof (elim disjE conjE)
    assume a: "resourceParts decode vn req (?i\<lparr>Verb := hd ?q\<rparr>) (drop 1 ?q) = Inr i" "HasString specialVerbs (hd ?q)"
    show ?thesis by (rule resourceParts_wf [OF a(1) q(2) _ _ _ vn]) (use seg sp a(2) in simp_all)
  next
    assume a: "resourceParts decode vn req (?i\<lparr>Verb := methodVerb (Method req)\<rparr>) ?q = Inr i"
    show ?thesis by (rule resourceParts_wf [OF a q(1) _ _ _ vn]) (use seg methodVerb_request in simp_all)
  qed
qed

lemma initInfo_wf: "wfInfo (initInfo req)" "segmentFields (initInfo req)"
  by (simp_all add: wfInfo_def segmentFields_def initInfo_def noSlash_def)

section \<open>The property\<close>

text \<open>
  C21. What the authorizers get is well formed, whatever the request: the fields that are compared with a
  policy hold no slash; a resource request has one of the ten verbs and one of the three scopes, the one
  of a namespace only with a namespace; and any other request has no group, resource or name at all.
\<close>

theorem NewRequestInfo_wellformed:
  assumes "NewRequestInfo r decode vn req = Inr (info, None)" and "\<forall>n. vn n \<longrightarrow> noSlash n"
  shows "wfInfo info"
proof -
  obtain i where i: "parseInfo r decode vn req = Inr (i, None)" and info: "info = markKubernetes i"
    using assms(1) by (auto simp: NewRequestInfo_def gbind_def split: sum.splits)
  have ps: "\<forall>p \<in> set (splitPath (URLPath req)). noSlash p"
    using splitPath_no_slash by (auto simp: noSlash_def)
  let ?ps = "splitPath (URLPath req)"
  have hds: "noSlash (hd ?ps)" "noSlash (hd (drop 1 ?ps))" if "\<not> length ?ps < 3"
    using ps that by (cases ?ps; cases "tl ?ps"; auto)+
  have drops: "\<forall>p \<in> set (drop k ?ps). noSlash p" for k using ps by (auto dest: in_set_dropD)
  have seg: "segmentFields ((initInfo req)\<lparr>APIPrefix := hd ?ps\<rparr>)"
      "segmentFields ((initInfo req)\<lparr>APIPrefix := hd ?ps, APIGroup := hd (drop 1 ?ps)\<rparr>)" if "\<not> length ?ps < 3"
    using initInfo_wf(2) [of req] hds [OF that] by (simp_all add: segmentFields_def)
  have "wfInfo ((initInfo req)\<lparr>APIPrefix := hd ?ps\<rparr>)" if "\<not> length ?ps < 3"
    using seg(1) [OF that] initInfo_wf(1) [of req] by (simp add: wfInfo_def initInfo_def)
  then have "wfInfo i"
    using i initInfo_wf resourceRequest_wf [OF _ drops [of 1] seg(1) assms(2)]
      resourceRequest_wf [OF _ drops [of 2] seg(2) assms(2)]
    by (auto simp: parseInfo_def Let_def drop_Suc numeral_2_eq_2 split: if_splits)
  then show ?thesis by (simp add: info wfInfo_def markKubernetes_def Let_def segmentFields_def split: if_splits)
qed

theorem NewRequestInfo_wellformed_witness:
  "\<exists>info. NewRequestInfo exampleFactory (\<lambda>_. Inr emptyOptions) noSlash
     (getRequest ''GET'' ''/apis/apps/v1/namespaces/prod/deployments'') = Inr (info, None) \<and> wfInfo info"
proof -
  obtain info where info: "NewRequestInfo exampleFactory (\<lambda>_. Inr emptyOptions) noSlash
      (getRequest ''GET'' ''/apis/apps/v1/namespaces/prod/deployments'') = Inr (info, None)"
    by (simp add: request_eval)
  with NewRequestInfo_wellformed [OF info] show ?thesis by blast
qed

end
