(* ===== verification/Result_Json.thy ===== *)
theory Result_Json
  imports Api_Result
begin

text \<open>
  The envelope of \<open>pkg/api/types.go\<close> on the wire: what \<open>WriteTo\<close> sends and what \<open>ParseResult\<close> and
  \<open>ParseListResult\<close> make of it. The struct tags are followed as \<open>encoding/json\<close> documents them; the text
  of a JSON value and its parsing are that library's, so a message is a JSON value. The coding of the
  element type is a parameter: \<open>enc\<close> writes an element, \<open>dec\<close> decodes a value into an element it is
  given and returns the first error.
\<close>

section \<open>JSON values\<close>

datatype Json =
    JNull
  | JBool bool
  | JNum int
  | JFrac string    \<comment> \<open>the text of a number that is no integer\<close>
  | JStr string
  | JArr "Json list"
  | JObj "(string \<times> Json) list"

type_synonym 'a decoder = "Json \<Rightarrow> 'a \<Rightarrow> goerr option \<times> 'a"

text \<open>
  Decoding goes on after a value of the wrong type: the first error is kept and returned in the end. A
  key is matched with a field without regard to case, an unknown key is skipped, and \<open>null\<close> changes
  nothing but pointers, interfaces, maps and slices.
\<close>

definition mismatch :: goerr where
  "mismatch = Msg ''json: cannot unmarshal''"

definition firstError :: "goerr option \<Rightarrow> goerr option \<Rightarrow> goerr option" where
  "firstError e e' = (case e of None \<Rightarrow> e' | Some _ \<Rightarrow> e)"

fun decodeFields :: "(string \<Rightarrow> 's decoder) \<Rightarrow> (string \<times> Json) list \<Rightarrow> goerr option \<times> 's \<Rightarrow> goerr option \<times> 's" where
  "decodeFields field [] r = r"
| "decodeFields field ((k, v) # kvs) (e, s) =
     (case field (ToLower k) v s of (e', s') \<Rightarrow> decodeFields field kvs (firstError e e', s'))"

definition decodeStruct :: "(string \<Rightarrow> 's decoder) \<Rightarrow> 's decoder" where
  "decodeStruct field j s =
     (case j of
        JNull \<Rightarrow> (None, s)
      | JObj kvs \<Rightarrow> decodeFields field kvs (None, s)
      | _ \<Rightarrow> (Some mismatch, s))"

fun decodeString :: "string decoder" where
  "decodeString JNull s = (None, s)"
| "decodeString (JStr t) s = (None, t)"
| "decodeString _ s = (Some mismatch, s)"

fun decodeInt :: "int decoder" where
  "decodeInt JNull i = (None, i)"
| "decodeInt (JNum n) i = (if in_int64 n then (None, n) else (Some mismatch, i))"
| "decodeInt _ i = (Some mismatch, i)"

text \<open>A slice is made anew: element by element, each decoded into a zero value.\<close>

fun decodeElements :: "'a decoder \<Rightarrow> 'a \<Rightarrow> Json list \<Rightarrow> goerr option \<times> 'a list" where
  "decodeElements dec zero [] = (None, [])"
| "decodeElements dec zero (j # js) =
     (case (dec j zero, decodeElements dec zero js) of ((e, x), (e', xs)) \<Rightarrow> (firstError e e', x # xs))"

definition decodeSlice :: "'a decoder \<Rightarrow> 'a \<Rightarrow> 'a list decoder" where
  "decodeSlice dec zero j xs =
     (case j of JNull \<Rightarrow> (None, []) | JArr js \<Rightarrow> decodeElements dec zero js | _ \<Rightarrow> (Some mismatch, xs))"

section \<open>Writing a result\<close>

fun encodeData :: "('a \<Rightarrow> Json) \<Rightarrow> 'a ResultData \<Rightarrow> Json" where
  \<comment> \<open>a nil slice is written as \<open>null\<close> and a slice without elements as an empty array; both are read as
    an empty list\<close>
  "encodeData enc NoData = JNull"
| "encodeData enc (DataList xs) = JArr (map enc xs)"
| "encodeData enc (DataObject x) = enc x"
| "encodeData enc (DataString s) = JStr s"

definition encodePage :: "ResultPage \<Rightarrow> Json" where
  "encodePage p = JObj [(''total'', JNum (Total p)), (''page'', JNum (PageNo p)), (''limit'', JNum (PageLimit p))]"

definition encodeResult :: "('a \<Rightarrow> Json) \<Rightarrow> 'a Result \<Rightarrow> Json" where
  "encodeResult enc r =
     JObj ([(''message'', JStr (Message r)), (''code'', JNum (Code r))] @
           (if Data r = NoData then [] else [(''data'', encodeData enc (Data r))]) @
           (case res_Page r of None \<Rightarrow> [] | Some p \<Rightarrow> [(''page'', encodePage p)]))"

section \<open>Reading it back\<close>

definition decodePageField :: "string \<Rightarrow> ResultPage decoder" where
  "decodePageField k v p =
     (if k = ''total'' then (case decodeInt v (Total p) of (e, n) \<Rightarrow> (e, p\<lparr>Total := n\<rparr>))
      else if k = ''page'' then (case decodeInt v (PageNo p) of (e, n) \<Rightarrow> (e, p\<lparr>PageNo := n\<rparr>))
      else if k = ''limit'' then (case decodeInt v (PageLimit p) of (e, n) \<Rightarrow> (e, p\<lparr>PageLimit := n\<rparr>))
      else (None, p))"

definition decodePage :: "ResultPage option decoder" where
  "decodePage j p =
     (if j = JNull then (None, None)
      else case decodeStruct decodePageField j
             (case p of None \<Rightarrow> \<lparr>Total = 0, PageNo = 0, PageLimit = 0\<rparr> | Some q \<Rightarrow> q) of
             (e, q) \<Rightarrow> (e, Some q))"

definition decodeResultField :: "string \<Rightarrow> Json Result decoder" where
  \<comment> \<open>the data of a decoded \<open>Result\<close> is an interface: any JSON value\<close>
  "decodeResultField k v r =
     (if k = ''message'' then (case decodeString v (Message r) of (e, s) \<Rightarrow> (e, r\<lparr>Message := s\<rparr>))
      else if k = ''code'' then (case decodeInt v (Code r) of (e, n) \<Rightarrow> (e, r\<lparr>Code := n\<rparr>))
      else if k = ''data'' then (None, r\<lparr>Data := if v = JNull then NoData else DataObject v\<rparr>)
      else if k = ''page'' then (case decodePage v (res_Page r) of (e, p) \<Rightarrow> (e, r\<lparr>res_Page := p\<rparr>))
      else (None, r))"

text \<open>
  The embedded result carries the tag \<open>json:"inline"\<close>, which gives the field the name \<open>inline\<close>: it is
  not flattened, an embedded struct is only flattened when its tag has no name.
\<close>

record 'a CommonResult =
  cr_Result :: "Json Result"
  cr_Data :: 'a

definition zeroResult :: "Json Result" where
  "zeroResult = \<lparr>Message = '''', Code = 0, Data = NoData, res_Page = None, res_err = None\<rparr>"

definition decodeCommonField :: "'d decoder \<Rightarrow> string \<Rightarrow> 'd CommonResult decoder" where
  "decodeCommonField dec k v c =
     (if k = ''inline'' then
        (case decodeStruct decodeResultField v (cr_Result c) of (e, r) \<Rightarrow> (e, c\<lparr>cr_Result := r\<rparr>))
      else if k = ''data'' then (case dec v (cr_Data c) of (e, d) \<Rightarrow> (e, c\<lparr>cr_Data := d\<rparr>))
      else (None, c))"

text \<open>The argument of the parsers is the outcome of reading the bytes as JSON.\<close>

definition ParseResult :: "'a decoder \<Rightarrow> 'a \<Rightarrow> Json res \<Rightarrow> 'a CommonResult \<times> goerr option" where
  "ParseResult dec zero dat =
     (let result = \<lparr>cr_Result = zeroResult, cr_Data = zero\<rparr>
      in case dat of
           Inl err \<Rightarrow> (result, Some err)
         | Inr j \<Rightarrow> (case decodeStruct (decodeCommonField dec) j result of (err, c) \<Rightarrow> (c, err)))"

definition ParseListResult :: "'a decoder \<Rightarrow> 'a \<Rightarrow> Json res \<Rightarrow> 'a list CommonResult \<times> goerr option" where
  "ParseListResult dec zero dat = ParseResult (decodeSlice dec zero) [] dat"

definition GetData :: "'a CommonResult \<Rightarrow> 'a" where
  "GetData r = cr_Data r"

definition GetList :: "'a list CommonResult \<Rightarrow> 'a list" where
  "GetList r = cr_Data r"

section \<open>Lemmas\<close>

lemma lower_keys [simp]:
  "ToLower ''message'' = ''message''" "ToLower ''code'' = ''code''" "ToLower ''data'' = ''data''"
  "ToLower ''page'' = ''page''"
  by code_simp+

lemma firstError_None [simp]: "firstError None e = e" "firstError e None = e"
  by (cases e; simp add: firstError_def)+

lemma decodeCommonField_simps [simp]:
  "decodeCommonField dec ''message'' v c = (None, c)" "decodeCommonField dec ''code'' v c = (None, c)"
  "decodeCommonField dec ''page'' v c = (None, c)"
  "decodeCommonField dec ''data'' v c = (case dec v (cr_Data c) of (e, d) \<Rightarrow> (e, c\<lparr>cr_Data := d\<rparr>))"
  by (simp_all add: decodeCommonField_def)

text \<open>What is read of a written result: its data and nothing else.\<close>

lemma ParseResult_written:
  "ParseResult dec zero (Inr (encodeResult enc r)) =
     (if Data r = NoData then (\<lparr>cr_Result = zeroResult, cr_Data = zero\<rparr>, None)
      else (case dec (encodeData enc (Data r)) zero of
              (e, d) \<Rightarrow> (\<lparr>cr_Result = zeroResult, cr_Data = d\<rparr>, e)))"
  by (simp add: ParseResult_def encodeResult_def decodeStruct_def Let_def split: option.splits prod.splits)

lemma decodeElements_encoded:
  assumes "list_all (\<lambda>x. dec (enc x) zero = (None, x)) xs"
  shows "decodeElements dec zero (map enc xs) = (None, xs)"
  using assms by (induction xs) simp_all

section \<open>Properties\<close>

text \<open>
  C40. What a handler puts into a result is read back from the answer, under two conditions: the JSON coding
  of the elements is faithful (the decoder gives back what the encoder wrote), and the filter of the
  request drops at most twelve elements, the length up to which the order in which \<open>RemoveSubSlice\<close> removes
  them is known. Then an object is read back by \<open>ParseResult\<close>, and a list by \<open>ParseListResult\<close> as exactly the
  elements that match the filter, in their order, without an error. Nothing is said of longer filtered-out parts.
\<close>

theorem result_read_back:
  assumes coded: "list_all (\<lambda>x. dec (enc (accClean acc x)) zero = (None, accClean acc x)) (obj # xs)"
    and "length (filter (\<lambda>x. \<not> matchFilters acc (metadataFilters querier) x) xs) \<le> 12"
  shows "ParseResult dec zero (Inr (encodeResult enc (WithObject acc obj NewResult))) =
      (\<lparr>cr_Result = zeroResult, cr_Data = accClean acc obj\<rparr>, None) \<and>
    ParseListResult dec zero (Inr (encodeResult enc (WithListAndFilter long acc xs querier NewResult))) =
      (\<lparr>cr_Result = zeroResult, cr_Data = map (accClean acc) (filter (matchFilters acc (metadataFilters querier)) xs)\<rparr>, None)"
proof -
  let ?ys = "map (accClean acc) (filter (matchFilters acc (metadataFilters querier)) xs)"
  have l: "Data (WithListAndFilter long acc xs querier NewResult) = DataList ?ys"
    using assms(2) by (rule WithListAndFilter_kept)
  have "list_all (\<lambda>x. dec (enc x) zero = (None, x)) ?ys"
    using coded by (auto simp: list_all_iff)
  then have "decodeElements dec zero (map enc ?ys) = (None, ?ys)" by (rule decodeElements_encoded)
  with l coded show ?thesis
    by (simp add: ParseListResult_def ParseResult_written decodeSlice_def WithObject_def NewResult_def)
qed

fun decodeName :: "ObjectMeta decoder" where
  "decodeName (JStr n) m = (None, m\<lparr>Name := n\<rparr>)"
| "decodeName _ m = (Some mismatch, m)"

theorem result_read_back_witness:
  "GetData (fst (ParseResult decodeName emptyMeta (Inr (encodeResult (\<lambda>m. JStr (Name m))
     (WithObject metaAccessor (emptyMeta\<lparr>Name := ''web''\<rparr>) NewResult))))) = emptyMeta\<lparr>Name := ''web''\<rparr> \<and>
   GetList (fst (ParseListResult decodeName emptyMeta (Inr (encodeResult (\<lambda>m. JStr (Name m))
     (WithListAndFilter (\<lambda>is. is) metaAccessor [emptyMeta\<lparr>Name := ''web''\<rparr>, emptyMeta\<lparr>Name := ''db''\<rparr>]
        (Some (\<lambda>k. if k = ''name'' then ''we'' else '''')) NewResult))))) = [emptyMeta\<lparr>Name := ''web''\<rparr>]"
  using result_read_back [of decodeName "\<lambda>m. JStr (Name m)" metaAccessor emptyMeta "emptyMeta\<lparr>Name := ''web''\<rparr>"
      "[emptyMeta\<lparr>Name := ''web''\<rparr>, emptyMeta\<lparr>Name := ''db''\<rparr>]" "Some (\<lambda>k. if k = ''name'' then ''we'' else '''')"
      "\<lambda>is. is"]
  by (simp add: matchFilters_def metadataFilters_def metaAccessor_def emptyMeta_def Contains_def
      HasPrefix_def GetData_def GetList_def)

text \<open>
  Nothing but the data is read back: two results with the same data are read alike, whatever message,
  code and page they were sent with. The answer of a failed request is therefore read like that of a
  request that succeeded without data: no error, code 0 and a zero value.
\<close>

theorem parsed_only_data:
  assumes "Data r = Data r'"
  shows "ParseResult dec zero (Inr (encodeResult enc r)) = ParseResult dec zero (Inr (encodeResult enc r'))"
  using assms by (simp add: ParseResult_written)

theorem parsed_only_data_witness:
  "ParseResult decodeString '''' (Inr (encodeResult JStr (WithError (\<lambda>_. ''not found'') (Some (NotFound ''users'' ''bob'')) NewResult))) =
   ParseResult decodeString '''' (Inr (encodeResult JStr NewEmptyResult))"
  by (rule parsed_only_data) (simp add: WithError_def NewResult_def NewEmptyResult_def)

end
