(* ===== verification/Watch_Socket.thy ===== *)
theory Watch_Socket
  imports Api_Client Request_Info
begin

text \<open>
  \<open>pkg/api/websocket.go\<close>: the events of a watch on a websocket. \<open>Handle\<close> upgrades the connection, opens
  the watch and starts a goroutine that writes the events; the goroutine is a step relation over the
  channel of the watch and the \<open>done\<close> channel. The upgrader and the watch are library code: functions of
  the state of the world, and a channel that delivers events in any order of time.
\<close>

section \<open>The handler\<close>

record ('w, 'c, 'i) WebSocketHandler =
  wsRequest :: "HttpRequest option"
  wsGetter :: "('w \<Rightarrow> (goerr + 'i) \<times> 'w) option"
  wsUpgrade :: "HttpRequest \<Rightarrow> 'w \<Rightarrow> (goerr + 'c) \<times> 'w"

definition NewDefaultWebSocketHandler ::
  "(HttpRequest \<Rightarrow> 'w \<Rightarrow> (goerr + 'c) \<times> 'w) \<Rightarrow> ('w, 'c, 'i) WebSocketHandler" where
  \<comment> \<open>the argument is the upgrader without settings, the zero value\<close>
  "NewDefaultWebSocketHandler zero = \<lparr>wsRequest = None, wsGetter = None, wsUpgrade = zero\<rparr>"

definition WithRequest :: "HttpRequest \<Rightarrow> ('w, 'c, 'i) WebSocketHandler \<Rightarrow> ('w, 'c, 'i) WebSocketHandler" where
  "WithRequest request h = h\<lparr>wsRequest := Some request\<rparr>"

definition WithWatchInterface ::
  "('w \<Rightarrow> (goerr + 'i) \<times> 'w) \<Rightarrow> ('w, 'c, 'i) WebSocketHandler \<Rightarrow> ('w, 'c, 'i) WebSocketHandler" where
  "WithWatchInterface getter h = h\<lparr>wsGetter := Some getter\<rparr>"

definition WithUpgrader ::
  "(HttpRequest \<Rightarrow> 'w \<Rightarrow> (goerr + 'c) \<times> 'w) \<Rightarrow> ('w, 'c, 'i) WebSocketHandler \<Rightarrow> ('w, 'c, 'i) WebSocketHandler" where
  "WithUpgrader upgrade h = h\<lparr>wsUpgrade := upgrade\<rparr>"

definition isWebSocket :: "HttpRequest option \<Rightarrow> bool out" where
  "isWebSocket request =
     (case request of
        None \<Rightarrow> Inl (Panic NilDeref)
      | Some req \<Rightarrow> Inr (Header req ''Connection'' = ''Upgrade''))"

text \<open>
  The results \<open>ok\<close> and \<open>err\<close>, and what the goroutine is started with, the connection and the watch, when it
  is started.
\<close>

definition Handle ::
  "('w, 'c, 'i) WebSocketHandler \<Rightarrow> ('w, bool \<times> goerr option \<times> ('c \<times> 'i) option) eff" where
  "Handle h w =
     (case isWebSocket (wsRequest h) of
        Inl p \<Rightarrow> (Inl p, w)
      | Inr False \<Rightarrow> (Inr (False, None, None), w)
      | Inr True \<Rightarrow>
          (case wsUpgrade h (the (wsRequest h)) w of
             (Inl err, w1) \<Rightarrow> (Inr (False, Some err, None), w1)
           | (Inr conn, w1) \<Rightarrow>
               (case wsGetter h of
                  None \<Rightarrow> (Inl (Panic NilDeref), w1)
                | Some watchGetter \<Rightarrow>
                    (case watchGetter w1 of
                       (Inl err, w2) \<Rightarrow> (Inr (True, Some err, None), w2)
                     | (Inr watchInter, w2) \<Rightarrow> (Inr (True, None, Some (conn, watchInter)), w2)))))"

section \<open>The goroutine\<close>

record 'o WatchEvent =
  evType :: string
  evObject :: "'o option"

definition ErrorEvent :: string where "ErrorEvent = ''ERROR''"

definition zeroEvent :: "'o WatchEvent" where
  \<comment> \<open>what a receive from a closed channel gives\<close>
  "zeroEvent = \<lparr>evType = '''', evObject = None\<rparr>"

text \<open>
  \<open>queued\<close> holds the events in the channel, \<open>written\<close> the events handed to \<open>WriteJSON\<close>, whose error is
  ignored, \<open>stops\<close> counts the calls of \<open>Stop\<close>, and \<open>delivered\<close> remembers all events of the watch.
\<close>

record 'o WatchLoop =
  queued :: "'o WatchEvent list"
  channelClosed :: bool
  doneClosed :: bool
  running :: bool
  written :: "'o WatchEvent list"
  stops :: nat
  delivered :: "'o WatchEvent list"

definition newLoop :: "'o WatchLoop" where
  "newLoop = \<lparr>queued = [], channelClosed = False, doneClosed = False, running = True, written = [],
     stops = 0, delivered = []\<rparr>"

definition stopWatch :: "'o WatchLoop \<Rightarrow> 'o WatchLoop" where
  "stopWatch s = s\<lparr>stops := Suc (stops s), running := False\<rparr>"

definition handleEvent :: "'o WatchEvent \<Rightarrow> 'o WatchLoop \<Rightarrow> 'o WatchLoop" where
  "handleEvent e s =
     (let s = (if evType e \<noteq> '''' then s\<lparr>written := written s @ [e]\<rparr> else s)
      in if evType e = ErrorEvent then stopWatch s else s)"

inductive goStep :: "'o WatchLoop \<Rightarrow> 'o WatchLoop \<Rightarrow> bool" where
  receives: "goStep s (handleEvent e (s\<lparr>queued := es\<rparr>))" if "running s" "queued s = e # es"
| drained: "goStep s (handleEvent zeroEvent s)" if "running s" "queued s = []" "channelClosed s"
| cancels: "goStep s (stopWatch s)" if "running s" "doneClosed s"

inductive envStep :: "'o WatchLoop \<Rightarrow> 'o WatchLoop \<Rightarrow> bool" where
  delivers: "envStep s (s\<lparr>queued := queued s @ [e], delivered := delivered s @ [e]\<rparr>)" if "\<not> channelClosed s"
| closes: "envStep s (s\<lparr>channelClosed := True\<rparr>)"
| gives_up: "envStep s (s\<lparr>doneClosed := True\<rparr>)"

definition socketStep :: "'o WatchLoop \<Rightarrow> 'o WatchLoop \<Rightarrow> bool" where
  "socketStep s s' \<longleftrightarrow> goStep s s' \<or> envStep s s'"

inductive_cases goStepE: "goStep s s'"
inductive_cases envStepE: "envStep s s'"

section \<open>Lemmas\<close>

lemma handleEvent_simps:
  "evType e = '''' \<Longrightarrow> handleEvent e s = s"
  "evType e = ErrorEvent \<Longrightarrow> handleEvent e s = stopWatch (s\<lparr>written := written s @ [e]\<rparr>)"
  "evType e \<noteq> '''' \<Longrightarrow> evType e \<noteq> ErrorEvent \<Longrightarrow> handleEvent e s = s\<lparr>written := written s @ [e]\<rparr>"
  by (simp_all add: handleEvent_def ErrorEvent_def)

lemma handleEvent_fields [simp]:
  "queued (handleEvent e s) = queued s" "stops (handleEvent e s) = stops s + (if evType e = ErrorEvent then 1 else 0)"
  "running (handleEvent e s) \<longleftrightarrow> running s \<and> evType e \<noteq> ErrorEvent"
  by (simp_all add: handleEvent_def stopWatch_def Let_def)

lemma handleEvent_zero [simp]: "handleEvent zeroEvent s = s"
  by (rule handleEvent_simps) (simp add: zeroEvent_def)

text \<open>The events taken from the channel, and the invariant of the loop.\<close>

definition taken :: "'o WatchLoop \<Rightarrow> 'o WatchEvent list" where
  "taken s = take (length (delivered s) - length (queued s)) (delivered s)"

definition loopInv :: "'o WatchLoop \<Rightarrow> bool" where
  "loopInv s \<longleftrightarrow>
     delivered s = taken s @ queued s \<and> written s = filter (\<lambda>e. evType e \<noteq> '''') (taken s) \<and>
     stops s = (if running s then 0 else 1) \<and>
     list_all (\<lambda>e. evType e \<noteq> ErrorEvent) (if running s then written s else butlast (written s))"

lemma takenI: "delivered s = xs @ queued s \<Longrightarrow> taken s = xs"
  by (simp add: taken_def)

lemma loopInvI:
  assumes "delivered s = xs @ queued s" and "written s = filter (\<lambda>e. evType e \<noteq> '''') xs"
    and "stops s = (if running s then 0 else 1)"
    and "list_all (\<lambda>e. evType e \<noteq> ErrorEvent) (if running s then written s else butlast (written s))"
  shows "loopInv s"
  using assms takenI [OF assms(1)] by (simp add: loopInv_def)

lemma list_all_butlast: "list_all P xs \<Longrightarrow> list_all P (butlast xs)"
  by (auto simp: list_all_iff dest: in_set_butlastD)

lemma loopInv_go:
  assumes "goStep s s'" and inv: "loopInv s"
  shows "loopInv s'"
  using assms(1)
proof (rule goStepE)
  fix e es
  assume s': "s' = handleEvent e (s\<lparr>queued := es\<rparr>)" and run: "running s" and q: "queued s = e # es"
  have d: "delivered s = (taken s @ [e]) @ es" and w: "written s = filter (\<lambda>e. evType e \<noteq> '''') (taken s)"
    and st: "stops s = 0" and ne: "list_all (\<lambda>e. evType e \<noteq> ErrorEvent) (written s)"
    using inv run q by (auto simp: loopInv_def)
  show ?thesis
    by (rule loopInvI [of _ "taken s @ [e]"])
      (use d w st ne run in \<open>auto simp: s' handleEvent_def stopWatch_def Let_def ErrorEvent_def\<close>)
next
  assume "s' = handleEvent zeroEvent s"
  with inv show ?thesis by simp
next
  assume s': "s' = stopWatch s" and run: "running s"
  show ?thesis
    by (rule loopInvI [of _ "taken s"])
      (use inv run in \<open>auto simp: s' stopWatch_def loopInv_def list_all_butlast\<close>)
qed

lemma loopInv_env:
  assumes "envStep s s'" and inv: "loopInv s"
  shows "loopInv s'"
proof -
  have "delivered s' = taken s @ queued s'" "written s' = written s" "stops s' = stops s" "running s' = running s"
    using assms by (auto simp: loopInv_def elim!: envStepE)
  then show ?thesis using inv by (intro loopInvI [of _ "taken s"]) (auto simp: loopInv_def)
qed

lemma loopInv_reach:
  assumes "socketStep\<^sup>*\<^sup>* newLoop s"
  shows "loopInv s"
  using assms
proof induction
  case base
  show ?case by (rule loopInvI [of _ "[]"]) (simp_all add: newLoop_def)
next
  case (step s s')
  then show ?case by (auto simp: socketStep_def intro: loopInv_go loopInv_env)
qed

text \<open>
  The steps that the goroutine can still make: it reads what is in the channel, and ends. Only a closed
  channel can be read for ever.
\<close>

definition pendingError :: "'o WatchLoop \<Rightarrow> bool" where
  "pendingError s \<longleftrightarrow> list_ex (\<lambda>e. evType e = ErrorEvent) (queued s)"

lemma goStep_progress:
  assumes "goStep s s'" and "pendingError s"
  shows "\<not> running s' \<or> pendingError s' \<and> length (queued s') < length (queued s)"
  using assms by (auto simp: pendingError_def stopWatch_def elim!: goStepE)

lemma goSteps_bounded:
  assumes "(goStep ^^ n) s s'" and "pendingError s"
  shows "n \<le> length (queued s)"
  using assms
proof (induction n arbitrary: s)
  case (Suc n)
  from Suc.prems(1) obtain t where t: "goStep s t" "(goStep ^^ n) t s'" by (rule relpowp_Suc_E2)
  show ?case
  proof (cases "running t")
    case True
    with goStep_progress [OF t(1) Suc.prems(2)] Suc.IH [OF t(2)] show ?thesis by simp
  next
    case False
    then have "\<nexists>t'. goStep t t'" by (auto elim: goStepE)
    moreover have "\<exists>t'. goStep t t'" if "n = Suc k" for k
      using relpowp_Suc_D2 [of k goStep t s'] t(2) that by blast
    ultimately have "n = 0" by (cases n) auto
    with Suc.prems(2) show ?thesis by (cases "queued s") (simp_all add: pendingError_def)
  qed
qed simp

lemma goStep_stops:
  assumes "goStep s s'" shows "stops s' = stops s + (if running s' then 0 else 1)"
  using assms by (auto simp: stopWatch_def elim!: goStepE)

lemma goSteps_stops:
  assumes "goStep\<^sup>*\<^sup>* s s'" and "running s"
  shows "stops s' = stops s + (if running s' then 0 else 1)"
  using assms(1)
proof induction
  case base
  then show ?case by (simp add: assms(2))
next
  case (step t t')
  have "running t" using step.hyps(2) by (auto elim: goStepE)
  with step.IH goStep_stops [OF step.hyps(2)] show ?case by simp
qed

lemma pendingError_kept:
  assumes "goStep\<^sup>*\<^sup>* s s'" and "pendingError s"
  shows "\<not> running s' \<or> pendingError s'"
  using assms(1)
proof induction
  case base
  then show ?case using assms(2) by simp
next
  case (step t t')
  have "running t" using step.hyps(2) by (auto elim: goStepE)
  with step.IH goStep_progress [OF step.hyps(2)] show ?case by blast
qed

lemma pendingError_steps: "running s \<Longrightarrow> pendingError s \<Longrightarrow> \<exists>s'. goStep s s'"
  by (cases "queued s") (auto simp: pendingError_def intro: goStep.receives)

section \<open>Properties\<close>

text \<open>
  C25. Events arrive in order and none is lost or repeated: however the watch, the client and the goroutine are
  scheduled, what is written to the websocket are the events taken from the channel, the first ones of
  the watch, in their order and without those that have no type; nothing is written after an
  error event, and the watch is stopped once when the goroutine ends and not before.
\<close>

theorem watch_forwards_in_order:
  assumes "socketStep\<^sup>*\<^sup>* newLoop s"
  shows "\<exists>xs. delivered s = xs @ queued s \<and> written s = filter (\<lambda>e. evType e \<noteq> '''') xs \<and>
    list_all (\<lambda>e. evType e \<noteq> ErrorEvent) (if running s then written s else butlast (written s)) \<and>
    stops s = (if running s then 0 else 1)"
  using loopInv_reach [OF assms] by (auto simp: loopInv_def)

abbreviation addedPod :: "string WatchEvent" where
  "addedPod \<equiv> \<lparr>evType = ''ADDED'', evObject = Some ''pod''\<rparr>"

lemma deliver_reach:
  "socketStep\<^sup>*\<^sup>* newLoop (newLoop\<lparr>queued := [e], delivered := [e]\<rparr>)"
proof -
  have "envStep newLoop (newLoop\<lparr>queued := queued newLoop @ [e], delivered := delivered newLoop @ [e]\<rparr>)"
    by (rule envStep.delivers) (simp add: newLoop_def)
  then show ?thesis by (auto simp: socketStep_def newLoop_def)
qed

theorem watch_forwards_in_order_witness:
  "\<exists>xs. [addedPod] = xs @ [] \<and> [addedPod] = filter (\<lambda>e. evType e \<noteq> '''') xs"
proof -
  let ?s = "newLoop\<lparr>queued := [addedPod], delivered := [addedPod]\<rparr>"
  have "goStep ?s (handleEvent addedPod (?s\<lparr>queued := []\<rparr>))"
    by (rule goStep.receives) (simp_all add: newLoop_def)
  then have "socketStep\<^sup>*\<^sup>* newLoop (handleEvent addedPod (?s\<lparr>queued := []\<rparr>))"
    using deliver_reach [of addedPod] by (meson rtranclp.rtrancl_into_rtrancl socketStep_def)
  from watch_forwards_in_order [OF this] show ?thesis
    by (auto simp: handleEvent_def newLoop_def ErrorEvent_def)
qed

text \<open>
  C36. An error event in the channel ends the goroutine: it makes at most as many steps as there are events in
  the channel, and where it can make no further step it has returned and stopped the watch.
\<close>

theorem watch_loop_ends:
  assumes "running s" and "list_ex (\<lambda>e. evType e = ErrorEvent) (queued s)"
  shows "((goStep ^^ n) s s' \<longrightarrow> n \<le> length (queued s)) \<and>
    (goStep\<^sup>*\<^sup>* s s' \<and> (\<nexists>t. goStep s' t) \<longrightarrow> \<not> running s' \<and> stops s' = Suc (stops s))"
proof -
  have e: "pendingError s" using assms(2) by (simp add: pendingError_def)
  have "\<not> running s'" if "goStep\<^sup>*\<^sup>* s s'" "\<nexists>t. goStep s' t"
    using pendingError_kept [OF that(1) e] pendingError_steps [of s'] that(2) by blast
  then show ?thesis using goSteps_bounded [OF _ e, of n s'] goSteps_stops [OF _ assms(1), of s'] by auto
qed

theorem watch_loop_ends_witness:
  "\<not> running (stopWatch (newLoop\<lparr>written := [\<lparr>evType = ''ERROR'', evObject = None :: string option\<rparr>],
      delivered := [\<lparr>evType = ''ERROR'', evObject = None\<rparr>]\<rparr>))"
proof -
  let ?e = "\<lparr>evType = ''ERROR'', evObject = None :: string option\<rparr>"
  let ?s = "newLoop\<lparr>queued := [?e], delivered := [?e]\<rparr>"
  let ?t = "stopWatch (newLoop\<lparr>written := [?e], delivered := [?e]\<rparr>)"
  have "goStep ?s (handleEvent ?e (?s\<lparr>queued := []\<rparr>))" by (rule goStep.receives) (simp_all add: newLoop_def)
  moreover have "handleEvent ?e (?s\<lparr>queued := []\<rparr>) = ?t"
    by (simp add: handleEvent_def ErrorEvent_def newLoop_def stopWatch_def)
  ultimately have "goStep ?s ?t" by simp
  then have "goStep\<^sup>*\<^sup>* ?s ?t" by (rule r_into_rtranclp)
  moreover have "\<nexists>t. goStep ?t t" by (auto simp: stopWatch_def elim: goStepE)
  moreover have "running ?s" "list_ex (\<lambda>e. evType e = ErrorEvent) (queued ?s)"
    by (simp_all add: newLoop_def ErrorEvent_def)
  ultimately show ?thesis using watch_loop_ends [of ?s 0 ?t] by blast
qed

text \<open>
  Without an error event the goroutine spins: once the watch has closed its channel and the events are
  read, a step changes nothing, and only the caller can end it.
\<close>

theorem closed_watch_spins:
  assumes "running s" and "queued s = []" and "channelClosed s"
  shows "goStep s s" and "\<not> doneClosed s \<Longrightarrow> goStep s s' \<Longrightarrow> s' = s"
proof -
  show "goStep s s" using goStep.drained [OF assms] by simp
  show "s' = s" if "\<not> doneClosed s" "goStep s s'"
    using that(2) assms that(1) by (auto elim: goStepE)
qed

text \<open>The answers of \<open>Handle\<close>: a request that is no upgrade changes nothing.\<close>

theorem Handle_results:
  assumes "wsRequest h = Some req"
  shows "Header req ''Connection'' \<noteq> ''Upgrade'' \<Longrightarrow> Handle h w = (Inr (False, None, None), w)"
    and "Handle h w = (Inr (ok, err, Some started), w') \<Longrightarrow> ok \<and> err = None"
    and "Handle h w = (Inr (True, Some e, g), w') \<Longrightarrow>
      g = None \<and> (\<exists>conn w1. wsUpgrade h req w = (Inr conn, w1))"
  using assms by (auto simp: Handle_def isWebSocket_def split: prod.splits sum.splits option.splits bool.splits if_splits)

end
