(* ===== verification/Go_Heap.thy ===== *)
theory Go_Heap
  imports Main "HOL-Library.State_Monad"
begin

text \<open>
  Memory with aliasing. Where the program copies objects or writes through pointers it matters which
  objects share memory, so there the model has an explicit store: a list of cells, a pointer is a position
  in it, and allocation appends. A nil pointer, map or slice is \<open>None\<close>. The locale \<open>deep_copier\<close> is the
  contract of a deep copy: the value is the same, the memory is new, no cell of it is reached twice, and
  what was there is as it was.
\<close>

section \<open>The store\<close>

type_synonym addr = nat

type_synonym ('c, 'a) mem = "('c list, 'a) state"

definition heapNew :: "'c \<Rightarrow> ('c, addr) mem" where
  "heapNew c = State (\<lambda>h. (length h, h @ [c]))"

definition heapLoad :: "addr \<Rightarrow> ('c, 'c) mem" where
  "heapLoad a = State (\<lambda>h. (h ! a, h))"

definition heapStore :: "addr \<Rightarrow> 'c \<Rightarrow> ('c, unit) mem" where
  "heapStore a c = State (\<lambda>h. ((), h[a := c]))"

lemma run_heap [simp]:
  "run_state (heapNew c) h = (length h, h @ [c])" "run_state (heapLoad a) h = (h ! a, h)"
  "run_state (heapStore a c) h = ((), h[a := c])"
  by (simp_all add: heapNew_def heapLoad_def heapStore_def)

text \<open>Two stores agree on a set of positions.\<close>

definition agree :: "addr set \<Rightarrow> 'c list \<Rightarrow> 'c list \<Rightarrow> bool" where
  "agree A h h' \<longleftrightarrow> (\<forall>a \<in> A. a < length h \<and> a < length h' \<and> h' ! a = h ! a)"

definition inHeap :: "addr set \<Rightarrow> 'c list \<Rightarrow> bool" where
  "inHeap A h \<longleftrightarrow> (\<forall>a \<in> A. a < length h)"

text \<open>Nothing but a set of positions was written since; the store may have grown.\<close>

definition writtenWithin :: "addr set \<Rightarrow> 'c list \<Rightarrow> 'c list \<Rightarrow> bool" where
  "writtenWithin A h h' \<longleftrightarrow> length h \<le> length h' \<and> (\<forall>a < length h. a \<notin> A \<longrightarrow> h' ! a = h ! a)"

lemma agree_append: "inHeap A h \<Longrightarrow> agree A h (h @ cs)"
  by (auto simp: agree_def inHeap_def nth_append)

lemma agree_subset: "agree A h h' \<Longrightarrow> B \<subseteq> A \<Longrightarrow> agree B h h'"
  by (auto simp: agree_def)

lemma inHeap_subset: "inHeap A h \<Longrightarrow> B \<subseteq> A \<Longrightarrow> inHeap B h"
  by (auto simp: inHeap_def)

lemma agree_Un: "agree (A \<union> B) h h' \<longleftrightarrow> agree A h h' \<and> agree B h h'"
  by (auto simp: agree_def)

lemma agree_UN: "agree (\<Union>x \<in> X. f x) h h' \<longleftrightarrow> (\<forall>x \<in> X. agree (f x) h h')"
  by (auto simp: agree_def)

lemma agree_insert: "agree (insert a A) h h' \<longleftrightarrow> a < length h \<and> a < length h' \<and> h' ! a = h ! a \<and> agree A h h'"
  by (auto simp: agree_def)

lemma inHeap_simps [simp]:
  "inHeap {} h" "inHeap (A \<union> B) h \<longleftrightarrow> inHeap A h \<and> inHeap B h" "inHeap (insert a A) h \<longleftrightarrow> a < length h \<and> inHeap A h"
  by (auto simp: inHeap_def)

lemma inHeap_UN: "inHeap (\<Union>x \<in> X. f x) h \<longleftrightarrow> (\<forall>x \<in> X. inHeap (f x) h)"
  by (auto simp: inHeap_def)

lemma inHeap_append: "inHeap A h \<Longrightarrow> inHeap A (h @ cs)"
  by (auto simp: inHeap_def)

section \<open>Deep copies\<close>

text \<open>
  \<open>val h x\<close> is the value that \<open>x\<close> denotes in the store \<open>h\<close>, \<open>fp h x\<close> the positions reached from it,
  \<open>copy\<close> makes a copy.
\<close>

locale deep_copier =
  fixes val :: "'c list \<Rightarrow> 'x \<Rightarrow> 'v" and fp :: "'c list \<Rightarrow> 'x \<Rightarrow> addr list" and copy :: "'x \<Rightarrow> ('c, 'x) mem"
  assumes frame: "agree (set (fp h x)) h h' \<Longrightarrow> val h' x = val h x \<and> fp h' x = fp h x"
    and copies: "inHeap (set (fp h x)) h \<Longrightarrow> run_state (copy x) h = (y, h') \<Longrightarrow>
      \<exists>cs. h' = h @ cs \<and> val h' y = val h x \<and> set (fp h' y) \<subseteq> {length h..<length h'} \<and> distinct (fp h' y)"
begin

lemma frame_val: "agree (set (fp h x)) h h' \<Longrightarrow> val h' x = val h x" and frame_fp: "agree (set (fp h x)) h h' \<Longrightarrow> fp h' x = fp h x"
  using frame by blast+

lemma extends:
  assumes "inHeap (set (fp h x)) h"
  shows "val (h @ cs) x = val h x" and "fp (h @ cs) x = fp h x"
  using frame [OF agree_append [OF assms]] by simp_all

lemma copy_value: "inHeap (set (fp h x)) h \<Longrightarrow> run_state (copy x) h = (y, h') \<Longrightarrow> val h' y = val h x"
  using copies by blast

lemma copy_distinct: "inHeap (set (fp h x)) h \<Longrightarrow> run_state (copy x) h = (y, h') \<Longrightarrow> distinct (fp h' y)"
  and copy_new: "inHeap (set (fp h x)) h \<Longrightarrow> run_state (copy x) h = (y, h') \<Longrightarrow>
    set (fp h' y) \<subseteq> {length h..<length h'}"
  and copy_extends: "inHeap (set (fp h x)) h \<Longrightarrow> run_state (copy x) h = (y, h') \<Longrightarrow> \<exists>cs. h' = h @ cs"
  using copies by blast+

lemma original_kept:
  assumes "inHeap (set (fp h x)) h" and "run_state (copy x) h = (y, h')"
  shows "val h' x = val h x" and "fp h' x = fp h x"
  using copies [OF assms] extends [OF assms(1)] by auto

lemma copy_apart:
  assumes "inHeap (set (fp h x)) h" and "run_state (copy x) h = (y, h')"
  shows "set (fp h' x) \<inter> set (fp h' y) = {}"
  using copies [OF assms] original_kept(2) [OF assms] assms(1) by (fastforce simp: inHeap_def)

text \<open>Whatever is written to the memory of the copy, the original is as it was, and the other way round.\<close>

lemma copy_independent:
  assumes "inHeap (set (fp h x)) h" and "run_state (copy x) h = (y, h')" and "writtenWithin (set (fp h' y)) h' h''"
  shows "val h'' x = val h x"
proof -
  obtain cs where cs: "h' = h @ cs" using copies [OF assms(1,2)] by blast
  have "a < length h' \<and> a < length h'' \<and> h'' ! a = h' ! a" if a: "a \<in> set (fp h' x)" for a
  proof -
    have "a < length h'" using a assms(1) original_kept(2) [OF assms(1,2)] cs by (auto simp: inHeap_def)
    moreover have "a \<notin> set (fp h' y)" using a copy_apart [OF assms(1,2)] by blast
    ultimately show ?thesis using assms(3) by (simp add: writtenWithin_def)
  qed
  then have "agree (set (fp h' x)) h' h''" by (simp add: agree_def)
  with frame [of h' x h''] original_kept(1) [OF assms(1,2)] show ?thesis by simp
qed

lemma original_independent:
  assumes "inHeap (set (fp h x)) h" and "run_state (copy x) h = (y, h')" and "writtenWithin (set (fp h' x)) h' h''"
  shows "val h'' y = val h x"
proof -
  have "agree (set (fp h' y)) h' h''"
    using assms(3) copies [OF assms(1,2)] copy_apart [OF assms(1,2)] by (fastforce simp: agree_def writtenWithin_def)
  with frame [of h' y h''] copy_value [OF assms(1,2)] show ?thesis by simp
qed

end

section \<open>Deep copies of parts give deep copies\<close>

lemma deep_copier_plain: "deep_copier (\<lambda>h. f) (\<lambda>h x. []) State_Monad.return"
  by unfold_locales simp_all

lemma deep_copier_pair:
  assumes "deep_copier val\<^sub>1 fp\<^sub>1 copy\<^sub>1" and "deep_copier val\<^sub>2 fp\<^sub>2 copy\<^sub>2"
  shows "deep_copier (\<lambda>h (x, y). (val\<^sub>1 h x, val\<^sub>2 h y)) (\<lambda>h (x, y). fp\<^sub>1 h x @ fp\<^sub>2 h y)
    (\<lambda>(x, y). do {a \<leftarrow> copy\<^sub>1 x; b \<leftarrow> copy\<^sub>2 y; State_Monad.return (a, b)})"
    (is "deep_copier ?val ?fp ?copy")
proof
  fix h h' :: "'a list" and p
  assume "agree (set (?fp h p)) h h'"
  then show "?val h' p = ?val h p \<and> ?fp h' p = ?fp h p"
    using deep_copier.frame [OF assms(1), of h _ h'] deep_copier.frame [OF assms(2), of h _ h']
    by (cases p) (simp add: agree_Un)
next
  fix h h' p q
  assume b: "inHeap (set (?fp h p)) h" and r: "run_state (?copy p) h = (q, h')"
  obtain x y where p: "p = (x, y)" by (cases p)
  obtain a h1 where a: "run_state (copy\<^sub>1 x) h = (a, h1)" by (metis surj_pair)
  obtain c h2 where c: "run_state (copy\<^sub>2 y) h1 = (c, h2)" by (metis surj_pair)
  have q: "q = (a, c)" "h' = h2" using r a c by (auto simp: p)
  have x: "inHeap (set (fp\<^sub>1 h x)) h" and y: "inHeap (set (fp\<^sub>2 h y)) h" using b by (simp_all add: p)
  obtain cs where cs: "h1 = h @ cs" "val\<^sub>1 h1 a = val\<^sub>1 h x" "set (fp\<^sub>1 h1 a) \<subseteq> {length h..<length h1}" "distinct (fp\<^sub>1 h1 a)"
    using deep_copier.copies [OF assms(1) x a] by blast
  have y1: "val\<^sub>2 h1 y = val\<^sub>2 h y" "fp\<^sub>2 h1 y = fp\<^sub>2 h y" using deep_copier.extends [OF assms(2) y] cs(1) by auto
  then have "inHeap (set (fp\<^sub>2 h1 y)) h1" using y cs(1) by (simp add: inHeap_append)
  from deep_copier.copies [OF assms(2) this c]
  obtain ds where ds: "h2 = h1 @ ds" "val\<^sub>2 h2 c = val\<^sub>2 h1 y" "set (fp\<^sub>2 h2 c) \<subseteq> {length h1..<length h2}" "distinct (fp\<^sub>2 h2 c)" by blast
  have "inHeap (set (fp\<^sub>1 h1 a)) h1" using cs(3) by (auto simp: inHeap_def)
  from deep_copier.extends [OF assms(1) this] have a2: "val\<^sub>1 h2 a = val\<^sub>1 h1 a" "fp\<^sub>1 h2 a = fp\<^sub>1 h1 a" using ds(1) by auto
  show "\<exists>cs. h' = h @ cs \<and> ?val h' q = ?val h p \<and> set (?fp h' q) \<subseteq> {length h..<length h'} \<and> distinct (?fp h' q)"
    using cs ds y1 a2 by (fastforce simp: p q)
qed

text \<open>A struct whose reference fields are \<open>get x\<close>; \<open>put\<close> writes them, the other fields are assigned.\<close>

lemma deep_copier_struct:
  assumes "deep_copier val fp copy" and "\<And>x a. get (put x a) = a" and "\<And>x a. make (put x a) = make x"
  shows "deep_copier (\<lambda>h x. make x (val h (get x))) (\<lambda>h x. fp h (get x))
    (\<lambda>x. do {a \<leftarrow> copy (get x); State_Monad.return (put x a)})"
proof
  fix h h' x
  assume "agree (set (fp h (get x))) h h'"
  then show "make x (val h' (get x)) = make x (val h (get x)) \<and> fp h' (get x) = fp h (get x)"
    using deep_copier.frame [OF assms(1)] by simp
next
  fix h h' x y
  assume "inHeap (set (fp h (get x))) h"
    and "run_state (do {a \<leftarrow> copy (get x); State_Monad.return (put x a)}) h = (y, h')"
  then show "\<exists>cs. h' = h @ cs \<and> make y (val h' (get y)) = make x (val h (get x)) \<and> set (fp h' (get y)) \<subseteq> {length h..<length h'} \<and> distinct (fp h' (get y))"
    using deep_copier.copies [OF assms(1), of h "get x"] assms(2,3)
    by (cases "run_state (copy (get x)) h") auto
qed

lemma deep_copier_struct2:
  assumes "deep_copier val\<^sub>1 fp\<^sub>1 copy\<^sub>1" and "deep_copier val\<^sub>2 fp\<^sub>2 copy\<^sub>2"
    and "\<And>x a b. get\<^sub>1 (put x a b) = a" and "\<And>x a b. get\<^sub>2 (put x a b) = b" and "\<And>x a b. make (put x a b) = make x"
  shows "deep_copier (\<lambda>h x. make x (val\<^sub>1 h (get\<^sub>1 x)) (val\<^sub>2 h (get\<^sub>2 x))) (\<lambda>h x. fp\<^sub>1 h (get\<^sub>1 x) @ fp\<^sub>2 h (get\<^sub>2 x))
    (\<lambda>x. do {a \<leftarrow> copy\<^sub>1 (get\<^sub>1 x); b \<leftarrow> copy\<^sub>2 (get\<^sub>2 x); State_Monad.return (put x a b)})"
  using deep_copier_struct [OF deep_copier_pair [OF assms(1,2)], where get = "\<lambda>x. (get\<^sub>1 x, get\<^sub>2 x)"
      and put = "\<lambda>x (a, b). put x a b" and make = "\<lambda>x (v, w). make x v w"] assms(3-5)
  by (simp add: case_prod_beta)

lemma deep_copier_struct3:
  assumes "deep_copier val\<^sub>1 fp\<^sub>1 copy\<^sub>1" and "deep_copier val\<^sub>2 fp\<^sub>2 copy\<^sub>2" and "deep_copier val\<^sub>3 fp\<^sub>3 copy\<^sub>3"
    and "\<And>x a b c. get\<^sub>1 (put x a b c) = a" and "\<And>x a b c. get\<^sub>2 (put x a b c) = b"
    and "\<And>x a b c. get\<^sub>3 (put x a b c) = c" and "\<And>x a b c. make (put x a b c) = make x"
  shows "deep_copier (\<lambda>h x. make x (val\<^sub>1 h (get\<^sub>1 x)) (val\<^sub>2 h (get\<^sub>2 x)) (val\<^sub>3 h (get\<^sub>3 x)))
    (\<lambda>h x. fp\<^sub>1 h (get\<^sub>1 x) @ fp\<^sub>2 h (get\<^sub>2 x) @ fp\<^sub>3 h (get\<^sub>3 x))
    (\<lambda>x. do {a \<leftarrow> copy\<^sub>1 (get\<^sub>1 x); b \<leftarrow> copy\<^sub>2 (get\<^sub>2 x); c \<leftarrow> copy\<^sub>3 (get\<^sub>3 x); State_Monad.return (put x a b c)})"
  using deep_copier_struct2 [OF assms(1) deep_copier_pair [OF assms(2,3)], where get\<^sub>1 = get\<^sub>1
      and get\<^sub>2 = "\<lambda>x. (get\<^sub>2 x, get\<^sub>3 x)" and put = "\<lambda>x a (b, c). put x a b c" and make = "\<lambda>x u (v, w). make x u v w"]
    assms(4-7)
  by (simp add: case_prod_beta)

lemma deep_copier_traverse:
  assumes "deep_copier val fp copy"
  shows "deep_copier (\<lambda>h. map (val h)) (\<lambda>h xs. concat (map (fp h) xs)) (State_Monad.traverse_list copy)"
proof
  fix h h' xs
  assume "agree (set (concat (map (fp h) xs))) h h'"
  then show "map (val h') xs = map (val h) xs \<and> concat (map (fp h') xs) = concat (map (fp h) xs)"
    using deep_copier.frame [OF assms, of h _ h'] by (simp add: agree_UN cong: map_cong)
next
  fix h h' xs ys
  assume "inHeap (set (concat (map (fp h) xs))) h" and "run_state (State_Monad.traverse_list copy xs) h = (ys, h')"
  then show "\<exists>cs. h' = h @ cs \<and> map (val h') ys = map (val h) xs \<and> set (concat (map (fp h') ys)) \<subseteq> {length h..<length h'} \<and>
      distinct (concat (map (fp h') ys))"
  proof (induction xs arbitrary: h ys h')
    case (Cons x xs)
    obtain a h1 where a: "run_state (copy x) h = (a, h1)" by (metis surj_pair)
    obtain bs h2 where bs: "run_state (State_Monad.traverse_list copy xs) h1 = (bs, h2)" by (metis surj_pair)
    have q: "ys = a # bs" "h' = h2" using Cons.prems(2) a bs by auto
    have x: "inHeap (set (fp h x)) h" and xs: "\<forall>x \<in> set xs. inHeap (set (fp h x)) h" using Cons.prems(1) by (simp_all add: inHeap_UN)
    obtain cs where cs: "h1 = h @ cs" "val h1 a = val h x" "set (fp h1 a) \<subseteq> {length h..<length h1}" "distinct (fp h1 a)"
      using deep_copier.copies [OF assms x a] by blast
    have xs1: "\<forall>x \<in> set xs. val h1 x = val h x \<and> fp h1 x = fp h x" using deep_copier.extends [OF assms] xs cs(1) by auto
    then have "inHeap (set (concat (map (fp h1) xs))) h1" using xs cs(1) by (simp add: inHeap_UN inHeap_append)
    from Cons.IH [OF this bs] obtain ds where ds: "h2 = h1 @ ds" "map (val h2) bs = map (val h1) xs"
      "set (concat (map (fp h2) bs)) \<subseteq> {length h1..<length h2}" "distinct (concat (map (fp h2) bs))" by blast
    have "inHeap (set (fp h1 a)) h1" using cs(3) by (auto simp: inHeap_def)
    from deep_copier.extends [OF assms this] have "val h2 a = val h1 a" "fp h2 a = fp h1 a" using ds(1) by auto
    then show ?case using cs ds xs1 by (fastforce simp: q)
  qed simp
qed

section \<open>Pointers, slices and maps\<close>

text \<open>
  A reference to a cell: its content is read with \<open>prj\<close>, copied, and put with \<open>mk\<close> into a new cell. A
  slice is a reference to its array, a map a reference to its entries.
\<close>

definition copyRef :: "('c \<Rightarrow> 'x) \<Rightarrow> ('x \<Rightarrow> 'c) \<Rightarrow> ('x \<Rightarrow> ('c, 'x) mem) \<Rightarrow> addr option \<Rightarrow> ('c, addr option) mem" where
  "copyRef prj mk copy p =
     (case p of
        None \<Rightarrow> State_Monad.return None
      | Some a \<Rightarrow> do {
          c \<leftarrow> heapLoad a;
          x \<leftarrow> copy (prj c);
          b \<leftarrow> heapNew (mk x);
          State_Monad.return (Some b)
        })"

definition refVal :: "('c \<Rightarrow> 'x) \<Rightarrow> ('c list \<Rightarrow> 'x \<Rightarrow> 'v) \<Rightarrow> 'c list \<Rightarrow> addr option \<Rightarrow> 'v option" where
  "refVal prj val h p = map_option (\<lambda>a. val h (prj (h ! a))) p"

definition refFp :: "('c \<Rightarrow> 'x) \<Rightarrow> ('c list \<Rightarrow> 'x \<Rightarrow> addr list) \<Rightarrow> 'c list \<Rightarrow> addr option \<Rightarrow> addr list" where
  "refFp prj fp h p = (case p of None \<Rightarrow> [] | Some a \<Rightarrow> a # fp h (prj (h ! a)))"

lemma ref_simps [simp]:
  "refVal prj val h None = None" "refVal prj val h (Some a) = Some (val h (prj (h ! a)))"
  "refFp prj fp h None = []" "refFp prj fp h (Some a) = a # fp h (prj (h ! a))"
  by (simp_all add: refVal_def refFp_def)

lemma deep_copier_ref:
  assumes "deep_copier val fp copy" and "\<And>x. prj (mk x) = x"
  shows "deep_copier (refVal prj val) (refFp prj fp) (copyRef prj mk copy)"
proof
  fix h h' p
  assume "agree (set (refFp prj fp h p)) h h'"
  then show "refVal prj val h' p = refVal prj val h p \<and> refFp prj fp h' p = refFp prj fp h p"
    using deep_copier.frame [OF assms(1), of h _ h'] by (cases p) (auto simp: agree_insert)
next
  fix h h' p q
  assume b: "inHeap (set (refFp prj fp h p)) h" and r: "run_state (copyRef prj mk copy p) h = (q, h')"
  show "\<exists>cs. h' = h @ cs \<and> refVal prj val h' q = refVal prj val h p \<and> set (refFp prj fp h' q) \<subseteq> {length h..<length h'} \<and>
    distinct (refFp prj fp h' q)"
  proof (cases p)
    case None
    with r show ?thesis by (simp add: copyRef_def)
  next
    case (Some a)
    obtain y h1 where y: "run_state (copy (prj (h ! a))) h = (y, h1)" by (metis surj_pair)
    have q: "q = Some (length h1)" "h' = h1 @ [mk y]" using r y by (auto simp: copyRef_def Some)
    have "inHeap (set (fp h (prj (h ! a)))) h" using b by (simp add: Some)
    from deep_copier.copies [OF assms(1) this y] obtain cs where cs: "h1 = h @ cs"
      "val h1 y = val h (prj (h ! a))" "set (fp h1 y) \<subseteq> {length h..<length h1}" "distinct (fp h1 y)" by blast
    have "inHeap (set (fp h1 y)) h1" using cs(3) by (auto simp: inHeap_def)
    from deep_copier.extends [OF assms(1) this, of "[mk y]"] show ?thesis
      using cs by (auto simp: Some q assms(2))
  qed
qed

definition copySlice :: "('c \<Rightarrow> 'x list) \<Rightarrow> ('x list \<Rightarrow> 'c) \<Rightarrow> ('x \<Rightarrow> ('c, 'x) mem) \<Rightarrow> addr option \<Rightarrow> ('c, addr option) mem" where
  \<comment> \<open>\<open>if in.F != nil { make; for i := range { (*in)[i].DeepCopyInto(&(*out)[i]) } }\<close>\<close>
  "copySlice prj mk copy = copyRef prj mk (State_Monad.traverse_list copy)"

definition copyMap ::
  "('c \<Rightarrow> (string \<times> 'x) list) \<Rightarrow> ((string \<times> 'x) list \<Rightarrow> 'c) \<Rightarrow> ('x \<Rightarrow> ('c, 'x) mem) \<Rightarrow> addr option \<Rightarrow> ('c, addr option) mem" where
  \<comment> \<open>\<open>if in.F != nil { make; for key, val := range { (*out)[key] = *val.DeepCopy() } }\<close>\<close>
  "copyMap prj mk copy = copySlice prj mk (\<lambda>kv. do {v \<leftarrow> copy (snd kv); State_Monad.return (fst kv, v)})"

definition sliceVal :: "('c \<Rightarrow> 'x list) \<Rightarrow> ('c list \<Rightarrow> 'x \<Rightarrow> 'v) \<Rightarrow> 'c list \<Rightarrow> addr option \<Rightarrow> 'v list option" where
  "sliceVal prj val = refVal prj (\<lambda>h. map (val h))"

definition sliceFp :: "('c \<Rightarrow> 'x list) \<Rightarrow> ('c list \<Rightarrow> 'x \<Rightarrow> addr list) \<Rightarrow> 'c list \<Rightarrow> addr option \<Rightarrow> addr list" where
  "sliceFp prj fp = refFp prj (\<lambda>h xs. concat (map (fp h) xs))"

definition mapVal ::
  "('c \<Rightarrow> (string \<times> 'x) list) \<Rightarrow> ('c list \<Rightarrow> 'x \<Rightarrow> 'v) \<Rightarrow> 'c list \<Rightarrow> addr option \<Rightarrow> (string \<times> 'v) list option" where
  "mapVal prj val = sliceVal prj (\<lambda>h kv. (fst kv, val h (snd kv)))"

definition mapFp :: "('c \<Rightarrow> (string \<times> 'x) list) \<Rightarrow> ('c list \<Rightarrow> 'x \<Rightarrow> addr list) \<Rightarrow> 'c list \<Rightarrow> addr option \<Rightarrow> addr list" where
  "mapFp prj fp = sliceFp prj (\<lambda>h kv. fp h (snd kv))"

lemma deep_copier_slice:
  assumes "deep_copier val fp copy" and "\<And>x. prj (mk x) = x"
  shows "deep_copier (sliceVal prj val) (sliceFp prj fp) (copySlice prj mk copy)"
  unfolding sliceVal_def sliceFp_def copySlice_def
  by (intro deep_copier_ref deep_copier_traverse assms)

lemma deep_copier_map:
  assumes "deep_copier val fp copy" and "\<And>x. prj (mk x) = x"
  shows "deep_copier (mapVal prj val) (mapFp prj fp) (copyMap prj mk copy)"
  unfolding mapVal_def mapFp_def copyMap_def
  by (intro deep_copier_slice assms(2)
    deep_copier_struct [OF assms(1), where get = snd and put = "\<lambda>kv v. (fst kv, v)" and make = "\<lambda>kv v. (fst kv, v)"])
    simp_all

end
