(* ===== verification/Deep_Copy.thy ===== *)
theory Deep_Copy
  imports Go_Heap Health_Types
begin

text \<open>
  The generated deep copies, \<open>pkg/api/iam.ai.io/v1/zz_generated.deepcopy.go\<close> and the same file of
  \<open>core.ai.io\<close>, on a store. The records here are the structs as they lie in memory: a pointer, slice or
  map field is a reference. \<open>userVal\<close> and its siblings read the value that a struct denotes, which is a
  record of \<open>Iam_Types\<close> or \<open>Health_Types\<close>. The copies of the types of the Kubernetes libraries are
  parameters with the contract of a deep copy; \<open>goLibrary\<close> is an executable instance.
\<close>

section \<open>Structs in memory\<close>

record MetaMem =
  mm_Name :: string
  mm_GenerateName :: string
  mm_Namespace :: string
  mm_UID :: string
  mm_ResourceVersion :: string
  mm_CreationTimestamp :: time
  mm_DeletionTimestamp :: "addr option"
  mm_Labels :: "addr option"
  mm_Annotations :: "addr option"
  mm_OwnerReferences :: "addr option"
  mm_Finalizers :: "addr option"
  mm_ManagedFields :: "addr option"

record RuleMem =
  rm_Verbs :: "addr option"
  rm_APIGroups :: "addr option"
  rm_Resources :: "addr option"
  rm_ResourceNames :: "addr option"
  rm_NonResourceURLs :: "addr option"

record ProbeMem =
  pm_HTTPGet :: "addr option"

record ListMetaMem =
  lm_ResourceVersion :: string
  lm_Continue :: string
  lm_RemainingItemCount :: "addr option"

record GlobalRoleMem =
  gr_meta :: MetaMem
  gr_Rules :: "addr option"

record GlobalRoleBindingMem =
  gb_meta :: MetaMem
  gb_Subjects :: "addr option"
  gb_RoleRef :: RoleRef

record LoginRecordMem =
  lr_meta :: MetaMem
  lr_Spec :: LoginRecordSpec

record UserSpecMem =
  sm_Email :: string
  sm_Lang :: string
  sm_Description :: string
  sm_DisplayName :: string
  sm_Groups :: "addr option"
  sm_EncryptedPassword :: string

record UserStatusMem =
  tm_State :: "addr option"
  tm_Reason :: string
  tm_LastTransitionTime :: "addr option"
  tm_LastLoginTime :: "addr option"

record UserMem =
  um_meta :: MetaMem
  um_Spec :: UserSpecMem
  um_Status :: UserStatusMem

record HealthSpecMem =
  hs_Interval :: duration
  hs_ComponentSelectors :: "addr option"
  hs_ServiceProbes :: "addr option"

record ComponentMem =
  cm_Name :: string
  cm_PodList :: "addr option"
  cm_Message :: string

record HealthStatusMem =
  ht_Components :: "addr option"

record HealthMem =
  hm_meta :: MetaMem
  hm_Spec :: HealthSpecMem
  hm_Status :: HealthStatusMem

record ListMem =
  ls_meta :: ListMetaMem
  ls_Items :: "addr option"

text \<open>
  A cell holds what a pointer points to, an array or a map. Go's types see to it that a pointer leads to
  a cell of its type, so the selectors are only applied to their own constructor.
\<close>

datatype Cell =
    CStrings (asStrings: "string list")
  | CStringMap (asStringMap: "string \<rightharpoonup> string")
  | CEntries (asEntries: "(string \<times> string) list")
  | CTime (asTime: time)
  | CUserState (asUserState: string)
  | COwners (asOwners: "OwnerReference list")
  | CManaged (asManaged: "string list")
  | CInt (asInt: int)
  | CHTTPGet (asHTTPGet: HTTPGetAction)
  | CRules (asRules: "RuleMem list")
  | CSubjects (asSubjects: "Subject list")
  | CPods (asPods: "PodStatus list")
  | CProbes (asProbes: "(string \<times> ProbeMem) list")
  | CComponents (asComponents: "(string \<times> ComponentMem) list")
  | CGlobalRole (asGlobalRoleMem: GlobalRoleMem)
  | CGlobalRoleBinding (asGlobalRoleBindingMem: GlobalRoleBindingMem)
  | CLoginRecord (asLoginRecordMem: LoginRecordMem)
  | CUser (asUserMem: UserMem)
  | CHealth (asHealthMem: HealthMem)
  | CGlobalRoles (asGlobalRoles: "GlobalRoleMem list")
  | CGlobalRoleBindings (asGlobalRoleBindings: "GlobalRoleBindingMem list")
  | CLoginRecords (asLoginRecords: "LoginRecordMem list")
  | CUsers (asUsers: "UserMem list")
  | CHealths (asHealths: "HealthMem list")
  | CList (asList: ListMem)
  | CUserSpec (asUserSpec: UserSpecMem)
  | CUserStatus (asUserStatus: UserStatusMem)
  | CLoginRecordSpec (asLoginRecordSpec: LoginRecordSpec)
  | CHealthSpec (asHealthSpec: HealthSpecMem)
  | CHealthStatus (asHealthStatus: HealthStatusMem)
  | CComponent (asComponent: ComponentMem)
  | CPodStatus (asPodStatus: PodStatus)

type_synonym store = "Cell list"
type_synonym 'a copying = "'a \<Rightarrow> (Cell, 'a) mem"

section \<open>Values\<close>

text \<open>A plain field has no memory of its own.\<close>

definition plainVal :: "store \<Rightarrow> 'a \<Rightarrow> 'a" where "plainVal h x = x"
definition plainFp :: "store \<Rightarrow> 'a \<Rightarrow> addr list" where "plainFp h x = []"

abbreviation listOf :: "'a list option \<Rightarrow> 'a list" where
  "listOf xs \<equiv> (case xs of None \<Rightarrow> [] | Some ys \<Rightarrow> ys)"

abbreviation stringsVal :: "store \<Rightarrow> addr option \<Rightarrow> string list option" where
  "stringsVal \<equiv> sliceVal asStrings plainVal"

abbreviation stringsFp :: "store \<Rightarrow> addr option \<Rightarrow> addr list" where
  "stringsFp \<equiv> sliceFp asStrings plainFp"

definition metaVal :: "store \<Rightarrow> MetaMem \<Rightarrow> ObjectMeta" where
  "metaVal h m = \<lparr>Name = mm_Name m, GenerateName = mm_GenerateName m, Namespace = mm_Namespace m, UID = mm_UID m,
     ResourceVersion = mm_ResourceVersion m, CreationTimestamp = mm_CreationTimestamp m,
     DeletionTimestamp = refVal asTime plainVal h (mm_DeletionTimestamp m),
     Labels = refVal asStringMap plainVal h (mm_Labels m), Annotations = refVal asStringMap plainVal h (mm_Annotations m),
     OwnerReferences = listOf (sliceVal asOwners plainVal h (mm_OwnerReferences m)),
     Finalizers = listOf (stringsVal h (mm_Finalizers m)),
     ManagedFields = listOf (sliceVal asManaged plainVal h (mm_ManagedFields m))\<rparr>"

definition metaFp :: "store \<Rightarrow> MetaMem \<Rightarrow> addr list" where
  "metaFp h m = refFp asTime plainFp h (mm_DeletionTimestamp m) @ (refFp asStringMap plainFp h (mm_Labels m) @
     (refFp asStringMap plainFp h (mm_Annotations m) @ (sliceFp asOwners plainFp h (mm_OwnerReferences m) @
     (stringsFp h (mm_Finalizers m) @ sliceFp asManaged plainFp h (mm_ManagedFields m)))))"

definition ruleVal :: "store \<Rightarrow> RuleMem \<Rightarrow> PolicyRule" where
  "ruleVal h r = \<lparr>Verbs = listOf (stringsVal h (rm_Verbs r)), APIGroups = listOf (stringsVal h (rm_APIGroups r)),
     Resources = listOf (stringsVal h (rm_Resources r)), ResourceNames = listOf (stringsVal h (rm_ResourceNames r)),
     NonResourceURLs = listOf (stringsVal h (rm_NonResourceURLs r))\<rparr>"

definition ruleFp :: "store \<Rightarrow> RuleMem \<Rightarrow> addr list" where
  "ruleFp h r = stringsFp h (rm_Verbs r) @ (stringsFp h (rm_APIGroups r) @ (stringsFp h (rm_Resources r) @
     (stringsFp h (rm_ResourceNames r) @ stringsFp h (rm_NonResourceURLs r))))"

definition probeVal :: "store \<Rightarrow> ProbeMem \<Rightarrow> Probe" where
  "probeVal h p = \<lparr>HTTPGet = refVal asHTTPGet plainVal h (pm_HTTPGet p)\<rparr>"

definition probeFp :: "store \<Rightarrow> ProbeMem \<Rightarrow> addr list" where
  "probeFp h p = refFp asHTTPGet plainFp h (pm_HTTPGet p)"

definition listMetaVal :: "store \<Rightarrow> ListMetaMem \<Rightarrow> ListMeta" where
  "listMetaVal h m = \<lparr>listResourceVersion = lm_ResourceVersion m, listContinue = lm_Continue m,
     RemainingItemCount = refVal asInt plainVal h (lm_RemainingItemCount m)\<rparr>"

definition listMetaFp :: "store \<Rightarrow> ListMetaMem \<Rightarrow> addr list" where
  "listMetaFp h m = refFp asInt plainFp h (lm_RemainingItemCount m)"

abbreviation timeVal :: "store \<Rightarrow> addr option \<Rightarrow> time option" where
  "timeVal \<equiv> refVal asTime plainVal"

abbreviation timeFp :: "store \<Rightarrow> addr option \<Rightarrow> addr list" where
  "timeFp \<equiv> refFp asTime plainFp"

section \<open>The copies of the libraries\<close>

record Library =
  lib_meta :: "MetaMem copying"      \<comment> \<open>\<open>ObjectMeta.DeepCopyInto\<close>\<close>
  lib_rule :: "RuleMem copying"      \<comment> \<open>\<open>PolicyRule.DeepCopyInto\<close>\<close>
  lib_probe :: "ProbeMem copying"    \<comment> \<open>\<open>Probe.DeepCopy\<close>\<close>
  lib_listMeta :: "ListMetaMem copying"
  lib_time :: "addr option copying"  \<comment> \<open>\<open>(*Time).DeepCopy\<close>\<close>

text \<open>Slices of strings and of structs without references are copied by \<open>copy\<close>.\<close>

definition plainCopy :: "'a copying" where
  "plainCopy x = State_Monad.return x"

abbreviation copyStrings :: "addr option copying" where
  "copyStrings \<equiv> copySlice asStrings CStrings plainCopy"

section \<open>IAM kinds\<close>

definition GlobalRole_DeepCopyInto :: "Library \<Rightarrow> GlobalRoleMem copying" where
  "GlobalRole_DeepCopyInto L inn = do {
     m \<leftarrow> lib_meta L (gr_meta inn);
     rules \<leftarrow> copySlice asRules CRules (lib_rule L) (gr_Rules inn);
     State_Monad.return (inn\<lparr>gr_meta := m, gr_Rules := rules\<rparr>)
   }"

definition GlobalRoleBinding_DeepCopyInto :: "Library \<Rightarrow> GlobalRoleBindingMem copying" where
  "GlobalRoleBinding_DeepCopyInto L inn = do {
     m \<leftarrow> lib_meta L (gb_meta inn);
     subjects \<leftarrow> copySlice asSubjects CSubjects plainCopy (gb_Subjects inn);
     State_Monad.return (inn\<lparr>gb_meta := m, gb_Subjects := subjects\<rparr>)
   }"

definition LoginRecordSpec_DeepCopyInto :: "LoginRecordSpec copying" where
  "LoginRecordSpec_DeepCopyInto inn = State_Monad.return inn"

definition LoginRecord_DeepCopyInto :: "Library \<Rightarrow> LoginRecordMem copying" where
  "LoginRecord_DeepCopyInto L inn = do {
     m \<leftarrow> lib_meta L (lr_meta inn);
     State_Monad.return (inn\<lparr>lr_meta := m\<rparr>)
   }"

definition UserSpec_DeepCopyInto :: "UserSpecMem copying" where
  "UserSpec_DeepCopyInto inn = do {
     groups \<leftarrow> copyStrings (sm_Groups inn);
     State_Monad.return (inn\<lparr>sm_Groups := groups\<rparr>)
   }"

definition UserStatus_DeepCopyInto :: "Library \<Rightarrow> UserStatusMem copying" where
  "UserStatus_DeepCopyInto L inn = do {
     state \<leftarrow> copyRef asUserState CUserState plainCopy (tm_State inn);
     transition \<leftarrow> lib_time L (tm_LastTransitionTime inn);
     login \<leftarrow> lib_time L (tm_LastLoginTime inn);
     State_Monad.return (inn\<lparr>tm_State := state, tm_LastTransitionTime := transition, tm_LastLoginTime := login\<rparr>)
   }"

definition User_DeepCopyInto :: "Library \<Rightarrow> UserMem copying" where
  "User_DeepCopyInto L inn = do {
     m \<leftarrow> lib_meta L (um_meta inn);
     spec \<leftarrow> UserSpec_DeepCopyInto (um_Spec inn);
     status \<leftarrow> UserStatus_DeepCopyInto L (um_Status inn);
     State_Monad.return (inn\<lparr>um_meta := m, um_Spec := spec, um_Status := status\<rparr>)
   }"

text \<open>The five kinds of lists differ in the type of their items only.\<close>

definition List_DeepCopyInto ::
  "Library \<Rightarrow> (Cell \<Rightarrow> 'x list) \<Rightarrow> ('x list \<Rightarrow> Cell) \<Rightarrow> 'x copying \<Rightarrow> ListMem copying" where
  "List_DeepCopyInto L prj mk copy inn = do {
     m \<leftarrow> lib_listMeta L (ls_meta inn);
     items \<leftarrow> copySlice prj mk copy (ls_Items inn);
     State_Monad.return (inn\<lparr>ls_meta := m, ls_Items := items\<rparr>)
   }"

definition GlobalRoleList_DeepCopyInto :: "Library \<Rightarrow> ListMem copying" where
  "GlobalRoleList_DeepCopyInto L = List_DeepCopyInto L asGlobalRoles CGlobalRoles (GlobalRole_DeepCopyInto L)"

definition GlobalRoleBindingList_DeepCopyInto :: "Library \<Rightarrow> ListMem copying" where
  "GlobalRoleBindingList_DeepCopyInto L =
     List_DeepCopyInto L asGlobalRoleBindings CGlobalRoleBindings (GlobalRoleBinding_DeepCopyInto L)"

definition LoginRecordList_DeepCopyInto :: "Library \<Rightarrow> ListMem copying" where
  "LoginRecordList_DeepCopyInto L = List_DeepCopyInto L asLoginRecords CLoginRecords (LoginRecord_DeepCopyInto L)"

definition UserList_DeepCopyInto :: "Library \<Rightarrow> ListMem copying" where
  "UserList_DeepCopyInto L = List_DeepCopyInto L asUsers CUsers (User_DeepCopyInto L)"

section \<open>Health checks\<close>

definition PodStatus_DeepCopyInto :: "PodStatus copying" where
  \<comment> \<open>a \<open>Time\<close> that is no pointer is assigned\<close>
  "PodStatus_DeepCopyInto inn = State_Monad.return inn"

definition Component_DeepCopyInto :: "ComponentMem copying" where
  "Component_DeepCopyInto inn = do {
     pods \<leftarrow> copySlice asPods CPods PodStatus_DeepCopyInto (cm_PodList inn);
     State_Monad.return (inn\<lparr>cm_PodList := pods\<rparr>)
   }"

definition HealthSpec_DeepCopyInto :: "Library \<Rightarrow> HealthSpecMem copying" where
  "HealthSpec_DeepCopyInto L inn = do {
     selectors \<leftarrow> copyMap asEntries CEntries plainCopy (hs_ComponentSelectors inn);
     probes \<leftarrow> copyMap asProbes CProbes (lib_probe L) (hs_ServiceProbes inn);
     State_Monad.return (inn\<lparr>hs_ComponentSelectors := selectors, hs_ServiceProbes := probes\<rparr>)
   }"

definition Status_DeepCopyInto :: "HealthStatusMem copying" where
  "Status_DeepCopyInto inn = do {
     components \<leftarrow> copyMap asComponents CComponents Component_DeepCopyInto (ht_Components inn);
     State_Monad.return (inn\<lparr>ht_Components := components\<rparr>)
   }"

definition Health_DeepCopyInto :: "Library \<Rightarrow> HealthMem copying" where
  "Health_DeepCopyInto L inn = do {
     m \<leftarrow> lib_meta L (hm_meta inn);
     spec \<leftarrow> HealthSpec_DeepCopyInto L (hm_Spec inn);
     status \<leftarrow> Status_DeepCopyInto (hm_Status inn);
     State_Monad.return (inn\<lparr>hm_meta := m, hm_Spec := spec, hm_Status := status\<rparr>)
   }"

definition HealthList_DeepCopyInto :: "Library \<Rightarrow> ListMem copying" where
  "HealthList_DeepCopyInto L = List_DeepCopyInto L asHealths CHealths (Health_DeepCopyInto L)"

section \<open>Copies behind a pointer\<close>

text \<open>\<open>DeepCopy\<close>: nil stays nil, otherwise a new struct is filled by \<open>DeepCopyInto\<close>.\<close>

definition GlobalRole_DeepCopy :: "Library \<Rightarrow> addr option copying" where
  "GlobalRole_DeepCopy L = copyRef asGlobalRoleMem CGlobalRole (GlobalRole_DeepCopyInto L)"

definition GlobalRoleBinding_DeepCopy :: "Library \<Rightarrow> addr option copying" where
  "GlobalRoleBinding_DeepCopy L = copyRef asGlobalRoleBindingMem CGlobalRoleBinding (GlobalRoleBinding_DeepCopyInto L)"

definition LoginRecord_DeepCopy :: "Library \<Rightarrow> addr option copying" where
  "LoginRecord_DeepCopy L = copyRef asLoginRecordMem CLoginRecord (LoginRecord_DeepCopyInto L)"

definition User_DeepCopy :: "Library \<Rightarrow> addr option copying" where
  "User_DeepCopy L = copyRef asUserMem CUser (User_DeepCopyInto L)"

definition Health_DeepCopy :: "Library \<Rightarrow> addr option copying" where
  "Health_DeepCopy L = copyRef asHealthMem CHealth (Health_DeepCopyInto L)"

definition GlobalRoleList_DeepCopy :: "Library \<Rightarrow> addr option copying" where
  "GlobalRoleList_DeepCopy L = copyRef asList CList (GlobalRoleList_DeepCopyInto L)"

definition GlobalRoleBindingList_DeepCopy :: "Library \<Rightarrow> addr option copying" where
  "GlobalRoleBindingList_DeepCopy L = copyRef asList CList (GlobalRoleBindingList_DeepCopyInto L)"

definition LoginRecordList_DeepCopy :: "Library \<Rightarrow> addr option copying" where
  "LoginRecordList_DeepCopy L = copyRef asList CList (LoginRecordList_DeepCopyInto L)"

definition UserList_DeepCopy :: "Library \<Rightarrow> addr option copying" where
  "UserList_DeepCopy L = copyRef asList CList (UserList_DeepCopyInto L)"

definition HealthList_DeepCopy :: "Library \<Rightarrow> addr option copying" where
  "HealthList_DeepCopy L = copyRef asList CList (HealthList_DeepCopyInto L)"

definition UserSpec_DeepCopy :: "addr option copying" where
  "UserSpec_DeepCopy = copyRef asUserSpec CUserSpec UserSpec_DeepCopyInto"

definition UserStatus_DeepCopy :: "Library \<Rightarrow> addr option copying" where
  "UserStatus_DeepCopy L = copyRef asUserStatus CUserStatus (UserStatus_DeepCopyInto L)"

definition LoginRecordSpec_DeepCopy :: "addr option copying" where
  "LoginRecordSpec_DeepCopy = copyRef asLoginRecordSpec CLoginRecordSpec LoginRecordSpec_DeepCopyInto"

definition HealthSpec_DeepCopy :: "Library \<Rightarrow> addr option copying" where
  "HealthSpec_DeepCopy L = copyRef asHealthSpec CHealthSpec (HealthSpec_DeepCopyInto L)"

definition Status_DeepCopy :: "addr option copying" where
  "Status_DeepCopy = copyRef asHealthStatus CHealthStatus Status_DeepCopyInto"

definition Component_DeepCopy :: "addr option copying" where
  "Component_DeepCopy = copyRef asComponent CComponent Component_DeepCopyInto"

definition PodStatus_DeepCopy :: "addr option copying" where
  "PodStatus_DeepCopy = copyRef asPodStatus CPodStatus PodStatus_DeepCopyInto"

section \<open>\<open>runtime.Object\<close>\<close>

text \<open>An interface value: the type with the pointer, which may be nil.\<close>

datatype Object =
    PGlobalRole "addr option"
  | PGlobalRoleBinding "addr option"
  | PLoginRecord "addr option"
  | PUser "addr option"
  | PHealth "addr option"
  | PGlobalRoleList "addr option"
  | PGlobalRoleBindingList "addr option"
  | PLoginRecordList "addr option"
  | PUserList "addr option"
  | PHealthList "addr option"

text \<open>\<open>if c := in.DeepCopy(); c != nil { return c }; return nil\<close>\<close>

definition asObject :: "(addr option \<Rightarrow> Object) \<Rightarrow> (Cell, addr option) mem \<Rightarrow> (Cell, Object option) mem" where
  "asObject mk deepCopy = do {
     c \<leftarrow> deepCopy;
     State_Monad.return (case c of None \<Rightarrow> None | Some a \<Rightarrow> Some (mk (Some a)))
   }"

definition GlobalRole_DeepCopyObject :: "Library \<Rightarrow> addr option \<Rightarrow> (Cell, Object option) mem" where
  "GlobalRole_DeepCopyObject L p = asObject PGlobalRole (GlobalRole_DeepCopy L p)"

definition GlobalRoleBinding_DeepCopyObject :: "Library \<Rightarrow> addr option \<Rightarrow> (Cell, Object option) mem" where
  "GlobalRoleBinding_DeepCopyObject L p = asObject PGlobalRoleBinding (GlobalRoleBinding_DeepCopy L p)"

definition LoginRecord_DeepCopyObject :: "Library \<Rightarrow> addr option \<Rightarrow> (Cell, Object option) mem" where
  "LoginRecord_DeepCopyObject L p = asObject PLoginRecord (LoginRecord_DeepCopy L p)"

definition User_DeepCopyObject :: "Library \<Rightarrow> addr option \<Rightarrow> (Cell, Object option) mem" where
  "User_DeepCopyObject L p = asObject PUser (User_DeepCopy L p)"

definition Health_DeepCopyObject :: "Library \<Rightarrow> addr option \<Rightarrow> (Cell, Object option) mem" where
  "Health_DeepCopyObject L p = asObject PHealth (Health_DeepCopy L p)"

definition GlobalRoleList_DeepCopyObject :: "Library \<Rightarrow> addr option \<Rightarrow> (Cell, Object option) mem" where
  "GlobalRoleList_DeepCopyObject L p = asObject PGlobalRoleList (GlobalRoleList_DeepCopy L p)"

definition GlobalRoleBindingList_DeepCopyObject :: "Library \<Rightarrow> addr option \<Rightarrow> (Cell, Object option) mem" where
  "GlobalRoleBindingList_DeepCopyObject L p = asObject PGlobalRoleBindingList (GlobalRoleBindingList_DeepCopy L p)"

definition LoginRecordList_DeepCopyObject :: "Library \<Rightarrow> addr option \<Rightarrow> (Cell, Object option) mem" where
  "LoginRecordList_DeepCopyObject L p = asObject PLoginRecordList (LoginRecordList_DeepCopy L p)"

definition UserList_DeepCopyObject :: "Library \<Rightarrow> addr option \<Rightarrow> (Cell, Object option) mem" where
  "UserList_DeepCopyObject L p = asObject PUserList (UserList_DeepCopy L p)"

definition HealthList_DeepCopyObject :: "Library \<Rightarrow> addr option \<Rightarrow> (Cell, Object option) mem" where
  "HealthList_DeepCopyObject L p = asObject PHealthList (HealthList_DeepCopy L p)"

text \<open>The call through the interface.\<close>

fun DeepCopyObject :: "Library \<Rightarrow> Object \<Rightarrow> (Cell, Object option) mem" where
  "DeepCopyObject L (PGlobalRole p) = GlobalRole_DeepCopyObject L p"
| "DeepCopyObject L (PGlobalRoleBinding p) = GlobalRoleBinding_DeepCopyObject L p"
| "DeepCopyObject L (PLoginRecord p) = LoginRecord_DeepCopyObject L p"
| "DeepCopyObject L (PUser p) = User_DeepCopyObject L p"
| "DeepCopyObject L (PHealth p) = Health_DeepCopyObject L p"
| "DeepCopyObject L (PGlobalRoleList p) = GlobalRoleList_DeepCopyObject L p"
| "DeepCopyObject L (PGlobalRoleBindingList p) = GlobalRoleBindingList_DeepCopyObject L p"
| "DeepCopyObject L (PLoginRecordList p) = LoginRecordList_DeepCopyObject L p"
| "DeepCopyObject L (PUserList p) = UserList_DeepCopyObject L p"
| "DeepCopyObject L (PHealthList p) = HealthList_DeepCopyObject L p"

lemmas object_defs = GlobalRole_DeepCopyObject_def GlobalRoleBinding_DeepCopyObject_def LoginRecord_DeepCopyObject_def
  User_DeepCopyObject_def Health_DeepCopyObject_def GlobalRoleList_DeepCopyObject_def
  GlobalRoleBindingList_DeepCopyObject_def LoginRecordList_DeepCopyObject_def UserList_DeepCopyObject_def
  HealthList_DeepCopyObject_def

section \<open>The values and the memory of the kinds\<close>

definition globalRoleVal :: "store \<Rightarrow> GlobalRoleMem \<Rightarrow> RoleObj" where
  "globalRoleVal h r = \<lparr>role_meta = metaVal h (gr_meta r), Rules = listOf (sliceVal asRules ruleVal h (gr_Rules r))\<rparr>"

definition globalRoleFp :: "store \<Rightarrow> GlobalRoleMem \<Rightarrow> addr list" where
  "globalRoleFp h r = metaFp h (gr_meta r) @ sliceFp asRules ruleFp h (gr_Rules r)"

definition globalRoleBindingVal :: "store \<Rightarrow> GlobalRoleBindingMem \<Rightarrow> BindingObj" where
  "globalRoleBindingVal h b = \<lparr>binding_meta = metaVal h (gb_meta b),
     Subjects = listOf (sliceVal asSubjects plainVal h (gb_Subjects b)), roleRef = gb_RoleRef b\<rparr>"

definition globalRoleBindingFp :: "store \<Rightarrow> GlobalRoleBindingMem \<Rightarrow> addr list" where
  "globalRoleBindingFp h b = metaFp h (gb_meta b) @ sliceFp asSubjects plainFp h (gb_Subjects b)"

definition loginRecordVal :: "store \<Rightarrow> LoginRecordMem \<Rightarrow> LoginRecord" where
  "loginRecordVal h r = \<lparr>record_meta = metaVal h (lr_meta r), record_spec = lr_Spec r\<rparr>"

definition loginRecordFp :: "store \<Rightarrow> LoginRecordMem \<Rightarrow> addr list" where
  "loginRecordFp h r = metaFp h (lr_meta r)"

definition userSpecVal :: "store \<Rightarrow> UserSpecMem \<Rightarrow> UserSpec" where
  "userSpecVal h s = \<lparr>Email = sm_Email s, Lang = sm_Lang s, Description = sm_Description s,
     DisplayName = sm_DisplayName s, spec_Groups = listOf (stringsVal h (sm_Groups s)),
     EncryptedPassword = sm_EncryptedPassword s\<rparr>"

definition userSpecFp :: "store \<Rightarrow> UserSpecMem \<Rightarrow> addr list" where
  "userSpecFp h s = stringsFp h (sm_Groups s)"

definition userStatusVal :: "store \<Rightarrow> UserStatusMem \<Rightarrow> UserStatus" where
  "userStatusVal h s = \<lparr>UserStatus.State = refVal asUserState plainVal h (tm_State s), status_Reason = tm_Reason s,
     LastTransitionTime = timeVal h (tm_LastTransitionTime s), LastLoginTime = timeVal h (tm_LastLoginTime s)\<rparr>"

definition userStatusFp :: "store \<Rightarrow> UserStatusMem \<Rightarrow> addr list" where
  "userStatusFp h s = refFp asUserState plainFp h (tm_State s) @
     (timeFp h (tm_LastTransitionTime s) @ timeFp h (tm_LastLoginTime s))"

definition userVal :: "store \<Rightarrow> UserMem \<Rightarrow> User" where
  "userVal h u = \<lparr>user_meta = metaVal h (um_meta u), user_spec = userSpecVal h (um_Spec u),
     user_status = userStatusVal h (um_Status u)\<rparr>"

definition userFp :: "store \<Rightarrow> UserMem \<Rightarrow> addr list" where
  "userFp h u = metaFp h (um_meta u) @ (userSpecFp h (um_Spec u) @ userStatusFp h (um_Status u))"

definition componentVal :: "store \<Rightarrow> ComponentMem \<Rightarrow> Component" where
  "componentVal h c = \<lparr>comp_Name = cm_Name c, PodList = listOf (sliceVal asPods plainVal h (cm_PodList c)),
     comp_Message = cm_Message c\<rparr>"

definition componentFp :: "store \<Rightarrow> ComponentMem \<Rightarrow> addr list" where
  "componentFp h c = sliceFp asPods plainFp h (cm_PodList c)"

definition healthSpecVal :: "store \<Rightarrow> HealthSpecMem \<Rightarrow> HealthSpec" where
  "healthSpecVal h s = \<lparr>Interval = hs_Interval s, ComponentSelectors = mapVal asEntries plainVal h (hs_ComponentSelectors s),
     ServiceProbes = mapVal asProbes probeVal h (hs_ServiceProbes s)\<rparr>"

definition healthSpecFp :: "store \<Rightarrow> HealthSpecMem \<Rightarrow> addr list" where
  "healthSpecFp h s = mapFp asEntries plainFp h (hs_ComponentSelectors s) @ mapFp asProbes probeFp h (hs_ServiceProbes s)"

definition healthStatusVal :: "store \<Rightarrow> HealthStatusMem \<Rightarrow> HealthStatus" where
  "healthStatusVal h s = \<lparr>Components = map_option map_of (mapVal asComponents componentVal h (ht_Components s))\<rparr>"

definition healthStatusFp :: "store \<Rightarrow> HealthStatusMem \<Rightarrow> addr list" where
  "healthStatusFp h s = mapFp asComponents componentFp h (ht_Components s)"

definition healthVal :: "store \<Rightarrow> HealthMem \<Rightarrow> Health" where
  "healthVal h x = \<lparr>health_meta = metaVal h (hm_meta x), health_spec = healthSpecVal h (hm_Spec x),
     health_status = healthStatusVal h (hm_Status x)\<rparr>"

definition healthFp :: "store \<Rightarrow> HealthMem \<Rightarrow> addr list" where
  "healthFp h x = metaFp h (hm_meta x) @ (healthSpecFp h (hm_Spec x) @ healthStatusFp h (hm_Status x))"

definition listVal :: "(Cell \<Rightarrow> 'x list) \<Rightarrow> (store \<Rightarrow> 'x \<Rightarrow> 'v) \<Rightarrow> store \<Rightarrow> ListMem \<Rightarrow> ListMeta \<times> 'v list option" where
  "listVal prj val h l = (listMetaVal h (ls_meta l), sliceVal prj val h (ls_Items l))"

definition listFp :: "(Cell \<Rightarrow> 'x list) \<Rightarrow> (store \<Rightarrow> 'x \<Rightarrow> addr list) \<Rightarrow> store \<Rightarrow> ListMem \<Rightarrow> addr list" where
  "listFp prj fp h l = listMetaFp h (ls_meta l) @ sliceFp prj fp h (ls_Items l)"

section \<open>Every generated copy is a deep copy\<close>

lemma plain_copies: "deep_copier plainVal plainFp plainCopy"
  unfolding plainVal_def [abs_def] plainFp_def [abs_def] plainCopy_def [abs_def] by (rule deep_copier_plain)

lemma strings_copies: "deep_copier stringsVal stringsFp copyStrings"
  by (rule deep_copier_slice [OF plain_copies]) simp

interpretation userSpec: deep_copier userSpecVal userSpecFp UserSpec_DeepCopyInto
  unfolding userSpecVal_def [abs_def] userSpecFp_def [abs_def] UserSpec_DeepCopyInto_def [abs_def]
  by (rule deep_copier_struct [OF strings_copies, where get = sm_Groups and put = "\<lambda>s g. s\<lparr>sm_Groups := g\<rparr>"]) simp_all

interpretation podStatus: deep_copier plainVal plainFp PodStatus_DeepCopyInto
  using plain_copies by (simp add: plainCopy_def [abs_def] PodStatus_DeepCopyInto_def [abs_def])

interpretation loginRecordSpec: deep_copier plainVal plainFp LoginRecordSpec_DeepCopyInto
  using plain_copies by (simp add: plainCopy_def [abs_def] LoginRecordSpec_DeepCopyInto_def [abs_def])

interpretation component: deep_copier componentVal componentFp Component_DeepCopyInto
  unfolding componentVal_def [abs_def] componentFp_def [abs_def] Component_DeepCopyInto_def [abs_def]
  by (rule deep_copier_struct [OF deep_copier_slice [OF podStatus.deep_copier_axioms], where get = cm_PodList
      and put = "\<lambda>c p. c\<lparr>cm_PodList := p\<rparr>"]) simp_all

interpretation healthStatus: deep_copier healthStatusVal healthStatusFp Status_DeepCopyInto
  unfolding healthStatusVal_def [abs_def] healthStatusFp_def [abs_def] Status_DeepCopyInto_def [abs_def]
  by (rule deep_copier_struct [OF deep_copier_map [OF component.deep_copier_axioms], where get = ht_Components
      and put = "\<lambda>s c. s\<lparr>ht_Components := c\<rparr>"]) simp_all

text \<open>
  The other kinds hold metadata, rules, probes or times, whose copies belong to the Kubernetes libraries.
  What their documentation promises is that each is a deep copy.
\<close>

locale copying_library =
  fixes L :: Library
  assumes metas: "deep_copier metaVal metaFp (lib_meta L)"
    and rules: "deep_copier ruleVal ruleFp (lib_rule L)"
    and probes: "deep_copier probeVal probeFp (lib_probe L)"
    and listMetas: "deep_copier listMetaVal listMetaFp (lib_listMeta L)"
    and times: "deep_copier timeVal timeFp (lib_time L)"
begin

lemma globalRole_copies: "deep_copier globalRoleVal globalRoleFp (GlobalRole_DeepCopyInto L)"
  unfolding globalRoleVal_def [abs_def] globalRoleFp_def [abs_def] GlobalRole_DeepCopyInto_def [abs_def]
  by (rule deep_copier_struct2 [OF metas deep_copier_slice [OF rules], where get\<^sub>1 = gr_meta and get\<^sub>2 = gr_Rules
      and put = "\<lambda>r m xs. r\<lparr>gr_meta := m, gr_Rules := xs\<rparr>"]) simp_all

lemma globalRoleBinding_copies: "deep_copier globalRoleBindingVal globalRoleBindingFp (GlobalRoleBinding_DeepCopyInto L)"
  unfolding globalRoleBindingVal_def [abs_def] globalRoleBindingFp_def [abs_def] GlobalRoleBinding_DeepCopyInto_def [abs_def]
  by (rule deep_copier_struct2 [OF metas deep_copier_slice [OF plain_copies], where get\<^sub>1 = gb_meta and get\<^sub>2 = gb_Subjects
      and put = "\<lambda>b m xs. b\<lparr>gb_meta := m, gb_Subjects := xs\<rparr>"]) simp_all

lemma loginRecord_copies: "deep_copier loginRecordVal loginRecordFp (LoginRecord_DeepCopyInto L)"
  unfolding loginRecordVal_def [abs_def] loginRecordFp_def [abs_def] LoginRecord_DeepCopyInto_def [abs_def]
  by (rule deep_copier_struct [OF metas, where get = lr_meta and put = "\<lambda>r m. r\<lparr>lr_meta := m\<rparr>"]) simp_all

lemma userStatus_copies: "deep_copier userStatusVal userStatusFp (UserStatus_DeepCopyInto L)"
  unfolding userStatusVal_def [abs_def] userStatusFp_def [abs_def] UserStatus_DeepCopyInto_def [abs_def]
  by (rule deep_copier_struct3 [OF deep_copier_ref [OF plain_copies] times times, where get\<^sub>1 = tm_State
      and get\<^sub>2 = tm_LastTransitionTime and get\<^sub>3 = tm_LastLoginTime
      and put = "\<lambda>s a b c. s\<lparr>tm_State := a, tm_LastTransitionTime := b, tm_LastLoginTime := c\<rparr>"]) simp_all

lemma user_copies: "deep_copier userVal userFp (User_DeepCopyInto L)"
  unfolding userVal_def [abs_def] userFp_def [abs_def] User_DeepCopyInto_def [abs_def]
  by (rule deep_copier_struct3 [OF metas userSpec.deep_copier_axioms userStatus_copies, where get\<^sub>1 = um_meta
      and get\<^sub>2 = um_Spec and get\<^sub>3 = um_Status
      and put = "\<lambda>u a b c. u\<lparr>um_meta := a, um_Spec := b, um_Status := c\<rparr>"]) simp_all

lemma healthSpec_copies: "deep_copier healthSpecVal healthSpecFp (HealthSpec_DeepCopyInto L)"
  unfolding healthSpecVal_def [abs_def] healthSpecFp_def [abs_def] HealthSpec_DeepCopyInto_def [abs_def]
  by (rule deep_copier_struct2 [OF deep_copier_map [OF plain_copies] deep_copier_map [OF probes],
      where get\<^sub>1 = hs_ComponentSelectors and get\<^sub>2 = hs_ServiceProbes
      and put = "\<lambda>s a b. s\<lparr>hs_ComponentSelectors := a, hs_ServiceProbes := b\<rparr>"]) simp_all

lemma health_copies: "deep_copier healthVal healthFp (Health_DeepCopyInto L)"
  unfolding healthVal_def [abs_def] healthFp_def [abs_def] Health_DeepCopyInto_def [abs_def]
  by (rule deep_copier_struct3 [OF metas healthSpec_copies healthStatus.deep_copier_axioms, where get\<^sub>1 = hm_meta
      and get\<^sub>2 = hm_Spec and get\<^sub>3 = hm_Status
      and put = "\<lambda>x a b c. x\<lparr>hm_meta := a, hm_Spec := b, hm_Status := c\<rparr>"]) simp_all

lemma list_copies:
  assumes "deep_copier val fp copy" and "\<And>xs. prj (mk xs) = xs"
  shows "deep_copier (listVal prj val) (listFp prj fp) (List_DeepCopyInto L prj mk copy)"
  unfolding listVal_def [abs_def] listFp_def [abs_def] List_DeepCopyInto_def [abs_def]
  by (rule deep_copier_struct2 [OF listMetas deep_copier_slice [OF assms], where get\<^sub>1 = ls_meta and get\<^sub>2 = ls_Items
      and put = "\<lambda>l a b. l\<lparr>ls_meta := a, ls_Items := b\<rparr>"]) simp_all

lemmas kinds_copy = globalRole_copies globalRoleBinding_copies loginRecord_copies user_copies health_copies

end

section \<open>Objects behind the interface\<close>

datatype ObjectVal =
    VGlobalRole "RoleObj option"
  | VGlobalRoleBinding "BindingObj option"
  | VLoginRecord "LoginRecord option"
  | VUser "User option"
  | VHealth "Health option"
  | VGlobalRoleList "(ListMeta \<times> RoleObj list option) option"
  | VGlobalRoleBindingList "(ListMeta \<times> BindingObj list option) option"
  | VLoginRecordList "(ListMeta \<times> LoginRecord list option) option"
  | VUserList "(ListMeta \<times> User list option) option"
  | VHealthList "(ListMeta \<times> Health list option) option"

fun objectVal :: "store \<Rightarrow> Object \<Rightarrow> ObjectVal" where
  "objectVal h (PGlobalRole p) = VGlobalRole (refVal asGlobalRoleMem globalRoleVal h p)"
| "objectVal h (PGlobalRoleBinding p) = VGlobalRoleBinding (refVal asGlobalRoleBindingMem globalRoleBindingVal h p)"
| "objectVal h (PLoginRecord p) = VLoginRecord (refVal asLoginRecordMem loginRecordVal h p)"
| "objectVal h (PUser p) = VUser (refVal asUserMem userVal h p)"
| "objectVal h (PHealth p) = VHealth (refVal asHealthMem healthVal h p)"
| "objectVal h (PGlobalRoleList p) = VGlobalRoleList (refVal asList (listVal asGlobalRoles globalRoleVal) h p)"
| "objectVal h (PGlobalRoleBindingList p) =
     VGlobalRoleBindingList (refVal asList (listVal asGlobalRoleBindings globalRoleBindingVal) h p)"
| "objectVal h (PLoginRecordList p) = VLoginRecordList (refVal asList (listVal asLoginRecords loginRecordVal) h p)"
| "objectVal h (PUserList p) = VUserList (refVal asList (listVal asUsers userVal) h p)"
| "objectVal h (PHealthList p) = VHealthList (refVal asList (listVal asHealths healthVal) h p)"

fun objectFp :: "store \<Rightarrow> Object \<Rightarrow> addr list" where
  "objectFp h (PGlobalRole p) = refFp asGlobalRoleMem globalRoleFp h p"
| "objectFp h (PGlobalRoleBinding p) = refFp asGlobalRoleBindingMem globalRoleBindingFp h p"
| "objectFp h (PLoginRecord p) = refFp asLoginRecordMem loginRecordFp h p"
| "objectFp h (PUser p) = refFp asUserMem userFp h p"
| "objectFp h (PHealth p) = refFp asHealthMem healthFp h p"
| "objectFp h (PGlobalRoleList p) = refFp asList (listFp asGlobalRoles globalRoleFp) h p"
| "objectFp h (PGlobalRoleBindingList p) = refFp asList (listFp asGlobalRoleBindings globalRoleBindingFp) h p"
| "objectFp h (PLoginRecordList p) = refFp asList (listFp asLoginRecords loginRecordFp) h p"
| "objectFp h (PUserList p) = refFp asList (listFp asUsers userFp) h p"
| "objectFp h (PHealthList p) = refFp asList (listFp asHealths healthFp) h p"

fun isNil :: "Object \<Rightarrow> bool" where
  "isNil (PGlobalRole p) = (p = None)"
| "isNil (PGlobalRoleBinding p) = (p = None)"
| "isNil (PLoginRecord p) = (p = None)"
| "isNil (PUser p) = (p = None)"
| "isNil (PHealth p) = (p = None)"
| "isNil (PGlobalRoleList p) = (p = None)"
| "isNil (PGlobalRoleBindingList p) = (p = None)"
| "isNil (PLoginRecordList p) = (p = None)"
| "isNil (PUserList p) = (p = None)"
| "isNil (PHealthList p) = (p = None)"

lemma object_copied:
  assumes D: "deep_copier val fp copy" "\<And>x. prj (mk x) = x"
    and o: "\<And>h q. objectVal h (obj q) = mkVal (refVal prj val h q)" "\<And>h q. objectFp h (obj q) = refFp prj fp h q"
      "\<And>q. isNil (obj q) \<longleftrightarrow> q = None"
    and b: "inHeap (set (objectFp h (obj p))) h" and r: "run_state (asObject obj (copyRef prj mk copy p)) h = (r, h')"
  shows "isNil (obj p) \<and> r = None \<and> h' = h \<or>
    \<not> isNil (obj p) \<and> (\<exists>y. r = Some y \<and> objectVal h' y = objectVal h (obj p) \<and> set (objectFp h' (obj p)) \<inter> set (objectFp h' y) = {} \<and>
      (\<forall>h''. writtenWithin (set (objectFp h' y)) h' h'' \<longrightarrow> objectVal h'' (obj p) = objectVal h (obj p)) \<and>
      (\<forall>h''. writtenWithin (set (objectFp h' (obj p))) h' h'' \<longrightarrow> objectVal h'' y = objectVal h (obj p)))"
proof -
  have C: "deep_copier (refVal prj val) (refFp prj fp) (copyRef prj mk copy)" by (rule deep_copier_ref [OF D])
  obtain q where q: "run_state (copyRef prj mk copy p) h = (q, h')"
    and rq: "r = (case q of None \<Rightarrow> None | Some a \<Rightarrow> Some (obj (Some a)))"
    using r by (auto simp: asObject_def split: prod.splits)
  have b': "inHeap (set (refFp prj fp h p)) h" using b by (simp add: o)
  show ?thesis
  proof (cases p)
    case None
    then show ?thesis using q rq by (simp add: copyRef_def o)
  next
    case (Some a)
    then have "r = Some (obj q)" using q rq by (auto simp: copyRef_def split: prod.splits)
    then show ?thesis
      using deep_copier.copy_value [OF C b' q] deep_copier.copy_apart [OF C b' q]
        deep_copier.copy_independent [OF C b' q] deep_copier.original_independent [OF C b' q] Some by (auto simp: o)
  qed
qed

lemmas copies_defs = object_defs GlobalRole_DeepCopy_def GlobalRoleBinding_DeepCopy_def LoginRecord_DeepCopy_def
  User_DeepCopy_def Health_DeepCopy_def GlobalRoleList_DeepCopy_def GlobalRoleBindingList_DeepCopy_def
  LoginRecordList_DeepCopy_def UserList_DeepCopy_def HealthList_DeepCopy_def GlobalRoleList_DeepCopyInto_def
  GlobalRoleBindingList_DeepCopyInto_def LoginRecordList_DeepCopyInto_def UserList_DeepCopyInto_def
  HealthList_DeepCopyInto_def

text \<open>
  C34. Every kind is copied deeply: the copy of a nil pointer is nil; any other copy denotes the same value and
  shares no memory with the original, so that whatever is written through one of them, the other keeps
  its value.
\<close>

theorem DeepCopyObject_independent:
  assumes L: "copying_library L" and b: "inHeap (set (objectFp h x)) h" and r: "run_state (DeepCopyObject L x) h = (r, h')"
  shows "isNil x \<and> r = None \<and> h' = h \<or>
    \<not> isNil x \<and> (\<exists>y. r = Some y \<and> objectVal h' y = objectVal h x \<and> set (objectFp h' x) \<inter> set (objectFp h' y) = {} \<and>
      (\<forall>h''. writtenWithin (set (objectFp h' y)) h' h'' \<longrightarrow> objectVal h'' x = objectVal h x) \<and>
      (\<forall>h''. writtenWithin (set (objectFp h' x)) h' h'' \<longrightarrow> objectVal h'' y = objectVal h x))"
proof (cases x)
  case (PGlobalRole p)
  show ?thesis unfolding PGlobalRole
    by (rule object_copied [where obj = PGlobalRole and mkVal = VGlobalRole and prj = asGlobalRoleMem and mk = CGlobalRole,
        OF copying_library.globalRole_copies [OF L]])
      (use b r in \<open>simp_all add: PGlobalRole copies_defs\<close>)
next
  case (PGlobalRoleBinding p)
  show ?thesis unfolding PGlobalRoleBinding
    by (rule object_copied [where obj = PGlobalRoleBinding and mkVal = VGlobalRoleBinding and prj = asGlobalRoleBindingMem and mk = CGlobalRoleBinding,
        OF copying_library.globalRoleBinding_copies [OF L]])
      (use b r in \<open>simp_all add: PGlobalRoleBinding copies_defs\<close>)
next
  case (PLoginRecord p)
  show ?thesis unfolding PLoginRecord
    by (rule object_copied [where obj = PLoginRecord and mkVal = VLoginRecord and prj = asLoginRecordMem and mk = CLoginRecord,
        OF copying_library.loginRecord_copies [OF L]])
      (use b r in \<open>simp_all add: PLoginRecord copies_defs\<close>)
next
  case (PUser p)
  show ?thesis unfolding PUser
    by (rule object_copied [where obj = PUser and mkVal = VUser and prj = asUserMem and mk = CUser,
        OF copying_library.user_copies [OF L]])
      (use b r in \<open>simp_all add: PUser copies_defs\<close>)
next
  case (PHealth p)
  show ?thesis unfolding PHealth
    by (rule object_copied [where obj = PHealth and mkVal = VHealth and prj = asHealthMem and mk = CHealth,
        OF copying_library.health_copies [OF L]])
      (use b r in \<open>simp_all add: PHealth copies_defs\<close>)
next
  case (PGlobalRoleList p)
  show ?thesis unfolding PGlobalRoleList
    by (rule object_copied [where obj = PGlobalRoleList and mkVal = VGlobalRoleList and prj = asList and mk = CList,
        OF copying_library.list_copies [OF L copying_library.globalRole_copies [OF L], where prj = asGlobalRoles and mk = CGlobalRoles]])
      (use b r in \<open>simp_all add: PGlobalRoleList copies_defs\<close>)
next
  case (PGlobalRoleBindingList p)
  show ?thesis unfolding PGlobalRoleBindingList
    by (rule object_copied [where obj = PGlobalRoleBindingList and mkVal = VGlobalRoleBindingList and prj = asList and mk = CList,
        OF copying_library.list_copies [OF L copying_library.globalRoleBinding_copies [OF L], where prj = asGlobalRoleBindings and mk = CGlobalRoleBindings]])
      (use b r in \<open>simp_all add: PGlobalRoleBindingList copies_defs\<close>)
next
  case (PLoginRecordList p)
  show ?thesis unfolding PLoginRecordList
    by (rule object_copied [where obj = PLoginRecordList and mkVal = VLoginRecordList and prj = asList and mk = CList,
        OF copying_library.list_copies [OF L copying_library.loginRecord_copies [OF L], where prj = asLoginRecords and mk = CLoginRecords]])
      (use b r in \<open>simp_all add: PLoginRecordList copies_defs\<close>)
next
  case (PUserList p)
  show ?thesis unfolding PUserList
    by (rule object_copied [where obj = PUserList and mkVal = VUserList and prj = asList and mk = CList,
        OF copying_library.list_copies [OF L copying_library.user_copies [OF L], where prj = asUsers and mk = CUsers]])
      (use b r in \<open>simp_all add: PUserList copies_defs\<close>)
next
  case (PHealthList p)
  show ?thesis unfolding PHealthList
    by (rule object_copied [where obj = PHealthList and mkVal = VHealthList and prj = asList and mk = CList,
        OF copying_library.list_copies [OF L copying_library.health_copies [OF L], where prj = asHealths and mk = CHealths]])
      (use b r in \<open>simp_all add: PHealthList copies_defs\<close>)
qed

section \<open>The copies of single structs\<close>

interpretation userSpecRef: deep_copier "refVal asUserSpec userSpecVal" "refFp asUserSpec userSpecFp" UserSpec_DeepCopy
  unfolding UserSpec_DeepCopy_def by (rule deep_copier_ref [OF userSpec.deep_copier_axioms]) simp

interpretation loginRecordSpecRef: deep_copier "refVal asLoginRecordSpec plainVal" "refFp asLoginRecordSpec plainFp"
  LoginRecordSpec_DeepCopy
  unfolding LoginRecordSpec_DeepCopy_def by (rule deep_copier_ref [OF loginRecordSpec.deep_copier_axioms]) simp

interpretation healthStatusRef: deep_copier "refVal asHealthStatus healthStatusVal" "refFp asHealthStatus healthStatusFp"
  Status_DeepCopy
  unfolding Status_DeepCopy_def by (rule deep_copier_ref [OF healthStatus.deep_copier_axioms]) simp

interpretation componentRef: deep_copier "refVal asComponent componentVal" "refFp asComponent componentFp" Component_DeepCopy
  unfolding Component_DeepCopy_def by (rule deep_copier_ref [OF component.deep_copier_axioms]) simp

interpretation podStatusRef: deep_copier "refVal asPodStatus plainVal" "refFp asPodStatus plainFp" PodStatus_DeepCopy
  unfolding PodStatus_DeepCopy_def by (rule deep_copier_ref [OF podStatus.deep_copier_axioms]) simp

context copying_library
begin

lemma userStatusRef_copies:
  "deep_copier (refVal asUserStatus userStatusVal) (refFp asUserStatus userStatusFp) (UserStatus_DeepCopy L)"
  unfolding UserStatus_DeepCopy_def by (rule deep_copier_ref [OF userStatus_copies]) simp

lemma healthSpecRef_copies:
  "deep_copier (refVal asHealthSpec healthSpecVal) (refFp asHealthSpec healthSpecFp) (HealthSpec_DeepCopy L)"
  unfolding HealthSpec_DeepCopy_def by (rule deep_copier_ref [OF healthSpec_copies]) simp

lemma userRef_copies: "deep_copier (refVal asUserMem userVal) (refFp asUserMem userFp) (User_DeepCopy L)"
  unfolding User_DeepCopy_def by (rule deep_copier_ref [OF user_copies]) simp

end

section \<open>A library\<close>

text \<open>An executable library with the documented behaviour.\<close>

definition goMeta :: "MetaMem copying" where
  "goMeta m = do {
     t \<leftarrow> copyRef asTime CTime plainCopy (mm_DeletionTimestamp m);
     l \<leftarrow> copyRef asStringMap CStringMap plainCopy (mm_Labels m);
     a \<leftarrow> copyRef asStringMap CStringMap plainCopy (mm_Annotations m);
     ow \<leftarrow> copySlice asOwners COwners plainCopy (mm_OwnerReferences m);
     f \<leftarrow> copyStrings (mm_Finalizers m);
     g \<leftarrow> copySlice asManaged CManaged plainCopy (mm_ManagedFields m);
     State_Monad.return (m\<lparr>mm_DeletionTimestamp := t, mm_Labels := l, mm_Annotations := a,
       mm_OwnerReferences := ow, mm_Finalizers := f, mm_ManagedFields := g\<rparr>)
   }"

definition goRule :: "RuleMem copying" where
  "goRule r = do {
     v \<leftarrow> copyStrings (rm_Verbs r);
     g \<leftarrow> copyStrings (rm_APIGroups r);
     s \<leftarrow> copyStrings (rm_Resources r);
     n \<leftarrow> copyStrings (rm_ResourceNames r);
     u \<leftarrow> copyStrings (rm_NonResourceURLs r);
     State_Monad.return (r\<lparr>rm_Verbs := v, rm_APIGroups := g, rm_Resources := s, rm_ResourceNames := n,
       rm_NonResourceURLs := u\<rparr>)
   }"

definition goProbe :: "ProbeMem copying" where
  "goProbe p = do {
     a \<leftarrow> copyRef asHTTPGet CHTTPGet plainCopy (pm_HTTPGet p);
     State_Monad.return (p\<lparr>pm_HTTPGet := a\<rparr>)
   }"

definition goListMeta :: "ListMetaMem copying" where
  "goListMeta m = do {
     r \<leftarrow> copyRef asInt CInt plainCopy (lm_RemainingItemCount m);
     State_Monad.return (m\<lparr>lm_RemainingItemCount := r\<rparr>)
   }"

definition goLibrary :: Library where
  "goLibrary = \<lparr>lib_meta = goMeta, lib_rule = goRule, lib_probe = goProbe, lib_listMeta = goListMeta,
     lib_time = copyRef asTime CTime plainCopy\<rparr>"

lemma goMeta_copies: "deep_copier metaVal metaFp goMeta"
proof -
  note parts = deep_copier_pair [OF deep_copier_ref [OF plain_copies, where prj = asTime and mk = CTime]
    deep_copier_pair [OF deep_copier_ref [OF plain_copies, where prj = asStringMap and mk = CStringMap]
    deep_copier_pair [OF deep_copier_ref [OF plain_copies, where prj = asStringMap and mk = CStringMap]
    deep_copier_pair [OF deep_copier_slice [OF plain_copies, where prj = asOwners and mk = COwners]
    deep_copier_pair [OF strings_copies deep_copier_slice [OF plain_copies, where prj = asManaged and mk = CManaged]]]]]]
  show ?thesis
    using deep_copier_struct [OF parts, where
      get = "\<lambda>m. (mm_DeletionTimestamp m, mm_Labels m, mm_Annotations m, mm_OwnerReferences m, mm_Finalizers m, mm_ManagedFields m)"
      and put = "\<lambda>m (t, l, a, ow, f, g). m\<lparr>mm_DeletionTimestamp := t, mm_Labels := l, mm_Annotations := a,
        mm_OwnerReferences := ow, mm_Finalizers := f, mm_ManagedFields := g\<rparr>"
      and make = "\<lambda>m (t, l, a, ow, f, g). \<lparr>Name = mm_Name m, GenerateName = mm_GenerateName m, Namespace = mm_Namespace m,
        UID = mm_UID m, ResourceVersion = mm_ResourceVersion m, CreationTimestamp = mm_CreationTimestamp m,
        DeletionTimestamp = t, Labels = l, Annotations = a, OwnerReferences = listOf ow, Finalizers = listOf f,
        ManagedFields = listOf g\<rparr>"]
    by (simp add: metaVal_def [abs_def] metaFp_def [abs_def] goMeta_def [abs_def] case_prod_beta)
qed

lemma goRule_copies: "deep_copier ruleVal ruleFp goRule"
proof -
  note parts = deep_copier_pair [OF strings_copies deep_copier_pair [OF strings_copies deep_copier_pair [OF strings_copies
    deep_copier_pair [OF strings_copies strings_copies]]]]
  show ?thesis
    using deep_copier_struct [OF parts, where
      get = "\<lambda>r. (rm_Verbs r, rm_APIGroups r, rm_Resources r, rm_ResourceNames r, rm_NonResourceURLs r)"
      and put = "\<lambda>r (v, g, s, n, u). r\<lparr>rm_Verbs := v, rm_APIGroups := g, rm_Resources := s, rm_ResourceNames := n,
        rm_NonResourceURLs := u\<rparr>"
      and make = "\<lambda>r (v, g, s, n, u). \<lparr>Verbs = listOf v, APIGroups = listOf g, Resources = listOf s,
        ResourceNames = listOf n, NonResourceURLs = listOf u\<rparr>"]
    by (simp add: ruleVal_def [abs_def] ruleFp_def [abs_def] goRule_def [abs_def] case_prod_beta)
qed

lemma goProbe_copies: "deep_copier probeVal probeFp goProbe"
  unfolding probeVal_def [abs_def] probeFp_def [abs_def] goProbe_def [abs_def]
  by (rule deep_copier_struct [OF deep_copier_ref [OF plain_copies], where get = pm_HTTPGet
      and put = "\<lambda>p a. p\<lparr>pm_HTTPGet := a\<rparr>" and make = "\<lambda>p v. \<lparr>HTTPGet = v\<rparr>"]) simp_all

lemma goListMeta_copies: "deep_copier listMetaVal listMetaFp goListMeta"
  unfolding listMetaVal_def [abs_def] listMetaFp_def [abs_def] goListMeta_def [abs_def]
  by (rule deep_copier_struct [OF deep_copier_ref [OF plain_copies], where get = lm_RemainingItemCount
      and put = "\<lambda>m r. m\<lparr>lm_RemainingItemCount := r\<rparr>"
      and make = "\<lambda>m v. \<lparr>listResourceVersion = lm_ResourceVersion m, listContinue = lm_Continue m, RemainingItemCount = v\<rparr>"]) simp_all

interpretation go: copying_library goLibrary
  by (rule copying_library.intro)
    (simp_all add: goLibrary_def goMeta_copies goRule_copies goProbe_copies goListMeta_copies
      deep_copier_ref [OF plain_copies, where prj = asTime and mk = CTime])

text \<open>A user in one group, of a label and an annotation, with a state.\<close>

definition someMeta :: MetaMem where
  "someMeta = \<lparr>mm_Name = ''alice'', mm_GenerateName = [], mm_Namespace = [], mm_UID = [], mm_ResourceVersion = ''1'',
     mm_CreationTimestamp = 0, mm_DeletionTimestamp = None, mm_Labels = None, mm_Annotations = Some 0,
     mm_OwnerReferences = None, mm_Finalizers = None, mm_ManagedFields = None\<rparr>"

definition someUser :: UserMem where
  "someUser = \<lparr>um_meta = someMeta,
     um_Spec = \<lparr>sm_Email = ''a@b.c'', sm_Lang = [], sm_Description = [], sm_DisplayName = [], sm_Groups = Some 1,
       sm_EncryptedPassword = ''secret''\<rparr>,
     um_Status = \<lparr>tm_State = Some 2, tm_Reason = [], tm_LastTransitionTime = None, tm_LastLoginTime = None\<rparr>\<rparr>"

definition someStore :: store where
  "someStore = [CStringMap [''k'' \<mapsto> ''v''], CStrings [''admins''], CUserState ''Active'', CUser someUser]"

lemmas copy_eval = User_DeepCopyObject_def User_DeepCopy_def User_DeepCopyInto_def UserSpec_DeepCopyInto_def
  UserStatus_DeepCopyInto_def asObject_def copyRef_def copySlice_def plainCopy_def goLibrary_def goMeta_def
  someStore_def someUser_def someMeta_def

lemmas footprint_eval = userFp_def metaFp_def userSpecFp_def userStatusFp_def sliceFp_def plainFp_def

definition someCopy :: store where
  "someCopy = snd (run_state (DeepCopyObject goLibrary (PUser (Some 3))) someStore)"

lemma someCopy_run: "run_state (DeepCopyObject goLibrary (PUser (Some 3))) someStore = (Some (PUser (Some 7)), someCopy)"
  by (simp add: someCopy_def copy_eval)

theorem DeepCopyObject_independent_witness:
  "objectVal someCopy (PUser (Some 7)) = objectVal someStore (PUser (Some 3)) \<and>
   set (objectFp someCopy (PUser (Some 3))) \<inter> set (objectFp someCopy (PUser (Some 7))) = {}"
proof -
  have "inHeap (set (objectFp someStore (PUser (Some 3)))) someStore"
    by (simp add: footprint_eval someStore_def someUser_def someMeta_def)
  from DeepCopyObject_independent [OF go.copying_library_axioms this someCopy_run] show ?thesis by simp
qed

end
