(* ===== verification/Cache_Aliasing.thy ===== *)
theory Cache_Aliasing
  imports Deep_Copy Identity_Mgmt Iam_Handlers
begin

text \<open>
  The objects of the informer caches are shared: a lister returns pointers into the cache. The other
  theories compute with values; here the operations that write through such pointers are modelled on the
  store. \<open>ensurePasswordNotOutput\<close> and the annotation of users write to a copy, so they refine the
  operations on values and keep the cached object. The loop of \<open>DefaultObjectList\<close> writes to the cached
  objects themselves.
\<close>

section \<open>Writes through a pointer\<close>

text \<open>A dereference of nil ends the goroutine.\<close>

definition deref :: "addr option \<Rightarrow> (addr \<Rightarrow> (Cell, stop + 'a) mem) \<Rightarrow> (Cell, stop + 'a) mem" where
  "deref p k = (case p of None \<Rightarrow> State_Monad.return (Inl (Panic NilDeref)) | Some a \<Rightarrow> k a)"

definition modifyUser :: "(UserMem \<Rightarrow> UserMem) \<Rightarrow> addr \<Rightarrow> (Cell, unit) mem" where
  "modifyUser f a = do {c \<leftarrow> heapLoad a; heapStore a (CUser (f (asUserMem c)))}"

definition withAnnotations :: "addr option \<Rightarrow> UserMem \<Rightarrow> UserMem" where
  "withAnnotations p u = u\<lparr>um_meta := (um_meta u)\<lparr>mm_Annotations := p\<rparr>\<rparr>"

text \<open>\<open>im.go\<close>: the copy is made first, and the password is taken out of the copy.\<close>

definition ensurePasswordNotOutputMem :: "Library \<Rightarrow> addr option \<Rightarrow> (Cell, stop + addr) mem" where
  "ensurePasswordNotOutputMem L user = do {
     out \<leftarrow> User_DeepCopy L user;
     deref out (\<lambda>b. do {
       _ \<leftarrow> modifyUser (\<lambda>u. u\<lparr>um_Spec := (um_Spec u)\<lparr>sm_EncryptedPassword := ''''\<rparr>\<rparr>) b;
       State_Monad.return (Inr b)
     })
   }"

text \<open>
  \<open>if user.Annotations == nil { user.Annotations = make(map[string]string, 0) }\<close> and the write of one
  key, the common body of the three listings of users by role and of \<open>appendGlobalRoleAnnotation\<close>.
\<close>

definition putAnnotation :: "string \<Rightarrow> string \<Rightarrow> addr \<Rightarrow> (Cell, unit) mem" where
  "putAnnotation key role b = do {
     c \<leftarrow> heapLoad b;
     m \<leftarrow> (case mm_Annotations (um_meta (asUserMem c)) of
             Some m \<Rightarrow> State_Monad.return m
           | None \<Rightarrow> do {
               m \<leftarrow> heapNew (CStringMap Map.empty);
               _ \<leftarrow> modifyUser (withAnnotations (Some m)) b;
               State_Monad.return m
             });
     entries \<leftarrow> heapLoad m;
     heapStore m (CStringMap ((asStringMap entries)(key \<mapsto> role)))
   }"

definition appendGlobalRoleAnnotationMem :: "addr option \<Rightarrow> string \<Rightarrow> (Cell, stop + addr) mem" where
  "appendGlobalRoleAnnotationMem user globalRole =
     deref user (\<lambda>b. do {_ \<leftarrow> putAnnotation GlobalRoleAnnotation globalRole b; State_Monad.return (Inr b)})"

text \<open>\<open>user = user.DeepCopy()\<close> before the write.\<close>

definition annotateUserMem :: "Library \<Rightarrow> string \<Rightarrow> string \<Rightarrow> addr option \<Rightarrow> (Cell, stop + addr) mem" where
  "annotateUserMem L key role user = do {
     copy \<leftarrow> User_DeepCopy L user;
     deref copy (\<lambda>b. do {_ \<leftarrow> putAnnotation key role b; State_Monad.return (Inr b)})
   }"

section \<open>The scrubbing loop\<close>

text \<open>The metadata of an object in memory; \<open>T\<close> is a pointer to a struct that embeds them.\<close>

fun cellMeta :: "Cell \<Rightarrow> MetaMem option" where
  "cellMeta (CGlobalRole r) = Some (gr_meta r)"
| "cellMeta (CGlobalRoleBinding b) = Some (gb_meta b)"
| "cellMeta (CLoginRecord r) = Some (lr_meta r)"
| "cellMeta (CUser u) = Some (um_meta u)"
| "cellMeta _ = None"

fun mapCellMeta :: "(MetaMem \<Rightarrow> MetaMem) \<Rightarrow> Cell \<Rightarrow> Cell" where
  "mapCellMeta f (CGlobalRole r) = CGlobalRole (r\<lparr>gr_meta := f (gr_meta r)\<rparr>)"
| "mapCellMeta f (CGlobalRoleBinding b) = CGlobalRoleBinding (b\<lparr>gb_meta := f (gb_meta b)\<rparr>)"
| "mapCellMeta f (CLoginRecord r) = CLoginRecord (r\<lparr>lr_meta := f (lr_meta r)\<rparr>)"
| "mapCellMeta f (CUser u) = CUser (u\<lparr>um_meta := f (um_meta u)\<rparr>)"
| "mapCellMeta f c = c"

definition SetManagedFields :: "addr option \<Rightarrow> addr \<Rightarrow> (Cell, unit) mem" where
  "SetManagedFields p a = do {c \<leftarrow> heapLoad a; heapStore a (mapCellMeta (\<lambda>m. m\<lparr>mm_ManagedFields := p\<rparr>) c)}"

definition GetAnnotations :: "addr \<Rightarrow> (Cell, addr option) mem" where
  "GetAnnotations a = do {c \<leftarrow> heapLoad a; State_Monad.return (Option.bind (cellMeta c) mm_Annotations)}"

definition scrubObject :: "addr \<Rightarrow> (Cell, unit) mem" where
  "scrubObject object = do {
     _ \<leftarrow> SetManagedFields None object;
     annotations \<leftarrow> GetAnnotations object;
     (case annotations of
        None \<Rightarrow> State_Monad.return ()
      | Some m \<Rightarrow> do {
          entries \<leftarrow> heapLoad m;
          heapStore m (CStringMap ((asStringMap entries)(lastAppliedAnnotation := None)))
        })
   }"

fun scrubLoop :: "addr list \<Rightarrow> addr list \<Rightarrow> (Cell, addr list) mem" where
  "scrubLoop [] result = State_Monad.return result"
| "scrubLoop (object # objects) result = do {
     _ \<leftarrow> scrubObject object;
     scrubLoop objects (result @ [object])
   }"

text \<open>What a pointer to an object denotes, and its memory.\<close>

fun cellObject :: "store \<Rightarrow> Cell \<Rightarrow> RuntimeObject option" where
  "cellObject h (CGlobalRole r) = Some (OGlobalRole (globalRoleVal h r))"
| "cellObject h (CGlobalRoleBinding b) = Some (OGlobalRoleBinding (globalRoleBindingVal h b))"
| "cellObject h (CLoginRecord r) = Some (OLoginRecord (loginRecordVal h r))"
| "cellObject h (CUser u) = Some (OUser (userVal h u))"
| "cellObject h _ = None"

fun cellFp :: "store \<Rightarrow> Cell \<Rightarrow> addr list" where
  "cellFp h (CGlobalRole r) = globalRoleFp h r"
| "cellFp h (CGlobalRoleBinding b) = globalRoleBindingFp h b"
| "cellFp h (CLoginRecord r) = loginRecordFp h r"
| "cellFp h (CUser u) = userFp h u"
| "cellFp h _ = []"

definition objectAt :: "store \<Rightarrow> addr \<Rightarrow> RuntimeObject option" where
  "objectAt h a = cellObject h (h ! a)"

definition memoryOf :: "store \<Rightarrow> addr \<Rightarrow> addr list" where
  "memoryOf h a = a # cellFp h (h ! a)"

text \<open>
  The informer decodes every object on its own, so no two of them share memory and no part of one is
  reached twice.
\<close>

definition separate :: "store \<Rightarrow> addr list \<Rightarrow> bool" where
  "separate h xs \<longleftrightarrow> distinct (concat (map (memoryOf h) xs)) \<and> inHeap (set (concat (map (memoryOf h) xs))) h"

section \<open>Frames of the parts\<close>

lemma ref_frame: "agree (set (refFp prj plainFp h p)) h h' \<Longrightarrow> refVal prj plainVal h' p = refVal prj plainVal h p"
  by (cases p) (simp_all add: plainVal_def agree_insert)

lemma slice_frame: "agree (set (sliceFp prj plainFp h p)) h h' \<Longrightarrow> sliceVal prj plainVal h' p = sliceVal prj plainVal h p"
  by (cases p) (simp_all add: plainVal_def [abs_def] agree_insert sliceFp_def sliceVal_def)

text \<open>The memory of the metadata apart from the annotations and the managed fields.\<close>

definition metaKept :: "store \<Rightarrow> MetaMem \<Rightarrow> addr set" where
  "metaKept h m = set (timeFp h (mm_DeletionTimestamp m)) \<union> set (refFp asStringMap plainFp h (mm_Labels m)) \<union>
     set (sliceFp asOwners plainFp h (mm_OwnerReferences m)) \<union> set (stringsFp h (mm_Finalizers m))"

lemma plain_refs: "refFp prj plainFp h p = (case p of None \<Rightarrow> [] | Some a \<Rightarrow> [a])"
  "sliceFp prj' plainFp h p = (case p of None \<Rightarrow> [] | Some a \<Rightarrow> [a])"
  by (simp_all add: plainFp_def [abs_def] sliceFp_def refFp_def split: option.split)

lemma metaFp_parts:
  "set (metaFp h m) = metaKept h m \<union> set_option (mm_Annotations m) \<union> set_option (mm_ManagedFields m)"
  by (auto simp: metaFp_def metaKept_def plain_refs split: option.splits)

lemma metaFp_store [simp]: "metaFp h' m = metaFp h m"
  by (simp add: metaFp_def plain_refs)

lemma annotations_apart:
  "distinct (metaFp h m) \<Longrightarrow> mm_Annotations m = Some k \<Longrightarrow> k \<notin> metaKept h m \<and> k \<notin> set_option (mm_ManagedFields m)"
  by (auto simp: metaFp_def metaKept_def plain_refs split: option.splits)

lemma metaVal_changed:
  assumes "agree (metaKept h m) h h'"
  shows "metaVal h' (m\<lparr>mm_Annotations := p, mm_ManagedFields := q\<rparr>) =
    (metaVal h m)\<lparr>Annotations := refVal asStringMap plainVal h' p, ManagedFields := listOf (sliceVal asManaged plainVal h' q)\<rparr>"
  using assms by (simp add: metaVal_def metaKept_def agree_Un ref_frame [of _ h _ h'] slice_frame [of _ h _ h'])

text \<open>What an object holds besides its metadata.\<close>

fun cellRest :: "store \<Rightarrow> Cell \<Rightarrow> addr list" where
  "cellRest h (CGlobalRole r) = sliceFp asRules ruleFp h (gr_Rules r)"
| "cellRest h (CGlobalRoleBinding b) = sliceFp asSubjects plainFp h (gb_Subjects b)"
| "cellRest h (CLoginRecord r) = []"
| "cellRest h (CUser u) = userSpecFp h (um_Spec u) @ userStatusFp h (um_Status u)"
| "cellRest h _ = []"

lemmas rules_frame = deep_copier.frame [OF deep_copier_slice [OF goRule_copies, where prj = asRules and mk = CRules], simplified]
lemmas subjects_frame = deep_copier.frame [OF deep_copier_slice [OF plain_copies, where prj = asSubjects and mk = CSubjects], simplified]

lemmas status_frame = deep_copier.frame [OF go.userStatus_copies]

lemma cellFp_meta: "cellMeta c = Some m \<Longrightarrow> cellFp h c = metaFp h m @ cellRest h c"
  by (cases c) (auto simp: globalRoleFp_def globalRoleBindingFp_def loginRecordFp_def userFp_def)

lemma cellMeta_map [simp]: "cellMeta (mapCellMeta f c) = map_option f (cellMeta c)"
  by (cases c) simp_all

lemma mapCellMeta_comp [simp]: "mapCellMeta f (mapCellMeta g c) = mapCellMeta (\<lambda>m. f (g m)) c"
  by (cases c) simp_all

lemma cellRest_frame:
  assumes "agree (set (cellRest h c)) h h'"
  shows "cellRest h' (mapCellMeta f c) = cellRest h c"
  using assms
  by (cases c) (simp_all add: agree_Un rules_frame [of h _ h'] subjects_frame [of h _ h'] userSpec.frame [of h _ h']
      status_frame [of h _ h'])

lemma cellObject_frame:
  assumes "cellMeta c = Some m" and "agree (set (cellRest h c)) h h'"
  shows "cellObject h' (mapCellMeta f c) = map_option (mapMeta (\<lambda>_. metaVal h' (f m))) (cellObject h c)"
  using assms
  by (cases c) (auto simp: agree_Un rules_frame [of h _ h'] subjects_frame [of h _ h'] userSpec.frame [of h _ h']
      status_frame [of h _ h'] globalRoleVal_def globalRoleBindingVal_def loginRecordVal_def userVal_def)

lemma objectAt_frame:
  assumes "agree (set (memoryOf h a)) h h'"
  shows "objectAt h' a = objectAt h a" and "memoryOf h' a = memoryOf h a"
  using assms
  by (cases "h ! a"; simp add: objectAt_def memoryOf_def agree_insert
      deep_copier.frame [OF go.globalRole_copies, of h _ h'] deep_copier.frame [OF go.globalRoleBinding_copies, of h _ h']
      deep_copier.frame [OF go.loginRecord_copies, of h _ h'] deep_copier.frame [OF go.user_copies, of h _ h'])+

section \<open>The loop scrubs the cached objects\<close>

definition unmanaged :: "Cell \<Rightarrow> Cell" where
  "unmanaged = mapCellMeta (\<lambda>m. m\<lparr>mm_ManagedFields := None\<rparr>)"

lemma scrubObject_run:
  assumes "cellMeta (h ! a) = Some m" and "a < length h"
  shows "run_state (scrubObject a) h =
    ((), case mm_Annotations m of
           None \<Rightarrow> h[a := unmanaged (h ! a)]
         | Some k \<Rightarrow> (h[a := unmanaged (h ! a)])[k := CStringMap ((asStringMap (h[a := unmanaged (h ! a)] ! k))(lastAppliedAnnotation := None))])"
  using assms by (simp add: scrubObject_def SetManagedFields_def GetAnnotations_def unmanaged_def split: option.split)

lemma mapMeta_scrub: "cellMeta c = Some m \<Longrightarrow> v = scrubMeta (metaVal h m) \<Longrightarrow>
    map_option (mapMeta (\<lambda>_. v)) (cellObject h c) = map_option scrub (cellObject h c)"
  by (cases c) (auto simp: scrub_def globalRoleVal_def globalRoleBindingVal_def loginRecordVal_def userVal_def)

lemma scrubObject_value:
  assumes m: "cellMeta (h ! a) = Some m" and d: "distinct (memoryOf h a)" and b: "inHeap (set (memoryOf h a)) h"
    and r: "run_state (scrubObject a) h = (r, h')"
  shows "objectAt h' a = map_option scrub (objectAt h a)" and "writtenWithin (set (memoryOf h a)) h h'"
    and "set (memoryOf h' a) \<subseteq> set (memoryOf h a)" and "length h' = length h"
proof -
  let ?c = "h ! a"
  have mem: "memoryOf h a = a # metaFp h m @ cellRest h ?c" by (simp add: memoryOf_def cellFp_meta [OF m])
  have a: "a < length h" using b mem by simp
  note run = scrubObject_run [OF m a]
  have kept: "a \<notin> metaKept h m" "a \<notin> set (cellRest h ?c)" using d by (auto simp: mem metaFp_parts)
  have k: "k \<noteq> a" "k < length h" "k \<notin> metaKept h m" "k \<notin> set (cellRest h ?c)" if "mm_Annotations m = Some k" for k
    using that d b annotations_apart [of h m k] by (auto simp: mem metaFp_parts)
  have h': "h' = (case mm_Annotations m of None \<Rightarrow> h[a := unmanaged ?c]
      | Some k \<Rightarrow> (h[a := unmanaged ?c])[k := CStringMap ((asStringMap (h ! k))(lastAppliedAnnotation := None))])"
    using r run k by (auto split: option.splits)
  show len: "length h' = length h" by (simp add: h' split: option.split)
  have rest: "agree (set (cellRest h ?c)) h h'" and meta: "agree (metaKept h m) h h'"
    using kept k b mem by (auto simp: h' agree_def inHeap_def metaFp_parts nth_list_update split: option.split)
  have c': "h' ! a = unmanaged ?c" using k a by (simp add: h' split: option.split)
  have val: "metaVal h' (m\<lparr>mm_ManagedFields := None\<rparr>) = scrubMeta (metaVal h m)"
    using metaVal_changed [OF meta, of "mm_Annotations m" None] k
    by (simp add: scrubMeta_def mdelete_def h' sliceVal_def refVal_def metaVal_def plainVal_def split: option.splits)
  show "objectAt h' a = map_option scrub (objectAt h a)"
    using cellObject_frame [OF m rest, of "\<lambda>m. m\<lparr>mm_ManagedFields := None\<rparr>"] mapMeta_scrub [OF m val]
    by (simp add: objectAt_def c' unmanaged_def)
  show "writtenWithin (set (memoryOf h a)) h h'"
    by (auto simp: writtenWithin_def len mem metaFp_parts h' nth_list_update split: option.split)
  have "cellMeta (h' ! a) = Some (m\<lparr>mm_ManagedFields := None\<rparr>)" by (simp add: c' unmanaged_def m)
  from cellFp_meta [OF this, of h'] have "memoryOf h' a = a # metaFp h' (m\<lparr>mm_ManagedFields := None\<rparr>) @ cellRest h ?c"
    using cellRest_frame [OF rest, of "\<lambda>m. m\<lparr>mm_ManagedFields := None\<rparr>"] by (simp add: memoryOf_def c' unmanaged_def)
  then show "set (memoryOf h' a) \<subseteq> set (memoryOf h a)" by (auto simp: mem metaFp_def plain_refs)
qed

lemma writtenWithin_trans:
  "writtenWithin A h h1 \<Longrightarrow> writtenWithin B h1 h2 \<Longrightarrow> writtenWithin (A \<union> B) h h2"
  by (auto simp: writtenWithin_def)

lemma writtenWithin_agree:
  "writtenWithin A h h' \<Longrightarrow> inHeap B h \<Longrightarrow> A \<inter> B = {} \<Longrightarrow> agree B h h'"
  by (fastforce simp: writtenWithin_def agree_def inHeap_def)

lemma separate_Cons: "separate h (x # xs) \<longleftrightarrow>
    distinct (memoryOf h x) \<and> inHeap (set (memoryOf h x)) h \<and> separate h xs \<and>
    set (memoryOf h x) \<inter> set (concat (map (memoryOf h) xs)) = {}"
  by (auto simp: separate_def)

lemma separate_frame:
  assumes "separate h xs" and "agree (set (concat (map (memoryOf h) xs))) h h'"
  shows "separate h' xs" and "map (memoryOf h') xs = map (memoryOf h) xs" and "map (objectAt h') xs = map (objectAt h) xs"
proof -
  have "agree (set (memoryOf h x)) h h'" if "x \<in> set xs" for x using assms(2) that by (auto simp: agree_def)
  then have f: "memoryOf h' x = memoryOf h x" "objectAt h' x = objectAt h x" if "x \<in> set xs" for x
    using that objectAt_frame by blast+
  then show m: "map (memoryOf h') xs = map (memoryOf h) xs" "map (objectAt h') xs = map (objectAt h) xs" by simp_all
  show "separate h' xs" using assms unfolding separate_def m(1) by (auto simp: inHeap_def agree_def)
qed

text \<open>
  C22. The loop of \<open>DefaultObjectList\<close> hands on the objects of the cache, each with the value that \<open>scrub\<close>
  gives; so the cached objects themselves are changed, and nothing else is.
\<close>

theorem scrubLoop_refines:
  assumes "separate h xs" and "list_all (\<lambda>x. cellMeta (h ! x) \<noteq> None) xs" and "run_state (scrubLoop xs acc) h = (r, h')"
  shows "r = acc @ xs \<and> map (objectAt h') xs = map (\<lambda>x. map_option scrub (objectAt h x)) xs \<and>
    writtenWithin (set (concat (map (memoryOf h) xs))) h h' \<and> length h' = length h"
  using assms
proof (induction xs arbitrary: h acc)
  case Nil
  then show ?case by (simp add: writtenWithin_def)
next
  case (Cons x xs)
  let ?M = "\<lambda>h. set (concat (map (memoryOf h) xs))"
  obtain h1 where h1: "run_state (scrubObject x) h = ((), h1)" by (cases "run_state (scrubObject x) h") simp
  have r: "run_state (scrubLoop xs (acc @ [x])) h1 = (r, h')" using Cons.prems(3) h1 by simp
  have x: "distinct (memoryOf h x)" "inHeap (set (memoryOf h x)) h" and xs: "separate h xs"
    and apart: "set (memoryOf h x) \<inter> ?M h = {}" using Cons.prems(1) by (simp_all add: separate_Cons)
  obtain m where m: "cellMeta (h ! x) = Some m" using Cons.prems(2) by auto
  note sx = scrubObject_value [OF m x h1]
  have M: "inHeap (?M h) h" using xs by (simp add: separate_def)
  from writtenWithin_agree [OF sx(2) M apart] have ag: "agree (?M h) h h1" .
  note keep = separate_frame [OF xs ag]
  have "list_all (\<lambda>x. cellMeta (h1 ! x) \<noteq> None) xs"
  proof -
    have "h1 ! y = h ! y" if "y \<in> set xs" for y
    proof -
      have "y \<in> ?M h" using that by (auto simp: memoryOf_def)
      then show ?thesis using ag by (simp only: agree_def)
    qed
    then show ?thesis using Cons.prems(2) by (simp add: list_all_iff)
  qed
  from Cons.IH [OF keep(1) this r] have IH: "r = acc @ x # xs"
    "map (objectAt h') xs = map (\<lambda>y. map_option scrub (objectAt h1 y)) xs" "writtenWithin (?M h1) h1 h'" "length h' = length h1" by simp_all
  have M1: "?M h1 = ?M h" using keep(2) by (simp cong: map_cong)
  have "agree (set (memoryOf h1 x)) h1 h'"
    using writtenWithin_agree [OF IH(3), of "set (memoryOf h1 x)"] sx(3,4) x(2) apart M1 by (auto simp: inHeap_def)
  from objectAt_frame(1) [OF this] sx(1) have "objectAt h' x = map_option scrub (objectAt h x)" by simp
  then show ?case using IH keep(3) writtenWithin_trans [OF sx(2) IH(3)] M1 sx(4) by (simp add: comp_def)
qed

section \<open>Copies first, then writes\<close>

lemma modifyUser_run [simp]: "run_state (modifyUser f a) h = ((), h[a := CUser (f (asUserMem (h ! a)))])"
  by (simp add: modifyUser_def)

text \<open>A user behind a pointer, and the memory made for its copy.\<close>

lemma user_copied:
  assumes L: "copying_library L" and u: "h ! a = CUser u" and b: "inHeap (set (memoryOf h a)) h"
    and r: "run_state (User_DeepCopy L (Some a)) h = (q, h')"
  obtains c v cs where "q = Some c" and "h' = h @ cs" and "h' ! c = CUser v" and "objectAt h' c = objectAt h a"
    and "set (memoryOf h' c) \<subseteq> {length h..<length h'}" and "distinct (memoryOf h' c)"
proof -
  have C: "deep_copier (refVal asUserMem userVal) (refFp asUserMem userFp) (User_DeepCopy L)"
    by (rule copying_library.userRef_copies [OF L])
  obtain v h1 where v: "run_state (User_DeepCopyInto L u) h = (v, h1)" by (metis surj_pair)
  have q: "q = Some (length h1)" "h' = h1 @ [CUser v]" using r v by (auto simp: User_DeepCopy_def copyRef_def u)
  have "inHeap (set (refFp asUserMem userFp h (Some a))) h" using b by (simp add: memoryOf_def u)
  from deep_copier.copies [OF C this r] obtain cs where "h' = h @ cs"
    "refVal asUserMem userVal h' q = refVal asUserMem userVal h (Some a)"
    "set (refFp asUserMem userFp h' q) \<subseteq> {length h..<length h'}" "distinct (refFp asUserMem userFp h' q)" by blast
  moreover have "h' ! length h1 = CUser v" by (simp add: q(2))
  ultimately show thesis using that [of "length h1" cs v] q(1) by (simp add: memoryOf_def objectAt_def u)
qed

lemma putAnnotation_value:
  assumes u: "h ! b = CUser u" and d: "distinct (memoryOf h b)" and i: "inHeap (set (memoryOf h b)) h"
    and r: "run_state (putAnnotation key role b) h = (x, h')"
  shows "objectAt h' b = Some (OUser (annotateUser key role (userVal h u)))" and "writtenWithin (set (memoryOf h b)) h h'"
proof -
  let ?m = "um_meta u" and ?c = "h ! b"
  have m: "cellMeta ?c = Some ?m" by (simp add: u)
  have mem: "memoryOf h b = b # metaFp h ?m @ cellRest h ?c" by (simp add: memoryOf_def cellFp_meta [OF m])
  have b: "b < length h" using i mem by simp
  have kept: "b \<notin> metaKept h ?m" "b \<notin> set (cellRest h ?c)" "b \<notin> set_option (mm_ManagedFields ?m)" using d by (auto simp: mem metaFp_parts)
  obtain k where k: "k \<noteq> b" "k \<notin> metaKept h ?m" "k \<notin> set (cellRest h ?c)" "k \<notin> set_option (mm_ManagedFields ?m)"
    and h': "h' ! b = mapCellMeta (\<lambda>m. m\<lparr>mm_Annotations := Some k\<rparr>) ?c"
      "asStringMap (h' ! k) = the (mput (refVal asStringMap plainVal h (mm_Annotations ?m)) key role)"
    and w: "writtenWithin {b, k} h h'" "k \<in> set (memoryOf h b) \<or> k \<ge> length h"
  proof (cases "mm_Annotations ?m")
    case None
    have "length h \<notin> metaKept h ?m" "length h \<notin> set (cellRest h ?c)" "length h \<notin> set_option (mm_ManagedFields ?m)"
      using i by (auto simp: inHeap_def mem metaFp_parts)
    then show ?thesis
      using that [of "length h"] r b
      by (auto simp: putAnnotation_def u None withAnnotations_def mput_def nth_list_update nth_append writtenWithin_def)
  next
    case (Some k)
    then show ?thesis
      using that [of k] r b d i annotations_apart [of h ?m k]
      by (auto simp: putAnnotation_def u mput_def mem metaFp_parts plainVal_def writtenWithin_def)
  qed
  have rest: "agree (set (cellRest h ?c)) h h'" and meta: "agree (metaKept h ?m) h h'" and man: "agree (set_option (mm_ManagedFields ?m)) h h'"
    using kept k i by (auto simp: mem metaFp_parts intro!: writtenWithin_agree [OF w(1)])
  have n: "sliceVal asManaged plainVal h' (mm_ManagedFields ?m) = sliceVal asManaged plainVal h (mm_ManagedFields ?m)"
    using man by (intro slice_frame) (cases "mm_ManagedFields ?m"; simp add: plain_refs)
  have "metaVal h' (?m\<lparr>mm_Annotations := Some k\<rparr>) =
      (metaVal h ?m)\<lparr>Annotations := mput (Annotations (metaVal h ?m)) key role\<rparr>"
    using metaVal_changed [OF meta, of "Some k" "mm_ManagedFields ?m"] n h'(2)
    by (simp add: metaVal_def mput_def plainVal_def split: option.splits)
  then show "objectAt h' b = Some (OUser (annotateUser key role (userVal h u)))"
    using cellObject_frame [OF m rest, of "\<lambda>m. m\<lparr>mm_Annotations := Some k\<rparr>"]
    by (simp add: objectAt_def h'(1) u annotateUser_def userVal_def)
  show "writtenWithin (set (memoryOf h b)) h h'" using w by (auto simp: writtenWithin_def memoryOf_def)
qed

text \<open>What was in the store before the copy was made is as it was.\<close>

lemma old_kept:
  assumes i: "inHeap (set (memoryOf h a)) h" and w: "writtenWithin {length h..<n} (h @ cs) h'" and n: "n = length (h @ cs)"
  shows "objectAt h' a = objectAt h a" and "memoryOf h' a = memoryOf h a"
proof -
  have "writtenWithin {} h h'" using w n by (auto simp: writtenWithin_def nth_append)
  from writtenWithin_agree [OF this i] have "agree (set (memoryOf h a)) h h'" by simp
  then show "objectAt h' a = objectAt h a" "memoryOf h' a = memoryOf h a" by (rule objectAt_frame)+
qed

lemma cleared_value:
  assumes "h ! c = CUser v" and "distinct (memoryOf h c)" and "c < length h"
    and "h' = h[c := CUser (v\<lparr>um_Spec := (um_Spec v)\<lparr>sm_EncryptedPassword := ''''\<rparr>\<rparr>)]" and i: "inHeap (set (memoryOf h c)) h"
  shows "objectAt h' c = Some (OUser (ensurePasswordNotOutput (userVal h v)))" and "memoryOf h' c = memoryOf h c"
proof -
  let ?s = "(um_Spec v)\<lparr>sm_EncryptedPassword := ''''\<rparr>"
  have "agree (set (userFp h v)) h h'" using assms by (auto simp: agree_def memoryOf_def inHeap_def nth_list_update)
  from deep_copier.frame [OF go.user_copies this] have f: "userVal h' v = userVal h v" "userFp h' v = userFp h v" by simp_all
  have "userVal h' (v\<lparr>um_Spec := ?s\<rparr>) = ensurePasswordNotOutput (userVal h' v)" "userFp h' (v\<lparr>um_Spec := ?s\<rparr>) = userFp h' v"
    by (simp_all add: userVal_def ensurePasswordNotOutput_def userSpecVal_def userFp_def userSpecFp_def)
  then show "objectAt h' c = Some (OUser (ensurePasswordNotOutput (userVal h v)))" "memoryOf h' c = memoryOf h c"
    using f assms(1,3,4) by (simp_all add: objectAt_def memoryOf_def)
qed

text \<open>
  The answers are made of copies: the password is missing in the answer, the annotation is in the answer,
  and the cached user keeps its password and its annotations.
\<close>

lemma ensurePasswordNotOutput_keeps_cache:
  assumes L: "copying_library L" and u: "h ! a = CUser u" and i: "inHeap (set (memoryOf h a)) h"
  shows "\<exists>b h'. run_state (ensurePasswordNotOutputMem L (Some a)) h = (Inr b, h') \<and>
    objectAt h' b = Some (OUser (ensurePasswordNotOutput (userVal h u))) \<and> objectAt h' a = objectAt h a \<and>
    set (memoryOf h' a) \<inter> set (memoryOf h' b) = {}"
proof -
  obtain q h1 where r: "run_state (User_DeepCopy L (Some a)) h = (q, h1)" by (metis surj_pair)
  from user_copied [OF L u i r] obtain c v cs where q: "q = Some c" "h1 = h @ cs" "h1 ! c = CUser v"
    "objectAt h1 c = objectAt h a" and new: "set (memoryOf h1 c) \<subseteq> {length h..<length h1}" and d: "distinct (memoryOf h1 c)" by metis
  have c: "length h \<le> c" "c < length h1" using new by (auto simp: memoryOf_def)
  have v: "userVal h1 v = userVal h u" using q(3,4) u by (simp add: objectAt_def)
  define h2 where "h2 = h1[c := CUser (v\<lparr>um_Spec := (um_Spec v)\<lparr>sm_EncryptedPassword := ''''\<rparr>\<rparr>)]"
  have run: "run_state (ensurePasswordNotOutputMem L (Some a)) h = (Inr c, h2)"
    using r q by (simp add: ensurePasswordNotOutputMem_def deref_def h2_def)
  have "inHeap (set (memoryOf h1 c)) h1" using new by (auto simp: inHeap_def)
  note val = cleared_value [OF q(3) d c(2) h2_def this]
  have "writtenWithin {length h..<length h1} (h @ cs) h2" using c q(2) by (auto simp: writtenWithin_def h2_def)
  from old_kept [OF i this] q(2) have "objectAt h2 a = objectAt h a" "memoryOf h2 a = memoryOf h a" by simp_all
  moreover have "set (memoryOf h a) \<inter> set (memoryOf h1 c) = {}" using i new by (fastforce simp: inHeap_def)
  ultimately show ?thesis using run val v by auto
qed

lemma annotateUser_keeps_cache:
  assumes L: "copying_library L" and u: "h ! a = CUser u" and i: "inHeap (set (memoryOf h a)) h"
  shows "\<exists>b h'. run_state (annotateUserMem L key role (Some a)) h = (Inr b, h') \<and>
    objectAt h' b = Some (OUser (annotateUser key role (userVal h u))) \<and> objectAt h' a = objectAt h a"
proof -
  obtain q h1 where r: "run_state (User_DeepCopy L (Some a)) h = (q, h1)" by (metis surj_pair)
  from user_copied [OF L u i r] obtain c v cs where q: "q = Some c" "h1 = h @ cs" "h1 ! c = CUser v"
    "objectAt h1 c = objectAt h a" and new: "set (memoryOf h1 c) \<subseteq> {length h..<length h1}" and d: "distinct (memoryOf h1 c)" by metis
  have v: "userVal h1 v = userVal h u" using q(3,4) u by (simp add: objectAt_def)
  obtain x h2 where p: "run_state (putAnnotation key role c) h1 = (x, h2)" by (metis surj_pair)
  have "inHeap (set (memoryOf h1 c)) h1" using new by (auto simp: inHeap_def)
  note put = putAnnotation_value [OF q(3) d this p]
  have "writtenWithin {length h..<length h1} (h @ cs) h2" using put(2) new q(2) by (auto simp: writtenWithin_def)
  from old_kept(1) [OF i this] q(2) have "objectAt h2 a = objectAt h a" by simp
  moreover have "run_state (annotateUserMem L key role (Some a)) h = (Inr c, h2)"
    using r q p by (simp add: annotateUserMem_def deref_def)
  ultimately show ?thesis using put(1) v by auto
qed

lemma appendGlobalRoleAnnotation_value:
  assumes "h ! b = CUser u" and "distinct (memoryOf h b)" and "inHeap (set (memoryOf h b)) h"
  shows "\<exists>h'. run_state (appendGlobalRoleAnnotationMem (Some b) role) h = (Inr b, h') \<and>
    objectAt h' b = Some (OUser (appendGlobalRoleAnnotation (userVal h u) role))"
proof -
  obtain x h' where p: "run_state (putAnnotation GlobalRoleAnnotation role b) h = (x, h')" by (metis surj_pair)
  from putAnnotation_value(1) [OF assms p] p show ?thesis
    by (simp add: appendGlobalRoleAnnotationMem_def deref_def appendGlobalRoleAnnotation_def annotateUser_def)
qed

lemma nil_user_panics:
  "run_state (ensurePasswordNotOutputMem L None) h = (Inl (Panic NilDeref), h)"
  "run_state (annotateUserMem L key role None) h = (Inl (Panic NilDeref), h)"
  by (simp_all add: ensurePasswordNotOutputMem_def annotateUserMem_def deref_def User_DeepCopy_def copyRef_def)

definition cachedStore :: store where
  "cachedStore = [CStringMap [lastAppliedAnnotation \<mapsto> ''{}''], CManaged [''kubectl''],
     CUser (someUser\<lparr>um_meta := someMeta\<lparr>mm_ManagedFields := Some 1\<rparr>,
       um_Spec := (um_Spec someUser)\<lparr>sm_Groups := None\<rparr>, um_Status := (um_Status someUser)\<lparr>tm_State := None\<rparr>\<rparr>)]"

definition scrubbedStore :: store where
  "scrubbedStore = snd (run_state (scrubLoop [2] []) cachedStore)"

lemma scrubbed_run: "run_state (scrubLoop [2] []) cachedStore = ([2], scrubbedStore)"
  by (simp add: scrubbedStore_def scrubObject_def SetManagedFields_def GetAnnotations_def cachedStore_def someUser_def someMeta_def)

theorem scrubLoop_refines_witness:
  "objectAt scrubbedStore 2 = map_option scrub (objectAt cachedStore 2) \<and> objectAt scrubbedStore 2 \<noteq> objectAt cachedStore 2"
proof -
  have "separate cachedStore [2]"
    by (simp add: separate_def memoryOf_def footprint_eval cachedStore_def someUser_def someMeta_def)
  moreover have "list_all (\<lambda>x. cellMeta (cachedStore ! x) \<noteq> None) [2]" by (simp add: cachedStore_def)
  ultimately have "map (objectAt scrubbedStore) [2] = map (\<lambda>x. map_option scrub (objectAt cachedStore x)) [2]"
    using scrubLoop_refines [OF _ _ scrubbed_run] by blast
  moreover have "map_option scrub (objectAt cachedStore 2) \<noteq> objectAt cachedStore 2"
    by (simp add: objectAt_def cachedStore_def scrub_def scrubMeta_def userVal_def metaVal_def sliceVal_def someUser_def
        someMeta_def plainVal_def)
  ultimately show ?thesis by simp
qed

end
