(* ===== verification/Listing_Race.thy ===== *)
theory Listing_Race
  imports Cache_Aliasing
begin

text \<open>
  Listings that run at the same time. Every request lists objects of the same informer caches, and the
  loop of \<open>DefaultObjectList\<close> deletes a key from the annotations of each of them in place. A Go map is
  marked while it is written; an operation that finds the mark ends the process (\<open>fatal error: concurrent
  map writes\<close>), which no handler can recover. Deleting from an empty map writes nothing.
\<close>

section \<open>Goroutines in the scrubbing loop\<close>

text \<open>The objects that a goroutine has still to scrub, and the map that it is writing.\<close>

type_synonym listing_goroutine = "addr list \<times> addr option"

record Process =
  memory :: store
  writing :: "addr set"
  routines :: "listing_goroutine list"
  crashed :: bool

definition annotationsOf :: "store \<Rightarrow> addr \<Rightarrow> addr option" where
  "annotationsOf h a = Option.bind (cellMeta (h ! a)) mm_Annotations"

abbreviation entriesOf :: "store \<Rightarrow> addr \<Rightarrow> string \<rightharpoonup> string" where
  "entriesOf h k \<equiv> asStringMap (h ! k)"

text \<open>One step of goroutine \<open>i\<close>: up to the start of a write, or its end.\<close>

definition scrubStep :: "nat \<Rightarrow> Process \<Rightarrow> Process" where
  "scrubStep i p =
     (if crashed p \<or> length (routines p) \<le> i then p
      else case routines p ! i of
        ([], _) \<Rightarrow> p
      | (object # objects, Some k) \<Rightarrow>
          p\<lparr>memory := (memory p)[k := CStringMap ((entriesOf (memory p) k)(lastAppliedAnnotation := None))],
            writing := writing p - {k}, routines := (routines p)[i := (objects, None)]\<rparr>
      | (object # objects, None) \<Rightarrow>
          let h = (memory p)[object := unmanaged (memory p ! object)] in
          case annotationsOf h object of
            None \<Rightarrow> p\<lparr>memory := h, routines := (routines p)[i := (objects, None)]\<rparr>
          | Some k \<Rightarrow>
              if entriesOf h k = Map.empty then p\<lparr>memory := h, routines := (routines p)[i := (objects, None)]\<rparr>
              else if k \<in> writing p then p\<lparr>memory := h, crashed := True\<rparr>
              else p\<lparr>memory := h, writing := insert k (writing p), routines := (routines p)[i := (object # objects, Some k)]\<rparr>)"

definition runSchedule :: "nat list \<Rightarrow> Process \<Rightarrow> Process" where
  "runSchedule schedule p = fold scrubStep schedule p"

definition startListings :: "store \<Rightarrow> addr list list \<Rightarrow> Process" where
  "startListings h listings = \<lparr>memory = h, writing = {}, routines = map (\<lambda>xs. (xs, None)) listings, crashed = False\<rparr>"

lemma runSchedule_simps [simp]: "runSchedule [] p = p" "runSchedule (i # is') p = runSchedule is' (scrubStep i p)"
  "runSchedule (is' @ js) p = runSchedule js (runSchedule is' p)"
  by (simp_all add: runSchedule_def)

lemma scrubStep_crashed [simp]: "crashed p \<Longrightarrow> scrubStep i p = p"
  by (simp add: scrubStep_def)

lemma runSchedule_crashed [simp]: "crashed p \<Longrightarrow> runSchedule is' p = p"
  by (induction is') simp_all

section \<open>The cache\<close>

text \<open>Objects of the cache do not share memory, and every listing is one of cached objects.\<close>

definition cacheOf :: "store \<Rightarrow> addr list \<Rightarrow> bool" where
  "cacheOf h objects \<longleftrightarrow> separate h objects \<and> list_all (\<lambda>a. cellMeta (h ! a) \<noteq> None) objects"

lemma separate_apart:
  assumes "separate h xs" and "x \<in> set xs" and "y \<in> set xs" and "x \<noteq> y"
  shows "set (memoryOf h x) \<inter> set (memoryOf h y) = {}"
  using assms by (induction xs) (auto simp: separate_Cons)

lemma separate_distinct: "separate h xs \<Longrightarrow> x \<in> set xs \<Longrightarrow> distinct (memoryOf h x) \<and> inHeap (set (memoryOf h x)) h"
  by (induction xs) (auto simp: separate_Cons)

lemma annotations_memory:
  assumes "cacheOf h xs" and a: "a \<in> set xs" and k: "annotationsOf h a = Some k"
  shows "k \<in> set (memoryOf h a)" and "k < length h" and "k \<noteq> a"
proof -
  obtain m where m: "cellMeta (h ! a) = Some m" "mm_Annotations m = Some k" using k by (auto simp: annotationsOf_def bind_eq_Some_conv)
  have mem: "memoryOf h a = a # metaFp h m @ cellRest h (h ! a)" by (simp add: memoryOf_def cellFp_meta [OF m(1)])
  show "k \<in> set (memoryOf h a)" using m(2) by (simp add: mem metaFp_parts)
  moreover have "distinct (memoryOf h a)" "inHeap (set (memoryOf h a)) h"
    using separate_distinct assms(1) a by (auto simp: cacheOf_def)
  ultimately show "k < length h" "k \<noteq> a" using m(2) by (auto simp: mem metaFp_parts inHeap_def)
qed

lemma annotations_object:
  assumes "cacheOf h xs" and "a \<in> set xs" and "b \<in> set xs" and "annotationsOf h a = Some k"
  shows "k \<noteq> b" and "annotationsOf h b = Some k \<Longrightarrow> b = a"
proof -
  have s: "separate h xs" using assms(1) by (simp add: cacheOf_def)
  have "b \<in> set (memoryOf h b)" by (simp add: memoryOf_def)
  then show "k \<noteq> b" using annotations_memory(1,3) [OF assms(1,2,4)] separate_apart [OF s assms(2,3)] by (cases "a = b") auto
  show "b = a" if "annotationsOf h b = Some k"
    using annotations_memory(1) [OF assms(1,2,4)] annotations_memory(1) [OF assms(1,3) that] separate_apart [OF s assms(2,3)] by blast
qed

lemma annotations_unmanaged [simp]: "annotationsOf (h[a := unmanaged (h ! a)]) b = annotationsOf h b"
  by (cases "a < length h"; cases "a = b"; cases "cellMeta (h ! a)") (simp_all add: annotationsOf_def unmanaged_def not_less list_update_beyond)

lemma annotations_other: "k \<noteq> b \<Longrightarrow> annotationsOf (h[k := c]) b = annotationsOf h b"
  by (simp add: annotationsOf_def)

text \<open>The four things a step can do.\<close>

lemma step_skip:
  assumes "i < length (routines p)" and "\<not> crashed p" and "routines p ! i = (a # as, None)"
    and "\<And>k. annotationsOf (memory p) a = Some k \<Longrightarrow> entriesOf ((memory p)[a := unmanaged (memory p ! a)]) k = Map.empty"
  shows "scrubStep i p = p\<lparr>memory := (memory p)[a := unmanaged (memory p ! a)], routines := (routines p)[i := (as, None)]\<rparr>"
  using assms by (simp add: scrubStep_def Let_def split: option.split)

lemma step_marked:
  assumes "i < length (routines p)" and "\<not> crashed p" and "routines p ! i = (a # as, None)"
    and "annotationsOf (memory p) a = Some k" and "entriesOf ((memory p)[a := unmanaged (memory p ! a)]) k \<noteq> Map.empty"
  shows "scrubStep i p =
    (if k \<in> writing p then p\<lparr>memory := (memory p)[a := unmanaged (memory p ! a)], crashed := True\<rparr>
     else p\<lparr>memory := (memory p)[a := unmanaged (memory p ! a)], writing := insert k (writing p),
       routines := (routines p)[i := (a # as, Some k)]\<rparr>)"
  using assms by (simp add: scrubStep_def Let_def)

lemma step_delete:
  assumes "i < length (routines p)" and "\<not> crashed p" and "routines p ! i = (a # as, Some k)"
  shows "scrubStep i p = p\<lparr>memory := (memory p)[k := CStringMap ((entriesOf (memory p) k)(lastAppliedAnnotation := None))],
    writing := writing p - {k}, routines := (routines p)[i := (as, None)]\<rparr>"
  using assms by (simp add: scrubStep_def)

section \<open>What every reachable state satisfies\<close>

definition shared :: "store \<Rightarrow> addr list list \<Rightarrow> bool" where
  "shared h listings \<longleftrightarrow> (\<exists>i < length listings. \<exists>j < length listings. i \<noteq> j \<and>
     (\<exists>a \<in> set (listings ! i) \<inter> set (listings ! j). \<exists>k. annotationsOf h a = Some k \<and> entriesOf h k \<noteq> Map.empty))"

definition routineOk :: "store \<Rightarrow> addr list \<Rightarrow> listing_goroutine \<Rightarrow> bool" where
  "routineOk h listing r \<longleftrightarrow> set (fst r) \<subseteq> set listing \<and>
     (\<forall>k. snd r = Some k \<longrightarrow> fst r \<noteq> [] \<and> annotationsOf h (hd (fst r)) = Some k)"

definition memoryOk :: "store \<Rightarrow> addr list \<Rightarrow> store \<Rightarrow> bool" where
  "memoryOk h xs m \<longleftrightarrow> length m = length h \<and> (\<forall>a \<in> set xs. annotationsOf m a = annotationsOf h a \<and>
     (\<forall>k. annotationsOf h a = Some k \<longrightarrow> entriesOf m k \<noteq> Map.empty \<longrightarrow> entriesOf h k \<noteq> Map.empty))"

definition raceInv :: "store \<Rightarrow> addr list \<Rightarrow> addr list list \<Rightarrow> Process \<Rightarrow> bool" where
  "raceInv h xs listings p \<longleftrightarrow> memoryOk h xs (memory p) \<and> list_all2 (routineOk h) listings (routines p) \<and>
     (\<forall>k \<in> writing p. \<exists>j < length (routines p). snd (routines p ! j) = Some k) \<and> (crashed p \<longrightarrow> shared h listings)"

lemma memoryOk_unmanaged:
  assumes c: "cacheOf h xs" and a: "a \<in> set xs" and m: "memoryOk h xs m"
  shows "memoryOk h xs (m[a := unmanaged (m ! a)])"
proof -
  have "m[a := unmanaged (m ! a)] ! k = m ! k" if "b \<in> set xs" "annotationsOf h b = Some k" for b k
    using annotations_object(1) [OF c that(1) a that(2)] by simp
  then show ?thesis using m by (auto simp: memoryOk_def)
qed

lemma memoryOk_deleted:
  assumes c: "cacheOf h xs" and a: "a \<in> set xs" "annotationsOf h a = Some k" and m: "memoryOk h xs m"
  shows "memoryOk h xs (m[k := CStringMap ((entriesOf m k)(key := None))])"
proof -
  have "k < length m" using annotations_memory(2) [OF c a] m by (simp add: memoryOk_def)
  moreover have "(entriesOf m k)(key := None) \<noteq> Map.empty \<Longrightarrow> entriesOf m k \<noteq> Map.empty" by auto
  ultimately show ?thesis
    using m annotations_object(1) [OF c a(1) _ a(2)] by (auto simp: memoryOk_def annotations_other nth_list_update)
qed

lemma routine_update:
  assumes "list_all2 (routineOk h) listings rs" and "i < length rs" and "routineOk h (listings ! i) r"
  shows "list_all2 (routineOk h) listings (rs[i := r])"
  using assms by (auto simp: list_all2_conv_all_nth nth_list_update)

lemma owner_update:
  assumes "\<forall>k \<in> W. \<exists>j < length rs. snd (rs ! j) = Some k" and "snd (rs ! i) = None \<or> (\<exists>k. snd (rs ! i) = Some k \<and> k \<notin> W)"
  shows "\<forall>k \<in> W. \<exists>j < length (rs[i := r]). snd (rs[i := r] ! j) = Some k"
proof
  fix k assume k: "k \<in> W"
  with assms(1) obtain j where "j < length rs" "snd (rs ! j) = Some k" by blast
  moreover from this have "j \<noteq> i" using assms(2) k by auto
  ultimately show "\<exists>j < length (rs[i := r]). snd (rs[i := r] ! j) = Some k" by (auto intro!: exI [of _ j])
qed

lemma raceInv_step:
  assumes c: "cacheOf h xs" and l: "list_all (\<lambda>l. set l \<subseteq> set xs) listings" and I: "raceInv h xs listings p"
  shows "raceInv h xs listings (scrubStep i p)"
proof (cases "crashed p \<or> length (routines p) \<le> i \<or> fst (routines p ! i) = []")
  case True
  then have "scrubStep i p = p" by (cases "routines p ! i") (auto simp: scrubStep_def)
  then show ?thesis using I by simp
next
  case False
  let ?rs = "routines p" and ?m = "memory p"
  obtain a as w where r: "?rs ! i = (a # as, w)" using False by (cases "?rs ! i"; cases "fst (?rs ! i)") auto
  have i: "i < length ?rs" "\<not> crashed p" using False by auto
  have M: "memoryOk h xs ?m" and R: "list_all2 (routineOk h) listings ?rs"
    and W: "\<forall>k \<in> writing p. \<exists>j < length ?rs. snd (?rs ! j) = Some k" using I by (simp_all add: raceInv_def)
  have len: "length listings = length ?rs" using R by (rule list_all2_lengthD)
  have ri: "routineOk h (listings ! i) (a # as, w)" using list_all2_nthD2 [OF R i(1)] r by simp
  have a: "a \<in> set xs" using ri l i(1) len by (auto simp: routineOk_def list_all_length)
  have next_ok: "routineOk h (listings ! i) (as, None)" using ri by (simp add: routineOk_def)
  show ?thesis
  proof (cases w)
    case (Some k)
    then have k: "annotationsOf h a = Some k" using ri by (simp add: routineOk_def)
    have step: "scrubStep i p = p\<lparr>memory := ?m[k := CStringMap ((entriesOf ?m k)(lastAppliedAnnotation := None))],
        writing := writing p - {k}, routines := ?rs[i := (as, None)]\<rparr>"
      using i r Some by (simp add: scrubStep_def)
    show ?thesis unfolding step raceInv_def
      using memoryOk_deleted [OF c a k M] routine_update [OF R i(1) next_ok] i(2)
        owner_update [of "writing p - {k}" ?rs i "(as, None)"] W r Some by auto
  next
    case None
    let ?h = "?m[a := unmanaged (?m ! a)]"
    note M' = memoryOk_unmanaged [OF c a M]
    have an: "annotationsOf ?m a = annotationsOf h a" using M a by (simp add: memoryOk_def)
    have q: "i < length ?rs" "\<not> crashed p" "?rs ! i = (a # as, None)" using i r None by simp_all
    consider (skip) "\<And>k. annotationsOf ?m a = Some k \<Longrightarrow> entriesOf ?h k = Map.empty"
      | (fatal) k where "annotationsOf h a = Some k" "entriesOf ?h k \<noteq> Map.empty" "k \<in> writing p"
      | (mark) k where "annotationsOf h a = Some k" "entriesOf ?h k \<noteq> Map.empty" "k \<notin> writing p"
      using an by (cases "annotationsOf h a") auto
    then show ?thesis
    proof cases
      case skip
      have s: "scrubStep i p = p\<lparr>memory := ?h, routines := ?rs[i := (as, None)]\<rparr>" by (rule step_skip [OF q]) (rule skip)
      show ?thesis unfolding s raceInv_def
        using M' routine_update [OF R i(1) next_ok] owner_update [OF W, of i "(as, None)"] r None i(2) by simp
    next
      case fatal
      then obtain j where j: "j < length ?rs" "snd (?rs ! j) = Some k" using W by blast
      have rj: "routineOk h (listings ! j) (?rs ! j)" using list_all2_nthD2 [OF R j(1)] .
      define b where "b = hd (fst (?rs ! j))"
      have b: "b \<in> set (listings ! j)" "annotationsOf h b = Some k" using rj j(2) by (auto simp: routineOk_def b_def)
      then have "b \<in> set xs" using l j(1) len by (auto simp: list_all_length)
      then have "b = a" using annotations_object(2) [OF c a _ fatal(1) b(2)] by simp
      moreover have "entriesOf h k \<noteq> Map.empty" using M' a fatal(1,2) by (auto simp: memoryOk_def)
      moreover have "a \<in> set (listings ! i)" using ri by (simp add: routineOk_def)
      moreover have "i \<noteq> j" using j(2) r None by auto
      ultimately have "shared h listings" using b(1) fatal(1) i(1) j(1) len by (auto simp: shared_def)
      then show ?thesis using fatal(1,3) step_marked [OF q _ fatal(2)] an M' R W by (simp add: raceInv_def)
    next
      case mark
      have "routineOk h (listings ! i) (a # as, Some k)" using ri mark(1) by (simp add: routineOk_def)
      then show ?thesis
        using mark(1,3) step_marked [OF q _ mark(2)] an M' routine_update [OF R i(1)] owner_update [OF W, of i "(a # as, Some k)"] r None i
        by (auto simp: raceInv_def intro!: exI [of _ i])
    qed
  qed
qed

lemma raceInv_run:
  assumes "cacheOf h xs" and "list_all (\<lambda>l. set l \<subseteq> set xs) listings"
  shows "raceInv h xs listings p \<Longrightarrow> raceInv h xs listings (runSchedule schedule p)"
  by (induction schedule arbitrary: p) (simp_all add: raceInv_step [OF assms])

lemma raceInv_start: "cacheOf h xs \<Longrightarrow> raceInv h xs listings (startListings h listings)"
  by (simp add: raceInv_def startListings_def memoryOk_def routineOk_def list_all2_conv_all_nth)

section \<open>A schedule that ends the process\<close>

text \<open>A goroutine alone gets to any of its objects, or the process ends before.\<close>

definition arrived :: "store \<Rightarrow> addr list \<Rightarrow> addr list \<Rightarrow> nat \<Rightarrow> listing_goroutine \<Rightarrow> Process \<Rightarrow> Process \<Rightarrow> bool" where
  "arrived h xs pre i r p q \<longleftrightarrow> \<not> crashed q \<and> writing q = writing p \<and> routines q = (routines p)[i := r] \<and>
     length (memory q) = length h \<and> (\<forall>a \<in> set xs. annotationsOf (memory q) a = annotationsOf h a \<and>
       (\<forall>k. a \<notin> set pre \<longrightarrow> annotationsOf h a = Some k \<longrightarrow> entriesOf (memory q) k = entriesOf (memory p) k))"

lemma one_object:
  assumes c: "cacheOf h xs" and a: "a \<in> set xs" and M: "length (memory p) = length h"
      "\<forall>b \<in> set xs. annotationsOf (memory p) b = annotationsOf h b"
    and q: "i < length (routines p)" "\<not> crashed p" "routines p ! i = (a # as, None)"
  shows "\<exists>n \<in> {1, 2}. let p' = runSchedule (replicate n i) p in crashed p' \<or> arrived h xs [a] i (as, None) p p'"
proof -
  let ?h = "(memory p)[a := unmanaged (memory p ! a)]"
  have u: "k \<noteq> a" if "b \<in> set xs" "annotationsOf h b = Some k" for b k using annotations_object(1) [OF c that(1) a that(2)] .
  then have n: "entriesOf ?h k = entriesOf (memory p) k" if "b \<in> set xs" "annotationsOf h b = Some k" for b k
    using that by (metis nth_list_update_neq)
  consider (skip) "\<And>k. annotationsOf (memory p) a = Some k \<Longrightarrow> entriesOf ?h k = Map.empty"
    | (mark) k where "annotationsOf (memory p) a = Some k" "entriesOf ?h k \<noteq> Map.empty" by blast
  then show ?thesis
  proof cases
    case skip
    have s: "scrubStep i p = p\<lparr>memory := ?h, routines := (routines p)[i := (as, None)]\<rparr>" by (rule step_skip [OF q]) (rule skip)
    have "arrived h xs [a] i (as, None) p (scrubStep i p)" unfolding s arrived_def using M q n by auto
    then show ?thesis by (intro bexI [of _ 1]) simp_all
  next
    case mark
    have k: "annotationsOf h a = Some k" using mark(1) M a by simp
    note ks = annotations_object [OF c a _ k]
    note m = step_marked [OF q mark]
    show ?thesis
    proof (cases "k \<in> writing p")
      case True
      then show ?thesis using m by (intro bexI [of _ 1]) simp_all
    next
      case False
      have n': "entriesOf (?h[k := d]) k' = entriesOf (memory p) k'" if "b \<in> set xs" "b \<noteq> a" "annotationsOf h b = Some k'" for b k' d
        using n [OF that(1,3)] ks(2) [OF that(1)] that(2,3) by (metis nth_list_update_neq)
      define p1 where "p1 = scrubStep i p"
      have p1: "p1 = p\<lparr>memory := ?h, writing := insert k (writing p), routines := (routines p)[i := (a # as, Some k)]\<rparr>"
        using m False by (simp add: p1_def)
      have "arrived h xs [a] i (as, None) p (scrubStep i p1)"
        using step_delete [of i p1 a as k] q M n' ks False by (auto simp: p1 arrived_def annotations_other)
      then show ?thesis by (intro bexI [of _ 2]) (simp_all add: p1_def numeral_2_eq_2)
    qed
  qed
qed

lemma arrived_trans:
  "arrived h xs pre i r p p' \<Longrightarrow> arrived h xs pre' i r' p' q \<Longrightarrow> arrived h xs (pre @ pre') i r' p q"
  by (auto simp: arrived_def)

lemma advance:
  assumes c: "cacheOf h xs" and "set pre \<subseteq> set xs" and "length (memory p) = length h"
    and "\<forall>b \<in> set xs. annotationsOf (memory p) b = annotationsOf h b"
    and "i < length (routines p)" and "\<not> crashed p" and "routines p ! i = (pre @ as, None)"
  shows "\<exists>schedule. let q = runSchedule schedule p in crashed q \<or> arrived h xs pre i (as, None) p q"
  using assms(2-)
proof (induction pre arbitrary: p)
  case Nil
  then have "(routines p)[i := (as, None)] = routines p" by (metis append_Nil list_update_id)
  with Nil have "arrived h xs [] i (as, None) p (runSchedule [] p)" by (simp add: arrived_def)
  then show ?case by (metis (full_types))
next
  case (Cons x pre)
  have "x \<in> set xs" using Cons.prems(1) by simp
  from one_object [OF c this Cons.prems(2-5), of "pre @ as"] Cons.prems(6)
  obtain n where n: "crashed (runSchedule (replicate n i) p) \<or> arrived h xs [x] i (pre @ as, None) p (runSchedule (replicate n i) p)"
    unfolding Let_def by (metis (no_types) append_Cons)
  define p' where "p' = runSchedule (replicate n i) p"
  show ?case
  proof (cases "crashed p'")
    case True
    then show ?thesis unfolding p'_def by (metis (full_types))
  next
    case False
    then have a: "arrived h xs [x] i (pre @ as, None) p p'" using n by (simp add: p'_def)
    then have "\<exists>schedule. let q = runSchedule schedule p' in crashed q \<or> arrived h xs pre i (as, None) p' q"
      using Cons.prems(1,4) False by (intro Cons.IH) (simp_all add: arrived_def)
    then obtain s where "crashed (runSchedule s p') \<or> arrived h xs pre i (as, None) p' (runSchedule s p')" by (auto simp: Let_def)
    then have "let q = runSchedule (replicate n i @ s) p in crashed q \<or> arrived h xs (x # pre) i (as, None) p q"
      using arrived_trans [OF a] by (auto simp: p'_def)
    then show ?thesis by blast
  qed
qed

lemma unmarked_entries:
  assumes "cacheOf h xs" and "a \<in> set xs" and "annotationsOf h a = Some k"
  shows "entriesOf (m[a := c]) k = entriesOf m k"
  using annotations_memory(3) [OF assms] by simp

lemma shared_crashes:
  assumes c: "cacheOf h xs" and l: "list_all (\<lambda>l. set l \<subseteq> set xs) listings" and s: "shared h listings"
  shows "\<exists>schedule. crashed (runSchedule schedule (startListings h listings))"
proof (rule ccontr)
  assume "\<not> ?thesis"
  then have never: "\<not> crashed (runSchedule s (startListings h listings))" for s by blast
  let ?p = "startListings h listings"
  obtain i j a k where ij: "i < length listings" "j < length listings" "i \<noteq> j" and a: "a \<in> set (listings ! i)" "a \<in> set (listings ! j)"
    and k: "annotationsOf h a = Some k" "entriesOf h k \<noteq> Map.empty" using s by (auto simp: shared_def)
  have ax: "a \<in> set xs" and sub: "set (listings ! i) \<subseteq> set xs" "set (listings ! j) \<subseteq> set xs"
    using a ij l by (auto simp: list_all_length)
  note e = unmarked_entries [OF c ax k(1)]
  obtain pre as where i: "listings ! i = pre @ a # as" "a \<notin> set pre" using split_list_first [OF a(1)] by blast
  obtain pre' as' where j: "listings ! j = pre' @ a # as'" "a \<notin> set pre'" using split_list_first [OF a(2)] by blast
  have "\<exists>s. let q = runSchedule s ?p in crashed q \<or> arrived h xs pre i (a # as, None) ?p q"
    using ij i sub by (intro advance [OF c]) (auto simp: startListings_def)
  then obtain s where p1: "arrived h xs pre i (a # as, None) ?p (runSchedule s ?p)" using never by (auto simp: Let_def)
  define p1 where "p1 = runSchedule s ?p"
  have q1: "i < length (routines p1)" "\<not> crashed p1" "routines p1 ! i = (a # as, None)" "annotationsOf (memory p1) a = Some k"
    "entriesOf (memory p1) k = entriesOf h k" "writing p1 = {}" "length (memory p1) = length h"
    "\<forall>b \<in> set xs. annotationsOf (memory p1) b = annotationsOf h b" "routines p1 ! j = (pre' @ a # as', None)" "j < length (routines p1)"
    using p1 ij i(2) j k ax by (auto simp: p1_def arrived_def startListings_def)
  define p2 where "p2 = scrubStep i p1"
  have p2: "p2 = p1\<lparr>memory := (memory p1)[a := unmanaged (memory p1 ! a)], writing := insert k (writing p1),
      routines := (routines p1)[i := (a # as, Some k)]\<rparr>"
    using step_marked [OF q1(1-4)] q1(5,6) k(2) e by (simp add: p2_def)
  have "\<exists>s. let q = runSchedule s p2 in crashed q \<or> arrived h xs pre' j (a # as', None) p2 q"
    using q1 ij(3) sub j(1) by (intro advance [OF c]) (auto simp: p2)
  moreover have n2: "\<not> crashed (runSchedule s' p2)" for s' using never [of "s @ i # s'"] by (simp add: p2_def p1_def)
  ultimately obtain s' where p3: "arrived h xs pre' j (a # as', None) p2 (runSchedule s' p2)" by (auto simp: Let_def)
  define p3 where "p3 = runSchedule s' p2"
  have q3: "j < length (routines p3)" "\<not> crashed p3" "routines p3 ! j = (a # as', None)" "annotationsOf (memory p3) a = Some k"
    "entriesOf (memory p3) k = entriesOf h k" "k \<in> writing p3"
    using p3 q1 j(2) k ax e by (auto simp: p3_def arrived_def p2)
  have "crashed (scrubStep j p3)" using step_marked [OF q3(1-4)] q3(5,6) k(2) e by simp
  then show False using n2 [of "s' @ [j]"] by (simp add: p3_def)
qed

section \<open>Properties\<close>

text \<open>
  C38. Listings that run at the same time over one cache can end the process exactly when two of them list a
  common object that has an annotation; a single listing never does.
\<close>

theorem listings_crash_iff:
  assumes "cacheOf h xs" and "list_all (\<lambda>l. set l \<subseteq> set xs) listings"
  shows "(\<exists>schedule. crashed (runSchedule schedule (startListings h listings))) \<longleftrightarrow> shared h listings"
proof
  assume "\<exists>schedule. crashed (runSchedule schedule (startListings h listings))"
  then obtain s where s: "crashed (runSchedule s (startListings h listings))" by blast
  have "raceInv h xs listings (runSchedule s (startListings h listings))"
    by (rule raceInv_run [OF assms raceInv_start [OF assms(1)]])
  with s show "shared h listings" by (simp add: raceInv_def)
qed (rule shared_crashes [OF assms])

text \<open>Two requests that list the same annotated user.\<close>

theorem listings_crash_iff_witness:
  "\<exists>schedule. crashed (runSchedule schedule (startListings cachedStore [[2], [2]]))"
proof -
  have "cacheOf cachedStore [2]"
    by (simp add: cacheOf_def separate_def memoryOf_def footprint_eval cachedStore_def someUser_def someMeta_def)
  moreover have "shared cachedStore [[2], [2]]"
    unfolding shared_def
    by (rule exI [of _ 0], simp, rule exI [of _ 1]) (simp add: annotationsOf_def cachedStore_def someUser_def someMeta_def)
  ultimately show ?thesis using listings_crash_iff [of cachedStore "[2]" "[[2], [2]]"] by simp
qed

lemma two_requests_crash: "crashed (runSchedule [0, 1] (startListings cachedStore [[2], [2]]))"
  by (simp add: startListings_def scrubStep_def annotationsOf_def cachedStore_def unmanaged_def someUser_def someMeta_def)

lemma single_listing_safe:
  assumes "cacheOf h xs" and "set l \<subseteq> set xs"
  shows "\<not> crashed (runSchedule schedule (startListings h [l]))"
  using raceInv_run [OF assms(1) _ raceInv_start [OF assms(1)], of "[l]" schedule] assms(2)
  by (auto simp: raceInv_def shared_def)

end
