(* ===== verification/Group_Access.thy ===== *)
theory Group_Access
  imports Rest_Clientset
begin

text \<open>
  The generated ways to a client or an informer of one group: the constructors of the clients of
  \<open>core.ai.io\<close> and \<open>iam.ai.io\<close>, of the clientset over a given REST client, and the chains
  \<open>f.Iam().V1().Users()\<close> of the informer factory, of which \<open>Informer_Factory\<close> has the end points.
\<close>

section \<open>Clients of a group\<close>

text \<open>\<open>panic(err)\<close>\<close>

definition orDie :: "(goerr \<Rightarrow> string) \<Rightarrow> goerr + 'a \<Rightarrow> 'a go" where
  "orDie text r = (case r of Inl err \<Rightarrow> Inl (Explicit (text err)) | Inr c \<Rightarrow> Inr c)"

definition coreSetConfigDefaults :: "string \<Rightarrow> RestConfig \<Rightarrow> RestConfig" where
  "coreSetConfigDefaults agent = setConfigDefaults coreGV agent"

definition coreNewForConfigAndClient :: "('h, 'c) RestLib \<Rightarrow> RestConfig \<Rightarrow> 'h \<Rightarrow> goerr + 'c" where
  "coreNewForConfigAndClient lib c h = restClientFor lib (coreSetConfigDefaults (defaultAgent lib) c) h"

definition coreNewForConfig :: "('h, 'c) RestLib \<Rightarrow> RestConfig \<Rightarrow> goerr + 'c" where
  "coreNewForConfig lib c =
     (let config = coreSetConfigDefaults (defaultAgent lib) c in
      case httpClientFor lib config of
        Inl err \<Rightarrow> Inl err
      | Inr httpClient \<Rightarrow> coreNewForConfigAndClient lib config httpClient)"

definition coreNewForConfigOrDie :: "(goerr \<Rightarrow> string) \<Rightarrow> ('h, 'c) RestLib \<Rightarrow> RestConfig \<Rightarrow> 'c go" where
  "coreNewForConfigOrDie text lib c = orDie text (coreNewForConfig lib c)"

definition iamNewForConfigAndClient :: "('h, 'c) RestLib \<Rightarrow> RestConfig \<Rightarrow> 'h \<Rightarrow> goerr + 'c" where
  "iamNewForConfigAndClient lib c h = restClientFor lib (setConfigDefaults iamGV (defaultAgent lib) c) h"

definition iamNewForConfig :: "('h, 'c) RestLib \<Rightarrow> RestConfig \<Rightarrow> goerr + 'c" where
  "iamNewForConfig lib c =
     (let config = setConfigDefaults iamGV (defaultAgent lib) c in
      case httpClientFor lib config of
        Inl err \<Rightarrow> Inl err
      | Inr httpClient \<Rightarrow> iamNewForConfigAndClient lib config httpClient)"

definition iamNewForConfigOrDie :: "(goerr \<Rightarrow> string) \<Rightarrow> ('h, 'c) RestLib \<Rightarrow> RestConfig \<Rightarrow> 'c go" where
  "iamNewForConfigOrDie text lib c = orDie text (iamNewForConfig lib c)"

definition clientsetForConfigOrDie :: "(goerr \<Rightarrow> string) \<Rightarrow> ('h, 'c) RestLib \<Rightarrow> RestConfig \<Rightarrow> 'c Clientset go" where
  "clientsetForConfigOrDie text lib c = orDie text (clientsetForConfig lib c)"

text \<open>All the clients of a clientset over one REST client; \<open>discoveryNew\<close> is library code.\<close>

definition clientsetNew :: "('c \<Rightarrow> 'c) \<Rightarrow> 'c \<Rightarrow> 'c Clientset" where
  "clientsetNew discoveryNew c = \<lparr>csCoreV1 = c, csIamV1 = c, csDiscovery = discoveryNew c\<rparr>"

lemma group_clients:
  "coreNewForConfigAndClient lib = groupClientForConfigAndClient lib coreGV"
  "iamNewForConfigAndClient lib = groupClientForConfigAndClient lib iamGV"
  by (intro ext, simp add: coreNewForConfigAndClient_def iamNewForConfigAndClient_def groupClientForConfigAndClient_def
      coreSetConfigDefaults_def)+

lemma setConfigDefaults_idem: "setConfigDefaults gv a (setConfigDefaults gv a c) = setConfigDefaults gv a c"
  by (simp add: setConfigDefaults_def Let_def)

text \<open>
  The defaults are set twice on the way of \<open>NewForConfig\<close>, which changes nothing: it is
  \<open>NewForConfigAndClient\<close> of the given configuration and of the HTTP client made from its defaults.
\<close>

lemma coreNewForConfig_equivalent:
  "coreNewForConfig lib c =
    (case httpClientFor lib (setConfigDefaults coreGV (defaultAgent lib) c) of
       Inl err \<Rightarrow> Inl err | Inr h \<Rightarrow> coreNewForConfigAndClient lib c h)"
  by (simp add: coreNewForConfig_def coreNewForConfigAndClient_def coreSetConfigDefaults_def setConfigDefaults_idem Let_def
      split: sum.split)

lemma iamNewForConfig_equivalent:
  "iamNewForConfig lib c =
    (case httpClientFor lib (setConfigDefaults iamGV (defaultAgent lib) c) of
       Inl err \<Rightarrow> Inl err | Inr h \<Rightarrow> iamNewForConfigAndClient lib c h)"
  by (simp add: iamNewForConfig_def iamNewForConfigAndClient_def setConfigDefaults_idem Let_def split: sum.split)

lemma orDie_panics: "orDie text r = Inl p \<longleftrightarrow> (\<exists>e. r = Inl e \<and> p = Explicit (text e))"
  by (auto simp: orDie_def split: sum.splits)

section \<open>Informers of a group\<close>

text \<open>The group and the version keep what the factory had; the factory itself is shared.\<close>

record 'o GroupInformers =
  gi_namespace :: string
  gi_tweak :: "('o \<Rightarrow> 'o) option"

definition groupNew :: "string \<Rightarrow> ('o \<Rightarrow> 'o) option \<Rightarrow> 'o GroupInformers" where
  "groupNew namespace tweak = \<lparr>gi_namespace = namespace, gi_tweak = tweak\<rparr>"

definition factoryIam :: "'o Factory \<Rightarrow> 'o GroupInformers" where
  "factoryIam f = groupNew (fNamespace f) (tweakListOptions f)"

definition factoryCore :: "'o Factory \<Rightarrow> 'o GroupInformers" where
  "factoryCore f = groupNew (fNamespace f) (tweakListOptions f)"

text \<open>A version is made of the same parts.\<close>

definition versionNew :: "string \<Rightarrow> ('o \<Rightarrow> 'o) option \<Rightarrow> 'o GroupInformers" where
  "versionNew namespace tweak = \<lparr>gi_namespace = namespace, gi_tweak = tweak\<rparr>"

definition iamV1 :: "'o GroupInformers \<Rightarrow> 'o GroupInformers" where
  "iamV1 g = versionNew (gi_namespace g) (gi_tweak g)"

definition coreV1 :: "'o GroupInformers \<Rightarrow> 'o GroupInformers" where
  "coreV1 g = versionNew (gi_namespace g) (gi_tweak g)"

text \<open>The informer of a kind, asked for through the version.\<close>

definition v1Users :: "'o GroupInformers \<Rightarrow> 'o Factory \<Rightarrow> 'o Informer \<times> 'o Factory" where
  "v1Users v = InformerFor KUser (\<lambda>d. NewFilteredUserInformer d (gi_tweak v))"

definition v1GlobalRoles :: "'o GroupInformers \<Rightarrow> 'o Factory \<Rightarrow> 'o Informer \<times> 'o Factory" where
  "v1GlobalRoles v = InformerFor KGlobalRole (\<lambda>d. NewFilteredGlobalRoleInformer d (gi_tweak v))"

definition v1GlobalRoleBindings :: "'o GroupInformers \<Rightarrow> 'o Factory \<Rightarrow> 'o Informer \<times> 'o Factory" where
  "v1GlobalRoleBindings v = InformerFor KGlobalRoleBinding (\<lambda>d. NewFilteredGlobalRoleBindingInformer d (gi_tweak v))"

definition v1LoginRecords :: "'o GroupInformers \<Rightarrow> 'o Factory \<Rightarrow> 'o Informer \<times> 'o Factory" where
  "v1LoginRecords v = InformerFor KLoginRecord (\<lambda>d. NewFilteredLoginRecordInformer d (gi_tweak v))"

definition v1Healths :: "'o GroupInformers \<Rightarrow> 'o Factory \<Rightarrow> 'o Informer \<times> 'o Factory" where
  "v1Healths v = InformerFor KHealth (\<lambda>d. NewFilteredHealthInformer d (gi_tweak v))"

text \<open>Independent informers, outside any factory.\<close>

definition NewUserInformer :: "duration \<Rightarrow> 'o Informer" where
  "NewUserInformer resyncPeriod = NewFilteredUserInformer resyncPeriod None"

definition NewGlobalRoleInformer :: "duration \<Rightarrow> 'o Informer" where
  "NewGlobalRoleInformer resyncPeriod = NewFilteredGlobalRoleInformer resyncPeriod None"

definition NewGlobalRoleBindingInformer :: "duration \<Rightarrow> 'o Informer" where
  "NewGlobalRoleBindingInformer resyncPeriod = NewFilteredGlobalRoleBindingInformer resyncPeriod None"

definition NewLoginRecordInformer :: "duration \<Rightarrow> 'o Informer" where
  "NewLoginRecordInformer resyncPeriod = NewFilteredLoginRecordInformer resyncPeriod None"

definition NewHealthInformer :: "duration \<Rightarrow> 'o Informer" where
  "NewHealthInformer resyncPeriod = NewFilteredHealthInformer resyncPeriod None"

lemmas access_defs = factoryIam_def factoryCore_def groupNew_def versionNew_def iamV1_def coreV1_def v1Users_def
  v1GlobalRoles_def v1GlobalRoleBindings_def v1LoginRecords_def v1Healths_def

lemma chains:
  "v1Users (iamV1 (factoryIam f)) f = userInformer f" "v1GlobalRoles (iamV1 (factoryIam f)) f = globalRoleInformer f"
  "v1GlobalRoleBindings (iamV1 (factoryIam f)) f = globalRoleBindingInformer f"
  "v1LoginRecords (iamV1 (factoryIam f)) f = loginRecordInformer f" "v1Healths (coreV1 (factoryCore f)) f = healthInformer f"
  by (simp_all add: access_defs kind_informer_defs)

text \<open>
  \<open>Informer()\<close> and \<open>Lister()\<close> of the accessor may be called in any order and any number of times: after
  the first call of a chain another one gives the same informer and leaves the factory as it is.
\<close>

lemma chain_again:
  assumes "InformerFor t new f = (i, f')" and "InformerFor t new' f' = (i', f'')"
  shows "i' = i \<and> f'' = f'"
proof -
  have "map_of (informers f') t = Some i" using InformerFor_frame [OF assms(1)] by simp
  then show ?thesis using assms(2) by (simp add: InformerFor_def)
qed

lemma users_informer_shared:
  assumes "v1Users (iamV1 (factoryIam f)) f = (i, f')"
  shows "v1Users (iamV1 (factoryIam g)) f' = (i, f')" and "ForResource (WithResource iamGV ''users'') f' = (Inr i, f')"
proof -
  obtain i2 f2 where u: "v1Users (iamV1 (factoryIam g)) f' = (i2, f2)" by (metis surj_pair)
  show "v1Users (iamV1 (factoryIam g)) f' = (i, f')"
    using chain_again [of KUser _ f i f' _ i2 f2] assms u by (simp add: v1Users_def)
  have "userInformer f' = (i, f')"
    using chain_again [of KUser _ f i f'] assms by (metis surj_pair v1Users_def userInformer_def)
  then show "ForResource (WithResource iamGV ''users'') f' = (Inr i, f')"
    by (simp add: ForResource_def WithResource_def coreGV_def iamGV_def GroupVersion.defs GroupVersionResource.defs)
qed
end
