(* ===== verification/Fake_Clients.thy ===== *)
theory Fake_Clients
  imports Rest_Clientset Query_Params Health_Types
begin

text \<open>
  The generated fake clients, \<open>pkg/client/ai/clientset/versioned/typed/*/v1/fake\<close>, which the unit tests
  use in place of the clientset. A method builds an action of \<open>k8s.io/client-go/testing\<close>, hands it to
  \<open>Invokes\<close> and asserts the type of what comes back; \<open>List\<close> filters it by the label selector. The
  testing library is a parameter: \<open>'a\<close> are its actions, \<open>'s\<close> the state of its reactors.
\<close>

section \<open>The testing library\<close>

text \<open>The objects behind \<open>runtime.Object\<close> that a fake client can be handed.\<close>

datatype Fetched =
    FUser User
  | FGlobalRole RoleObj
  | FGlobalRoleBinding BindingObj
  | FLoginRecord LoginRecord
  | FHealth Health
  | FUserList ListMeta "User list"
  | FGlobalRoleList ListMeta "RoleObj list"
  | FGlobalRoleBindingList ListMeta "BindingObj list"
  | FLoginRecordList ListMeta "LoginRecord list"
  | FHealthList ListMeta "Health list"

record ('a, 's, 'x) FakeLib =
  newRootGet :: "GroupVersionResource \<Rightarrow> string \<Rightarrow> 'a"
  newRootList :: "GroupVersionResource \<Rightarrow> string \<Rightarrow> MetaListOptions \<Rightarrow> 'a"
  newRootWatch :: "GroupVersionResource \<Rightarrow> MetaListOptions \<Rightarrow> 'a"
  newRootCreate :: "GroupVersionResource \<Rightarrow> Fetched \<Rightarrow> 'a"
  newRootUpdate :: "GroupVersionResource \<Rightarrow> Fetched \<Rightarrow> 'a"
  newRootUpdateSubresource :: "GroupVersionResource \<Rightarrow> string \<Rightarrow> Fetched \<Rightarrow> 'a"
  newRootDelete :: "GroupVersionResource \<Rightarrow> string \<Rightarrow> string \<Rightarrow> 'a" \<comment> \<open>the last is the options\<close>
  newRootDeleteCollection :: "GroupVersionResource \<Rightarrow> MetaListOptions \<Rightarrow> 'a"
  newRootPatchSubresource :: "GroupVersionResource \<Rightarrow> string \<Rightarrow> string \<Rightarrow> string \<Rightarrow> string list \<Rightarrow> 'a"
  Invokes :: "'a \<Rightarrow> Fetched \<Rightarrow> 's \<Rightarrow> (Fetched option \<times> goerr option) \<times> 's"
  InvokesWatch :: "'a \<Rightarrow> 's \<Rightarrow> ('x \<times> goerr option) \<times> 's"
  ExtractLabel :: "MetaListOptions \<Rightarrow> selector option"

section \<open>A fake client\<close>

text \<open>What differs between the five: the resource, the kind, the empty objects and the type assertions.\<close>

record 'u FakeKind =
  fk_resource :: GroupVersionResource
  fk_kind :: string
  fk_empty :: Fetched
  fk_emptyList :: Fetched
  fk_inject :: "'u \<Rightarrow> Fetched"
  fk_assert :: "Fetched \<Rightarrow> 'u option"
  fk_assertList :: "Fetched \<Rightarrow> (ListMeta \<times> 'u list) option"
  fk_meta :: "'u \<Rightarrow> ObjectMeta"
  fk_hasStatus :: bool

text \<open>A Go result \<open>(*T, error)\<close>; the type assertion of another type panics.\<close>

type_synonym 'u result = "panic + ('u option \<times> goerr option)"

definition asserted :: "(Fetched \<Rightarrow> 'u option) \<Rightarrow> (Fetched option \<times> goerr option) \<times> 's \<Rightarrow> 'u result \<times> 's" where
  \<comment> \<open>\<open>if obj == nil { return nil, err }; return obj.(*v1.User), err\<close>\<close>
  "asserted f r =
     (case r of
        ((None, err), s) \<Rightarrow> (Inr (None, err), s)
      | ((Some obj, err), s) \<Rightarrow>
          (case f obj of
             None \<Rightarrow> (Inl (Explicit ''interface conversion''), s)
           | Some x \<Rightarrow> (Inr (Some x, err), s)))"

definition fakeGet :: "'u FakeKind \<Rightarrow> ('a, 's, 'x) FakeLib \<Rightarrow> string \<Rightarrow> 's \<Rightarrow> 'u result \<times> 's" where
  "fakeGet K L name s = asserted (fk_assert K) (Invokes L (newRootGet L (fk_resource K) name) (fk_empty K) s)"

fun labelled :: "('u \<Rightarrow> ObjectMeta) \<Rightarrow> selector \<Rightarrow> 'u list \<Rightarrow> 'u list \<Rightarrow> 'u list" where
  \<comment> \<open>the loop over the items; the last argument is \<open>list.Items\<close>\<close>
  "labelled md label [] acc = acc"
| "labelled md label (item # items) acc =
     labelled md label items (if label (Labels (md item)) then acc @ [item] else acc)"

definition fakeList ::
  "'u FakeKind \<Rightarrow> ('a, 's, 'x) FakeLib \<Rightarrow> MetaListOptions \<Rightarrow> 's \<Rightarrow> (ListMeta \<times> 'u list) result \<times> 's" where
  "fakeList K L opts s =
     (case asserted (fk_assertList K) (Invokes L (newRootList L (fk_resource K) (fk_kind K) opts) (fk_emptyList K) s) of
        (Inr (Some (lm, items), err), s') \<Rightarrow>
          let label = (case ExtractLabel L opts of None \<Rightarrow> Everything | Some label \<Rightarrow> label)
          in (Inr (Some (lm, labelled (fk_meta K) label items []), err), s')
      | (r, s') \<Rightarrow> (r, s'))"

definition fakeWatch :: "'u FakeKind \<Rightarrow> ('a, 's, 'x) FakeLib \<Rightarrow> MetaListOptions \<Rightarrow> 's \<Rightarrow> ('x \<times> goerr option) \<times> 's" where
  "fakeWatch K L opts s = InvokesWatch L (newRootWatch L (fk_resource K) opts) s"

definition fakeCreate :: "'u FakeKind \<Rightarrow> ('a, 's, 'x) FakeLib \<Rightarrow> 'u \<Rightarrow> 's \<Rightarrow> 'u result \<times> 's" where
  "fakeCreate K L obj s =
     asserted (fk_assert K) (Invokes L (newRootCreate L (fk_resource K) (fk_inject K obj)) (fk_empty K) s)"

definition fakeUpdate :: "'u FakeKind \<Rightarrow> ('a, 's, 'x) FakeLib \<Rightarrow> 'u \<Rightarrow> 's \<Rightarrow> 'u result \<times> 's" where
  "fakeUpdate K L obj s =
     asserted (fk_assert K) (Invokes L (newRootUpdate L (fk_resource K) (fk_inject K obj)) (fk_empty K) s)"

definition fakeUpdateStatus :: "'u FakeKind \<Rightarrow> ('a, 's, 'x) FakeLib \<Rightarrow> ('u \<Rightarrow> 's \<Rightarrow> 'u result \<times> 's) option" where
  \<comment> \<open>only for the types with a status\<close>
  "fakeUpdateStatus K L =
     (if fk_hasStatus K then Some (\<lambda>obj s.
        asserted (fk_assert K)
          (Invokes L (newRootUpdateSubresource L (fk_resource K) ''status'' (fk_inject K obj)) (fk_empty K) s))
      else None)"

definition fakeDelete :: "'u FakeKind \<Rightarrow> ('a, 's, 'x) FakeLib \<Rightarrow> string \<Rightarrow> string \<Rightarrow> 's \<Rightarrow> goerr option \<times> 's" where
  "fakeDelete K L name opts s =
     (case Invokes L (newRootDelete L (fk_resource K) name opts) (fk_empty K) s of ((_, err), s') \<Rightarrow> (err, s'))"

definition fakeDeleteCollection :: "'u FakeKind \<Rightarrow> ('a, 's, 'x) FakeLib \<Rightarrow> MetaListOptions \<Rightarrow> 's \<Rightarrow> goerr option \<times> 's" where
  "fakeDeleteCollection K L listOpts s =
     (case Invokes L (newRootDeleteCollection L (fk_resource K) listOpts) (fk_emptyList K) s of ((_, err), s') \<Rightarrow> (err, s'))"

definition fakePatch ::
  "'u FakeKind \<Rightarrow> ('a, 's, 'x) FakeLib \<Rightarrow> string \<Rightarrow> string \<Rightarrow> string \<Rightarrow> string list \<Rightarrow> 's \<Rightarrow> 'u result \<times> 's" where
  "fakePatch K L name pt data subresources s =
     asserted (fk_assert K)
       (Invokes L (newRootPatchSubresource L (fk_resource K) name pt data subresources) (fk_empty K) s)"

lemmas fake_defs = fakeGet_def fakeWatch_def fakeCreate_def fakeUpdate_def fakeUpdateStatus_def fakeDelete_def
  fakeDeleteCollection_def fakePatch_def

section \<open>The five clients\<close>

definition emptyListMeta :: ListMeta where
  "emptyListMeta = \<lparr>listResourceVersion = '''', listContinue = '''', RemainingItemCount = None\<rparr>"

definition fakeUsers :: "User FakeKind" where
  "fakeUsers = \<lparr>fk_resource = WithResource iamGV ''users'', fk_kind = ''User'',
     fk_empty = FUser \<lparr>user_meta = emptyMeta, user_spec = emptySpec, user_status = emptyStatus\<rparr>,
     fk_emptyList = FUserList emptyListMeta [], fk_inject = FUser,
     fk_assert = (\<lambda>x. case x of FUser u \<Rightarrow> Some u | _ \<Rightarrow> None),
     fk_assertList = (\<lambda>x. case x of FUserList m us \<Rightarrow> Some (m, us) | _ \<Rightarrow> None),
     fk_meta = user_meta, fk_hasStatus = True\<rparr>"

definition fakeGlobalRoles :: "RoleObj FakeKind" where
  "fakeGlobalRoles = \<lparr>fk_resource = WithResource iamGV ''globalroles'', fk_kind = ''GlobalRole'',
     fk_empty = FGlobalRole \<lparr>role_meta = emptyMeta, Rules = []\<rparr>,
     fk_emptyList = FGlobalRoleList emptyListMeta [], fk_inject = FGlobalRole,
     fk_assert = (\<lambda>x. case x of FGlobalRole r \<Rightarrow> Some r | _ \<Rightarrow> None),
     fk_assertList = (\<lambda>x. case x of FGlobalRoleList m rs \<Rightarrow> Some (m, rs) | _ \<Rightarrow> None),
     fk_meta = role_meta, fk_hasStatus = False\<rparr>"

definition fakeGlobalRoleBindings :: "BindingObj FakeKind" where
  "fakeGlobalRoleBindings = \<lparr>fk_resource = WithResource iamGV ''globalrolebindings'', fk_kind = ''GlobalRoleBinding'',
     fk_empty = FGlobalRoleBinding \<lparr>binding_meta = emptyMeta, Subjects = [],
       roleRef = \<lparr>ref_APIGroup = '''', ref_Kind = '''', ref_Name = ''''\<rparr>\<rparr>,
     fk_emptyList = FGlobalRoleBindingList emptyListMeta [], fk_inject = FGlobalRoleBinding,
     fk_assert = (\<lambda>x. case x of FGlobalRoleBinding b \<Rightarrow> Some b | _ \<Rightarrow> None),
     fk_assertList = (\<lambda>x. case x of FGlobalRoleBindingList m bs \<Rightarrow> Some (m, bs) | _ \<Rightarrow> None),
     fk_meta = binding_meta, fk_hasStatus = False\<rparr>"

definition fakeLoginRecords :: "LoginRecord FakeKind" where
  "fakeLoginRecords = \<lparr>fk_resource = WithResource iamGV ''loginrecords'', fk_kind = ''LoginRecord'',
     fk_empty = FLoginRecord \<lparr>record_meta = emptyMeta, record_spec = \<lparr>rec_Type = '''', Provider = '''', SourceIP = '''',
       UserAgent = '''', Success = False, rec_Reason = ''''\<rparr>\<rparr>,
     fk_emptyList = FLoginRecordList emptyListMeta [], fk_inject = FLoginRecord,
     fk_assert = (\<lambda>x. case x of FLoginRecord r \<Rightarrow> Some r | _ \<Rightarrow> None),
     fk_assertList = (\<lambda>x. case x of FLoginRecordList m rs \<Rightarrow> Some (m, rs) | _ \<Rightarrow> None),
     fk_meta = record_meta, fk_hasStatus = False\<rparr>"

definition fakeHealths :: "Health FakeKind" where
  "fakeHealths = \<lparr>fk_resource = WithResource coreGV ''healths'', fk_kind = ''Health'',
     fk_empty = FHealth \<lparr>health_meta = emptyMeta,
       health_spec = \<lparr>Interval = 0, ComponentSelectors = None, ServiceProbes = None\<rparr>, health_status = \<lparr>Components = None\<rparr>\<rparr>,
     fk_emptyList = FHealthList emptyListMeta [], fk_inject = FHealth,
     fk_assert = (\<lambda>x. case x of FHealth h \<Rightarrow> Some h | _ \<Rightarrow> None),
     fk_assertList = (\<lambda>x. case x of FHealthList m hs \<Rightarrow> Some (m, hs) | _ \<Rightarrow> None),
     fk_meta = health_meta, fk_hasStatus = True\<rparr>"

section \<open>The fake clientset\<close>

text \<open>\<open>NewSimpleClientset\<close>: an error of the tracker is a panic; \<open>text\<close> is its message.\<close>

fun addObjects :: "(goerr \<Rightarrow> string) \<Rightarrow> ('t \<Rightarrow> Fetched \<Rightarrow> goerr option \<times> 't) \<Rightarrow> Fetched list \<Rightarrow> 't \<Rightarrow> 't go" where
  "addObjects text add [] tracker = Inr tracker"
| "addObjects text add (obj # objects) tracker =
     (case add tracker obj of
        (Some err, _) \<Rightarrow> Inl (Explicit (text err))
      | (None, tracker') \<Rightarrow> addObjects text add objects tracker')"

definition NewSimpleClientset ::
  "(goerr \<Rightarrow> string) \<Rightarrow> ('t \<Rightarrow> Fetched \<Rightarrow> goerr option \<times> 't) \<Rightarrow> 't \<Rightarrow> Fetched list \<Rightarrow> 't go" where
  "NewSimpleClientset text add newTracker objects = addObjects text add objects newTracker"

text \<open>The watch reactor: whether it handles the action, the watch and an error.\<close>

definition watchReactor ::
  "(GroupVersionResource \<Rightarrow> string \<Rightarrow> goerr + 'x) \<Rightarrow> GroupVersionResource \<Rightarrow> string \<Rightarrow> bool \<times> 'x option \<times> goerr option" where
  "watchReactor trackerWatch gvr ns =
     (case trackerWatch gvr ns of Inl err \<Rightarrow> (False, None, Some err) | Inr watch \<Rightarrow> (True, Some watch, None))"

section \<open>Listing\<close>

lemma labelled_filter: "labelled md label items acc = acc @ filter (\<lambda>x. label (Labels (md x))) items"
  by (induction md label items acc rule: labelled.induct) simp_all

lemma fakeList_items:
  assumes "fk_assertList K obj = Some (lm, items)"
    and "Invokes L (newRootList L (fk_resource K) (fk_kind K) opts) (fk_emptyList K) s = ((Some obj, err), s')"
  shows "fakeList K L opts s = (Inr (Some (lm,
    filter (\<lambda>x. (case ExtractLabel L opts of None \<Rightarrow> True | Some label \<Rightarrow> label (Labels (fk_meta K x)))) items), err), s')"
  using assms by (cases "ExtractLabel L opts") (simp_all add: fakeList_def asserted_def labelled_filter Everything_def)

text \<open>An error without an object is an error of the method, and never a panic.\<close>

lemma fake_errors:
  assumes "Invokes L (newRootGet L (fk_resource K) n) (fk_empty K) s = ((None, err), s')"
  shows "fakeGet K L n s = (Inr (None, err), s')"
  using assms by (simp add: fakeGet_def asserted_def)

text \<open>The fake clientset panics exactly at the first object that the tracker refuses.\<close>

lemma addObjects_fails:
  "addObjects text add objs t = Inl p \<Longrightarrow>
   \<exists>xs x ys t' e t''. objs = xs @ x # ys \<and> addObjects text add xs t = Inr t' \<and> add t' x = (Some e, t'') \<and> p = Explicit (text e)"
proof (induction objs arbitrary: t)
  case (Cons y objs)
  obtain r t1 where a: "add t y = (r, t1)" by (metis surj_pair)
  show ?case
  proof (cases r)
    case (Some e)
    then have "y # objs = [] @ y # objs" "addObjects text add [] t = Inr t" "add t y = (Some e, t1)" "p = Explicit (text e)"
      using a Cons.prems by simp_all
    then show ?thesis by blast
  next
    case None
    then obtain xs x ys t' e t'' where l: "objs = xs @ x # ys" "addObjects text add xs t1 = Inr t'" "add t' x = (Some e, t'')"
      "p = Explicit (text e)" using Cons.IH [of t1] Cons.prems a by auto
    then have "y # objs = (y # xs) @ x # ys" "addObjects text add (y # xs) t = Inr t'" using a None by simp_all
    with l(3,4) show ?thesis by blast
  qed
qed simp

lemma addObjects_refused:
  "addObjects text add xs t = Inr t' \<Longrightarrow> add t' x = (Some e, t'') \<Longrightarrow> addObjects text add (xs @ x # ys) t = Inl (Explicit (text e))"
  by (induction xs arbitrary: t) (auto split: prod.splits option.splits)

section \<open>The fakes ask for what the clients ask for\<close>

text \<open>
  The documented behaviour of the testing library: \<open>d\<close> reads the verb, resource, name and subresource of
  an action, and every invoked action is appended to the record \<open>Actions()\<close>.
\<close>

fun fetchedName :: "Fetched \<Rightarrow> string" where
  "fetchedName (FUser u) = Name (user_meta u)"
| "fetchedName (FGlobalRole r) = Name (role_meta r)"
| "fetchedName (FGlobalRoleBinding b) = Name (binding_meta b)"
| "fetchedName (FLoginRecord r) = Name (record_meta r)"
| "fetchedName (FHealth h) = Name (health_meta h)"
| "fetchedName _ = ''''"

type_synonym described = "string \<times> GroupVersionResource \<times> string \<times> string"

definition recordsActions :: "('a \<Rightarrow> described) \<Rightarrow> ('s \<Rightarrow> 'a list) \<Rightarrow> ('a, 's, 'x) FakeLib \<Rightarrow> bool" where
  "recordsActions d actions L \<longleftrightarrow>
     (\<forall>a obj s. actions (snd (Invokes L a obj s)) = actions s @ [a]) \<and>
     (\<forall>a s. actions (snd (InvokesWatch L a s)) = actions s @ [a]) \<and>
     (\<forall>r n. d (newRootGet L r n) = (''get'', r, n, '''')) \<and>
     (\<forall>r k opts. d (newRootList L r k opts) = (''list'', r, '''', '''')) \<and>
     (\<forall>r opts. d (newRootWatch L r opts) = (''watch'', r, '''', '''')) \<and>
     (\<forall>r obj. d (newRootCreate L r obj) = (''create'', r, '''', '''')) \<and>
     (\<forall>r obj. d (newRootUpdate L r obj) = (''update'', r, fetchedName obj, '''')) \<and>
     (\<forall>r sub obj. d (newRootUpdateSubresource L r sub obj) = (''update'', r, fetchedName obj, sub)) \<and>
     (\<forall>r n opts. d (newRootDelete L r n opts) = (''delete'', r, n, '''')) \<and>
     (\<forall>r n pt data subs. d (newRootPatchSubresource L r n pt data subs) = (''patch'', r, n, Join subs ''/''))"

text \<open>The action that a method has recorded is what the server makes of the request of the client.\<close>

definition asksFor ::
  "('a \<Rightarrow> described) \<Rightarrow> 'a list \<Rightarrow> 'a list \<Rightarrow> GroupVersion \<Rightarrow> (RequestInfo \<times> goerr option) go \<Rightarrow> bool" where
  "asksFor d old new gv r \<longleftrightarrow> (\<exists>a verb res n sub. new = old @ [a] \<and> d a = (verb, WithResource gv res, n, sub) \<and>
     resolvesTo r verb gv res n sub)"

definition fakeOf :: "GroupVersion \<Rightarrow> string \<Rightarrow> 'u FakeKind \<Rightarrow> bool" where
  "fakeOf gv res K \<longleftrightarrow> fk_resource K = WithResource gv res \<and> (\<forall>x. fetchedName (fk_inject K x) = Name (fk_meta K x)) \<and>
     fk_hasStatus K = (res \<in> {''users'', ''healths''})"

lemma fakes:
  "fakeOf iamGV ''users'' fakeUsers" "fakeOf iamGV ''globalroles'' fakeGlobalRoles"
  "fakeOf iamGV ''globalrolebindings'' fakeGlobalRoleBindings" "fakeOf iamGV ''loginrecords'' fakeLoginRecords"
  "fakeOf coreGV ''healths'' fakeHealths"
  by (simp_all add: fakeOf_def fakeUsers_def fakeGlobalRoles_def fakeGlobalRoleBindings_def fakeLoginRecords_def fakeHealths_def)

lemma snd_asserted [simp]: "snd (asserted f r) = snd r"
  by (simp add: asserted_def split: prod.split option.split)

lemma snd_fakeList:
  "snd (fakeList K L opts s) = snd (Invokes L (newRootList L (fk_resource K) (fk_kind K) opts) (fk_emptyList K) s)"
proof -
  let ?i = "Invokes L (newRootList L (fk_resource K) (fk_kind K) opts) (fk_emptyList K) s"
  obtain r s' where a: "asserted (fk_assertList K) ?i = (r, s')" by (metis surj_pair)
  then have "s' = snd ?i" using snd_asserted [of "fk_assertList K" ?i] by simp
  with a show ?thesis by (cases r) (auto simp: fakeList_def Let_def split: option.split)
qed

lemma snd_fakeDelete: "snd (fakeDelete K L n opts s) = snd (Invokes L (newRootDelete L (fk_resource K) n opts) (fk_empty K) s)"
  by (simp add: fakeDelete_def split: prod.split)

text \<open>
  A test over the fakes sees the requests of the program: whatever method is called, the one action it
  records has the verb, group, version, resource, name and subresource to which the server resolves the
  request that the method of the clientset sends. (The action of a list has no name; the options may not
  select one.)
\<close>

theorem fakes_ask_the_same:
  assumes L: "recordsActions d actions L" and K: "fakeOf gv res K"
    and r: "parsesAi rif gv" and q: "segmentNames q" and send: "sendsRest q decode send gv"
    and c: "clientOf res c" "res \<in> set aiResources"
    and n: "n \<noteq> ''''" "validSegment q n" "Name (fk_meta K obj) \<noteq> ''''" "validSegment q (Name (fk_meta K obj))"
    and subs: "list_all (\<lambda>x. x \<noteq> '''' \<and> validSegment q x) subs" "length subs \<le> 1"
    and list: "\<not> metaWatch lo" "askedName q lo = ''''"
    and info: "info = (\<lambda>call. NewRequestInfo rif decode (validSegment q) (send call))"
  shows "asksFor d (actions s) (actions (snd (fakeGet K L n s))) gv (info (tcGet c n p)) \<and>
    asksFor d (actions s) (actions (snd (fakeList K L lo s))) gv (info (tcList c lo)) \<and>
    asksFor d (actions s) (actions (snd (fakeWatch K L lo s))) gv (info (tcWatch c lo)) \<and>
    asksFor d (actions s) (actions (snd (fakeCreate K L obj s))) gv (info (tcCreate c b p)) \<and>
    asksFor d (actions s) (actions (snd (fakeUpdate K L obj s))) gv (info (tcUpdate c (Name (fk_meta K obj)) b p)) \<and>
    (\<forall>f g. tcUpdateStatus c = Some f \<longrightarrow> fakeUpdateStatus K L = Some g \<longrightarrow>
       asksFor d (actions s) (actions (snd (g obj s))) gv (info (f (Name (fk_meta K obj)) b p))) \<and>
    asksFor d (actions s) (actions (snd (fakeDelete K L n opts s))) gv (info (tcDelete c n b)) \<and>
    asksFor d (actions s) (actions (snd (fakePatch K L n pt data subs s))) gv (info (tcPatch c n b p subs))"
proof -
  have j: "Join subs ''/'' = (case subs of [] \<Rightarrow> '''' | x # _ \<Rightarrow> x)" using subs(2) by (cases subs) simp_all
  note N = calls_resolve [OF r q send c n(1,2) subs(1) info, of p lo b, unfolded list(2) if_not_P [OF list(1)]]
    and M = calls_resolve [OF r q send c n(3,4) subs(1) info, of p lo b]
  have k: "fk_resource K = WithResource gv res" "fetchedName (fk_inject K obj) = Name (fk_meta K obj)" using K by (simp_all add: fakeOf_def)
  have asks: "asksFor d old new gv x" if "\<exists>a. new = old @ [a] \<and> d a = (v, WithResource gv res, m, sub)" "resolvesTo x v gv res m sub"
    for old new x v m sub using that by (auto simp: asksFor_def)
  note rec = L [unfolded recordsActions_def]
  show ?thesis
  proof (intro conjI allI impI)
    show "asksFor d (actions s) (actions (snd (fakeGet K L n s))) gv (info (tcGet c n p))"
      using rec N by (intro asks [where v = "''get''" and m = n and sub = "''''"]) (simp_all add: fakeGet_def k)
    show "asksFor d (actions s) (actions (snd (fakeList K L lo s))) gv (info (tcList c lo))"
      using rec N by (intro asks [where v = "''list''" and m = "''''" and sub = "''''"]) (simp_all add: snd_fakeList k)
    show "asksFor d (actions s) (actions (snd (fakeWatch K L lo s))) gv (info (tcWatch c lo))"
      using rec N by (intro asks [where v = "''watch''" and m = "''''" and sub = "''''"]) (simp_all add: fakeWatch_def k)
    show "asksFor d (actions s) (actions (snd (fakeCreate K L obj s))) gv (info (tcCreate c b p))"
      using rec N by (intro asks [where v = "''create''" and m = "''''" and sub = "''''"]) (simp_all add: fakeCreate_def k)
    show "asksFor d (actions s) (actions (snd (fakeUpdate K L obj s))) gv (info (tcUpdate c (Name (fk_meta K obj)) b p))"
      using rec M by (intro asks [where v = "''update''" and m = "Name (fk_meta K obj)" and sub = "''''"]) (simp_all add: fakeUpdate_def k)
    show "asksFor d (actions s) (actions (snd (g obj s))) gv (info (f (Name (fk_meta K obj)) b p))"
      if "tcUpdateStatus c = Some f" "fakeUpdateStatus K L = Some g" for f g
      using rec M that
      by (intro asks [where v = "''update''" and m = "Name (fk_meta K obj)" and sub = "''status''"])
        (auto simp: fakeUpdateStatus_def k split: if_splits)
    show "asksFor d (actions s) (actions (snd (fakeDelete K L n opts s))) gv (info (tcDelete c n b))"
      using rec N by (intro asks [where v = "''delete''" and m = n and sub = "''''"]) (simp_all add: snd_fakeDelete k)
    show "asksFor d (actions s) (actions (snd (fakePatch K L n pt data subs s))) gv (info (tcPatch c n b p subs))"
      using rec N j by (intro asks [where v = "''patch''" and m = n and sub = "Join subs ''/''"]) (simp_all add: fakePatch_def k)
  qed
qed

text \<open>A library that only records: nothing is handled, so every object is missing.\<close>

definition recorder :: "(described, described list, unit) FakeLib" where
  "recorder = \<lparr>newRootGet = (\<lambda>r n. (''get'', r, n, '''')), newRootList = (\<lambda>r k opts. (''list'', r, '''', '''')),
     newRootWatch = (\<lambda>r opts. (''watch'', r, '''', '''')), newRootCreate = (\<lambda>r obj. (''create'', r, '''', '''')),
     newRootUpdate = (\<lambda>r obj. (''update'', r, fetchedName obj, '''')),
     newRootUpdateSubresource = (\<lambda>r sub obj. (''update'', r, fetchedName obj, sub)),
     newRootDelete = (\<lambda>r n opts. (''delete'', r, n, '''')),
     newRootDeleteCollection = (\<lambda>r opts. (''delete-collection'', r, '''', '''')),
     newRootPatchSubresource = (\<lambda>r n pt data subs. (''patch'', r, n, Join subs ''/'')),
     Invokes = (\<lambda>a obj s. ((None, None), s @ [a])), InvokesWatch = (\<lambda>a s. (((), None), s @ [a])),
     ExtractLabel = (\<lambda>opts. None)\<rparr>"

lemma recorder_records: "recordsActions (\<lambda>a. a) (\<lambda>s. s) recorder"
  by (simp add: recordsActions_def recorder_def)

lemma recorded_get:
  "fakeGet fakeUsers recorder ''alice'' [] = (Inr (None, None), [(''get'', WithResource iamGV ''users'', ''alice'', '''')])"
  by (simp add: fakeGet_def fakeUsers_def recorder_def asserted_def)

end
